(* ===== verification/GoPrelude.thy ===== *)
theory GoPrelude
  imports Main "HOL-Library.Word"
begin

text \<open>
  What the components share of the Go language and its standard library.  A Go string is a
  byte sequence and is modelled by Isabelle's string (a list of 8-bit characters).  Each
  function of the packages strings, strconv, fmt and time that the sources call is one
  definition, named after it.  Case mapping and white space are those of the ASCII range,
  which is what the names, addresses and URLs of a configuration consist of; bytes above 127
  are left as they are.  Instants are nanoseconds since Go's zero time (1 January of year 1,
  UTC) as unbounded integers, durations are 64-bit: conversions wrap and subtraction of
  instants saturates, as package time documents.
\<close>

named_theorems item_simps \<open>accessor and update laws of the synchronised item kinds\<close>
named_theorems defaults_simps \<open>what the WithDefaults functions set\<close>

section \<open>Results\<close>

text \<open>A Go function with results (T, error) returns \<open>Inl err\<close> or \<open>Inr value\<close>.\<close>

type_synonym ('e, 'a) result = "'e + 'a"

definition bind_res :: "('e, 'a) result \<Rightarrow> ('a \<Rightarrow> ('e, 'b) result) \<Rightarrow> ('e, 'b) result" where
  "bind_res r k = (case r of Inl e \<Rightarrow> Inl e | Inr a \<Rightarrow> k a)"

section \<open>Package strings\<close>

definition HasPrefix :: "string \<Rightarrow> string \<Rightarrow> bool" where
  "HasPrefix s p \<longleftrightarrow> take (length p) s = p"

definition HasSuffix :: "string \<Rightarrow> string \<Rightarrow> bool" where
  "HasSuffix s p \<longleftrightarrow> HasPrefix (rev s) (rev p)"

definition TrimPrefix :: "string \<Rightarrow> string \<Rightarrow> string" where
  "TrimPrefix s p = (if HasPrefix s p then drop (length p) s else s)"

fun Contains :: "string \<Rightarrow> string \<Rightarrow> bool" where
  "Contains [] sub \<longleftrightarrow> sub = []"
| "Contains (c # s) sub \<longleftrightarrow> HasPrefix (c # s) sub \<or> Contains s sub"

text \<open>\<open>IndexByte\<close> and \<open>LastIndexByte\<close>: the positions that strings.Index and
  strings.LastIndex return for a one-byte pattern, \<open>None\<close> for -1.\<close>

fun IndexByte :: "string \<Rightarrow> char \<Rightarrow> nat option" where
  "IndexByte [] b = None"
| "IndexByte (c # s) b = (if c = b then Some 0 else map_option Suc (IndexByte s b))"

fun LastIndexByte :: "string \<Rightarrow> char \<Rightarrow> nat option" where
  "LastIndexByte [] b = None"
| "LastIndexByte (c # s) b =
     (case LastIndexByte s b of
        Some i \<Rightarrow> Some (Suc i)
      | None \<Rightarrow> if c = b then Some 0 else None)"

definition isSpace :: "char \<Rightarrow> bool" where
  "isSpace c \<longleftrightarrow> (let n = (of_char c :: nat) in n = 32 \<or> (9 \<le> n \<and> n \<le> 13))"

definition TrimSpace :: "string \<Rightarrow> string" where
  "TrimSpace s = rev (dropWhile isSpace (rev (dropWhile isSpace s)))"

definition lower_char :: "char \<Rightarrow> char" where
  "lower_char c = (let n = (of_char c :: nat) in if 65 \<le> n \<and> n \<le> 90 then char_of (n + 32) else c)"

definition upper_char :: "char \<Rightarrow> char" where
  "upper_char c = (let n = (of_char c :: nat) in if 97 \<le> n \<and> n \<le> 122 then char_of (n - 32) else c)"

definition ToLower :: "string \<Rightarrow> string" where
  "ToLower s = map lower_char s"

definition ToUpper :: "string \<Rightarrow> string" where
  "ToUpper s = map upper_char s"

text \<open>strings.Split and strings.ReplaceAll for one-byte separators and patterns.\<close>

fun SplitByte :: "string \<Rightarrow> char \<Rightarrow> string list" where
  "SplitByte [] b = [[]]"
| "SplitByte (c # s) b =
     (if c = b then [] # SplitByte s b
      else (case SplitByte s b of [] \<Rightarrow> [[c]] | x # xs \<Rightarrow> (c # x) # xs))"

definition ReplaceByte :: "string \<Rightarrow> char \<Rightarrow> char \<Rightarrow> string" where
  "ReplaceByte s old new = map (\<lambda>c. if c = old then new else c) s"

fun Join :: "string list \<Rightarrow> string \<Rightarrow> string" where
  "Join [] sep = []"
| "Join [x] sep = x"
| "Join (x # y # xs) sep = x @ sep @ Join (y # xs) sep"

section \<open>Decimal numbers: packages fmt and strconv\<close>

definition digit_char :: "nat \<Rightarrow> char" where
  "digit_char d = char_of (48 + d)"

definition isDigit :: "char \<Rightarrow> bool" where
  "isDigit c \<longleftrightarrow> (let n = (of_char c :: nat) in 48 \<le> n \<and> n \<le> 57)"

fun nat_digits :: "nat \<Rightarrow> string" where
  "nat_digits n = (if n < 10 then [digit_char n] else nat_digits (n div 10) @ [digit_char (n mod 10)])"

declare nat_digits.simps [simp del]

text \<open>The verb \<open>%d\<close>.\<close>

definition fmt_d :: "int \<Rightarrow> string" where
  "fmt_d i = (if i < 0 then CHR ''-'' # nat_digits (nat (- i)) else nat_digits (nat i))"

definition digits_val :: "string \<Rightarrow> nat" where
  "digits_val s = foldl (\<lambda>a c. 10 * a + (of_char c - 48)) 0 s"

abbreviation max_int64 :: int where "max_int64 \<equiv> 9223372036854775807"
abbreviation min_int64 :: int where "min_int64 \<equiv> - 9223372036854775808"

text \<open>
  An optional sign and a run of decimal digits: the number, the rest of the input, or
  \<open>None\<close> when there is no digit.
\<close>

definition scan_decimal :: "string \<Rightarrow> (int \<times> string) option" where
  "scan_decimal s =
     (let neg = (s \<noteq> [] \<and> hd s = CHR ''-'');
          body = (if s \<noteq> [] \<and> (hd s = CHR ''-'' \<or> hd s = CHR ''+'') then tl s else s);
          ds = takeWhile isDigit body
      in if ds = [] then None
         else Some (if neg then - int (digits_val ds) else int (digits_val ds), dropWhile isDigit body))"

text \<open>
  \<open>Atoi\<close> returns the value and whether it failed: a syntax error gives 0, a number out of the
  64-bit range the nearest bound.
\<close>

definition Atoi :: "string \<Rightarrow> int \<times> bool" where
  "Atoi s =
     (case scan_decimal s of
        None \<Rightarrow> (0, True)
      | Some (n, rest) \<Rightarrow>
          if rest \<noteq> [] then (0, True)
          else if n > max_int64 then (max_int64, True)
          else if n < min_int64 then (min_int64, True)
          else (n, False))"

text \<open>
  \<open>fmt.Sscanf(s, "%d", &p)\<close>: blanks are skipped (a line break is an error), then a sign and
  digits are read; \<open>p\<close> keeps its old value on an error.
\<close>

definition Sscanf_d :: "string \<Rightarrow> int \<Rightarrow> int" where
  "Sscanf_d s p =
     (case scan_decimal (dropWhile (\<lambda>c. isSpace c \<and> c \<noteq> CHR 0x0A) s) of
        None \<Rightarrow> p
      | Some (n, rest) \<Rightarrow> if n > max_int64 \<or> n < min_int64 then p else n)"

section \<open>Package time\<close>

type_synonym time = int
type_synonym duration = int

definition wrap64 :: "int \<Rightarrow> int" where
  "wrap64 i = (i + 2 ^ 63) mod 2 ^ 64 - 2 ^ 63"

definition wrap32 :: "int \<Rightarrow> int" where
  "wrap32 i = (i + 2 ^ 31) mod 2 ^ 32 - 2 ^ 31"

abbreviation Second :: duration where "Second \<equiv> 1000000000"
abbreviation Minute :: duration where "Minute \<equiv> 60000000000"

definition IsZero :: "time \<Rightarrow> bool" where
  "IsZero t \<longleftrightarrow> t = 0"

definition After :: "time \<Rightarrow> time \<Rightarrow> bool" where
  "After t u \<longleftrightarrow> u < t"

definition Before :: "time \<Rightarrow> time \<Rightarrow> bool" where
  "Before t u \<longleftrightarrow> t < u"

definition Sub :: "time \<Rightarrow> time \<Rightarrow> duration" where
  "Sub t u = max min_int64 (min max_int64 (t - u))"

lemmas time_defs = IsZero_def After_def Before_def

section \<open>Shared lemmas\<close>

lemma bind_res_simps [simp]:
  "bind_res (Inl e) k = Inl e"
  "bind_res (Inr a) k = k a"
  by (simp_all add: bind_res_def)

lemma bind_res_eq_Inr: "bind_res r k = Inr b \<longleftrightarrow> (\<exists>a. r = Inr a \<and> k a = Inr b)"
  by (cases r) auto

lemma case_error_eq_Inr [simp]:
  "(case x of Some e \<Rightarrow> Inl e | None \<Rightarrow> r) = Inr b \<longleftrightarrow> x = None \<and> r = Inr b"
  by (cases x) auto

subsection \<open>Lists\<close>

lemma filter_repeat:
  assumes "i < j" and "j < length xs" and "P (xs ! i)" and "P (xs ! j)" and "g (xs ! i) = g (xs ! j)"
  shows "\<not> distinct (map g (filter P xs))"
proof -
  have split: "xs = take j xs @ xs ! j # drop (Suc j) xs" using assms(2) by (rule id_take_nth_drop)
  have "xs ! i \<in> set (take j xs)" using assms(1,2) by (auto simp: in_set_conv_nth intro!: exI [of _ i])
  then have "xs ! i \<in> set (filter P (take j xs))" using assms(3) by simp
  then have "g (xs ! j) \<in> g ` set (filter P (take j xs))" using assms(5) by (metis imageI)
  then show ?thesis by (subst split) (use assms(4) in auto)
qed

subsection \<open>Prefixes and suffixes\<close>

lemma HasPrefix_iff: "HasPrefix s p \<longleftrightarrow> (\<exists>t. s = p @ t)"
  unfolding HasPrefix_def by (metis append_eq_conv_conj append_take_drop_id)

lemma HasPrefix_append [simp]: "HasPrefix (p @ t) p"
  by (simp add: HasPrefix_def)

lemma HasSuffix_iff: "HasSuffix s p \<longleftrightarrow> (\<exists>t. s = t @ p)"
proof -
  have "HasSuffix s p \<longleftrightarrow> (\<exists>t. rev s = rev p @ t)" by (simp add: HasSuffix_def HasPrefix_iff)
  also have "\<dots> \<longleftrightarrow> (\<exists>t. s = t @ p)" by (metis rev_append rev_rev_ident)
  finally show ?thesis .
qed

lemma TrimPrefix_append [simp]: "TrimPrefix (p @ t) p = t"
  by (simp add: TrimPrefix_def)

lemma set_TrimPrefix: "set (TrimPrefix s p) \<subseteq> set s"
  by (auto simp: TrimPrefix_def dest: in_set_dropD)

lemma Contains_single [simp]: "Contains s [c] \<longleftrightarrow> c \<in> set s"
  by (induction s) (auto simp: HasPrefix_def)

subsection \<open>Byte positions\<close>

lemma IndexByte_None_iff [simp]: "IndexByte s b = None \<longleftrightarrow> b \<notin> set s"
  by (induction s) auto

lemma IndexByte_Some: "IndexByte s b = Some i \<Longrightarrow> i < length s \<and> s ! i = b \<and> b \<notin> set (take i s)"
  by (induction s arbitrary: i) (auto split: if_splits)

lemma LastIndexByte_None_iff [simp]: "LastIndexByte s b = None \<longleftrightarrow> b \<notin> set s"
  by (induction s) (auto split: option.splits)

lemma LastIndexByte_append:
  "b \<notin> set v \<Longrightarrow> LastIndexByte (u @ b # v) b = Some (length u)"
  by (induction u) (auto split: option.splits)

lemma in_set_split_last: "b \<in> set s \<Longrightarrow> \<exists>u v. s = u @ b # v \<and> b \<notin> set v"
  by (metis split_list_last)

subsection \<open>Case mapping and white space\<close>

lemma lower_char_idem [simp]: "lower_char (lower_char c) = lower_char c"
  by (simp add: lower_char_def Let_def)

lemma ToLower_idem [simp]: "ToLower (ToLower s) = ToLower s"
  by (simp add: ToLower_def)

lemma length_ToLower [simp]: "length (ToLower s) = length s"
  by (simp add: ToLower_def)

lemma dropWhile_all: "\<forall>c \<in> set s. \<not> P c \<Longrightarrow> dropWhile P s = s"
  by (cases s) auto

lemma TrimSpace_id: "\<forall>c \<in> set s. \<not> isSpace c \<Longrightarrow> TrimSpace s = s"
  by (simp add: TrimSpace_def dropWhile_all)

lemma hd_dropWhile_not: "dropWhile P s \<noteq> [] \<Longrightarrow> \<not> P (hd (dropWhile P s))"
  by (rule hd_dropWhile)

lemma dropWhile_rev_hd:
  assumes "s \<noteq> []" and "\<not> P (hd s)"
  shows "rev (dropWhile P (rev s)) \<noteq> [] \<and> hd (rev (dropWhile P (rev s))) = hd s"
proof -
  obtain c t where s: "s = c # t" using assms(1) by (cases s) auto
  have "dropWhile P (rev t @ [c]) = dropWhile P (rev t) @ [c]"
    using assms(2) s by (induction "rev t") (auto simp: dropWhile_append)
  then show ?thesis using s by simp
qed

lemma TrimSpace_Nil [simp]: "TrimSpace [] = []"
  by (simp add: TrimSpace_def)

lemma TrimSpace_idem [simp]: "TrimSpace (TrimSpace s) = TrimSpace s"
proof -
  let ?d = "dropWhile isSpace s"
  show ?thesis
  proof (cases "?d = []")
    case True
    then have "TrimSpace s = []" by (simp only: TrimSpace_def rev.simps dropWhile.simps)
    then show ?thesis by simp
  next
    case False
    then have "\<not> isSpace (hd ?d)" by (rule hd_dropWhile)
    with False have h: "TrimSpace s \<noteq> []" "\<not> isSpace (hd (TrimSpace s))"
      using dropWhile_rev_hd [of ?d isSpace] by (auto simp: TrimSpace_def)
    then have "dropWhile isSpace (TrimSpace s) = TrimSpace s"
      by (cases "TrimSpace s") auto
    then show ?thesis by (simp add: TrimSpace_def [of "TrimSpace s"]) (simp add: TrimSpace_def)
  qed
qed

lemma set_TrimSpace: "set (TrimSpace s) \<subseteq> set s"
  by (auto simp: TrimSpace_def dest!: set_dropWhileD)

subsection \<open>Numbers\<close>

lemma isDigit_digit_char: "d < 10 \<Longrightarrow> isDigit (digit_char d)"
  by (simp add: isDigit_def digit_char_def Let_def)

lemma of_char_digit_char [simp]: "d < 10 \<Longrightarrow> of_char (digit_char d) = 48 + d"
  by (simp add: digit_char_def)

lemma digit_char_values [simp]:
  "digit_char 0 = CHR ''0''" "digit_char (Suc 0) = CHR ''1''" "digit_char 1 = CHR ''1''"
  "digit_char 2 = CHR ''2''" "digit_char 3 = CHR ''3''" "digit_char 4 = CHR ''4''"
  "digit_char 5 = CHR ''5''" "digit_char 6 = CHR ''6''" "digit_char 7 = CHR ''7''"
  "digit_char 8 = CHR ''8''" "digit_char 9 = CHR ''9''"
  by code_simp+

lemma nat_digits_not_Nil [simp]: "nat_digits n \<noteq> []"
  by (subst nat_digits.simps) simp

lemma nat_digits_isDigit: "\<forall>c \<in> set (nat_digits n). isDigit c"
proof (induction n rule: nat_digits.induct)
  case (1 n)
  then show ?case by (subst nat_digits.simps) (auto simp: isDigit_digit_char)
qed

lemma takeWhile_nat_digits [simp]: "takeWhile isDigit (nat_digits n) = nat_digits n"
  using nat_digits_isDigit by (simp add: takeWhile_eq_all_conv)

lemma digits_val_snoc: "digits_val (s @ [c]) = 10 * digits_val s + (of_char c - 48)"
  by (simp add: digits_val_def)

lemma digits_val_nat_digits [simp]: "digits_val (nat_digits n) = n"
proof (induction n rule: nat_digits.induct)
  case (1 n)
  show ?case
  proof (cases "n < 10")
    case True
    then show ?thesis by (subst nat_digits.simps) (simp add: digits_val_def)
  next
    case False
    with 1 show ?thesis by (subst nat_digits.simps) (simp add: digits_val_snoc)
  qed
qed

lemma nat_digits_inj [simp]: "nat_digits m = nat_digits n \<longleftrightarrow> m = n"
  by (metis digits_val_nat_digits)

lemma isDigit_not_sign: "isDigit c \<Longrightarrow> c \<noteq> CHR ''-'' \<and> c \<noteq> CHR ''+''"
  by (auto simp: isDigit_def)

lemma hd_nat_digits: "hd (nat_digits n) \<noteq> CHR ''-''" "hd (nat_digits n) \<noteq> CHR ''+''"
  using nat_digits_isDigit [of n] isDigit_not_sign by (metis list.set_sel(1) nat_digits_not_Nil)+

lemma fmt_d_inj [simp]: "fmt_d i = fmt_d j \<longleftrightarrow> i = j"
  using hd_nat_digits by (auto simp: fmt_d_def split: if_splits) (metis list.sel(1))+

lemma fmt_d_chars: "c \<in> set (fmt_d i) \<Longrightarrow> isDigit c \<or> c = CHR ''-''"
  using nat_digits_isDigit by (auto simp: fmt_d_def split: if_splits)

lemma scan_nat_digits:
  assumes "rest = [] \<or> \<not> isDigit (hd rest)"
  shows "scan_decimal (nat_digits n @ rest) = Some (int n, rest)"
proof -
  have d: "\<forall>c \<in> set (nat_digits n). isDigit c" by (rule nat_digits_isDigit)
  have "takeWhile isDigit (nat_digits n @ rest) = nat_digits n"
    using d assms by (cases rest) (auto simp: takeWhile_append)
  moreover have "dropWhile isDigit (nat_digits n @ rest) = rest"
    using d assms by (cases rest) (auto simp: dropWhile_append)
  moreover have "hd (nat_digits n @ rest) = hd (nat_digits n)" by (simp add: hd_append)
  ultimately show ?thesis
    using hd_nat_digits [of n] by (simp add: scan_decimal_def Let_def)
qed

lemma scan_fmt_d: "scan_decimal (fmt_d i) = Some (i, [])"
proof (cases "i < 0")
  case True
  then show ?thesis using nat_digits_isDigit by (simp add: fmt_d_def scan_decimal_def Let_def)
next
  case False
  then show ?thesis using scan_nat_digits [of "[]" "nat i"] by (simp add: fmt_d_def)
qed

lemma Atoi_fmt_d: "min_int64 \<le> i \<Longrightarrow> i \<le> max_int64 \<Longrightarrow> Atoi (fmt_d i) = (i, False)"
  by (simp add: Atoi_def scan_fmt_d)

subsection \<open>Durations\<close>

lemma wrap64_id: "min_int64 \<le> i \<Longrightarrow> i \<le> max_int64 \<Longrightarrow> wrap64 i = i"
  by (simp add: wrap64_def)

lemma wrap64_range: "min_int64 \<le> wrap64 i \<and> wrap64 i \<le> max_int64"
proof -
  have "0 \<le> (i + 2 ^ 63) mod 2 ^ 64" "(i + 2 ^ 63) mod 2 ^ 64 < (2::int) ^ 64" by simp_all
  then show ?thesis by (simp add: wrap64_def)
qed

lemma Sub_exact: "min_int64 \<le> t - u \<Longrightarrow> t - u \<le> max_int64 \<Longrightarrow> Sub t u = t - u"
  by (simp add: Sub_def)

section \<open>Functions that fill in defaults\<close>

text \<open>
  The contract of a WithDefaults function: its result is complete, and it does not touch a
  value that already is.  Idempotence, also element by element on a slice, follows.
\<close>

locale defaults =
  fixes fill :: "'a \<Rightarrow> 'a"
    and complete :: "'a \<Rightarrow> bool"
  assumes fill_complete: "complete (fill x)"
    and fill_id: "complete x \<Longrightarrow> fill x = x"
begin

lemma fill_idem: "fill (fill x) = fill x"
  by (simp add: fill_complete fill_id)

lemma complete_iff: "complete x \<longleftrightarrow> fill x = x"
  using fill_complete [of x] fill_id by auto

lemma map_fill_idem: "map fill (map fill xs) = map fill xs"
  by (simp add: fill_idem)

lemma map_fill_complete: "\<forall>x \<in> set (map fill xs). complete x"
  by (simp add: fill_complete)

end

end
