(* ===== verification/Regex.thy ===== *)
theory Regex
  imports GoPrelude
begin

text \<open>
  The part of Go's package regexp that the validation rules use: character classes, sequence,
  alternative, star and counted repetition, matched against a whole string (every pattern of
  the program is anchored with ^ and $).  \<open>lang\<close> is the meaning of an expression as a set of
  strings; \<open>MatchString\<close> is an executable matcher by derivatives, proved equal to it.
\<close>

section \<open>Expressions and their languages\<close>

text \<open>A class is a list of code ranges: \<open>[a-z0-9]\<close> is \<open>[(97,122),(48,57)]\<close>.\<close>

datatype rx =
    RZero
  | REps
  | RCls "(nat \<times> nat) list"
  | RAlt rx rx
  | RSeq rx rx
  | RStar rx
  | RRange rx nat nat

abbreviation ROpt :: "rx \<Rightarrow> rx" where "ROpt r \<equiv> RRange r 0 1"
abbreviation RPlus :: "rx \<Rightarrow> rx" where "RPlus r \<equiv> RSeq r (RStar r)"
abbreviation RAtLeast :: "rx \<Rightarrow> nat \<Rightarrow> rx" where "RAtLeast r m \<equiv> RSeq (RRange r m m) (RStar r)"

fun in_class :: "(nat \<times> nat) list \<Rightarrow> char \<Rightarrow> bool" where
  "in_class [] c \<longleftrightarrow> False"
| "in_class ((l, h) # rs) c \<longleftrightarrow> (l \<le> of_char c \<and> of_char c \<le> h) \<or> in_class rs c"

definition lconc :: "string set \<Rightarrow> string set \<Rightarrow> string set" where
  "lconc A B = {u @ v |u v. u \<in> A \<and> v \<in> B}"

primrec lpow :: "string set \<Rightarrow> nat \<Rightarrow> string set" where
  "lpow A 0 = {[]}"
| "lpow A (Suc n) = lconc A (lpow A n)"

primrec lang :: "rx \<Rightarrow> string set" where
  "lang RZero = {}"
| "lang REps = {[]}"
| "lang (RCls rs) = {[c] |c. in_class rs c}"
| "lang (RAlt a b) = lang a \<union> lang b"
| "lang (RSeq a b) = lconc (lang a) (lang b)"
| "lang (RStar a) = (\<Union>k. lpow (lang a) k)"
| "lang (RRange a m n) = (\<Union>k \<in> {m..n}. lpow (lang a) k)"

section \<open>The matcher\<close>

primrec nullable :: "rx \<Rightarrow> bool" where
  "nullable RZero = False"
| "nullable REps = True"
| "nullable (RCls rs) = False"
| "nullable (RAlt a b) = (nullable a \<or> nullable b)"
| "nullable (RSeq a b) = (nullable a \<and> nullable b)"
| "nullable (RStar a) = True"
| "nullable (RRange a m n) = (m \<le> n \<and> (m = 0 \<or> nullable a))"

fun mk_alt :: "rx \<Rightarrow> rx \<Rightarrow> rx" where
  "mk_alt RZero b = b"
| "mk_alt a RZero = a"
| "mk_alt a b = RAlt a b"

fun mk_seq :: "rx \<Rightarrow> rx \<Rightarrow> rx" where
  "mk_seq RZero b = RZero"
| "mk_seq REps b = b"
| "mk_seq a b = RSeq a b"

primrec deriv :: "char \<Rightarrow> rx \<Rightarrow> rx" where
  "deriv c RZero = RZero"
| "deriv c REps = RZero"
| "deriv c (RCls rs) = (if in_class rs c then REps else RZero)"
| "deriv c (RAlt a b) = mk_alt (deriv c a) (deriv c b)"
| "deriv c (RSeq a b) =
     (if nullable a then mk_alt (mk_seq (deriv c a) b) (deriv c b) else mk_seq (deriv c a) b)"
| "deriv c (RStar a) = mk_seq (deriv c a) (RStar a)"
| "deriv c (RRange a m n) =
     (if n = 0 then RZero else mk_seq (deriv c a) (RRange a (m - 1) (n - 1)))"

fun derivs :: "string \<Rightarrow> rx \<Rightarrow> rx" where
  "derivs [] r = r"
| "derivs (c # s) r = derivs s (deriv c r)"

definition MatchString :: "rx \<Rightarrow> string \<Rightarrow> bool" where
  "MatchString r s = nullable (derivs s r)"

text \<open>The characters an expression can match, as a decidable over-approximation.\<close>

primrec in_alphabet :: "rx \<Rightarrow> char \<Rightarrow> bool" where
  "in_alphabet RZero c = False"
| "in_alphabet REps c = False"
| "in_alphabet (RCls rs) c = in_class rs c"
| "in_alphabet (RAlt a b) c = (in_alphabet a c \<or> in_alphabet b c)"
| "in_alphabet (RSeq a b) c = (in_alphabet a c \<or> in_alphabet b c)"
| "in_alphabet (RStar a) c = in_alphabet a c"
| "in_alphabet (RRange a m n) c = in_alphabet a c"

text \<open>The characters a match can end in.\<close>

primrec in_last :: "rx \<Rightarrow> char \<Rightarrow> bool" where
  "in_last RZero c = False"
| "in_last REps c = False"
| "in_last (RCls rs) c = in_class rs c"
| "in_last (RAlt a b) c = (in_last a c \<or> in_last b c)"
| "in_last (RSeq a b) c = (in_last b c \<or> (nullable b \<and> in_last a c))"
| "in_last (RStar a) c = in_last a c"
| "in_last (RRange a m n) c = in_last a c"

section \<open>Correctness of the matcher\<close>

lemma lconcI [intro]: "u \<in> A \<Longrightarrow> v \<in> B \<Longrightarrow> u @ v \<in> lconc A B"
  by (auto simp: lconc_def)

lemma lconcE [elim]:
  assumes "w \<in> lconc A B"
  obtains u v where "w = u @ v" "u \<in> A" "v \<in> B"
  using assms by (auto simp: lconc_def)

lemma Nil_in_lconc [simp]: "[] \<in> lconc A B \<longleftrightarrow> [] \<in> A \<and> [] \<in> B"
  by (auto simp: lconc_def)

lemma Nil_in_lpow [simp]: "[] \<in> lpow A k \<longleftrightarrow> k = 0 \<or> [] \<in> A"
  by (induction k) auto

lemma nullable_iff: "nullable r \<longleftrightarrow> [] \<in> lang r"
  by (induction r) auto

lemma lconc_simps [simp]:
  "lconc {} B = {}" "lconc A {} = {}" "lconc {[]} B = B" "lconc A {[]} = A"
  by (auto simp: lconc_def)

lemma lang_mk_alt [simp]: "lang (mk_alt a b) = lang a \<union> lang b"
  by (induction a b rule: mk_alt.induct) auto

lemma lang_mk_seq [simp]: "lang (mk_seq a b) = lconc (lang a) (lang b)"
  by (induction a b rule: mk_seq.induct) auto

lemma Cons_in_lconc:
  "c # w \<in> lconc A B \<longleftrightarrow>
     (\<exists>u v. w = u @ v \<and> c # u \<in> A \<and> v \<in> B) \<or> ([] \<in> A \<and> c # w \<in> B)"
  by (auto simp: lconc_def Cons_eq_append_conv)

text \<open>
  One factor of a power can be taken off its front whether or not the language contains the
  empty word: an empty leading factor can be moved to the end.
\<close>

lemma lpow_mono_Suc: "[] \<in> A \<Longrightarrow> w \<in> lpow A k \<Longrightarrow> w \<in> lpow A (Suc k)"
  using lconcI [of "[]" A w "lpow A k"] by simp

lemma Cons_in_lpow:
  "c # w \<in> lpow A k \<longleftrightarrow> (\<exists>j u v. k = Suc j \<and> w = u @ v \<and> c # u \<in> A \<and> v \<in> lpow A j)"
proof (induction k)
  case 0
  then show ?case by simp
next
  case (Suc k)
  show ?case
  proof
    assume "c # w \<in> lpow A (Suc k)"
    then consider (front) u v where "w = u @ v" "c # u \<in> A" "v \<in> lpow A k"
      | (skip) "[] \<in> A" "c # w \<in> lpow A k"
      by (auto simp: Cons_in_lconc)
    then show "\<exists>j u v. Suc k = Suc j \<and> w = u @ v \<and> c # u \<in> A \<and> v \<in> lpow A j"
    proof cases
      case front
      then show ?thesis by auto
    next
      case skip
      then obtain j u v where "k = Suc j" "w = u @ v" "c # u \<in> A" "v \<in> lpow A j"
        using Suc.IH by blast
      with skip(1) lpow_mono_Suc show ?thesis by blast
    qed
  qed (auto simp: Cons_in_lconc)
qed

lemma lang_deriv: "w \<in> lang (deriv c r) \<longleftrightarrow> c # w \<in> lang r"
proof (induction r arbitrary: w)
  case (RSeq a b)
  have "c # w \<in> lang (RSeq a b) \<longleftrightarrow>
      (\<exists>u v. w = u @ v \<and> c # u \<in> lang a \<and> v \<in> lang b) \<or> (nullable a \<and> c # w \<in> lang b)"
    by (simp add: Cons_in_lconc nullable_iff)
  then show ?case by (auto simp: RSeq lconc_def)
next
  case (RStar a)
  show ?case by (auto simp: Cons_in_lpow lconc_def RStar)
next
  case (RRange a m n)
  show ?case
  proof
    assume "w \<in> lang (deriv c (RRange a m n))"
    then obtain u v k where n: "n \<noteq> 0" and w: "w = u @ v" "u \<in> lang (deriv c a)"
      and k: "m - 1 \<le> k" "k \<le> n - 1" "v \<in> lpow (lang a) k"
      by (auto simp: lconc_def split: if_splits)
    then have "c # w \<in> lpow (lang a) (Suc k)" by (auto simp: RRange Cons_in_lpow simp del: lpow.simps)
    moreover have "Suc k \<in> {m..n}" using n k by auto
    ultimately show "c # w \<in> lang (RRange a m n)" by (auto simp del: lpow.simps)
  next
    assume "c # w \<in> lang (RRange a m n)"
    then obtain k where k: "m \<le> k" "k \<le> n" "c # w \<in> lpow (lang a) k" by auto
    then obtain j u v where "k = Suc j" "w = u @ v" "c # u \<in> lang a" "v \<in> lpow (lang a) j"
      by (auto simp: Cons_in_lpow)
    moreover from this k have "n \<noteq> 0" "j \<in> {m - 1..n - 1}" by auto
    ultimately have "u @ v \<in> lconc (lang (deriv c a)) (lang (RRange a (m - 1) (n - 1)))"
      by (intro lconcI) (auto simp: RRange)
    with \<open>w = u @ v\<close> \<open>n \<noteq> 0\<close> show "w \<in> lang (deriv c (RRange a m n))" by simp
  qed
qed auto

theorem MatchString_iff_lang: "MatchString r s \<longleftrightarrow> s \<in> lang r"
  unfolding MatchString_def
  by (induction s arbitrary: r) (simp_all add: nullable_iff lang_deriv)

section \<open>Consequences used by the components\<close>

lemma lpow_chars: "w \<in> lpow A k \<Longrightarrow> c \<in> set w \<Longrightarrow> \<exists>u \<in> A. c \<in> set u"
proof (induction k arbitrary: w)
  case (Suc k)
  then show ?case by (force simp: lconc_def)
qed simp

lemma lang_alphabet: "w \<in> lang r \<Longrightarrow> c \<in> set w \<Longrightarrow> in_alphabet r c"
proof (induction r arbitrary: w)
  case (RSeq a b)
  then obtain u v where "w = u @ v" "u \<in> lang a" "v \<in> lang b" by auto
  with RSeq show ?case by auto
next
  case (RStar a)
  then show ?case using lpow_chars by fastforce
next
  case (RRange a m n)
  then show ?case using lpow_chars by fastforce
qed auto

lemma lpow_last: "w \<in> lpow A k \<Longrightarrow> w \<noteq> [] \<Longrightarrow> \<exists>u \<in> A. u \<noteq> [] \<and> last u = last w"
proof (induction k arbitrary: w)
  case (Suc k)
  then obtain u v where "w = u @ v" "u \<in> A" "v \<in> lpow A k" by (auto simp: lconc_def)
  with Suc show ?case by (cases "v = []") auto
qed simp

lemma lang_last: "w \<in> lang r \<Longrightarrow> w \<noteq> [] \<Longrightarrow> in_last r (last w)"
proof (induction r arbitrary: w)
  case (RSeq a b)
  then obtain u v where "w = u @ v" "u \<in> lang a" "v \<in> lang b" by (auto simp: lconc_def)
  with RSeq show ?case by (cases "v = []") (auto simp: nullable_iff)
next
  case (RStar a)
  then show ?case using lpow_last by fastforce
next
  case (RRange a m n)
  then show ?case using lpow_last by fastforce
qed auto

lemma MatchString_alphabet: "MatchString r s \<Longrightarrow> \<not> in_alphabet r c \<Longrightarrow> c \<notin> set s"
  using lang_alphabet by (auto simp: MatchString_iff_lang)

lemma lpow_app: "u \<in> lpow A m \<Longrightarrow> v \<in> lpow A n \<Longrightarrow> u @ v \<in> lpow A (m + n)"
proof (induction m arbitrary: u)
  case (Suc m)
  then obtain x y where "u = x @ y" "x \<in> A" "y \<in> lpow A m" by auto
  with Suc show ?case using lconcI [of x A "y @ v"] by simp
qed simp

lemma lang_RPlus: "w \<in> lang (RPlus r) \<longleftrightarrow> (\<exists>k. w \<in> lpow (lang r) (Suc k))"
  by (auto simp: lconc_def)

lemma lang_ROpt [simp]: "lang (ROpt r) = insert [] (lang r)"
proof -
  have "{0..Suc 0} = {0, Suc 0}" by auto
  then show ?thesis by simp
qed

lemma lconc_class: "w \<in> lconc (lang (RCls rs)) L \<longleftrightarrow> (\<exists>c v. w = c # v \<and> in_class rs c \<and> v \<in> L)"
  by (cases w) (auto simp: Cons_in_lconc)

lemma lpow_class:
  "w \<in> lpow (lang (RCls rs)) k \<longleftrightarrow> length w = k \<and> (\<forall>c \<in> set w. in_class rs c)"
  by (induction k arbitrary: w) (auto simp: lconc_class length_Suc_conv simp del: lang.simps)

lemma lang_RPlus_class:
  "w \<in> lang (RPlus (RCls rs)) \<longleftrightarrow> w \<noteq> [] \<and> (\<forall>c \<in> set w. in_class rs c)"
proof -
  have "w \<in> lang (RPlus (RCls rs)) \<longleftrightarrow> (\<exists>k. w \<in> lpow (lang (RCls rs)) (Suc k))" by (rule lang_RPlus)
  also have "\<dots> \<longleftrightarrow> (\<exists>k. length w = Suc k) \<and> (\<forall>c \<in> set w. in_class rs c)"
    by (simp only: lpow_class) blast
  also have "(\<exists>k. length w = Suc k) \<longleftrightarrow> w \<noteq> []" by (cases w) auto
  finally show ?thesis .
qed

end
