(* ===== verification/Config.thy ===== *)
theory Config
  imports Regex
begin

text \<open>
  The configuration file of internal/config/config.go: its data types, the functions that fill
  in defaults, the validation, the copies and the peer filter.  A Go slice is a list; where
  the code tells a nil slice from an empty one (the upstream defaults) it is an optional list.
  Field names carry a letter for their struct, because HOL's record fields are global.
\<close>

section \<open>Data\<close>

record Settings =
  s_CacheSize :: int
  s_DNSSEC :: bool
  s_LogQueries :: bool
  s_HTTPListen :: string
  s_DNSListen :: string
  s_PollSeconds :: int

record PeerStatus =
  ps_LastContact :: time
  ps_LastSeq :: nat
  ps_LastError :: string
  ps_LastAction :: string

record Peer =
  p_Name :: string
  p_URL :: string
  p_Enabled :: bool
  p_Status :: PeerStatus

record Peers =
  pr_Listen :: string
  pr_SharedKey :: string
  pr_SyncIntervalSeconds :: int
  pr_ClockSkewSeconds :: int
  pr_List :: "Peer list"

record UpstreamDefault =
  u_Address :: string
  u_Port :: int
  u_Enabled :: bool
  u_Note :: string
  u_DoNotSync :: bool
  u_SyncPeers :: "string list"
  u_UpdatedAt :: time
  u_UpdatedBy :: string
  u_Deleted :: bool

record ForwardZone =
  z_ID :: string
  z_Name :: string
  z_Wildcard :: bool
  z_Upstreams :: "string list"
  z_LeastLatency :: bool
  z_LatencyTestFrequency :: int
  z_DoNotSync :: bool
  z_SyncPeers :: "string list"
  z_UpdatedAt :: time
  z_UpdatedBy :: string
  z_Deleted :: bool

record StaticRecord =
  r_ID :: string
  r_Name :: string
  r_Type :: string
  r_Value :: string
  r_TTL :: int
  r_DoNotSync :: bool
  r_SyncPeers :: "string list"
  r_UpdatedAt :: time
  r_UpdatedBy :: string
  r_Deleted :: bool

record File =
  f_Version :: int
  f_Updated :: time
  f_UpdatedBy :: string
  f_Settings :: Settings
  f_Peers :: Peers
  f_UpstreamDefaults :: "UpstreamDefault list option"
  f_ForwardZones :: "ForwardZone list"
  f_StaticRecords :: "StaticRecord list"
  f_DoNotSyncSettings :: bool

text \<open>Ranging over a slice does not tell nil from empty; appending to nil keeps nil for
  an empty source.\<close>

definition elems :: "'a list option \<Rightarrow> 'a list" where
  "elems s = (case s of None \<Rightarrow> [] | Some xs \<Rightarrow> xs)"

definition append_nil :: "'a list option \<Rightarrow> 'a list option" where
  "append_nil s = (if elems s = [] then None else Some (elems s))"

section \<open>Defaults\<close>

definition CurrentVersion :: int where
  "CurrentVersion = 1"

definition Settings_WithDefaults :: "Settings \<Rightarrow> Settings" where
  "Settings_WithDefaults s =
     (let out = s;
          out = (if s_CacheSize out = 0 then out\<lparr>s_CacheSize := 1000\<rparr> else out);
          out = (if s_HTTPListen out = [] then out\<lparr>s_HTTPListen := ''0.0.0.0:80''\<rparr> else out);
          out = (if s_DNSListen out = [] then out\<lparr>s_DNSListen := ''0.0.0.0:53''\<rparr> else out);
          out = (if s_PollSeconds out = 0 then out\<lparr>s_PollSeconds := 10\<rparr> else out)
      in out)"

definition Peers_WithDefaults :: "Peers \<Rightarrow> Peers" where
  "Peers_WithDefaults p =
     (let out = p;
          out = (if pr_Listen out = [] then out\<lparr>pr_Listen := ''0.0.0.0:8443''\<rparr> else out);
          out = (if pr_SyncIntervalSeconds out = 0 then out\<lparr>pr_SyncIntervalSeconds := 300\<rparr> else out);
          out = (if pr_SyncIntervalSeconds out < 10 then out\<lparr>pr_SyncIntervalSeconds := 10\<rparr> else out);
          out = (if pr_ClockSkewSeconds out = 0 then out\<lparr>pr_ClockSkewSeconds := 300\<rparr> else out)
      in out)"

definition UpstreamDefault_defaults :: "UpstreamDefault \<Rightarrow> UpstreamDefault" where
  "UpstreamDefault_defaults u = (if u_Port u = 0 then u\<lparr>u_Port := 53\<rparr> else u)"

definition UpstreamDefault_String :: "UpstreamDefault \<Rightarrow> string" where
  "UpstreamDefault_String u = u_Address u @ '':'' @ fmt_d (u_Port u)"

section \<open>Which peers an item is sent to\<close>

fun peer_listed :: "string list \<Rightarrow> string \<Rightarrow> bool" where
  "peer_listed [] peerName \<longleftrightarrow> False"
| "peer_listed (p # ps) peerName \<longleftrightarrow>
     (if ToLower (TrimSpace p) = peerName then True else peer_listed ps peerName)"

definition SyncsToPeer :: "bool \<Rightarrow> string list \<Rightarrow> string \<Rightarrow> bool" where
  "SyncsToPeer doNotSync syncPeers peerName =
     (if doNotSync then False
      else if length syncPeers = 0 then True
      else peer_listed syncPeers (ToLower (TrimSpace peerName)))"

section \<open>Patterns\<close>

abbreviation alnum :: rx where "alnum \<equiv> RCls [(97, 122), (65, 90), (48, 57)]"
abbreviation alnum_dash :: rx where "alnum_dash \<equiv> RCls [(97, 122), (65, 90), (48, 57), (45, 45)]"
abbreviation letter :: rx where "letter \<equiv> RCls [(97, 122), (65, 90)]"
abbreviation decimal :: rx where "decimal \<equiv> RCls [(48, 57)]"
abbreviation dot :: rx where "dot \<equiv> RCls [(46, 46)]"
abbreviation star_dot :: rx where "star_dot \<equiv> RSeq (RCls [(42, 42)]) dot"
abbreviation dns_label :: rx where
  "dns_label \<equiv> RSeq alnum (ROpt (RSeq (RRange alnum_dash 0 61) alnum))"

definition domainRe :: rx where
  "domainRe = RSeq (ROpt star_dot) (RSeq (RPlus (RSeq dns_label dot)) (RAtLeast letter 2))"

definition labelRe :: rx where
  "labelRe = RSeq (ROpt star_dot) dns_label"

definition dnsNameRe :: rx where
  "dnsNameRe = RSeq (ROpt star_dot) (RSeq (RStar (RSeq dns_label dot)) dns_label)"

definition ipv4Re :: rx where
  "ipv4Re = RSeq (RRange (RSeq (RRange decimal 1 3) dot) 3 3) (RRange decimal 1 3)"

definition ipv6Re :: rx where
  "ipv6Re = RPlus (RCls [(48, 57), (97, 102), (65, 70), (58, 58)])"

definition hostnameRe :: rx where
  "hostnameRe = RSeq (RPlus (RSeq dns_label dot)) dns_label"

section \<open>Validation\<close>

text \<open>One constructor per error return of Validate, with the values its message prints.\<close>

datatype verr =
    MissingDefaults
  | BadAddress nat string
  | PortRange nat
  | AllDisabled
  | NoRoute
  | ZoneNoID nat
  | ZoneBadName nat string
  | ZoneDuplicate nat string
  | ZoneWildcardNoStar nat
  | ZoneStarNoWildcard nat
  | ZoneNoUpstream nat string
  | ZoneWildcardLatency nat string
  | ZoneBadUpstream nat string string nat
  | RecNoID nat
  | RecBadName nat string
  | RecDuplicate nat string string
  | RecNeedsIPv4 nat string string
  | RecNeedsIPv6 nat string string
  | RecBadTarget nat string string
  | RecBadType nat string string

text \<open>The loop over the upstream defaults, with the port default written back into the
  slice and the number of live enabled entries.\<close>

fun validate_defaults ::
  "nat \<Rightarrow> nat \<Rightarrow> UpstreamDefault list \<Rightarrow> (verr, UpstreamDefault list \<times> nat) result" where
  "validate_defaults i enabledCount [] = Inr ([], enabledCount)"
| "validate_defaults i enabledCount (u0 # us) =
     (let u = UpstreamDefault_defaults u0 in
      if \<not> u_Deleted u \<and> \<not> MatchString ipv4Re (u_Address u) \<and> \<not> MatchString ipv6Re (u_Address u)
      then Inl (BadAddress i (u_Address u))
      else if \<not> u_Deleted u \<and> (u_Port u \<le> 0 \<or> u_Port u > 65535) then Inl (PortRange i)
      else bind_res
             (validate_defaults (Suc i)
                (if \<not> u_Deleted u \<and> u_Enabled u then Suc enabledCount else enabledCount) us)
             (\<lambda>(us', n). Inr (u # us', n)))"

fun validate_zone_upstreams :: "nat \<Rightarrow> string \<Rightarrow> nat \<Rightarrow> string list \<Rightarrow> verr option" where
  "validate_zone_upstreams i name j [] = None"
| "validate_zone_upstreams i name j (up # ups) =
     (if \<not> MatchString ipv4Re up \<and> \<not> MatchString ipv6Re up \<and> \<not> MatchString hostnameRe up
      then Some (ZoneBadUpstream i name up j)
      else validate_zone_upstreams i name (Suc j) ups)"

text \<open>
  The body of the loop over the zones.  \<open>z\<close> is the loop variable, a copy of the slice's
  element: what the code assigns to it (the wildcard flag of a single label, the test
  frequency) is seen by the checks that follow and lost at the end of the iteration.
\<close>

definition validate_zone :: "nat \<Rightarrow> string set \<Rightarrow> ForwardZone \<Rightarrow> (verr, string set) result" where
  "validate_zone i seenZones z =
     (if z_ID z = [] then Inl (ZoneNoID i)
      else
        let cleanName = TrimPrefix (z_Name z) ''*.'';
            underlying = TrimPrefix (z_Name z) ''*.'' in
        if \<not> MatchString domainRe (z_Name z) \<and> \<not> MatchString labelRe (z_Name z)
        then Inl (ZoneBadName i (z_Name z))
        else if \<not> z_Deleted z \<and> cleanName \<in> seenZones then Inl (ZoneDuplicate i cleanName)
        else
          let seenZones' = (if \<not> z_Deleted z then insert cleanName seenZones else seenZones) in
          if z_Wildcard z \<and> \<not> HasPrefix (z_Name z) ''*.'' then Inl (ZoneWildcardNoStar i)
          else if \<not> z_Wildcard z \<and> HasPrefix (z_Name z) ''*.'' then Inl (ZoneStarNoWildcard i)
          else
            let z1 = (if z_Wildcard z \<and> \<not> Contains underlying ''.'' then z\<lparr>z_Wildcard := False\<rparr> else z) in
            if length (z_Upstreams z1) = 0 then Inl (ZoneNoUpstream i (z_Name z1))
            else if z_LeastLatency z1 \<and> z_Wildcard z1 then Inl (ZoneWildcardLatency i (z_Name z1))
            else
              let z1 = (if z_LeastLatency z1 \<and> z_LatencyTestFrequency z1 \<le> 0
                        then z1\<lparr>z_LatencyTestFrequency := 5\<rparr> else z1);
                  z2 = (if z_LeastLatency z1 \<and> z_LatencyTestFrequency z1 < 1
                        then z1\<lparr>z_LatencyTestFrequency := 1\<rparr> else z1) in
              (case validate_zone_upstreams i (z_Name z2) 0 (z_Upstreams z2) of
                 Some e \<Rightarrow> Inl e
               | None \<Rightarrow> Inr seenZones'))"

fun validate_zones :: "nat \<Rightarrow> string set \<Rightarrow> ForwardZone list \<Rightarrow> verr option" where
  "validate_zones i seenZones [] = None"
| "validate_zones i seenZones (z # zs) =
     (case validate_zone i seenZones z of
        Inl e \<Rightarrow> Some e
      | Inr seenZones' \<Rightarrow> validate_zones (Suc i) seenZones' zs)"

definition record_key :: "StaticRecord \<Rightarrow> string" where
  "record_key r = ToLower (r_Name r) @ ''|'' @ ToUpper (r_Type r)"

definition validate_record :: "nat \<Rightarrow> string set \<Rightarrow> StaticRecord \<Rightarrow> (verr, string set) result" where
  "validate_record i seenRecs r =
     (if r_ID r = [] then Inl (RecNoID i)
      else if \<not> MatchString dnsNameRe (r_Name r) then Inl (RecBadName i (r_Name r))
      else
        let key = record_key r in
        if \<not> r_Deleted r \<and> key \<in> seenRecs then Inl (RecDuplicate i (r_Type r) (r_Name r))
        else
          let seenRecs' = (if \<not> r_Deleted r then insert key seenRecs else seenRecs) in
          if ToUpper (r_Type r) = ''A'' then
            (if \<not> MatchString ipv4Re (r_Value r) then Inl (RecNeedsIPv4 i (r_Name r) (r_Value r))
             else Inr seenRecs')
          else if ToUpper (r_Type r) = ''AAAA'' then
            (if \<not> MatchString ipv6Re (r_Value r) then Inl (RecNeedsIPv6 i (r_Name r) (r_Value r))
             else Inr seenRecs')
          else if ToUpper (r_Type r) = ''CNAME'' then
            (if \<not> MatchString hostnameRe (r_Value r) then Inl (RecBadTarget i (r_Name r) (r_Value r))
             else Inr seenRecs')
          else Inl (RecBadType i (r_Name r) (r_Type r)))"

fun validate_records :: "nat \<Rightarrow> string set \<Rightarrow> StaticRecord list \<Rightarrow> verr option" where
  "validate_records i seenRecs [] = None"
| "validate_records i seenRecs (r # rs) =
     (case validate_record i seenRecs r of
        Inl e \<Rightarrow> Some e
      | Inr seenRecs' \<Rightarrow> validate_records (Suc i) seenRecs' rs)"

text \<open>
  Validate writes the defaults into the file it is called on and returns an error; the model
  returns the updated file.  Every caller drops the file on an error, so what a failed
  validation has written is not observable.
\<close>

definition Validate :: "File \<Rightarrow> (verr, File) result" where
  "Validate f0 =
     (let f = (if f_Version f0 = 0 then f0\<lparr>f_Version := CurrentVersion\<rparr> else f0) in
      case f_UpstreamDefaults f of
        None \<Rightarrow> Inl MissingDefaults
      | Some us \<Rightarrow>
          bind_res (validate_defaults 0 0 us) (\<lambda>(us', enabledCount).
            if length us' > 0 \<and> enabledCount = 0 \<and> length (f_ForwardZones f) = 0 then Inl AllDisabled
            else if length us' = 0 \<and> length (f_ForwardZones f) = 0 then Inl NoRoute
            else
              let f' = f\<lparr>f_UpstreamDefaults := Some us',
                         f_Settings := Settings_WithDefaults (f_Settings f),
                         f_Peers := Peers_WithDefaults (f_Peers f)\<rparr> in
              case validate_zones 0 {} (f_ForwardZones f') of
                Some e \<Rightarrow> Inl e
              | None \<Rightarrow>
                  (case validate_records 0 {} (f_StaticRecords f') of
                     Some e \<Rightarrow> Inl e
                   | None \<Rightarrow> Inr f')))"

section \<open>Copies\<close>

definition Snapshot :: "File \<Rightarrow> File" where
  "Snapshot f =
     \<lparr>f_Version = f_Version f, f_Updated = f_Updated f, f_UpdatedBy = f_UpdatedBy f,
      f_Settings = f_Settings f, f_Peers = f_Peers f,
      f_UpstreamDefaults = append_nil (f_UpstreamDefaults f),
      f_ForwardZones = [] @ f_ForwardZones f,
      f_StaticRecords = [] @ f_StaticRecords f,
      f_DoNotSyncSettings = f_DoNotSyncSettings f\<rparr>"

definition Clone :: "File \<Rightarrow> File" where
  "Clone f = (let cp = Snapshot f in cp)"

section \<open>What a valid configuration is\<close>

definition ip_address :: "string \<Rightarrow> bool" where
  "ip_address s \<longleftrightarrow> s \<in> lang ipv4Re \<or> s \<in> lang ipv6Re"

definition upstream_ok :: "UpstreamDefault \<Rightarrow> bool" where
  "upstream_ok u \<longleftrightarrow>
     u_Deleted u \<or>
     (ip_address (u_Address u) \<and> (u_Port u = 0 \<or> (0 < u_Port u \<and> u_Port u \<le> 65535)))"

definition clean_name :: "ForwardZone \<Rightarrow> string" where
  "clean_name z = TrimPrefix (z_Name z) ''*.''"

definition zone_ok :: "ForwardZone \<Rightarrow> bool" where
  "zone_ok z \<longleftrightarrow>
     z_ID z \<noteq> [] \<and>
     (z_Name z \<in> lang domainRe \<or> z_Name z \<in> lang labelRe) \<and>
     (z_Wildcard z \<longleftrightarrow> HasPrefix (z_Name z) ''*.'') \<and>
     z_Upstreams z \<noteq> [] \<and>
     (z_LeastLatency z \<and> z_Wildcard z \<longrightarrow> CHR ''.'' \<notin> set (clean_name z)) \<and>
     (\<forall>up \<in> set (z_Upstreams z). ip_address up \<or> up \<in> lang hostnameRe)"

definition record_ok :: "StaticRecord \<Rightarrow> bool" where
  "record_ok r \<longleftrightarrow>
     r_ID r \<noteq> [] \<and> r_Name r \<in> lang dnsNameRe \<and>
     (ToUpper (r_Type r) = ''A'' \<and> r_Value r \<in> lang ipv4Re \<or>
      ToUpper (r_Type r) = ''AAAA'' \<and> r_Value r \<in> lang ipv6Re \<or>
      ToUpper (r_Type r) = ''CNAME'' \<and> r_Value r \<in> lang hostnameRe)"

definition live_zones :: "ForwardZone list \<Rightarrow> ForwardZone list" where
  "live_zones zs = filter (\<lambda>z. \<not> z_Deleted z) zs"

definition live_records :: "StaticRecord list \<Rightarrow> StaticRecord list" where
  "live_records rs = filter (\<lambda>r. \<not> r_Deleted r) rs"

definition active :: "UpstreamDefault \<Rightarrow> bool" where
  "active u \<longleftrightarrow> \<not> u_Deleted u \<and> u_Enabled u"

text \<open>The rules that the README lists under "Validation rules", for a whole file.\<close>

definition file_ok :: "File \<Rightarrow> bool" where
  "file_ok f \<longleftrightarrow>
     f_UpstreamDefaults f \<noteq> None \<and>
     (\<forall>u \<in> set (elems (f_UpstreamDefaults f)). upstream_ok u) \<and>
     ((\<exists>u \<in> set (elems (f_UpstreamDefaults f)). active u) \<or> f_ForwardZones f \<noteq> []) \<and>
     (\<forall>z \<in> set (f_ForwardZones f). zone_ok z) \<and>
     distinct (map clean_name (live_zones (f_ForwardZones f))) \<and>
     (\<forall>r \<in> set (f_StaticRecords f). record_ok r) \<and>
     distinct (map record_key (live_records (f_StaticRecords f)))"

text \<open>The file with every default filled in.\<close>

definition filled :: "File \<Rightarrow> File" where
  "filled f =
     f\<lparr>f_Version := (if f_Version f = 0 then CurrentVersion else f_Version f),
       f_UpstreamDefaults := map_option (map UpstreamDefault_defaults) (f_UpstreamDefaults f),
       f_Settings := Settings_WithDefaults (f_Settings f),
       f_Peers := Peers_WithDefaults (f_Peers f)\<rparr>"

definition settings_complete :: "Settings \<Rightarrow> bool" where
  "settings_complete s \<longleftrightarrow>
     s_CacheSize s \<noteq> 0 \<and> s_HTTPListen s \<noteq> [] \<and> s_DNSListen s \<noteq> [] \<and> s_PollSeconds s \<noteq> 0"

definition peers_complete :: "Peers \<Rightarrow> bool" where
  "peers_complete p \<longleftrightarrow>
     pr_Listen p \<noteq> [] \<and> 10 \<le> pr_SyncIntervalSeconds p \<and> pr_ClockSkewSeconds p \<noteq> 0"

definition upstream_complete :: "UpstreamDefault \<Rightarrow> bool" where
  "upstream_complete u \<longleftrightarrow> u_Port u \<noteq> 0"

section \<open>Lemmas\<close>

subsection \<open>Defaults\<close>

interpretation settings: defaults Settings_WithDefaults settings_complete
  by unfold_locales (auto simp: Settings_WithDefaults_def settings_complete_def Let_def)

interpretation peers: defaults Peers_WithDefaults peers_complete
  by unfold_locales (auto simp: Peers_WithDefaults_def peers_complete_def Let_def)

interpretation upstreams: defaults UpstreamDefault_defaults upstream_complete
  by unfold_locales (auto simp: UpstreamDefault_defaults_def upstream_complete_def)

lemma UpstreamDefault_defaults_simps [simp, defaults_simps]:
  "u_Address (UpstreamDefault_defaults u) = u_Address u"
  "u_Enabled (UpstreamDefault_defaults u) = u_Enabled u"
  "u_Note (UpstreamDefault_defaults u) = u_Note u"
  "u_DoNotSync (UpstreamDefault_defaults u) = u_DoNotSync u"
  "u_SyncPeers (UpstreamDefault_defaults u) = u_SyncPeers u"
  "u_UpdatedAt (UpstreamDefault_defaults u) = u_UpdatedAt u"
  "u_UpdatedBy (UpstreamDefault_defaults u) = u_UpdatedBy u"
  "u_Deleted (UpstreamDefault_defaults u) = u_Deleted u"
  "u_Port (UpstreamDefault_defaults u) = (if u_Port u = 0 then 53 else u_Port u)"
  by (simp_all add: UpstreamDefault_defaults_def)

lemma Peers_WithDefaults_simps [simp, defaults_simps]:
  "pr_SharedKey (Peers_WithDefaults p) = pr_SharedKey p"
  "pr_List (Peers_WithDefaults p) = pr_List p"
  by (simp_all add: Peers_WithDefaults_def Let_def)

lemma elems_simps [simp]:
  "elems None = []" "elems (Some xs) = xs"
  "elems (map_option (map g) s) = map g (elems s)"
  by (auto simp: elems_def split: option.splits)

lemma elems_append_nil [simp]: "elems (append_nil s) = elems s"
  by (simp add: append_nil_def)

lemma Snapshot_simps [simp]:
  "f_Version (Snapshot f) = f_Version f" "f_Updated (Snapshot f) = f_Updated f"
  "f_UpdatedBy (Snapshot f) = f_UpdatedBy f" "f_Settings (Snapshot f) = f_Settings f"
  "f_Peers (Snapshot f) = f_Peers f" "f_ForwardZones (Snapshot f) = f_ForwardZones f"
  "f_StaticRecords (Snapshot f) = f_StaticRecords f"
  "f_UpstreamDefaults (Snapshot f) = append_nil (f_UpstreamDefaults f)"
  "f_DoNotSyncSettings (Snapshot f) = f_DoNotSyncSettings f"
  by (simp_all add: Snapshot_def)

lemma Clone_Snapshot [simp]: "Clone f = Snapshot f"
  by (simp add: Clone_def)

lemma peer_listed_iff: "peer_listed ps n \<longleftrightarrow> (\<exists>p \<in> set ps. ToLower (TrimSpace p) = n)"
  by (induction ps) auto

subsection \<open>The validation loops against the specification\<close>

lemma validate_defaults_iff:
  "validate_defaults i n us = Inr (us', n') \<longleftrightarrow>
     (\<forall>u \<in> set us. upstream_ok u) \<and> us' = map UpstreamDefault_defaults us \<and>
     n' = n + length (filter active us)"
proof (induction us arbitrary: i n us' n')
  case Nil
  then show ?case by auto
next
  case (Cons u us)
  show ?case
    by (auto simp: Let_def bind_res_eq_Inr Cons.IH upstream_ok_def active_def ip_address_def
        MatchString_iff_lang)
qed

lemma validate_zone_upstreams_iff:
  "validate_zone_upstreams i nm j ups = None \<longleftrightarrow>
     (\<forall>up \<in> set ups. ip_address up \<or> up \<in> lang hostnameRe)"
  by (induction ups arbitrary: j) (auto simp: ip_address_def MatchString_iff_lang)

lemma validate_zone_iff:
  "validate_zone i seen z = Inr seen' \<longleftrightarrow>
     zone_ok z \<and> (z_Deleted z \<or> clean_name z \<notin> seen) \<and>
     seen' = (if z_Deleted z then seen else insert (clean_name z) seen)"
  by (simp add: validate_zone_def zone_ok_def clean_name_def Let_def MatchString_iff_lang
      validate_zone_upstreams_iff) blast

lemma validate_zones_iff:
  "validate_zones i seen zs = None \<longleftrightarrow>
     (\<forall>z \<in> set zs. zone_ok z) \<and> distinct (map clean_name (live_zones zs)) \<and>
     clean_name ` set (live_zones zs) \<inter> seen = {}"
proof (induction zs arbitrary: i seen)
  case Nil
  then show ?case by (simp add: live_zones_def)
next
  case (Cons z zs)
  have "validate_zones i seen (z # zs) = None \<longleftrightarrow>
      (\<exists>s. validate_zone i seen z = Inr s \<and> validate_zones (Suc i) s zs = None)"
    by (auto split: sum.splits)
  then show ?case by (auto simp: Cons.IH validate_zone_iff live_zones_def)
qed

lemma validate_record_iff:
  "validate_record i seen r = Inr seen' \<longleftrightarrow>
     record_ok r \<and> (r_Deleted r \<or> record_key r \<notin> seen) \<and>
     seen' = (if r_Deleted r then seen else insert (record_key r) seen)"
  by (auto simp: validate_record_def record_ok_def Let_def MatchString_iff_lang)

lemma validate_records_iff:
  "validate_records i seen rs = None \<longleftrightarrow>
     (\<forall>r \<in> set rs. record_ok r) \<and> distinct (map record_key (live_records rs)) \<and>
     record_key ` set (live_records rs) \<inter> seen = {}"
proof (induction rs arbitrary: i seen)
  case Nil
  then show ?case by (simp add: live_records_def)
next
  case (Cons r rs)
  have "validate_records i seen (r # rs) = None \<longleftrightarrow>
      (\<exists>s. validate_record i seen r = Inr s \<and> validate_records (Suc i) s rs = None)"
    by (auto split: sum.splits)
  then show ?case by (auto simp: Cons.IH validate_record_iff live_records_def)
qed

lemma filter_active_Nil: "filter active us = [] \<longleftrightarrow> \<not> (\<exists>u \<in> set us. active u)"
  by (auto simp: filter_empty_conv)

lemma route_exists:
  "\<not> (us \<noteq> [] \<and> filter active us = [] \<and> zs = []) \<and> \<not> (us = [] \<and> zs = []) \<longleftrightarrow>
     (\<exists>u \<in> set us. active u) \<or> zs \<noteq> []"
  by (cases us) (auto simp: filter_active_Nil)

lemma Validate_Some:
  "f_UpstreamDefaults f = Some us \<Longrightarrow>
   Validate f = bind_res (validate_defaults 0 0 us) (\<lambda>(us', n).
     if us' \<noteq> [] \<and> n = 0 \<and> f_ForwardZones f = [] then Inl AllDisabled
     else if us' = [] \<and> f_ForwardZones f = [] then Inl NoRoute
     else (case validate_zones 0 {} (f_ForwardZones f) of
             Some e \<Rightarrow> Inl e
           | None \<Rightarrow>
               (case validate_records 0 {} (f_StaticRecords f) of
                  Some e \<Rightarrow> Inl e
                | None \<Rightarrow> Inr (filled f\<lparr>f_UpstreamDefaults := Some us'\<rparr>))))"
  by (cases "f_Version f = 0"; cases "validate_defaults 0 0 us")
    (simp_all add: Validate_def filled_def Let_def split: prod.split option.split)

lemma Validate_Inr_iff: "Validate f = Inr f' \<longleftrightarrow> file_ok f \<and> f' = filled f"
proof (cases "f_UpstreamDefaults f")
  case None
  then show ?thesis by (simp add: Validate_def file_ok_def Let_def)
next
  case (Some us)
  let ?zs = "f_ForwardZones f"
  have "Validate f = Inr f' \<longleftrightarrow>
      (\<exists>us' n. validate_defaults 0 0 us = Inr (us', n) \<and>
        \<not> (us' \<noteq> [] \<and> n = 0 \<and> ?zs = []) \<and> \<not> (us' = [] \<and> ?zs = []) \<and>
        validate_zones 0 {} ?zs = None \<and> validate_records 0 {} (f_StaticRecords f) = None \<and>
        f' = filled f\<lparr>f_UpstreamDefaults := Some us'\<rparr>)"
    by (cases "validate_defaults 0 0 us") (auto simp: Validate_Some [OF Some] split: if_splits)
  also have "\<dots> \<longleftrightarrow> (\<forall>u \<in> set us. upstream_ok u) \<and>
      (\<not> (us \<noteq> [] \<and> filter active us = [] \<and> ?zs = []) \<and> \<not> (us = [] \<and> ?zs = [])) \<and>
      validate_zones 0 {} ?zs = None \<and> validate_records 0 {} (f_StaticRecords f) = None \<and>
      f' = filled f"
    by (auto simp: validate_defaults_iff filled_def Some)
  finally show ?thesis
    by (simp only: route_exists validate_zones_iff validate_records_iff) (simp add: file_ok_def Some)
qed

lemma file_ok_filled: "file_ok f \<Longrightarrow> file_ok (filled f)"
  by (auto simp: file_ok_def filled_def upstream_ok_def active_def)

lemma filled_idem: "filled (filled f) = filled f"
  by (auto simp: filled_def CurrentVersion_def settings.fill_idem peers.fill_idem
      upstreams.fill_idem option.map_comp comp_def)

lemma file_ok_version [simp]: "file_ok (f\<lparr>f_Version := v\<rparr>) = file_ok f"
  "file_ok (f\<lparr>f_Updated := t\<rparr>) = file_ok f" "file_ok (f\<lparr>f_UpdatedBy := a\<rparr>) = file_ok f"
  "file_ok (f\<lparr>f_Settings := s\<rparr>) = file_ok f" "file_ok (f\<lparr>f_Peers := p\<rparr>) = file_ok f"
  by (simp_all add: file_ok_def)

section \<open>Concrete inputs\<close>

text \<open>A small configuration on which the theorems with hypotheses are instantiated.\<close>

definition corp_zone :: "string \<Rightarrow> ForwardZone" where
  "corp_zone ident =
     \<lparr>z_ID = ident, z_Name = ''corp.example.com'', z_Wildcard = False, z_Upstreams = [''10.0.0.4''],
      z_LeastLatency = False, z_LatencyTestFrequency = 0, z_DoNotSync = False, z_SyncPeers = [],
      z_UpdatedAt = 7, z_UpdatedBy = ''ops'', z_Deleted = False\<rparr>"

definition host_record :: "StaticRecord" where
  "host_record =
     \<lparr>r_ID = ''r1'', r_Name = ''host.corp.example.com'', r_Type = ''A'', r_Value = ''10.1.2.3'',
      r_TTL = 300, r_DoNotSync = False, r_SyncPeers = [], r_UpdatedAt = 0, r_UpdatedBy = [],
      r_Deleted = False\<rparr>"

definition azure_upstream :: UpstreamDefault where
  "azure_upstream =
     \<lparr>u_Address = ''168.63.129.16'', u_Port = 0, u_Enabled = True, u_Note = [], u_DoNotSync = False,
      u_SyncPeers = [], u_UpdatedAt = 0, u_UpdatedBy = [], u_Deleted = False\<rparr>"

definition sample_file :: "ForwardZone list \<Rightarrow> File" where
  "sample_file zs =
     \<lparr>f_Version = 0, f_Updated = 0, f_UpdatedBy = [],
      f_Settings = \<lparr>s_CacheSize = 0, s_DNSSEC = False, s_LogQueries = False, s_HTTPListen = [],
                     s_DNSListen = [], s_PollSeconds = 0\<rparr>,
      f_Peers = \<lparr>pr_Listen = [], pr_SharedKey = ''k'', pr_SyncIntervalSeconds = 0,
                  pr_ClockSkewSeconds = 0, pr_List = []\<rparr>,
      f_UpstreamDefaults = Some [azure_upstream], f_ForwardZones = zs,
      f_StaticRecords = [host_record], f_DoNotSyncSettings = False\<rparr>"

lemma sample_strings:
  "''168.63.129.16'' \<in> lang ipv4Re" "''10.0.0.4'' \<in> lang ipv4Re" "''10.1.2.3'' \<in> lang ipv4Re"
  "''corp.example.com'' \<in> lang domainRe" "''host.corp.example.com'' \<in> lang dnsNameRe"
  unfolding MatchString_iff_lang [symmetric] by code_simp+

lemma zone_ok_corp_zone: "ident \<noteq> [] \<Longrightarrow> zone_ok (corp_zone ident)"
  by (simp add: zone_ok_def corp_zone_def sample_strings ip_address_def HasPrefix_def)

lemma file_ok_sample:
  assumes "\<forall>z \<in> set zs. zone_ok z" and "distinct (map clean_name (live_zones zs))"
  shows "file_ok (sample_file zs)"
  using assms
  by (simp add: file_ok_def sample_file_def upstream_ok_def azure_upstream_def ip_address_def
      active_def record_ok_def host_record_def live_records_def sample_strings ToUpper_def upper_char_def)

section \<open>Properties\<close>


text \<open>
  Validating a file that validation has accepted accepts it again and changes nothing: the
  defaults are filled in once.
\<close>

lemma validate_idempotent: "bind_res (Validate f) Validate = Validate f"
proof (cases "Validate f")
  case (Inr f')
  then have "file_ok f'" "filled f' = f'" by (auto simp: Validate_Inr_iff file_ok_filled filled_idem)
  then have "Validate f' = Inr f'" by (simp add: Validate_Inr_iff)
  then show ?thesis using Inr by simp
qed simp

text \<open>
  An item is sent to a peer exactly when it is not private and either names no peers or
  names this one, up to case and surrounding blanks; the answer does not depend on how the
  caller spells the peer's name.
\<close>

lemma syncs_to_peer_spec:
  "SyncsToPeer private peers name \<longleftrightarrow>
     \<not> private \<and> (peers = [] \<or> (\<exists>p \<in> set peers. ToLower (TrimSpace p) = ToLower (TrimSpace name)))"
  by (simp add: SyncsToPeer_def peer_listed_iff)

text \<open>
  A file in which some live zone shares its name, up to the leading wildcard, with another
  live zone is rejected, whatever else it contains.
\<close>

lemma validate_rejects_duplicate_zones:
  assumes "i < j" and "j < length (f_ForwardZones f)"
    and "\<not> z_Deleted (f_ForwardZones f ! i)" and "\<not> z_Deleted (f_ForwardZones f ! j)"
    and "clean_name (f_ForwardZones f ! i) = clean_name (f_ForwardZones f ! j)"
  shows "\<exists>e. Validate f = Inl e"
proof -
  have "\<not> distinct (map clean_name (live_zones (f_ForwardZones f)))"
    unfolding live_zones_def using assms by (intro filter_repeat)
  then have "\<not> file_ok f" by (simp add: file_ok_def)
  then show ?thesis by (cases "Validate f") (auto simp: Validate_Inr_iff)
qed

end
