(* ===== verification/Store.thy ===== *)
theory Store
  imports Config
begin

text \<open>
  The configuration store of internal/config/store.go: the in-memory configuration with the
  hash of the file it came from, the bootstrap from environment variables, loading, polling and
  the locked, validated and atomic save.

  What the operating system answers is an input: a record of the errors of the calls, of the
  outcome of flock and of the clock readings, in the order the code makes the calls.  The
  YAML codec (package yaml.v3) is a pair of parameters \<open>marshal\<close> and \<open>unmarshal\<close>, the digest
  (SHA-256 in hexadecimal, of which only equality is used) a parameter \<open>sha\<close>.  The hooks a
  successful save runs are returned in the order they are called.
\<close>

section \<open>State\<close>

datatype err =
    ErrLocked
  | ErrOs string
  | ErrParse string
  | ErrMarshal string
  | ErrValidate verr
  | ErrMutate string

datatype hook = OnSave | OnApply

record Store =
  current :: "File option"
  hash :: string
  loadErr :: "err option"
  onSave :: bool
  onApply :: bool

text \<open>The configuration file and its temporary companion on disk.\<close>

record Disk =
  d_file :: "string option"
  d_tmp :: "string option"

definition NewStore :: Store where
  "NewStore = \<lparr>current = None, hash = [], loadErr = None, onSave = False, onApply = False\<rparr>"

definition setCurrent :: "File \<Rightarrow> string \<Rightarrow> Store \<Rightarrow> Store" where
  "setCurrent f h s = s\<lparr>current := Some f, hash := h\<rparr>"

definition SetOnSave :: "Store \<Rightarrow> Store" where
  "SetOnSave s = s\<lparr>onSave := True\<rparr>"

definition SetOnApply :: "Store \<Rightarrow> Store" where
  "SetOnApply s = s\<lparr>onApply := True\<rparr>"

definition fireOnSave :: "Store \<Rightarrow> hook list" where
  "fireOnSave s = (if onSave s then [OnSave] else [])"

definition fireOnApply :: "Store \<Rightarrow> hook list" where
  "fireOnApply s = (if onApply s then [OnApply] else [])"

section \<open>Bootstrap\<close>

definition DefaultConfig :: "time \<Rightarrow> File" where
  "DefaultConfig now =
     \<lparr>f_Version = CurrentVersion, f_Updated = 0, f_UpdatedBy = [],
      f_Settings =
        \<lparr>s_CacheSize = 1000, s_DNSSEC = False, s_LogQueries = False,
         s_HTTPListen = ''0.0.0.0:80'', s_DNSListen = ''0.0.0.0:53'', s_PollSeconds = 10\<rparr>,
      f_Peers =
        \<lparr>pr_Listen = ''0.0.0.0:8443'', pr_SharedKey = [], pr_SyncIntervalSeconds = 300,
         pr_ClockSkewSeconds = 300, pr_List = []\<rparr>,
      f_UpstreamDefaults =
        Some [\<lparr>u_Address = ''168.63.129.16'', u_Port = 53, u_Enabled = True, u_Note = ''Azure DNS'',
               u_DoNotSync = False, u_SyncPeers = [], u_UpdatedAt = now, u_UpdatedBy = ''bootstrap'',
               u_Deleted = False\<rparr>],
      f_ForwardZones = [], f_StaticRecords = [], f_DoNotSyncSettings = False\<rparr>"

definition zero_status :: PeerStatus where
  "zero_status = \<lparr>ps_LastContact = 0, ps_LastSeq = 0, ps_LastError = [], ps_LastAction = []\<rparr>"

definition peerNameFromURL :: "string \<Rightarrow> string" where
  "peerNameFromURL u =
     (let s = u;
          s = TrimPrefix s ''https://'';
          s = TrimPrefix s ''http://'';
          s = (case IndexByte s (CHR ''/'') of Some i \<Rightarrow> take i s | None \<Rightarrow> s);
          s = ReplaceByte s (CHR '':'') (CHR ''-'');
          s = ReplaceByte s (CHR ''.'') (CHR ''-'')
      in if s = [] then ''peer'' else s)"

fun initial_peers :: "string list \<Rightarrow> Peer list" where
  "initial_peers [] = []"
| "initial_peers (raw # raws) =
     (let url = TrimSpace raw in
      if url = [] then initial_peers raws
      else \<lparr>p_Name = peerNameFromURL url, p_URL = url, p_Enabled = True, p_Status = zero_status\<rparr>
           # initial_peers raws)"

text \<open>\<open>env\<close> is os.LookupEnv and \<open>readFile\<close> os.ReadFile, \<open>None\<close> for an error.\<close>

definition seed_listen :: "(string \<Rightarrow> string option) \<Rightarrow> Peers \<Rightarrow> Peers" where
  "seed_listen env p =
     (case env ''PEER_LISTEN'' of
        Some v \<Rightarrow> if v \<noteq> [] \<and> pr_Listen p = [] then p\<lparr>pr_Listen := v\<rparr> else p
      | None \<Rightarrow> p)"

definition seed_key :: "(string \<Rightarrow> string option) \<Rightarrow> (string \<Rightarrow> string option) \<Rightarrow> Peers \<Rightarrow> Peers" where
  "seed_key env readFile p =
     (if pr_SharedKey p = [] then
        (case env ''PEER_SHARED_KEY'' of
           Some (c # v) \<Rightarrow> p\<lparr>pr_SharedKey := c # v\<rparr>
         | _ \<Rightarrow>
           (case env ''PEER_SHARED_KEY_FILE'' of
              Some (c # path) \<Rightarrow>
                (case readFile (c # path) of
                   Some data \<Rightarrow>
                     let key = TrimSpace data in
                     if key \<noteq> [] then p\<lparr>pr_SharedKey := key\<rparr> else p
                 | None \<Rightarrow> p)
            | _ \<Rightarrow> p))
      else p)"

definition seed_list :: "(string \<Rightarrow> string option) \<Rightarrow> Peers \<Rightarrow> Peers" where
  "seed_list env p =
     (case env ''PEERS_INITIAL'' of
        Some v \<Rightarrow>
          if v \<noteq> [] \<and> length (pr_List p) = 0
          then p\<lparr>pr_List := pr_List p @ initial_peers (SplitByte v (CHR '',''))\<rparr> else p
      | None \<Rightarrow> p)"

definition SeedFromEnv :: "(string \<Rightarrow> string option) \<Rightarrow> (string \<Rightarrow> string option) \<Rightarrow> File \<Rightarrow> File" where
  "SeedFromEnv env readFile f =
     f\<lparr>f_Peers := seed_list env (seed_key env readFile (seed_listen env (f_Peers f)))\<rparr>"

section \<open>Loading and polling\<close>

text \<open>A failed write may leave any content behind: the second component.\<close>

record load_io =
  l_read :: "string option"
  l_mkdir :: "string option"
  l_write :: "(string \<times> string option) option"
  l_now_default :: time
  l_now_updated :: time

definition Load ::
  "(File \<Rightarrow> (string, string) result) \<Rightarrow> (string \<Rightarrow> (string, File) result) \<Rightarrow> (string \<Rightarrow> string) \<Rightarrow>
   (string \<Rightarrow> string option) \<Rightarrow> (string \<Rightarrow> string option) \<Rightarrow> load_io \<Rightarrow> Store \<Rightarrow> Disk \<Rightarrow>
   err option \<times> Store \<times> Disk" where
  "Load marshal unmarshal sha env readFile io s d =
     (case l_read io of
        Some e \<Rightarrow> (Some (ErrOs e), s\<lparr>loadErr := Some (ErrOs e)\<rparr>, d)
      | None \<Rightarrow>
        (case d_file d of
           None \<Rightarrow>
             let f = DefaultConfig (l_now_default io);
                 f = SeedFromEnv env readFile f;
                 f = f\<lparr>f_Updated := l_now_updated io, f_UpdatedBy := ''bootstrap''\<rparr> in
             (case l_mkdir io of
                Some e \<Rightarrow> (Some (ErrOs e), s, d)
              | None \<Rightarrow>
                (case marshal f of
                   Inl e \<Rightarrow> (Some (ErrMarshal e), s, d)
                 | Inr out \<Rightarrow>
                   (case l_write io of
                      Some (e, left) \<Rightarrow> (Some (ErrOs e), s, d\<lparr>d_file := left\<rparr>)
                    | None \<Rightarrow>
                        (None, (setCurrent f (sha out) s)\<lparr>loadErr := None\<rparr>, d\<lparr>d_file := Some out\<rparr>))))
         | Some data \<Rightarrow>
             (case unmarshal data of
                Inl e \<Rightarrow> (Some (ErrParse e), s\<lparr>loadErr := Some (ErrParse e)\<rparr>, d)
              | Inr f \<Rightarrow>
                (case Validate (SeedFromEnv env readFile f) of
                   Inl e \<Rightarrow> (Some (ErrValidate e), s\<lparr>loadErr := Some (ErrValidate e)\<rparr>, d)
                 | Inr f' \<Rightarrow> (None, (setCurrent f' (sha data) s)\<lparr>loadErr := None\<rparr>, d)))))"

text \<open>
  \<open>ReloadIfChanged\<close> returns (changed, error).  A file that disappeared is a read error, as
  os.ReadFile reports it.
\<close>

definition ReloadIfChanged ::
  "(string \<Rightarrow> (string, File) result) \<Rightarrow> (string \<Rightarrow> string) \<Rightarrow>
   (string \<Rightarrow> string option) \<Rightarrow> (string \<Rightarrow> string option) \<Rightarrow> string option \<Rightarrow> Store \<Rightarrow> Disk \<Rightarrow>
   bool \<times> err option \<times> Store" where
  "ReloadIfChanged unmarshal sha env readFile readErr s d =
     (case (readErr, d_file d) of
        (Some e, _) \<Rightarrow> (False, Some (ErrOs e), s)
      | (None, None) \<Rightarrow> (False, Some (ErrOs ''file does not exist''), s)
      | (None, Some data) \<Rightarrow>
          let h = sha data; cur = hash s in
          if h = cur then (False, None, s)
          else
            (case unmarshal data of
               Inl e \<Rightarrow> (True, Some (ErrParse e), s)
             | Inr f \<Rightarrow>
               (case Validate (SeedFromEnv env readFile f) of
                  Inl e \<Rightarrow> (True, Some (ErrValidate e), s)
                | Inr f' \<Rightarrow> (True, None, setCurrent f' h s))))"

section \<open>Saving\<close>

definition stampUpstream :: "time \<Rightarrow> string \<Rightarrow> UpstreamDefault \<Rightarrow> UpstreamDefault" where
  "stampUpstream now actor u =
     (let u = (if IsZero (u_UpdatedAt u) then u\<lparr>u_UpdatedAt := now\<rparr> else u) in
      if u_UpdatedBy u = [] then u\<lparr>u_UpdatedBy := actor\<rparr> else u)"

definition stampZone :: "time \<Rightarrow> string \<Rightarrow> ForwardZone \<Rightarrow> ForwardZone" where
  "stampZone now actor z =
     (let z = (if IsZero (z_UpdatedAt z) then z\<lparr>z_UpdatedAt := now\<rparr> else z) in
      if z_UpdatedBy z = [] then z\<lparr>z_UpdatedBy := actor\<rparr> else z)"

definition stampRecord :: "time \<Rightarrow> string \<Rightarrow> StaticRecord \<Rightarrow> StaticRecord" where
  "stampRecord now actor r =
     (let r = (if IsZero (r_UpdatedAt r) then r\<lparr>r_UpdatedAt := now\<rparr> else r) in
      if r_UpdatedBy r = [] then r\<lparr>r_UpdatedBy := actor\<rparr> else r)"

definition stampItems :: "time \<Rightarrow> string \<Rightarrow> File \<Rightarrow> File" where
  "stampItems now actor f =
     f\<lparr>f_UpstreamDefaults := map_option (map (stampUpstream now actor)) (f_UpstreamDefaults f),
       f_ForwardZones := map (stampZone now actor) (f_ForwardZones f),
       f_StaticRecords := map (stampRecord now actor) (f_StaticRecords f)\<rparr>"

datatype flock_result = FlockOK | WouldBlock | FlockErr string

record save_io =
  io_mkdir :: "string option"
  io_open :: "string option"
  io_flock :: flock_result
  io_now_default :: time
  io_now_updated :: time
  io_now_stamp :: time
  io_write :: "(string \<times> string option) option"
  io_rename :: "string option"
  io_unlock :: "string option"

text \<open>
  The draft that Mutate changes is a copy whose slices are fresh, except for the list of peers:
  Snapshot copies its slice header only, so the draft and the current configuration share the
  peers' backing array.  A mutation therefore returns, besides its outcome, what the current
  configuration's peer list reads afterwards through the shared array.  \<open>unshared\<close> is the
  case of a mutation that writes no element of that array in place.
\<close>

type_synonym mutation = "File \<Rightarrow> (string, File) result \<times> Peer list"

definition unshared :: "(File \<Rightarrow> (string, File) result) \<Rightarrow> mutation" where
  "unshared m = (\<lambda>f. (m f, pr_List (f_Peers f)))"

definition alias_peers :: "Peer list \<Rightarrow> Store \<Rightarrow> Store" where
  "alias_peers ps s =
     s\<lparr>current := map_option (\<lambda>c. c\<lparr>f_Peers := (f_Peers c)\<lparr>pr_List := ps\<rparr>\<rparr>) (current s)\<rparr>"

text \<open>The part of Save between taking and releasing the lock, from the mutated draft on.\<close>

definition save_commit ::
  "(File \<Rightarrow> (string, string) result) \<Rightarrow> (string \<Rightarrow> string) \<Rightarrow> save_io \<Rightarrow> string \<Rightarrow> File \<Rightarrow> Store \<Rightarrow> Disk \<Rightarrow>
   (err, File) result \<times> Store \<times> Disk \<times> hook list" where
  "save_commit marshal sha io actor draft s d =
     (let draft = draft\<lparr>f_Updated := io_now_updated io, f_UpdatedBy := actor,
                        f_Version := CurrentVersion\<rparr>;
          draft = stampItems (io_now_stamp io) actor draft in
      case Validate draft of
        Inl e \<Rightarrow> (Inl (ErrValidate e), s, d, [])
      | Inr draft \<Rightarrow>
        (case marshal draft of
           Inl e \<Rightarrow> (Inl (ErrMarshal e), s, d, [])
         | Inr data \<Rightarrow>
           (case io_write io of
              Some (e, left) \<Rightarrow> (Inl (ErrOs e), s, d\<lparr>d_tmp := left\<rparr>, [])
            | None \<Rightarrow>
              (case io_rename io of
                 Some e \<Rightarrow> (Inl (ErrOs e), s, d\<lparr>d_tmp := Some data\<rparr>, [])
               | None \<Rightarrow>
                 let d' = d\<lparr>d_file := Some data, d_tmp := None\<rparr>;
                     s' = setCurrent draft (sha data) s in
                 (case io_unlock io of
                    Some e \<Rightarrow> (Inl (ErrOs e), s', d', [])
                  | None \<Rightarrow> (Inr draft, s', d', fireOnSave s' @ fireOnApply s'))))))"

definition Save ::
  "(File \<Rightarrow> (string, string) result) \<Rightarrow> (string \<Rightarrow> string) \<Rightarrow> save_io \<Rightarrow> string \<Rightarrow> mutation option \<Rightarrow>
   Store \<Rightarrow> Disk \<Rightarrow> (err, File) result \<times> Store \<times> Disk \<times> hook list" where
  "Save marshal sha io actor mutate s d =
     (case io_mkdir io of
        Some e \<Rightarrow> (Inl (ErrOs e), s, d, [])
      | None \<Rightarrow>
     (case io_open io of
        Some e \<Rightarrow> (Inl (ErrOs e), s, d, [])
      | None \<Rightarrow>
     (case io_flock io of
        WouldBlock \<Rightarrow> (Inl ErrLocked, s, d, [])
      | FlockErr e \<Rightarrow> (Inl (ErrOs e), s, d, [])
      | FlockOK \<Rightarrow>
          let cur = (case current s of None \<Rightarrow> DefaultConfig (io_now_default io) | Some c \<Rightarrow> c);
              draft = Clone cur in
          (case mutate of
             None \<Rightarrow> save_commit marshal sha io actor draft s d
           | Some m \<Rightarrow>
             (case m draft of
                (Inl e, ps) \<Rightarrow> (Inl (ErrMutate e), alias_peers ps s, d, [])
              | (Inr draft', ps) \<Rightarrow> save_commit marshal sha io actor draft' (alias_peers ps s) d)))))"

section \<open>Invariants and interfaces\<close>

text \<open>Whatever is in memory is a valid configuration with all defaults filled in.\<close>

definition complete_file :: "File \<Rightarrow> bool" where
  "complete_file f \<longleftrightarrow> file_ok f \<and> filled f = f"

definition store_inv :: "Store \<Rightarrow> bool" where
  "store_inv s \<longleftrightarrow> (\<forall>f. current s = Some f \<longrightarrow> complete_file f)"

text \<open>Two configurations that differ at most in their peer list.\<close>

definition same_but_peers :: "File option \<Rightarrow> File option \<Rightarrow> bool" where
  "same_but_peers a b \<longleftrightarrow>
     map_option (\<lambda>c. c\<lparr>f_Peers := (f_Peers c)\<lparr>pr_List := []\<rparr>\<rparr>) a =
     map_option (\<lambda>c. c\<lparr>f_Peers := (f_Peers c)\<lparr>pr_List := []\<rparr>\<rparr>) b"

text \<open>The bookkeeping contract of the three kinds of items: an item gets the time and the
  actor of the save that first sees it and keeps the ones it has.\<close>

locale stampable =
  fixes at :: "'a \<Rightarrow> time"
    and who :: "'a \<Rightarrow> string"
    and stamp :: "time \<Rightarrow> string \<Rightarrow> 'a \<Rightarrow> 'a"
  assumes at_stamp [simp]: "at (stamp now actor x) = (if at x = 0 then now else at x)"
    and who_stamp [simp]: "who (stamp now actor x) = (if who x = [] then actor else who x)"
    and stamp_id: "at x \<noteq> 0 \<Longrightarrow> who x \<noteq> [] \<Longrightarrow> stamp now actor x = x"
begin

lemma stamp_all:
  "now \<noteq> 0 \<Longrightarrow> actor \<noteq> [] \<Longrightarrow> x \<in> set (map (stamp now actor) xs) \<Longrightarrow> at x \<noteq> 0 \<and> who x \<noteq> []"
  by (auto split: if_splits)

lemma stamp_idem:
  "now \<noteq> 0 \<Longrightarrow> actor \<noteq> [] \<Longrightarrow> stamp now' actor' (stamp now actor x) = stamp now actor x"
  by (rule stamp_id) auto

lemma map_stamp_id:
  "(\<And>x. x \<in> set xs \<Longrightarrow> at x \<noteq> 0 \<and> who x \<noteq> []) \<Longrightarrow> map (stamp now actor) xs = xs"
  by (simp add: map_idI stamp_id)

end

text \<open>
  What the HTTP handlers and the peer engine rely on when they call the store: a successful
  save makes its result the current configuration, and the invariant that makes every current
  configuration valid is kept whatever the outcome.
\<close>

locale config_store =
  fixes save :: "'op \<Rightarrow> 's \<Rightarrow> (err, File) result \<times> 's"
    and cur :: "'s \<Rightarrow> File option"
    and inv :: "'s \<Rightarrow> bool"
  assumes save_inv: "inv s \<Longrightarrow> save op s = (r, s') \<Longrightarrow> inv s'"
    and save_cur: "save op s = (Inr f, s') \<Longrightarrow> cur s' = Some f"
    and inv_valid: "inv s \<Longrightarrow> cur s = Some f \<Longrightarrow> complete_file f"
begin

primrec run :: "'op list \<Rightarrow> 's \<Rightarrow> 's" where
  "run [] s = s"
| "run (op # ops) s = run ops (snd (save op s))"

lemma run_inv: "inv s \<Longrightarrow> inv (run ops s)"
proof (induction ops arbitrary: s)
  case (Cons op ops)
  have "inv (snd (save op s))" using Cons.prems save_inv [of s op] by (metis prod.collapse)
  then show ?case by (simp add: Cons.IH)
qed simp

lemma run_valid: "inv s \<Longrightarrow> cur (run ops s) = Some f \<Longrightarrow> complete_file f"
  using run_inv inv_valid by blast

lemma save_result_valid: "inv s \<Longrightarrow> save op s = (Inr f, s') \<Longrightarrow> complete_file f"
  using save_inv save_cur inv_valid by metis

end

section \<open>Lemmas\<close>

interpretation upstream_stamp: stampable u_UpdatedAt u_UpdatedBy stampUpstream
  by unfold_locales (auto simp: stampUpstream_def IsZero_def Let_def)

interpretation zone_stamp: stampable z_UpdatedAt z_UpdatedBy stampZone
  by unfold_locales (auto simp: stampZone_def IsZero_def Let_def)

interpretation record_stamp: stampable r_UpdatedAt r_UpdatedBy stampRecord
  by unfold_locales (auto simp: stampRecord_def IsZero_def Let_def)

lemma stamp_fields [simp, item_simps]:
  "u_Address (stampUpstream now a u) = u_Address u" "u_Port (stampUpstream now a u) = u_Port u"
  "u_Enabled (stampUpstream now a u) = u_Enabled u" "u_Deleted (stampUpstream now a u) = u_Deleted u"
  "z_ID (stampZone now a z) = z_ID z" "z_Name (stampZone now a z) = z_Name z"
  "z_Wildcard (stampZone now a z) = z_Wildcard z" "z_Upstreams (stampZone now a z) = z_Upstreams z"
  "z_LeastLatency (stampZone now a z) = z_LeastLatency z" "z_Deleted (stampZone now a z) = z_Deleted z"
  "r_ID (stampRecord now a r) = r_ID r" "r_Name (stampRecord now a r) = r_Name r"
  "r_Type (stampRecord now a r) = r_Type r" "r_Value (stampRecord now a r) = r_Value r"
  "r_Deleted (stampRecord now a r) = r_Deleted r"
  by (simp_all add: stampUpstream_def stampZone_def stampRecord_def Let_def)

lemma zone_ok_stamp [simp]: "zone_ok (stampZone now a z) = zone_ok z"
  by (simp add: zone_ok_def clean_name_def)

lemma record_key_stamp [simp]: "record_key (stampRecord now a r) = record_key r"
  by (simp add: record_key_def)

lemma record_ok_stamp [simp]: "record_ok (stampRecord now a r) = record_ok r"
  by (simp add: record_ok_def)

lemma clean_name_stamp [simp]: "clean_name (stampZone now a z) = clean_name z"
  by (simp add: clean_name_def)

lemma live_zones_stamp [simp]:
  "live_zones (map (stampZone now a) zs) = map (stampZone now a) (live_zones zs)"
  by (induction zs) (auto simp: live_zones_def)

lemma live_records_stamp [simp]:
  "live_records (map (stampRecord now a) rs) = map (stampRecord now a) (live_records rs)"
  by (induction rs) (auto simp: live_records_def)

lemma file_ok_stampItems [simp]: "file_ok (stampItems now a f) = file_ok f"
  by (simp add: file_ok_def stampItems_def upstream_ok_def active_def comp_def)

lemma stampItems_simps [simp]:
  "f_Version (stampItems now a f) = f_Version f" "f_Updated (stampItems now a f) = f_Updated f"
  "f_UpdatedBy (stampItems now a f) = f_UpdatedBy f" "f_Settings (stampItems now a f) = f_Settings f"
  "f_Peers (stampItems now a f) = f_Peers f"
  "f_DoNotSyncSettings (stampItems now a f) = f_DoNotSyncSettings f"
  by (simp_all add: stampItems_def)

subsection \<open>Bootstrap\<close>

lemma azure_dns_is_ipv4: "''168.63.129.16'' \<in> lang ipv4Re"
proof -
  have "MatchString ipv4Re ''168.63.129.16''" by code_simp
  then show ?thesis by (simp only: MatchString_iff_lang)
qed

lemma DefaultConfig_complete: "complete_file (DefaultConfig now)"
proof -
  have "file_ok (DefaultConfig now)"
    by (simp add: file_ok_def DefaultConfig_def upstream_ok_def active_def ip_address_def
        azure_dns_is_ipv4 live_zones_def live_records_def)
  moreover have "filled (DefaultConfig now) = DefaultConfig now"
    by (simp add: filled_def DefaultConfig_def Settings_WithDefaults_def Peers_WithDefaults_def
        UpstreamDefault_defaults_def CurrentVersion_def)
  ultimately show ?thesis by (simp add: complete_file_def)
qed

lemma SeedFromEnv_only_peers: "\<exists>p. SeedFromEnv env rf f = f\<lparr>f_Peers := p\<rparr>"
  unfolding SeedFromEnv_def Let_def by blast

lemma SeedFromEnv_simps [simp]:
  "f_Version (SeedFromEnv env rf f) = f_Version f"
  "f_Settings (SeedFromEnv env rf f) = f_Settings f"
  "f_UpstreamDefaults (SeedFromEnv env rf f) = f_UpstreamDefaults f"
  "f_ForwardZones (SeedFromEnv env rf f) = f_ForwardZones f"
  "f_StaticRecords (SeedFromEnv env rf f) = f_StaticRecords f"
  using SeedFromEnv_only_peers [of env rf f] by auto

lemma file_ok_SeedFromEnv [simp]: "file_ok (SeedFromEnv env rf f) = file_ok f"
  by (simp add: file_ok_def)

lemma seed_simps [simp]:
  "pr_SharedKey (seed_listen env p) = pr_SharedKey p" "pr_List (seed_listen env p) = pr_List p"
  "pr_SyncIntervalSeconds (seed_listen env p) = pr_SyncIntervalSeconds p"
  "pr_ClockSkewSeconds (seed_listen env p) = pr_ClockSkewSeconds p"
  "pr_Listen (seed_key env rf p) = pr_Listen p" "pr_List (seed_key env rf p) = pr_List p"
  "pr_SyncIntervalSeconds (seed_key env rf p) = pr_SyncIntervalSeconds p"
  "pr_ClockSkewSeconds (seed_key env rf p) = pr_ClockSkewSeconds p"
  "pr_Listen (seed_list env p) = pr_Listen p" "pr_SharedKey (seed_list env p) = pr_SharedKey p"
  "pr_SyncIntervalSeconds (seed_list env p) = pr_SyncIntervalSeconds p"
  "pr_ClockSkewSeconds (seed_list env p) = pr_ClockSkewSeconds p"
  by (simp_all add: seed_listen_def seed_key_def seed_list_def Let_def split: option.split list.split)

lemma seed_keeps [simp]:
  "pr_Listen p \<noteq> [] \<Longrightarrow> seed_listen env p = p" "pr_SharedKey p \<noteq> [] \<Longrightarrow> seed_key env rf p = p"
  "pr_List p \<noteq> [] \<Longrightarrow> seed_list env p = p"
  by (simp_all add: seed_listen_def seed_key_def seed_list_def split: option.split)

lemma SeedFromEnv_empty [simp]: "SeedFromEnv (\<lambda>_. None) rf f = f"
  by (simp add: SeedFromEnv_def seed_list_def seed_key_def seed_listen_def)

lemma SeedFromEnv_keeps:
  "pr_Listen (f_Peers f) \<noteq> [] \<Longrightarrow> pr_Listen (f_Peers (SeedFromEnv env rf f)) = pr_Listen (f_Peers f)"
  "pr_SharedKey (f_Peers f) \<noteq> [] \<Longrightarrow>
     pr_SharedKey (f_Peers (SeedFromEnv env rf f)) = pr_SharedKey (f_Peers f)"
  "pr_List (f_Peers f) \<noteq> [] \<Longrightarrow> pr_List (f_Peers (SeedFromEnv env rf f)) = pr_List (f_Peers f)"
  "pr_SyncIntervalSeconds (f_Peers (SeedFromEnv env rf f)) = pr_SyncIntervalSeconds (f_Peers f)"
  "pr_ClockSkewSeconds (f_Peers (SeedFromEnv env rf f)) = pr_ClockSkewSeconds (f_Peers f)"
  by (simp_all add: SeedFromEnv_def)

lemma peers_complete_SeedFromEnv:
  "peers_complete (f_Peers f) \<Longrightarrow> peers_complete (f_Peers (SeedFromEnv env rf f))"
  by (simp add: peers_complete_def SeedFromEnv_keeps)

lemma complete_file_iff:
  "complete_file f \<longleftrightarrow>
     file_ok f \<and> f_Version f \<noteq> 0 \<and> settings_complete (f_Settings f) \<and> peers_complete (f_Peers f) \<and>
     (\<forall>u \<in> set (elems (f_UpstreamDefaults f)). upstream_complete u)"
proof -
  have "filled f = f \<longleftrightarrow> f_Version f \<noteq> 0 \<and> Settings_WithDefaults (f_Settings f) = f_Settings f \<and>
      Peers_WithDefaults (f_Peers f) = f_Peers f \<and>
      map UpstreamDefault_defaults (elems (f_UpstreamDefaults f)) = elems (f_UpstreamDefaults f)"
    by (cases f) (auto simp: filled_def CurrentVersion_def elems_def split: option.splits)
  moreover have "map UpstreamDefault_defaults us = us \<longleftrightarrow> (\<forall>u \<in> set us. upstream_complete u)" for us
    by (simp add: upstreams.complete_iff map_equality_iff list_eq_iff_nth_eq)
      (metis in_set_conv_nth)
  ultimately show ?thesis
    by (simp add: complete_file_def settings.complete_iff peers.complete_iff)
qed

lemma complete_file_updates [simp]:
  "complete_file (f\<lparr>f_Updated := t\<rparr>) = complete_file f"
  "complete_file (f\<lparr>f_UpdatedBy := a\<rparr>) = complete_file f"
  "complete_file (f\<lparr>f_Peers := (f_Peers f)\<lparr>pr_List := ps\<rparr>\<rparr>) = complete_file f"
  by (simp_all add: complete_file_iff peers_complete_def)

lemma complete_file_SeedFromEnv: "complete_file f \<Longrightarrow> complete_file (SeedFromEnv env rf f)"
  by (simp add: complete_file_iff peers_complete_SeedFromEnv)

lemma complete_file_filled: "file_ok f \<Longrightarrow> complete_file (filled f)"
  by (simp add: complete_file_def file_ok_filled filled_idem)

lemma Validate_complete: "Validate f = Inr f' \<Longrightarrow> complete_file f'"
  by (auto simp: Validate_Inr_iff intro: complete_file_filled)

subsection \<open>Saving\<close>

lemma alias_peers_simps [simp]:
  "hash (alias_peers ps s) = hash s" "onSave (alias_peers ps s) = onSave s"
  "onApply (alias_peers ps s) = onApply s" "loadErr (alias_peers ps s) = loadErr s"
  by (simp_all add: alias_peers_def)

lemma alias_peers_id:
  "(\<And>c. current s = Some c \<Longrightarrow> pr_List (f_Peers c) = ps) \<Longrightarrow> alias_peers ps s = s"
  by (cases "current s") (auto simp: alias_peers_def)

lemma same_but_peers_refl [simp]: "same_but_peers a a"
  by (simp add: same_but_peers_def)

lemma same_but_peers_alias [simp]: "same_but_peers (current (alias_peers ps s)) (current s)"
  by (cases "current s") (simp_all add: same_but_peers_def alias_peers_def)

lemma store_inv_alias [simp]: "store_inv (alias_peers ps s) = store_inv s"
  by (cases "current s") (auto simp: store_inv_def alias_peers_def)

lemma setCurrent_simps [simp]:
  "current (setCurrent f h s) = Some f" "hash (setCurrent f h s) = h"
  "onSave (setCurrent f h s) = onSave s" "onApply (setCurrent f h s) = onApply s"
  by (simp_all add: setCurrent_def)

lemma store_inv_setCurrent [simp]: "store_inv (setCurrent f h s) = complete_file f"
  by (simp add: store_inv_def)

lemma save_commit_success:
  assumes "save_commit marshal sha io actor draft s d = (Inr f, s', d', hs)"
  obtains data where "marshal f = Inr data" and "complete_file f" and "f_UpdatedBy f = actor"
    and "f_Version f = CurrentVersion" and "f_Updated f = io_now_updated io"
    and "s' = setCurrent f (sha data) s" and "d' = d\<lparr>d_file := Some data, d_tmp := None\<rparr>"
    and "hs = fireOnSave s @ fireOnApply s"
proof -
  let ?draft = "stampItems (io_now_stamp io) actor
      (draft\<lparr>f_Updated := io_now_updated io, f_UpdatedBy := actor, f_Version := CurrentVersion\<rparr>)"
  from assms obtain data where v: "Validate ?draft = Inr f" and m: "marshal f = Inr data"
    and st: "s' = setCurrent f (sha data) s" "d' = d\<lparr>d_file := Some data, d_tmp := None\<rparr>"
      "hs = fireOnSave s @ fireOnApply s"
    by (auto simp: save_commit_def Let_def fireOnSave_def fireOnApply_def
        split: sum.splits option.splits prod.splits)
  from v have "f = filled ?draft" by (simp add: Validate_Inr_iff)
  then have "f_UpdatedBy f = actor" "f_Version f = CurrentVersion" "f_Updated f = io_now_updated io"
    by (simp_all add: filled_def CurrentVersion_def)
  with that m st Validate_complete [OF v] show thesis by blast
qed

lemma save_commit_failure:
  assumes "save_commit marshal sha io actor draft s d = (Inl e, s', d', hs)" and "io_unlock io = None"
  shows "s' = s \<and> d_file d' = d_file d \<and> hs = []"
  using assms
  by (auto simp: save_commit_def Let_def split: sum.splits option.splits prod.splits)

lemma save_commit_inv:
  assumes "save_commit marshal sha io actor draft s d = (r, s', d', hs)" and "store_inv s"
  shows "store_inv s'"
  using assms Validate_complete
  by (auto simp: save_commit_def Let_def split: sum.splits option.splits prod.splits)

lemma Save_cases:
  assumes "Save marshal sha io actor mutate s d = (r, s', d', hs)"
  obtains (early) e where "r = Inl e" "s' = s" "d' = d" "hs = []"
  | (mutate) e ps where "r = Inl e" "s' = alias_peers ps s" "d' = d" "hs = []"
  | (commit) draft ps where "save_commit marshal sha io actor draft (alias_peers ps s) d = (r, s', d', hs)"
  | (plain) draft where "save_commit marshal sha io actor draft s d = (r, s', d', hs)"
  using assms that
  by (auto simp: Save_def Let_def split: sum.splits option.splits prod.splits flock_result.splits)

lemma Save_inv: "store_inv s \<Longrightarrow> Save marshal sha io actor mutate s d = (r, s', d', hs) \<Longrightarrow> store_inv s'"
  by (erule Save_cases) (auto dest: save_commit_inv)

lemma Save_success:
  assumes "Save marshal sha io actor mutate s d = (Inr f, s', d', hs)"
  obtains data where "marshal f = Inr data" and "complete_file f" and "f_UpdatedBy f = actor"
    and "f_Version f = CurrentVersion" and "f_Updated f = io_now_updated io"
    and "current s' = Some f" and "hash s' = sha data"
    and "d_file d' = Some data" and "d_tmp d' = None" and "hs = fireOnSave s @ fireOnApply s"
  using assms
proof (cases rule: Save_cases)
  case (commit draft ps)
  then show thesis
    by (elim save_commit_success) (use that in \<open>simp add: fireOnSave_def fireOnApply_def\<close>)
next
  case (plain draft)
  then show thesis by (elim save_commit_success) (use that in simp)
qed auto

lemma Save_failure:
  assumes "Save marshal sha io actor mutate s d = (Inl e, s', d', hs)" and "io_unlock io = None"
  shows "same_but_peers (current s') (current s) \<and> hash s' = hash s \<and> d_file d' = d_file d \<and> hs = []"
  using assms(1)
proof (cases rule: Save_cases)
  case (commit draft ps)
  then show ?thesis using save_commit_failure [OF _ assms(2)] by fastforce
next
  case (plain draft)
  then show ?thesis using save_commit_failure [OF _ assms(2)] by fastforce
qed auto

lemma Save_unshared:
  assumes "io_mkdir io = None" and "io_open io = None" and "io_flock io = FlockOK"
    and "current s = Some c"
  shows "Save marshal sha io actor (Some (unshared m)) s d =
    (case m (Snapshot c) of
       Inl e \<Rightarrow> (Inl (ErrMutate e), s, d, [])
     | Inr draft \<Rightarrow> save_commit marshal sha io actor draft s d)"
proof -
  have "alias_peers (pr_List (f_Peers c)) s = s" using assms(4) by (intro alias_peers_id) auto
  then show ?thesis using assms by (simp add: Save_def unshared_def Let_def split: sum.split)
qed

interpretation saved: config_store
  "\<lambda>(io, actor, mutate) (s, d). case Save marshal sha io actor mutate s d of (r, s', d', hs) \<Rightarrow> (r, (s', d'))"
  "\<lambda>(s, d). current s" "\<lambda>(s, d). store_inv s"
  for marshal sha
proof unfold_locales
  fix s :: "Store \<times> Disk" and op r s'
  assume "case s of (s, d) \<Rightarrow> store_inv s"
    and "(\<lambda>(io, actor, mutate) (s, d). case Save marshal sha io actor mutate s d of
      (r, s', d', hs) \<Rightarrow> (r, (s', d'))) op s = (r, s')"
  then show "case s' of (s, d) \<Rightarrow> store_inv s"
    by (auto split: prod.splits dest: Save_inv)
next
  fix s :: "Store \<times> Disk" and op f s'
  assume "(\<lambda>(io, actor, mutate) (s, d). case Save marshal sha io actor mutate s d of
      (r, s', d', hs) \<Rightarrow> (r, (s', d'))) op s = (Inr f, s')"
  then show "(case s' of (s, d) \<Rightarrow> current s) = Some f"
    by (auto split: prod.splits elim: Save_success)
next
  fix s :: "Store \<times> Disk" and f
  assume "case s of (s, d) \<Rightarrow> store_inv s" and "(case s of (s, d) \<Rightarrow> current s) = Some f"
  then show "complete_file f" by (auto simp: store_inv_def)
qed

subsection \<open>Loading\<close>

lemma Load_inv:
  "store_inv s \<Longrightarrow> Load marshal unmarshal sha env rf io s d = (r, s', d') \<Longrightarrow> store_inv s'"
  using Validate_complete
  by (auto simp: Load_def Let_def store_inv_def DefaultConfig_complete complete_file_SeedFromEnv
      split: option.splits sum.splits prod.splits)

lemma ReloadIfChanged_inv:
  "store_inv s \<Longrightarrow> ReloadIfChanged unmarshal sha env rf e s d = (c, r, s') \<Longrightarrow> store_inv s'"
  using Validate_complete
  by (auto simp: ReloadIfChanged_def Let_def split: option.splits sum.splits if_splits)

lemma alias_own_peers:
  "alias_peers (pr_List (f_Peers (case current s of None \<Rightarrow> dflt | Some c \<Rightarrow> c))) s = s"
  by (rule alias_peers_id) simp

lemma Save_failure_unshared:
  assumes "Save marshal sha io actor (Some (unshared m)) s d = (Inl e, s', d', hs)"
    and "io_unlock io = None"
  shows "s' = s \<and> d_file d' = d_file d \<and> hs = []"
proof -
  let ?draft = "Clone (case current s of None \<Rightarrow> DefaultConfig (io_now_default io) | Some c \<Rightarrow> c)"
  show ?thesis
  proof (cases "io_mkdir io = None \<and> io_open io = None \<and> io_flock io = FlockOK")
    case False
    then show ?thesis using assms(1)
      by (auto simp: Save_def split: option.splits flock_result.splits)
  next
    case True
    then have "(case m ?draft of Inl e \<Rightarrow> (Inl (ErrMutate e), s, d, [])
        | Inr f \<Rightarrow> save_commit marshal sha io actor f s d) = (Inl e, s', d', hs)"
      using assms(1) by (simp add: Save_def Let_def unshared_def alias_own_peers split: sum.splits)
    then show ?thesis using save_commit_failure [OF _ assms(2)] by (auto split: sum.splits)
  qed
qed

section \<open>Reachable states\<close>

text \<open>
  The states a process can be in: it starts with an empty store on any disk, loads, saves,
  polls and registers hooks in any order, and another replica or an operator may put any content
  into the file and its temporary companion in between.
\<close>

inductive store_reachable ::
  "(File \<Rightarrow> (string, string) result) \<Rightarrow> (string \<Rightarrow> (string, File) result) \<Rightarrow> (string \<Rightarrow> string) \<Rightarrow>
   (string \<Rightarrow> string option) \<Rightarrow> (string \<Rightarrow> string option) \<Rightarrow> Store \<Rightarrow> Disk \<Rightarrow> bool"
  for marshal unmarshal sha env readFile where
  start: "store_reachable marshal unmarshal sha env readFile NewStore d"
| load: "store_reachable marshal unmarshal sha env readFile s d \<Longrightarrow>
    Load marshal unmarshal sha env readFile io s d = (r, s', d') \<Longrightarrow>
    store_reachable marshal unmarshal sha env readFile s' d'"
| save: "store_reachable marshal unmarshal sha env readFile s d \<Longrightarrow>
    Save marshal sha sio actor mutate s d = (sr, s', d', hs) \<Longrightarrow>
    store_reachable marshal unmarshal sha env readFile s' d'"
| reload: "store_reachable marshal unmarshal sha env readFile s d \<Longrightarrow>
    ReloadIfChanged unmarshal sha env readFile e s d = (c, rr, s') \<Longrightarrow>
    store_reachable marshal unmarshal sha env readFile s' d"
| on_save: "store_reachable marshal unmarshal sha env readFile s d \<Longrightarrow>
    store_reachable marshal unmarshal sha env readFile (SetOnSave s) d"
| on_apply: "store_reachable marshal unmarshal sha env readFile s d \<Longrightarrow>
    store_reachable marshal unmarshal sha env readFile (SetOnApply s) d"
| external: "store_reachable marshal unmarshal sha env readFile s d \<Longrightarrow>
    store_reachable marshal unmarshal sha env readFile s d'"

lemma store_reachable_inv:
  "store_reachable marshal unmarshal sha env readFile s d \<Longrightarrow> store_inv s"
proof (induction rule: store_reachable.induct)
  case (start d)
  then show ?case by (simp add: store_inv_def NewStore_def)
next
  case (load s d io r s' d')
  then show ?case by (blast intro: Load_inv)
next
  case (save s d sio actor mutate sr s' d' hs)
  then show ?case by (blast intro: Save_inv)
next
  case (reload s d e c rr s')
  then show ?case by (blast intro: ReloadIfChanged_inv)
next
  case (on_save s d)
  then show ?case by (simp add: store_inv_def SetOnSave_def)
next
  case (on_apply s d)
  then show ?case by (simp add: store_inv_def SetOnApply_def)
qed simp

text \<open>Every system call of a save succeeds.\<close>

definition io_ok :: "save_io \<Rightarrow> bool" where
  "io_ok io \<longleftrightarrow>
     io_mkdir io = None \<and> io_open io = None \<and> io_flock io = FlockOK \<and>
     io_write io = None \<and> io_rename io = None \<and> io_unlock io = None"

text \<open>The file that a save with this draft produces.\<close>

definition saved_file :: "save_io \<Rightarrow> string \<Rightarrow> File \<Rightarrow> File" where
  "saved_file io actor draft =
     filled (stampItems (io_now_stamp io) actor
       (draft\<lparr>f_Updated := io_now_updated io, f_UpdatedBy := actor, f_Version := CurrentVersion\<rparr>))"

lemma saved_file_simps [simp]:
  "f_ForwardZones (saved_file io a d) = map (stampZone (io_now_stamp io) a) (f_ForwardZones d)"
  "f_StaticRecords (saved_file io a d) = map (stampRecord (io_now_stamp io) a) (f_StaticRecords d)"
  "elems (f_UpstreamDefaults (saved_file io a d)) =
     map (\<lambda>u. UpstreamDefault_defaults (stampUpstream (io_now_stamp io) a u)) (elems (f_UpstreamDefaults d))"
  by (simp_all add: saved_file_def filled_def stampItems_def comp_def)

lemma save_commit_ok:
  assumes "io_ok io" and "file_ok draft" and "marshal (saved_file io actor draft) = Inr data"
  shows "save_commit marshal sha io actor draft s d =
    (Inr (saved_file io actor draft), setCurrent (saved_file io actor draft) (sha data) s,
     d\<lparr>d_file := Some data, d_tmp := None\<rparr>, fireOnSave s @ fireOnApply s)"
proof -
  let ?f = "stampItems (io_now_stamp io) actor
      (draft\<lparr>f_Updated := io_now_updated io, f_UpdatedBy := actor, f_Version := CurrentVersion\<rparr>)"
  have "Validate ?f = Inr (saved_file io actor draft)"
    using assms(2) by (simp add: Validate_Inr_iff saved_file_def)
  then show ?thesis
    using assms(1,3) by (simp add: save_commit_def io_ok_def Let_def fireOnSave_def fireOnApply_def)
qed

section \<open>Concrete inputs\<close>

definition calm_io :: save_io where
  "calm_io =
     \<lparr>io_mkdir = None, io_open = None, io_flock = FlockOK, io_now_default = 1, io_now_updated = 2,
      io_now_stamp = 3, io_write = None, io_rename = None, io_unlock = None\<rparr>"

definition booted :: Store where
  "booted = setCurrent (DefaultConfig 1) ''h'' NewStore"

definition empty_disk :: Disk where
  "empty_disk = \<lparr>d_file = None, d_tmp = None\<rparr>"

definition boot_io :: load_io where
  "boot_io = \<lparr>l_read = None, l_mkdir = None, l_write = None, l_now_default = 1, l_now_updated = 2\<rparr>"

text \<open>A codec that knows one document.\<close>

definition one_marshal :: "File \<Rightarrow> (string, string) result" where
  "one_marshal f = Inr ''doc''"

lemma io_ok_calm [simp]: "io_ok calm_io"
  by (simp add: io_ok_def calm_io_def)

lemma Snapshot_DefaultConfig [simp]: "Snapshot (DefaultConfig t) = DefaultConfig t"
  by (simp add: Snapshot_def DefaultConfig_def append_nil_def)

lemma file_ok_DefaultConfig [simp]: "file_ok (DefaultConfig t)"
  using DefaultConfig_complete by (simp add: complete_file_def)

lemma booted_simps [simp]: "current booted = Some (DefaultConfig 1)" "hash booted = ''h''"
  by (simp_all add: booted_def)

lemma booted_save:
  "Save one_marshal (\<lambda>x. x) calm_io ''ops'' (Some (unshared Inr)) booted empty_disk =
   (Inr (saved_file calm_io ''ops'' (DefaultConfig 1)),
    setCurrent (saved_file calm_io ''ops'' (DefaultConfig 1)) ''doc'' booted,
    empty_disk\<lparr>d_file := Some ''doc'', d_tmp := None\<rparr>, fireOnSave booted @ fireOnApply booted)"
proof -
  have "io_mkdir calm_io = None" "io_open calm_io = None" "io_flock calm_io = FlockOK"
    by (simp_all add: calm_io_def)
  then show ?thesis
    using save_commit_ok [of calm_io "DefaultConfig 1" one_marshal "''ops''" "''doc''" "\<lambda>x. x"]
    by (simp add: Save_unshared one_marshal_def)
qed

lemma saved_default_seeded:
  "SeedFromEnv (\<lambda>_. None) (\<lambda>_. None) (saved_file calm_io ''ops'' (DefaultConfig 1)) =
   saved_file calm_io ''ops'' (DefaultConfig 1)"
  by simp

section \<open>Properties\<close>

text \<open>
  C11. In every reachable state the configuration in memory is one that Validate accepts as it
  stands, whatever was written to the file by others and whichever operations failed.
\<close>

theorem current_always_valid:
  assumes "store_reachable marshal unmarshal sha env readFile s d" and "current s = Some f"
  shows "Validate f = Inr f"
  using store_reachable_inv [OF assms(1)] assms(2)
  by (auto simp: store_inv_def complete_file_def Validate_Inr_iff)

theorem current_always_valid_witness:
  "Validate (saved_file calm_io ''ops'' (DefaultConfig 1)) =
   Inr (saved_file calm_io ''ops'' (DefaultConfig 1))"
proof -
  let ?M = "store_reachable one_marshal (\<lambda>_. Inl ''e'') (\<lambda>x. x) (\<lambda>_. None) (\<lambda>_. None)"
  obtain r s' d' hs where sv: "Save one_marshal (\<lambda>x. x) calm_io ''ops'' None NewStore empty_disk = (r, s', d', hs)"
    by (metis prod.exhaust)
  have "?M NewStore empty_disk" by (rule start)
  then have m: "?M s' d'" using sv by (rule save)
  have "Save one_marshal (\<lambda>x. x) calm_io ''ops'' None NewStore empty_disk =
      save_commit one_marshal (\<lambda>x. x) calm_io ''ops'' (DefaultConfig 1) NewStore empty_disk"
    by (simp add: Save_def NewStore_def calm_io_def)
  then have "current s' = Some (saved_file calm_io ''ops'' (DefaultConfig 1))"
    using sv save_commit_ok [of calm_io "DefaultConfig 1" one_marshal "''ops''" "''doc''" "\<lambda>x. x" NewStore]
    by (simp add: one_marshal_def)
  with m show ?thesis by (rule current_always_valid)
qed

text \<open>
  C9. When the lock is free and the system calls succeed, a save whose mutation yields a valid
  draft succeeds: it returns the stamped draft with defaults filled in, makes it the current
  configuration under the digest of the bytes it wrote, replaces the file by these bytes, removes
  the temporary file, and then runs the save hook before the apply hook.
\<close>

theorem save_commits:
  assumes "io_ok io" and "current s = Some c" and "m (Snapshot c) = Inr draft" and "file_ok draft"
    and "marshal (saved_file io actor draft) = Inr data"
  shows "Save marshal sha io actor (Some (unshared m)) s d =
    (Inr (saved_file io actor draft), setCurrent (saved_file io actor draft) (sha data) s,
     d\<lparr>d_file := Some data, d_tmp := None\<rparr>, fireOnSave s @ fireOnApply s)"
  using assms save_commit_ok [OF assms(1,4), of marshal actor data sha s d]
  by (simp add: Save_unshared io_ok_def)

theorem save_commits_witness:
  "fst (Save one_marshal (\<lambda>x. x) calm_io ''ops'' (Some (unshared Inr)) booted empty_disk) =
   Inr (saved_file calm_io ''ops'' (DefaultConfig 1))"
  using save_commits [of calm_io booted "DefaultConfig 1" Inr "DefaultConfig 1" one_marshal "''ops''" "''doc''"
      "\<lambda>x. x" empty_disk]
  by (simp add: one_marshal_def)

text \<open>
  C10. A save that returns an error (with the lock released normally) leaves the configuration
  in memory, its digest and the file on disk as they were and runs no hook, for every mutation
  that does not write into the shared peer list.
\<close>

theorem save_failure_atomic:
  assumes "Save marshal sha io actor (Some (unshared m)) s d = (Inl e, s', d', hs)"
    and "io_unlock io = None"
  shows "s' = s \<and> d_file d' = d_file d \<and> hs = []"
  using assms by (rule Save_failure_unshared)

theorem save_failure_atomic_witness:
  "\<exists>s' d' hs. Save one_marshal (\<lambda>x. x) calm_io ''ops'' (Some (unshared (\<lambda>_. Inl ''no''))) booted empty_disk =
     (Inl (ErrMutate ''no''), s', d', hs) \<and> s' = booted \<and> d_file d' = None \<and> hs = []"
proof -
  have sv: "Save one_marshal (\<lambda>x. x) calm_io ''ops'' (Some (unshared (\<lambda>_. Inl ''no''))) booted empty_disk =
      (Inl (ErrMutate ''no''), booted, empty_disk, [])"
    by (subst Save_unshared) (simp_all add: calm_io_def)
  show ?thesis
    using sv save_failure_atomic [OF sv] by (simp add: calm_io_def empty_disk_def)
qed

text \<open>
  Whatever the mutation, a successful save returns a valid configuration attributed to the
  actor, and memory, digest and file agree on it afterwards.
\<close>

lemma save_success:
  assumes "Save marshal sha io actor mutate s d = (Inr f, s', d', hs)"
  shows "Validate f = Inr f \<and> f_UpdatedBy f = actor \<and> f_Version f = CurrentVersion \<and>
    current s' = Some f \<and> d_tmp d' = None \<and>
    (\<exists>data. marshal f = Inr data \<and> d_file d' = Some data \<and> hash s' = sha data) \<and>
    hs = fireOnSave s @ fireOnApply s"
  using assms by (elim Save_success) (simp add: complete_file_def Validate_Inr_iff)

text \<open>
  A process does not react to its own save: polling right after it finds the digest
  unchanged and reloads nothing.
\<close>

lemma own_save_not_reloaded:
  assumes "Save marshal sha io actor mutate s d = (Inr f, s', d', hs)"
  shows "ReloadIfChanged unmarshal sha env readFile None s' d' = (False, None, s')"
  using assms by (elim Save_success) (simp add: ReloadIfChanged_def)

text \<open>
  Another replica that shares the file and has not seen its content picks a save up at its
  next poll and then holds exactly the saved configuration, provided the YAML codec reads back
  what it wrote and the replica's environment adds nothing to the peer settings.
\<close>

lemma replica_picks_up_save:
  assumes "Save marshal sha io actor mutate s d = (Inr f, s', d', hs)"
    and "\<forall>data. marshal f = Inr data \<longrightarrow> unmarshal data = Inr f"
    and "hash other \<noteq> hash s'" and "SeedFromEnv env readFile f = f"
  shows "ReloadIfChanged unmarshal sha env readFile None other d' =
    (True, None, setCurrent f (hash s') other)"
  using assms(1)
proof (rule Save_success)
  fix data
  assume "marshal f = Inr data" "complete_file f" "hash s' = sha data" "d_file d' = Some data"
  moreover have "Validate f = Inr f" using \<open>complete_file f\<close> by (simp add: complete_file_def Validate_Inr_iff)
  ultimately show ?thesis using assms(2-4) by (simp add: ReloadIfChanged_def)
qed

text \<open>
  C39. A configuration that forwards through zones only (an empty list of upstream defaults,
  which Validate accepts) cannot be saved again: the copy that Save works on turns the empty
  list into a missing one, and every mutation that leaves it alone is refused.
\<close>

theorem zones_only_not_saveable:
  assumes "io_mkdir io = None" and "io_open io = None" and "io_flock io = FlockOK"
    and "current s = Some c" and "f_UpstreamDefaults c = Some []"
    and "m (Snapshot c) = Inr draft" and "f_UpstreamDefaults draft = f_UpstreamDefaults (Snapshot c)"
  shows "Save marshal sha io actor (Some (unshared m)) s d = (Inl (ErrValidate MissingDefaults), s, d, [])"
proof -
  have "f_UpstreamDefaults draft = None" using assms(5,7) by (simp add: append_nil_def)
  then have "save_commit marshal sha io actor draft s d = (Inl (ErrValidate MissingDefaults), s, d, [])"
    by (simp add: save_commit_def Validate_def stampItems_def Let_def CurrentVersion_def)
  then show ?thesis using assms(6) by (simp add: Save_unshared [OF assms(1-4)])
qed

theorem zones_only_not_saveable_witness:
  "let c = (DefaultConfig 1)\<lparr>f_UpstreamDefaults := Some [], f_ForwardZones := [corp_zone ''a'']\<rparr>;
       s = setCurrent c ''h'' NewStore in
   Validate c = Inr c \<and>
   fst (Save one_marshal (\<lambda>x. x) calm_io ''ops'' (Some (unshared Inr)) s empty_disk) =
     Inl (ErrValidate MissingDefaults)"
proof -
  let ?c = "(DefaultConfig 1)\<lparr>f_UpstreamDefaults := Some [], f_ForwardZones := [corp_zone ''a'']\<rparr>"
  have "complete_file ?c"
    using DefaultConfig_complete [of 1] zone_ok_corp_zone [of "''a''"]
    by (simp add: complete_file_iff file_ok_def live_zones_def)
  then have "Validate ?c = Inr ?c" by (simp add: complete_file_def Validate_Inr_iff)
  then show ?thesis
    using zones_only_not_saveable [of calm_io "setCurrent ?c ''h'' NewStore" ?c Inr "Snapshot ?c"
        one_marshal "\<lambda>x. x" "''ops''" empty_disk]
    by (simp add: calm_io_def Let_def)
qed

text \<open>
  Every item of a saved file has a timestamp and an author, provided the clock and the actor
  are not empty: this is what last-writer-wins relies on.
\<close>

lemma save_stamps_items:
  assumes "io_now_stamp io \<noteq> 0" and "actor \<noteq> []"
  shows "(\<forall>u \<in> set (elems (f_UpstreamDefaults (saved_file io actor draft))).
            u_UpdatedAt u \<noteq> 0 \<and> u_UpdatedBy u \<noteq> []) \<and>
         (\<forall>z \<in> set (f_ForwardZones (saved_file io actor draft)).
            z_UpdatedAt z \<noteq> 0 \<and> z_UpdatedBy z \<noteq> []) \<and>
         (\<forall>r \<in> set (f_StaticRecords (saved_file io actor draft)).
            r_UpdatedAt r \<noteq> 0 \<and> r_UpdatedBy r \<noteq> [])"
  using assms by (auto simp: saved_file_def filled_def stampItems_def)

text \<open>
  The first start without a file succeeds when the directory can be written: the bootstrap
  configuration, with the environment's peer settings, is valid, becomes current and is what the
  file holds, so that the first poll reloads nothing.
\<close>

lemma bootstrap_load:
  assumes "d_file d = None" and "l_read io = None" and "l_mkdir io = None" and "l_write io = None"
    and "marshal ((SeedFromEnv env readFile (DefaultConfig (l_now_default io)))
           \<lparr>f_Updated := l_now_updated io, f_UpdatedBy := ''bootstrap''\<rparr>) = Inr out"
  shows "\<exists>f s' d'. Load marshal unmarshal sha env readFile io s d = (None, s', d') \<and>
    current s' = Some f \<and> Validate f = Inr f \<and> f_UpdatedBy f = ''bootstrap'' \<and>
    d_file d' = Some out \<and> ReloadIfChanged unmarshal sha env readFile None s' d' = (False, None, s')"
proof -
  let ?f = "(SeedFromEnv env readFile (DefaultConfig (l_now_default io)))
      \<lparr>f_Updated := l_now_updated io, f_UpdatedBy := ''bootstrap''\<rparr>"
  have "complete_file ?f" by (simp add: complete_file_SeedFromEnv DefaultConfig_complete)
  then have "Validate ?f = Inr ?f" by (simp add: complete_file_def Validate_Inr_iff)
  then show ?thesis using assms by (simp add: Load_def Let_def ReloadIfChanged_def)
qed

end
