(* ===== verification/Sync.thy ===== *)
theory Sync
  imports Store
begin

text \<open>
  The peer exchange of internal/sync/sync.go and status.go: the manifest and the envelope a
  peer sends, the last-writer-wins merge of an incoming envelope into the local file, and the
  in-memory status table.  Each of the three merge loops of the code is one definition; they
  share \<open>merge_item\<close>, the loop body, with the key of an item and the test that decides whether
  an item with an equal timestamp is the same one as arguments, because that is all the loops
  differ in.
\<close>

section \<open>Wire format\<close>

record ItemCount =
  c_UpstreamDefaults :: nat
  c_ForwardZones :: nat
  c_StaticRecords :: nat

record Manifest =
  m_InstanceID :: string
  m_Seq :: nat
  m_Counts :: ItemCount
  m_ServerTime :: time

record Envelope =
  e_InstanceID :: string
  e_FromSeq :: nat
  e_ServerTime :: time
  e_UpstreamDefaults :: "UpstreamDefault list"
  e_ForwardZones :: "ForwardZone list"
  e_StaticRecords :: "StaticRecord list"
  e_Settings :: "Settings option"

record MergeResult =
  Added :: nat
  Updated :: nat
  Deleted :: nat
  Skipped :: nat
  Conflicts :: nat
  Rejected :: nat

section \<open>Authentication\<close>

text \<open>\<open>got\<close> is the value of the X-Peer-Token header, empty when it is absent.  The constant-time
  comparison returns 1 exactly for equal byte strings.\<close>

definition AuthOK :: "string \<Rightarrow> string \<Rightarrow> bool" where
  "AuthOK got want = (if want = [] then False else got = want)"

section \<open>Export\<close>

text \<open>The counting loop and the copying loop over one slice.\<close>

fun count_items :: "('a \<Rightarrow> bool) \<Rightarrow> 'a list \<Rightarrow> nat" where
  "count_items p [] = 0"
| "count_items p (x # xs) = (if p x then Suc (count_items p xs) else count_items p xs)"

fun copy_items :: "('a \<Rightarrow> bool) \<Rightarrow> 'a list \<Rightarrow> 'a list" where
  "copy_items p [] = []"
| "copy_items p (x # xs) = (if \<not> p x then copy_items p xs else x # copy_items p xs)"

definition BuildManifest :: "time \<Rightarrow> string \<Rightarrow> nat \<Rightarrow> File \<Rightarrow> string \<Rightarrow> Manifest" where
  "BuildManifest now instanceID seq f peerName =
     \<lparr>m_InstanceID = instanceID, m_Seq = seq,
      m_Counts =
        \<lparr>c_UpstreamDefaults =
           count_items (\<lambda>u. \<not> u_Deleted u \<and> SyncsToPeer (u_DoNotSync u) (u_SyncPeers u) peerName)
             (elems (f_UpstreamDefaults f)),
         c_ForwardZones =
           count_items (\<lambda>z. \<not> z_Deleted z \<and> SyncsToPeer (z_DoNotSync z) (z_SyncPeers z) peerName)
             (f_ForwardZones f),
         c_StaticRecords =
           count_items (\<lambda>r. \<not> r_Deleted r \<and> SyncsToPeer (r_DoNotSync r) (r_SyncPeers r) peerName)
             (f_StaticRecords f)\<rparr>,
      m_ServerTime = now\<rparr>"

definition FilterForExport :: "time \<Rightarrow> string \<Rightarrow> nat \<Rightarrow> File \<Rightarrow> string \<Rightarrow> Envelope" where
  "FilterForExport now instanceID seq f peerName =
     \<lparr>e_InstanceID = instanceID, e_FromSeq = seq, e_ServerTime = now,
      e_UpstreamDefaults =
        copy_items (\<lambda>u. SyncsToPeer (u_DoNotSync u) (u_SyncPeers u) peerName)
          (elems (f_UpstreamDefaults f)),
      e_ForwardZones =
        copy_items (\<lambda>z. SyncsToPeer (z_DoNotSync z) (z_SyncPeers z) peerName) (f_ForwardZones f),
      e_StaticRecords =
        copy_items (\<lambda>r. SyncsToPeer (r_DoNotSync r) (r_SyncPeers r) peerName) (f_StaticRecords f),
      e_Settings = (if \<not> f_DoNotSyncSettings f then Some (f_Settings f) else None)\<rparr>"

section \<open>Keys\<close>

text \<open>
  \<open>itoa\<close> writes the digits backwards into a 20-byte buffer.  The negation wraps at 64 bits,
  so the most negative integer stays negative and the loop does not run for it.
\<close>

function itoa_loop :: "int \<Rightarrow> string \<Rightarrow> string" where
  "itoa_loop n b = (if n > 0 then itoa_loop (n div 10) (digit_char (nat (n mod 10)) # b) else b)"
  by pat_completeness auto
termination by (relation "measure (\<lambda>(n, b). nat n)") auto

declare itoa_loop.simps [simp del]

definition itoa :: "int \<Rightarrow> string" where
  "itoa n =
     (if n = 0 then ''0''
      else
        let neg = n < 0;
            m = (if neg then wrap64 (- n) else n);
            b = itoa_loop m [] in
        if neg then CHR ''-'' # b else b)"

definition upstreamKey :: "string \<Rightarrow> int \<Rightarrow> string" where
  "upstreamKey addr port = ToLower addr @ '':'' @ itoa port"

section \<open>Merge\<close>

text \<open>The fields of an item the merge looks at, and whether an incoming item with the
  timestamp of the current one is taken for the same.\<close>

record 'a item_ops =
  key :: "'a \<Rightarrow> string"
  doNotSync :: "'a \<Rightarrow> bool"
  updatedAt :: "'a \<Rightarrow> time"
  deleted :: "'a \<Rightarrow> bool"
  unchanged :: "'a \<Rightarrow> 'a \<Rightarrow> bool"

definition upstream_ops :: "UpstreamDefault item_ops" where
  "upstream_ops =
     \<lparr>key = (\<lambda>u. upstreamKey (u_Address u) (u_Port u)), doNotSync = u_DoNotSync,
      updatedAt = u_UpdatedAt, deleted = u_Deleted,
      unchanged = (\<lambda>cur new. u_Enabled cur = u_Enabled new \<and> u_Note cur = u_Note new)\<rparr>"

definition zone_ops :: "ForwardZone item_ops" where
  "zone_ops =
     \<lparr>key = z_ID, doNotSync = z_DoNotSync, updatedAt = z_UpdatedAt, deleted = z_Deleted,
      unchanged = (\<lambda>cur new. True)\<rparr>"

definition record_ops :: "StaticRecord item_ops" where
  "record_ops =
     \<lparr>key = r_ID, doNotSync = r_DoNotSync, updatedAt = r_UpdatedAt, deleted = r_Deleted,
      unchanged = (\<lambda>cur new. True)\<rparr>"

text \<open>The index: a key is mapped to the last position that has it.\<close>

fun build_index :: "('a \<Rightarrow> string) \<Rightarrow> nat \<Rightarrow> 'a list \<Rightarrow> (string \<Rightarrow> nat option) \<Rightarrow> (string \<Rightarrow> nat option)" where
  "build_index k i [] idx = idx"
| "build_index k i (x # xs) idx = build_index k (Suc i) xs (idx(k x := Some i))"

type_synonym 'a merge_state = "'a list \<times> (string \<Rightarrow> nat option) \<times> MergeResult"

text \<open>One iteration: the local slice, the index and the counters.\<close>

definition merge_item :: "'a item_ops \<Rightarrow> time \<Rightarrow> duration \<Rightarrow> 'a \<Rightarrow> 'a merge_state \<Rightarrow> 'a merge_state" where
  "merge_item ops now skew new st =
     (case st of (local, idx, r) \<Rightarrow>
      if doNotSync ops new then (local, idx, r\<lparr>Skipped := Suc (Skipped r)\<rparr>)
      else if skew > 0 \<and> \<not> IsZero (updatedAt ops new) \<and>
              (let dt = Sub now (updatedAt ops new) in dt < - skew \<or> dt > skew)
      then (local, idx, r\<lparr>Rejected := Suc (Rejected r)\<rparr>)
      else
        (case idx (key ops new) of
           None \<Rightarrow>
             if deleted ops new then (local, idx, r\<lparr>Skipped := Suc (Skipped r)\<rparr>)
             else (local @ [new], idx(key ops new := Some (length local)), r\<lparr>Added := Suc (Added r)\<rparr>)
         | Some i \<Rightarrow>
             let cur = local ! i in
             if deleted ops new \<and> \<not> deleted ops cur then
               (if After (updatedAt ops cur) (updatedAt ops new)
                then (local, idx, r\<lparr>Conflicts := Suc (Conflicts r)\<rparr>)
                else (local[i := new], idx, r\<lparr>Deleted := Suc (Deleted r)\<rparr>))
             else if deleted ops cur \<and> \<not> deleted ops new then
               (if After (updatedAt ops new) (updatedAt ops cur)
                then (local[i := new], idx, r\<lparr>Updated := Suc (Updated r)\<rparr>)
                else (local, idx, r\<lparr>Conflicts := Suc (Conflicts r)\<rparr>))
             else if After (updatedAt ops cur) (updatedAt ops new)
             then (local, idx, r\<lparr>Conflicts := Suc (Conflicts r)\<rparr>)
             else if updatedAt ops cur = updatedAt ops new \<and> unchanged ops cur new
             then (local, idx, r\<lparr>Skipped := Suc (Skipped r)\<rparr>)
             else (local[i := new], idx, r\<lparr>Conflicts := Suc (Conflicts r)\<rparr>)))"

fun merge_loop :: "'a item_ops \<Rightarrow> time \<Rightarrow> duration \<Rightarrow> 'a list \<Rightarrow> 'a merge_state \<Rightarrow> 'a merge_state" where
  "merge_loop ops now skew [] st = st"
| "merge_loop ops now skew (new # news) st =
     merge_loop ops now skew news (merge_item ops now skew new st)"

definition merge_items ::
  "'a item_ops \<Rightarrow> time \<Rightarrow> duration \<Rightarrow> 'a list \<Rightarrow> 'a list \<Rightarrow> MergeResult \<Rightarrow> 'a list \<times> MergeResult" where
  "merge_items ops now skew news local r =
     (case merge_loop ops now skew news (local, build_index (key ops) 0 local Map.empty, r) of
        (local', idx, r') \<Rightarrow> (local', r'))"

definition merge_upstreams ::
  "time \<Rightarrow> duration \<Rightarrow> UpstreamDefault list \<Rightarrow> UpstreamDefault list option \<Rightarrow> MergeResult \<Rightarrow>
   UpstreamDefault list option \<times> MergeResult" where
  "merge_upstreams now skew news local r =
     (case merge_items upstream_ops now skew news (elems local) r of
        (local', r') \<Rightarrow> (if local = None \<and> local' = [] then None else Some local', r'))"

definition merge_zones ::
  "time \<Rightarrow> duration \<Rightarrow> ForwardZone list \<Rightarrow> ForwardZone list \<Rightarrow> MergeResult \<Rightarrow> ForwardZone list \<times> MergeResult" where
  "merge_zones = merge_items zone_ops"

definition merge_records ::
  "time \<Rightarrow> duration \<Rightarrow> StaticRecord list \<Rightarrow> StaticRecord list \<Rightarrow> MergeResult \<Rightarrow> StaticRecord list \<times> MergeResult" where
  "merge_records = merge_items record_ops"

definition zero_result :: MergeResult where
  "zero_result = \<lparr>Added = 0, Updated = 0, Deleted = 0, Skipped = 0, Conflicts = 0, Rejected = 0\<rparr>"

definition Merge :: "time \<Rightarrow> File \<Rightarrow> Envelope \<Rightarrow> duration \<Rightarrow> File \<times> MergeResult" where
  "Merge now local env skew =
     (let r = zero_result;
          (ups, r) = merge_upstreams now skew (e_UpstreamDefaults env) (f_UpstreamDefaults local) r;
          (zs, r) = merge_zones now skew (e_ForwardZones env) (f_ForwardZones local) r;
          (rs, r) = merge_records now skew (e_StaticRecords env) (f_StaticRecords local) r;
          local = local\<lparr>f_UpstreamDefaults := ups, f_ForwardZones := zs, f_StaticRecords := rs\<rparr>;
          local = (case e_Settings env of
                     Some s \<Rightarrow>
                       if \<not> f_DoNotSyncSettings local \<and> Before (f_Updated local) (e_ServerTime env)
                       then local\<lparr>f_Settings := s\<rparr> else local
                   | None \<Rightarrow> local)
      in (local, r))"

section \<open>Summary, ordering and status\<close>

definition StringifyMerge :: "MergeResult \<Rightarrow> string" where
  "StringifyMerge r =
     (if Added r = 0 \<and> Updated r = 0 \<and> Deleted r = 0 \<and> Conflicts r = 0 \<and> Skipped r = 0 \<and> Rejected r = 0
      then ''noop''
      else
        let parts = [];
            parts = (if Added r > 0 then parts @ [''added='' @ itoa (int (Added r))] else parts);
            parts = (if Updated r > 0 then parts @ [''updated='' @ itoa (int (Updated r))] else parts);
            parts = (if Deleted r > 0 then parts @ [''deleted='' @ itoa (int (Deleted r))] else parts);
            parts = (if Conflicts r > 0 then parts @ [''conflicts='' @ itoa (int (Conflicts r))] else parts);
            parts = (if Skipped r > 0 then parts @ [''skipped='' @ itoa (int (Skipped r))] else parts);
            parts = (if Rejected r > 0 then parts @ [''rejected='' @ itoa (int (Rejected r))] else parts)
        in Join parts '' '')"

definition SortByUpdated :: "Envelope \<Rightarrow> Envelope" where
  "SortByUpdated env =
     env\<lparr>e_UpstreamDefaults := sort_key u_UpdatedAt (e_UpstreamDefaults env),
         e_ForwardZones := sort_key z_UpdatedAt (e_ForwardZones env),
         e_StaticRecords := sort_key r_UpdatedAt (e_StaticRecords env)\<rparr>"

record PeerStatusUpdate =
  LastError :: string
  LastAction :: string
  At :: time

type_synonym status_table = "string \<Rightarrow> PeerStatusUpdate option"

definition SetPeerStatus :: "string \<Rightarrow> PeerStatusUpdate \<Rightarrow> status_table \<Rightarrow> status_table" where
  "SetPeerStatus name u status = status(name := Some u)"

definition GetPeerStatus :: "string \<Rightarrow> status_table \<Rightarrow> PeerStatusUpdate" where
  "GetPeerStatus name status =
     (case status name of Some u \<Rightarrow> u | None \<Rightarrow> \<lparr>LastError = [], LastAction = [], At = 0\<rparr>)"

text \<open>The copy of the table, key by key in the order in which the range over the map yields them.\<close>

definition StatusSnapshot :: "string list \<Rightarrow> status_table \<Rightarrow> status_table" where
  "StatusSnapshot order status = fold (\<lambda>k out. out(k := status k)) order Map.empty"

lemma StatusSnapshot_copies: "dom status \<subseteq> set order \<Longrightarrow> StatusSnapshot order status = status"
proof -
  assume d: "dom status \<subseteq> set order"
  have "fold (\<lambda>k out. out(k := status k)) ks out x = (if x \<in> set ks then status x else out x)" for ks out x
    by (induction ks arbitrary: out) auto
  moreover have "x \<notin> set order \<Longrightarrow> status x = None" for x using d by (auto simp: domIff)
  ultimately show ?thesis by (auto simp: StatusSnapshot_def fun_eq_iff)
qed

end
