(* ===== verification/Merge_Facts.thy ===== *)
theory Merge_Facts
  imports Sync
begin

text \<open>
  The merge of internal/sync/sync.go against its specification.  The specification sees a slice
  of items as a finite map from keys to items and describes one incoming item by one map update;
  the loop over slices with its index of positions is proved to refine it.  The contract of an
  item kind is a locale, proved once and interpreted for upstream defaults, zones and records.
\<close>

section \<open>Specification\<close>

definition view :: "('a \<Rightarrow> string) \<Rightarrow> 'a list \<Rightarrow> string \<Rightarrow> 'a option" where
  "view k xs = map_of (rev (map (\<lambda>x. (k x, x)) xs))"

text \<open>The items a receiver takes into consideration: not private, and stamped within the
  accepted window around the local clock (or not stamped at all).\<close>

definition accepts :: "'a item_ops \<Rightarrow> time \<Rightarrow> duration \<Rightarrow> 'a \<Rightarrow> bool" where
  "accepts ops now skew x \<longleftrightarrow>
     \<not> doNotSync ops x \<and>
     (skew \<le> 0 \<or> updatedAt ops x = 0 \<or>
      (- skew \<le> Sub now (updatedAt ops x) \<and> Sub now (updatedAt ops x) \<le> skew))"

text \<open>Last writer wins; on equal timestamps a tombstone beats a live item, and otherwise a
  different item replaces the local one.\<close>

definition wins :: "'a item_ops \<Rightarrow> 'a \<Rightarrow> 'a \<Rightarrow> bool" where
  "wins ops cur new \<longleftrightarrow>
     updatedAt ops cur < updatedAt ops new \<or>
     (updatedAt ops cur = updatedAt ops new \<and>
      (deleted ops new \<and> \<not> deleted ops cur \<or>
       deleted ops new = deleted ops cur \<and> \<not> unchanged ops cur new))"

definition lww_step :: "'a item_ops \<Rightarrow> time \<Rightarrow> duration \<Rightarrow> 'a \<Rightarrow> (string \<Rightarrow> 'a option) \<Rightarrow> (string \<Rightarrow> 'a option)" where
  "lww_step ops now skew new m =
     (if \<not> accepts ops now skew new then m
      else
        (case m (key ops new) of
           None \<Rightarrow> if deleted ops new then m else m(key ops new := Some new)
         | Some cur \<Rightarrow> if wins ops cur new then m(key ops new := Some new) else m))"

definition lww_merge ::
  "'a item_ops \<Rightarrow> time \<Rightarrow> duration \<Rightarrow> 'a list \<Rightarrow> (string \<Rightarrow> 'a option) \<Rightarrow> (string \<Rightarrow> 'a option)" where
  "lww_merge ops now skew news m = fold (lww_step ops now skew) news m"

text \<open>The number of items a result accounts for.\<close>

definition tally :: "MergeResult \<Rightarrow> nat" where
  "tally r = Added r + Updated r + Deleted r + Skipped r + Conflicts r + Rejected r"

section \<open>The index of positions\<close>

definition index_ok :: "('a \<Rightarrow> string) \<Rightarrow> 'a list \<Rightarrow> (string \<Rightarrow> nat option) \<Rightarrow> bool" where
  "index_ok k xs idx \<longleftrightarrow>
     (\<forall>s. (\<forall>i. idx s = Some i \<longrightarrow>
             i < length xs \<and> k (xs ! i) = s \<and> (\<forall>j. i < j \<longrightarrow> j < length xs \<longrightarrow> k (xs ! j) \<noteq> s)) \<and>
          (idx s = None \<longrightarrow> (\<forall>x \<in> set xs. k x \<noteq> s)))"

lemma build_index_snoc:
  "build_index k i (xs @ [x]) idx = (build_index k i xs idx)(k x := Some (i + length xs))"
  by (induction xs arbitrary: i idx) auto

lemma index_ok_snoc:
  "index_ok k xs idx \<Longrightarrow> index_ok k (xs @ [x]) (idx(k x := Some (length xs)))"
  unfolding index_ok_def by (auto simp: nth_append less_Suc_eq)

lemma build_index_ok: "index_ok k xs (build_index k 0 xs Map.empty)"
proof (induction xs rule: rev_induct)
  case Nil
  then show ?case by (simp add: index_ok_def)
next
  case (snoc x xs)
  then show ?case using index_ok_snoc [OF snoc.IH, of x] by (simp only: build_index_snoc add_0)
qed

lemma index_okD:
  assumes "index_ok k xs idx"
  shows "idx s = Some i \<Longrightarrow> i < length xs" and "idx s = Some i \<Longrightarrow> k (xs ! i) = s"
    and "idx s = Some i \<Longrightarrow> i < j \<Longrightarrow> j < length xs \<Longrightarrow> k (xs ! j) \<noteq> s"
    and "idx s = None \<Longrightarrow> x \<in> set xs \<Longrightarrow> k x \<noteq> s"
  using assms unfolding index_ok_def by blast+

lemma index_okI:
  assumes "\<And>s i. idx s = Some i \<Longrightarrow> i < length xs \<and> k (xs ! i) = s"
    and "\<And>s i j. idx s = Some i \<Longrightarrow> i < j \<Longrightarrow> j < length xs \<Longrightarrow> k (xs ! j) \<noteq> s"
    and "\<And>s x. idx s = None \<Longrightarrow> x \<in> set xs \<Longrightarrow> k x \<noteq> s"
  shows "index_ok k xs idx"
  using assms unfolding index_ok_def by blast

lemma index_ok_update:
  assumes ok: "index_ok k xs idx" and i: "idx (k x) = Some i"
  shows "index_ok k (xs[i := x]) idx"
proof (rule index_okI)
  fix s j
  assume j: "idx s = Some j"
  show "j < length (xs[i := x]) \<and> k (xs[i := x] ! j) = s"
    using index_okD(1,2) [OF ok j] index_okD(2) [OF ok i] i j by (cases "i = j") auto
  fix j'
  assume "j < j'" and "j' < length (xs[i := x])"
  then show "k (xs[i := x] ! j') \<noteq> s"
    using index_okD(3) [OF ok j, of j'] i j by (cases "i = j'") auto
next
  fix s y
  assume none: "idx s = None" and y: "y \<in> set (xs[i := x])"
  have "y = x \<or> y \<in> set xs" using y set_update_subset_insert [of xs i x] by auto
  then show "k y \<noteq> s" using index_okD(4) [OF ok none] i none by auto
qed

lemma view_Nil [simp]: "view k [] = Map.empty"
  by (simp add: view_def)

lemma view_snoc [simp]: "view k (xs @ [x]) = (view k xs)(k x := Some x)"
  by (simp add: view_def fun_eq_iff)

lemma view_None_iff: "view k xs s = None \<longleftrightarrow> s \<notin> k ` set xs"
  by (simp add: view_def map_of_eq_None_iff image_image)

lemma view_SomeD: "view k xs s = Some x \<Longrightarrow> x \<in> set xs \<and> k x = s"
  by (auto simp: view_def dest!: map_of_SomeD)

lemma view_last_position:
  "i < length xs \<Longrightarrow> k (xs ! i) = s \<Longrightarrow> (\<And>j. i < j \<Longrightarrow> j < length xs \<Longrightarrow> k (xs ! j) \<noteq> s) \<Longrightarrow>
   view k xs s = Some (xs ! i)"
proof (induction xs rule: rev_induct)
  case (snoc x xs)
  show ?case
  proof (cases "i = length xs")
    case True
    then show ?thesis using snoc.prems by simp
  next
    case False
    then have i: "i < length xs" using snoc.prems(1) by simp
    have "k x \<noteq> s" using snoc.prems(3) [of "length xs"] i by simp
    moreover have "view k xs s = Some (xs ! i)"
    proof (rule snoc.IH [OF i])
      show "k (xs ! i) = s" using snoc.prems(2) i by (simp add: nth_append)
      show "\<And>j. i < j \<Longrightarrow> j < length xs \<Longrightarrow> k (xs ! j) \<noteq> s"
        using snoc.prems(3) by (metis length_append_singleton less_SucI nth_append)
    qed
    ultimately show ?thesis using i by (simp add: nth_append)
  qed
qed simp

lemma view_index: "index_ok k xs idx \<Longrightarrow> view k xs s = map_option ((!) xs) (idx s)"
proof (cases "idx s")
  case None
  assume "index_ok k xs idx"
  with None have "s \<notin> k ` set xs" by (auto simp: index_ok_def)
  with None show ?thesis by (simp add: view_None_iff)
next
  case (Some i)
  assume "index_ok k xs idx"
  with Some show ?thesis unfolding index_ok_def by (auto intro!: view_last_position)
qed

lemma view_update:
  assumes "index_ok k xs idx" and "idx (k x) = Some i"
  shows "view k (xs[i := x]) = (view k xs)(k x := Some x)"
proof
  fix s
  have ok: "index_ok k (xs[i := x]) idx" using assms by (rule index_ok_update)
  have i: "i < length xs" "k (xs ! i) = k x" using assms unfolding index_ok_def by auto
  show "view k (xs[i := x]) s = ((view k xs)(k x := Some x)) s"
  proof (cases "s = k x")
    case True
    then show ?thesis using i assms(2) by (simp add: view_index [OF ok])
  next
    case False
    have "idx s \<noteq> Some i" using False i assms(1) unfolding index_ok_def by auto
    then show ?thesis using False
      by (cases "idx s") (auto simp: view_index [OF ok] view_index [OF assms(1)] nth_list_update)
  qed
qed

section \<open>The loop refines the specification\<close>

definition state_ok :: "'a item_ops \<Rightarrow> 'a merge_state \<Rightarrow> bool" where
  "state_ok ops st = (case st of (xs, idx, r) \<Rightarrow> index_ok (key ops) xs idx)"

definition state_view :: "'a item_ops \<Rightarrow> 'a merge_state \<Rightarrow> string \<Rightarrow> 'a option" where
  "state_view ops st = (case st of (xs, idx, r) \<Rightarrow> view (key ops) xs)"

lemma accepts_code:
  "accepts ops now skew x \<longleftrightarrow>
     \<not> doNotSync ops x \<and>
     \<not> (skew > 0 \<and> \<not> IsZero (updatedAt ops x) \<and>
        (let dt = Sub now (updatedAt ops x) in dt < - skew \<or> dt > skew))"
  by (auto simp: accepts_def IsZero_def Let_def)

lemma merge_item_refines:
  assumes "state_ok ops st"
  shows "state_ok ops (merge_item ops now skew new st) \<and>
         state_view ops (merge_item ops now skew new st) = lww_step ops now skew new (state_view ops st)"
proof -
  obtain xs idx r where st: "st = (xs, idx, r)" by (cases st) auto
  from assms st have ok: "index_ok (key ops) xs idx" by (simp add: state_ok_def)
  show ?thesis
  proof (cases "accepts ops now skew new")
    case False
    then show ?thesis using ok
      by (auto simp: st merge_item_def state_ok_def state_view_def lww_step_def accepts_code)
  next
    case acc: True
    then have acc': "\<not> doNotSync ops new"
      "\<not> (skew > 0 \<and> \<not> IsZero (updatedAt ops new) \<and>
        (let dt = Sub now (updatedAt ops new) in dt < - skew \<or> dt > skew))"
      by (simp_all add: accepts_code)
    show ?thesis
    proof (cases "idx (key ops new)")
      case None
      then have "view (key ops) xs (key ops new) = None" by (simp add: view_index [OF ok])
      then show ?thesis using ok acc acc' None
        by (auto simp: st merge_item_def state_ok_def state_view_def lww_step_def index_ok_snoc)
    next
      case (Some i)
      have up: "index_ok (key ops) (xs[i := new]) idx"
        "view (key ops) (xs[i := new]) = (view (key ops) xs)(key ops new := Some new)"
        using index_ok_update [OF ok Some] view_update [OF ok Some] by simp_all
      have "view (key ops) xs (key ops new) = Some (xs ! i)" using Some by (simp add: view_index [OF ok])
      then show ?thesis using ok acc acc' Some up
        by (auto simp: st merge_item_def state_ok_def state_view_def lww_step_def wins_def
            After_def Let_def)
    qed
  qed
qed

lemma merge_loop_refines:
  "state_ok ops st \<Longrightarrow>
   state_view ops (merge_loop ops now skew news st) = lww_merge ops now skew news (state_view ops st)"
  by (induction news arbitrary: st) (simp_all add: lww_merge_def merge_item_refines)

lemma merge_items_view:
  "view (key ops) (fst (merge_items ops now skew news local r)) =
   lww_merge ops now skew news (view (key ops) local)"
proof -
  let ?st = "(local, build_index (key ops) 0 local Map.empty, r)"
  have "state_ok ops ?st" by (simp add: state_ok_def build_index_ok)
  from merge_loop_refines [OF this, of now skew news] show ?thesis
    by (simp add: merge_items_def state_view_def split: prod.splits)
qed

subsection \<open>Accounting\<close>

lemma merge_item_total:
  "tally (snd (snd (merge_item ops now skew new st))) = Suc (tally (snd (snd st)))"
  by (cases st) (auto simp: merge_item_def tally_def Let_def split: option.split)

lemma merge_loop_total:
  "tally (snd (snd (merge_loop ops now skew news st))) = length news + tally (snd (snd st))"
  by (induction news arbitrary: st) (simp_all add: merge_item_total)

lemma merge_items_total:
  "tally (snd (merge_items ops now skew news local r)) = length news + tally r"
  using merge_loop_total [of ops now skew news "(local, build_index (key ops) 0 local Map.empty, r)"]
  by (auto simp: merge_items_def split: prod.splits)

section \<open>Properties of the specification\<close>

lemma lww_merge_Nil [simp]: "lww_merge ops now skew [] m = m"
  by (simp add: lww_merge_def)

lemma lww_merge_Cons [simp]:
  "lww_merge ops now skew (x # xs) m = lww_merge ops now skew xs (lww_step ops now skew x m)"
  by (simp add: lww_merge_def)

text \<open>Nothing is invented and no key is lost.\<close>

lemma lww_step_origin:
  "lww_step ops now skew x m s = Some y \<Longrightarrow> m s = Some y \<or> (y = x \<and> key ops x = s \<and> accepts ops now skew x)"
  by (auto simp: lww_step_def split: if_splits option.splits)

lemma lww_merge_origin:
  "lww_merge ops now skew xs m s = Some y \<Longrightarrow>
   m s = Some y \<or> (y \<in> set xs \<and> key ops y = s \<and> accepts ops now skew y)"
  by (induction xs arbitrary: m) (auto dest: lww_step_origin)

lemma lww_step_at_mono:
  "m s = Some x \<Longrightarrow> \<exists>y. lww_step ops now skew n m s = Some y \<and> updatedAt ops x \<le> updatedAt ops y"
  by (auto simp: lww_step_def wins_def split: option.split)

lemma lww_merge_at_mono:
  "m s = Some x \<Longrightarrow> \<exists>y. lww_merge ops now skew xs m s = Some y \<and> updatedAt ops x \<le> updatedAt ops y"
proof (induction xs arbitrary: m x)
  case (Cons n xs)
  obtain y where y: "lww_step ops now skew n m s = Some y" "updatedAt ops x \<le> updatedAt ops y"
    using lww_step_at_mono [of m s x ops now skew n] Cons.prems by blast
  from Cons.IH [of "lww_step ops now skew n m" y] y show ?case by (auto intro: order_trans)
qed simp

text \<open>An accepted item that finds its key is never newer than what the merge leaves there.\<close>

lemma lww_step_newest:
  "accepts ops now skew n \<Longrightarrow> m (key ops n) \<noteq> None \<or> \<not> deleted ops n \<Longrightarrow>
   \<exists>y. lww_step ops now skew n m (key ops n) = Some y \<and> updatedAt ops n \<le> updatedAt ops y"
  by (auto simp: lww_step_def wins_def split: option.split)

lemma lww_merge_newest:
  assumes "n \<in> set xs" and "accepts ops now skew n" and "m (key ops n) \<noteq> None \<or> \<not> deleted ops n"
  shows "\<exists>y. lww_merge ops now skew xs m (key ops n) = Some y \<and> updatedAt ops n \<le> updatedAt ops y"
  using assms
proof (induction xs arbitrary: m)
  case (Cons x xs)
  show ?case
  proof (cases "n = x")
    case True
    obtain y where "lww_step ops now skew x m (key ops x) = Some y" "updatedAt ops x \<le> updatedAt ops y"
      using lww_step_newest [of ops now skew x m] Cons.prems True by blast
    then show ?thesis using True lww_merge_at_mono by (fastforce intro: order_trans)
  next
    case False
    have "m (key ops n) \<noteq> None \<Longrightarrow> lww_step ops now skew x m (key ops n) \<noteq> None"
      using lww_step_at_mono [of m "key ops n"] by fastforce
    then show ?thesis using Cons False by auto
  qed
qed simp

text \<open>Items with distinct keys do not interact: the outcome at a key is that of the one item
  that has it.\<close>

lemma lww_step_other: "key ops x \<noteq> s \<Longrightarrow> lww_step ops now skew x m s = m s"
  by (auto simp: lww_step_def split: option.split)

lemma lww_step_local: "m s = m' s \<Longrightarrow> lww_step ops now skew x m s = lww_step ops now skew x m' s"
  by (cases "key ops x = s") (auto simp: lww_step_def lww_step_other split: option.split)

lemma lww_merge_absent: "s \<notin> key ops ` set xs \<Longrightarrow> lww_merge ops now skew xs m s = m s"
  by (induction xs arbitrary: m) (auto simp: lww_step_other)

lemma lww_merge_distinct:
  assumes "distinct (map (key ops) xs)" and "x \<in> set xs" and "key ops x = s"
  shows "lww_merge ops now skew xs m s = lww_step ops now skew x m s"
  using assms
proof (induction xs arbitrary: m)
  case (Cons y ys)
  show ?case
  proof (cases "x = y")
    case True
    with Cons.prems have "s \<notin> key ops ` set ys" by auto
    then show ?thesis using True by (simp add: lww_merge_absent)
  next
    case False
    with Cons.prems have "x \<in> set ys" "key ops y \<noteq> s" by (auto simp: image_iff)
    then have "lww_merge ops now skew (y # ys) m s = lww_step ops now skew x (lww_step ops now skew y m) s"
      using Cons by simp
    also have "\<dots> = lww_step ops now skew x m s"
      using \<open>key ops y \<noteq> s\<close> by (intro lww_step_local) (simp add: lww_step_other)
    finally show ?thesis .
  qed
qed simp

lemma view_distinct:
  assumes "distinct (map k xs)"
  shows "view k xs s = Some x \<longleftrightarrow> x \<in> set xs \<and> k x = s"
proof
  assume "view k xs s = Some x"
  then show "x \<in> set xs \<and> k x = s" by (rule view_SomeD)
next
  note d = assms
  assume x: "x \<in> set xs \<and> k x = s"
  then obtain y where y: "view k xs s = Some y" by (cases "view k xs s") (auto simp: view_None_iff)
  then have "y \<in> set xs \<and> k y = s" by (rule view_SomeD)
  with d x have "y = x" by (auto simp: distinct_map dest: inj_onD)
  with y show "view k xs s = Some x" by simp
qed

section \<open>The contract of an item kind\<close>

text \<open>Re-delivering an item changes nothing.\<close>

locale lww_kind =
  fixes ops :: "'a item_ops"
  assumes unchanged_refl: "unchanged ops x x"
begin

lemma not_wins_refl: "\<not> wins ops x x"
  by (simp add: wins_def unchanged_refl)

lemma lww_step_idem: "lww_step ops now skew x (lww_step ops now skew x m) = lww_step ops now skew x m"
  by (auto simp: lww_step_def not_wins_refl split: option.split)

lemma lww_merge_idem:
  assumes d: "distinct (map (key ops) xs)"
  shows "lww_merge ops now skew xs (lww_merge ops now skew xs m) = lww_merge ops now skew xs m"
proof
  fix s
  let ?m = "lww_merge ops now skew xs m"
  show "lww_merge ops now skew xs ?m s = ?m s"
  proof (cases "s \<in> key ops ` set xs")
    case False
    then show ?thesis by (simp add: lww_merge_absent)
  next
    case True
    then obtain x where x: "x \<in> set xs" "key ops x = s" by auto
    note one = lww_merge_distinct [OF d x, of now skew]
    have "lww_merge ops now skew xs ?m s = lww_step ops now skew x ?m s" by (rule one)
    also have "\<dots> = lww_step ops now skew x (lww_step ops now skew x m) s"
      by (rule lww_step_local) (rule one)
    also have "\<dots> = ?m s" by (simp add: lww_step_idem one)
    finally show ?thesis .
  qed
qed

end

text \<open>Where ties are kept local, the winner is decided by timestamp and tombstone alone, and
  two replicas that exchange what they have agree.\<close>

locale lww_total = lww_kind +
  assumes unchanged_all: "unchanged ops x y"
begin

lemma wins_iff:
  "wins ops cur new \<longleftrightarrow>
     updatedAt ops cur < updatedAt ops new \<or>
     (updatedAt ops cur = updatedAt ops new \<and> deleted ops new \<and> \<not> deleted ops cur)"
  by (auto simp: wins_def unchanged_all)

lemma wins_asym: "wins ops a b \<Longrightarrow> \<not> wins ops b a"
  by (auto simp: wins_iff)

lemma no_winner: "\<not> wins ops a b \<Longrightarrow> \<not> wins ops b a \<Longrightarrow>
  updatedAt ops a = updatedAt ops b \<and> deleted ops a = deleted ops b"
  by (auto simp: wins_iff)

lemma exchange_agree:
  assumes da: "distinct (map (key ops) as)" and db: "distinct (map (key ops) bs)"
    and acc_a: "\<And>x. x \<in> set as \<Longrightarrow> accepts ops nowb skewb x"
    and acc_b: "\<And>x. x \<in> set bs \<Longrightarrow> accepts ops nowa skewa x"
    and versions: "\<And>x y. x \<in> set as \<Longrightarrow> y \<in> set bs \<Longrightarrow> key ops x = key ops y \<Longrightarrow>
      updatedAt ops x = updatedAt ops y \<Longrightarrow> deleted ops x = deleted ops y \<Longrightarrow> x = y"
    and live_a: "\<And>x. x \<in> set as \<Longrightarrow> deleted ops x \<Longrightarrow> key ops x \<in> key ops ` set bs"
    and live_b: "\<And>x. x \<in> set bs \<Longrightarrow> deleted ops x \<Longrightarrow> key ops x \<in> key ops ` set as"
  shows "lww_merge ops nowa skewa bs (view (key ops) as) = lww_merge ops nowb skewb as (view (key ops) bs)"
proof
  fix s
  show "lww_merge ops nowa skewa bs (view (key ops) as) s = lww_merge ops nowb skewb as (view (key ops) bs) s"
  proof (cases "view (key ops) as s")
    case None
    then have na: "s \<notin> key ops ` set as" by (simp add: view_None_iff)
    show ?thesis
    proof (cases "view (key ops) bs s")
      case (Some b)
      then have b: "b \<in> set bs" "key ops b = s" using db by (auto simp: view_distinct)
      with na live_b have "\<not> deleted ops b" by auto
      then show ?thesis
        using None Some b acc_b
        by (simp add: lww_merge_distinct [OF db b] lww_merge_absent [OF na] lww_step_def)
    qed (use None na in \<open>auto simp: lww_merge_absent view_None_iff [THEN iffD1]\<close>)
  next
    case (Some a)
    then have a: "a \<in> set as" "key ops a = s" using da by (auto simp: view_distinct)
    show ?thesis
    proof (cases "view (key ops) bs s")
      case None
      then have nb: "s \<notin> key ops ` set bs" by (simp add: view_None_iff)
      with a live_a have "\<not> deleted ops a" by auto
      then show ?thesis
        using None Some a acc_a
        by (simp add: lww_merge_distinct [OF da a] lww_merge_absent [OF nb] lww_step_def)
    next
      case (Some b)
      then have b: "b \<in> set bs" "key ops b = s" using db by (auto simp: view_distinct)
      have "lww_merge ops nowa skewa bs (view (key ops) as) s = Some (if wins ops a b then b else a)"
        using \<open>view (key ops) as s = Some a\<close> b acc_b
        by (simp add: lww_merge_distinct [OF db b] lww_step_def)
      moreover have "lww_merge ops nowb skewb as (view (key ops) bs) s = Some (if wins ops b a then a else b)"
        using Some a acc_a by (simp add: lww_merge_distinct [OF da a] lww_step_def)
      moreover have "\<not> wins ops a b \<Longrightarrow> \<not> wins ops b a \<Longrightarrow> a = b"
        using no_winner [of a b] versions [of a b] a b by simp
      ultimately show ?thesis using wins_asym by auto
    qed
  qed
qed

end

interpretation upstream_kind: lww_kind upstream_ops
  by unfold_locales (simp add: upstream_ops_def)

interpretation zone_kind: lww_total zone_ops
  by unfold_locales (simp_all add: zone_ops_def)

interpretation record_kind: lww_total record_ops
  by unfold_locales (simp_all add: record_ops_def)

end
