(* ===== verification/Exchange.thy ===== *)
theory Exchange
  imports Merge_Facts "HOL-Library.Multiset"
begin

text \<open>
  What the peer exchange promises as a whole: the merge of an envelope into a file, the export
  of a file to a peer, and the keys and summaries they use.  The lemmas lift the facts about one
  slice of items to the file; the properties are stated over Merge, FilterForExport,
  BuildManifest, upstreamKey and StringifyMerge.
\<close>

section \<open>Slices after a merge\<close>

lemma merge_items_fst:
  "fst (merge_items ops now skew news local r) =
   fst (merge_loop ops now skew news (local, build_index (key ops) 0 local Map.empty, r))"
  by (simp add: merge_items_def case_prod_beta)

lemma merge_item_keys:
  assumes "state_ok ops st" and "distinct (map (key ops) (fst st))"
  shows "distinct (map (key ops) (fst (merge_item ops now skew new st)))"
proof -
  obtain xs idx r where st: "st = (xs, idx, r)" by (cases st) auto
  have ok: "index_ok (key ops) xs idx" using assms(1) st by (simp add: state_ok_def)
  show ?thesis
  proof (cases "idx (key ops new)")
    case None
    then have "key ops new \<notin> key ops ` set xs" using index_okD(4) [OF ok None] by (metis imageE)
    then show ?thesis using assms(2) None by (auto simp: st merge_item_def Let_def)
  next
    case (Some i)
    have same: "key ops (xs ! i) = key ops new" "i < length xs" using index_okD(1,2) [OF ok Some] by auto
    then have "map (key ops) (xs[i := new]) = map (key ops) xs"
      by (simp add: map_update list_update_same_conv)
    then have "distinct (map (key ops) (xs[i := new]))" using assms(2) by (simp add: st)
    then show ?thesis using assms(2) Some by (auto simp: st merge_item_def Let_def)
  qed
qed

lemma merge_loop_keys:
  "state_ok ops st \<Longrightarrow> distinct (map (key ops) (fst st)) \<Longrightarrow>
   distinct (map (key ops) (fst (merge_loop ops now skew news st)))"
  by (induction news arbitrary: st) (simp_all add: merge_item_keys merge_item_refines)

lemma merge_items_distinct:
  assumes "distinct (map (key ops) local)"
  shows "distinct (map (key ops) (fst (merge_items ops now skew news local r)))"
proof -
  let ?st = "(local, build_index (key ops) 0 local Map.empty, r)"
  have "state_ok ops ?st" by (simp add: state_ok_def build_index_ok)
  from merge_loop_keys [OF this, of now skew news] assms show ?thesis by (simp add: merge_items_fst)
qed

lemma merge_item_origin:
  "set (fst (merge_item ops now skew new st)) \<subseteq> set (fst st) \<union> {x. x = new \<and> accepts ops now skew x}"
proof -
  obtain xs idx r where st: "st = (xs, idx, r)" by (cases st) auto
  have up: "set (xs[i := new]) \<subseteq> insert new (set xs)" for i by (rule set_update_subset_insert)
  show ?thesis
  proof (cases "accepts ops now skew new")
    case True
    then show ?thesis using up by (auto simp: st merge_item_def Let_def split: option.splits)
  next
    case False
    then show ?thesis by (auto simp: st merge_item_def accepts_code Let_def)
  qed
qed

lemma merge_loop_origin:
  "set (fst (merge_loop ops now skew news st)) \<subseteq>
   set (fst st) \<union> {x \<in> set news. accepts ops now skew x}"
proof (induction news arbitrary: st)
  case (Cons new news)
  show ?case using Cons.IH [of "merge_item ops now skew new st"] merge_item_origin [of ops now skew new st]
    by auto
qed simp

lemma merge_items_origin:
  "set (fst (merge_items ops now skew news local r)) \<subseteq>
   set local \<union> {x \<in> set news. accepts ops now skew x}"
  using merge_loop_origin [of ops now skew news "(local, build_index (key ops) 0 local Map.empty, r)"]
  by (simp add: merge_items_fst)

lemma merge_loop_rejects:
  "(\<And>x. x \<in> set news \<Longrightarrow> \<not> accepts ops now skew x) \<Longrightarrow> fst (merge_loop ops now skew news st) = fst st"
proof (induction news arbitrary: st)
  case (Cons new news)
  have "fst (merge_item ops now skew new st) = fst st"
    using Cons.prems [of new] by (cases st) (auto simp: merge_item_def accepts_code)
  then show ?case using Cons by simp
qed simp

text \<open>The counting and copying loops of the export.\<close>

lemma copy_items_filter: "copy_items p xs = filter p xs"
  by (induction xs) auto

lemma count_items_filter: "count_items p xs = length (filter p xs)"
  by (induction xs) auto

text \<open>Which items a peer may see, as the README puts it.\<close>

definition shared_with :: "string \<Rightarrow> bool \<Rightarrow> string list \<Rightarrow> bool" where
  "shared_with n private peers \<longleftrightarrow>
     \<not> private \<and> (peers = [] \<or> ToLower (TrimSpace n) \<in> (ToLower \<circ> TrimSpace) ` set peers)"

lemma SyncsToPeer_shared: "SyncsToPeer private peers n = shared_with n private peers"
  by (auto simp: SyncsToPeer_def peer_listed_iff shared_with_def image_iff) (metis)

text \<open>The fields of a merged file.\<close>

lemma Merge_fields:
  "elems (f_UpstreamDefaults (fst (Merge now f env skew))) =
     fst (merge_items upstream_ops now skew (e_UpstreamDefaults env) (elems (f_UpstreamDefaults f)) zero_result)"
  "\<exists>r. f_ForwardZones (fst (Merge now f env skew)) =
     fst (merge_items zone_ops now skew (e_ForwardZones env) (f_ForwardZones f) r)"
  "\<exists>r. f_StaticRecords (fst (Merge now f env skew)) =
     fst (merge_items record_ops now skew (e_StaticRecords env) (f_StaticRecords f) r)"
proof -
  let ?c = "\<lambda>l::File. case e_Settings env of
      Some s \<Rightarrow> if \<not> f_DoNotSyncSettings l \<and> Before (f_Updated l) (e_ServerTime env) then l\<lparr>f_Settings := s\<rparr> else l
    | None \<Rightarrow> l"
  have c: "f_UpstreamDefaults (?c l) = f_UpstreamDefaults l" "f_ForwardZones (?c l) = f_ForwardZones l"
    "f_StaticRecords (?c l) = f_StaticRecords l" for l
    by (simp_all split: option.split)
  show "elems (f_UpstreamDefaults (fst (Merge now f env skew))) =
     fst (merge_items upstream_ops now skew (e_UpstreamDefaults env) (elems (f_UpstreamDefaults f)) zero_result)"
    by (auto simp: Merge_def merge_upstreams_def Let_def c case_prod_beta)
  show "\<exists>r. f_ForwardZones (fst (Merge now f env skew)) =
     fst (merge_items zone_ops now skew (e_ForwardZones env) (f_ForwardZones f) r)"
    by (simp add: Merge_def merge_zones_def Let_def c case_prod_beta) blast
  show "\<exists>r. f_StaticRecords (fst (Merge now f env skew)) =
     fst (merge_items record_ops now skew (e_StaticRecords env) (f_StaticRecords f) r)"
    by (simp add: Merge_def merge_records_def Let_def c case_prod_beta) blast
qed

text \<open>The three slices of a file, each as a map from keys to items.\<close>

abbreviation upstream_view :: "File \<Rightarrow> string \<Rightarrow> UpstreamDefault option" where
  "upstream_view f \<equiv> view (key upstream_ops) (elems (f_UpstreamDefaults f))"

abbreviation zone_view :: "File \<Rightarrow> string \<Rightarrow> ForwardZone option" where
  "zone_view f \<equiv> view (key zone_ops) (f_ForwardZones f)"

abbreviation record_view :: "File \<Rightarrow> string \<Rightarrow> StaticRecord option" where
  "record_view f \<equiv> view (key record_ops) (f_StaticRecords f)"

lemma Merge_views:
  "upstream_view (fst (Merge now f env skew)) =
     lww_merge upstream_ops now skew (e_UpstreamDefaults env) (upstream_view f)"
  "zone_view (fst (Merge now f env skew)) = lww_merge zone_ops now skew (e_ForwardZones env) (zone_view f)"
  "record_view (fst (Merge now f env skew)) =
     lww_merge record_ops now skew (e_StaticRecords env) (record_view f)"
  using Merge_fields [of now f env skew] by (auto simp: merge_items_view)

lemma lww_merge_order:
  assumes "distinct (map (key ops) xs)" and "mset ys = mset xs"
  shows "lww_merge ops now skew ys m = lww_merge ops now skew xs m"
proof
  fix s
  have d: "distinct (map (key ops) ys)" using assms mset_eq_imp_distinct_iff [of "map (key ops) ys" "map (key ops) xs"] by simp
  have set: "set ys = set xs" using assms(2) by (rule mset_eq_setD)
  show "lww_merge ops now skew ys m s = lww_merge ops now skew xs m s"
  proof (cases "s \<in> key ops ` set xs")
    case True
    then obtain x where x: "x \<in> set xs" "key ops x = s" by auto
    then show ?thesis using lww_merge_distinct [OF assms(1) x] lww_merge_distinct [OF d, of x s] set by simp
  next
    case False
    then show ?thesis using set by (simp add: lww_merge_absent)
  qed
qed

text \<open>Unique identifiers stay unique.\<close>

lemma Merge_distinct_ids:
  "distinct (map z_ID (f_ForwardZones f)) \<Longrightarrow> distinct (map z_ID (f_ForwardZones (fst (Merge now f env skew))))"
  "distinct (map r_ID (f_StaticRecords f)) \<Longrightarrow> distinct (map r_ID (f_StaticRecords (fst (Merge now f env skew))))"
  using Merge_fields(2,3) [of now f env skew] merge_items_distinct [of zone_ops "f_ForwardZones f"]
    merge_items_distinct [of record_ops "f_StaticRecords f"]
  by (auto simp: zone_ops_def record_ops_def)

section \<open>Numbers and keys\<close>

lemma itoa_loop_digits: "0 < n \<Longrightarrow> itoa_loop n b = nat_digits (nat n) @ b"
proof (induction n b rule: itoa_loop.induct)
  case (1 n b)
  have m: "nat (n mod 10) = nat n mod 10" "nat (n div 10) = nat n div 10"
    using 1(2) by (simp_all add: nat_mod_distrib nat_div_distrib)
  show ?case
  proof (cases "n < 10")
    case True
    then have "n div 10 = 0" using 1(2) by simp
    then show ?thesis using 1(2) True m by (simp add: itoa_loop.simps nat_digits.simps)
  next
    case False
    then have "itoa_loop (n div 10) (digit_char (nat (n mod 10)) # b) =
        nat_digits (nat n div 10) @ digit_char (nat n mod 10) # b"
      using 1 m by simp
    moreover have "nat_digits (nat n) = nat_digits (nat n div 10) @ [digit_char (nat n mod 10)]"
      using False by (simp add: nat_digits.simps [of "nat n"])
    ultimately show ?thesis using 1(2) by (simp add: itoa_loop.simps [of n])
  qed
qed

lemma itoa_fmt_d:
  assumes "min_int64 < n" and "n \<le> max_int64"
  shows "itoa n = fmt_d n"
proof -
  have "wrap64 (- n) = - n" using assms by (intro wrap64_id) auto
  then show ?thesis
    by (auto simp: itoa_def fmt_d_def Let_def itoa_loop_digits nat_digits.simps [of 0])
qed

lemma itoa_min: "itoa min_int64 = ''-''"
proof -
  have "wrap64 9223372036854775808 = - 9223372036854775808" by (simp add: wrap64_def)
  then show ?thesis by (simp add: itoa_def itoa_loop.simps)
qed

lemma nat_digits_length: "n < 10 ^ Suc k \<Longrightarrow> length (nat_digits n) \<le> Suc k"
proof (induction k arbitrary: n)
  case (Suc k)
  have "n div 10 < 10 ^ Suc k" using Suc.prems by (simp add: less_mult_imp_div_less)
  then show ?case using Suc.IH [of "n div 10"] by (simp add: nat_digits.simps [of n])
qed (simp add: nat_digits.simps)

lemma fmt_d_no_colon: "CHR '':'' \<notin> set (fmt_d i)"
  using fmt_d_chars [of "CHR '':''" i] by (auto simp: isDigit_def)

lemma colon_split:
  assumes "a @ CHR '':'' # x = b @ CHR '':'' # y" and "CHR '':'' \<notin> set x" and "CHR '':'' \<notin> set y"
  shows "a = b \<and> x = y"
proof -
  have "Some (length a) = Some (length b)"
    using LastIndexByte_append [OF assms(2), of a] LastIndexByte_append [OF assms(3), of b] assms(1) by simp
  then show ?thesis using assms(1) by simp
qed

section \<open>Concrete inputs\<close>

definition zone_envelope :: "ForwardZone list \<Rightarrow> Envelope" where
  "zone_envelope zs =
     \<lparr>e_InstanceID = ''b'', e_FromSeq = 0, e_ServerTime = 9, e_UpstreamDefaults = [],
      e_ForwardZones = zs, e_StaticRecords = [], e_Settings = None\<rparr>"

lemmas merge_eval = zone_ops_def accepts_def wins_def Sub_def corp_zone_def sample_file_def zone_envelope_def

section \<open>Properties\<close>


text \<open>
  The counters account for the envelope: every incoming item is counted exactly once, as
  added, updated, deleted, skipped, in conflict or rejected.
\<close>

lemma merge_accounts_every_item:
  "tally (snd (Merge now f env skew)) =
     length (e_UpstreamDefaults env) + length (e_ForwardZones env) + length (e_StaticRecords env)"
proof -
  have "tally zero_result = 0" by (simp add: tally_def zero_result_def)
  then show ?thesis
    by (simp add: Merge_def merge_upstreams_def merge_zones_def merge_records_def Let_def
        case_prod_beta merge_items_total)
qed

text \<open>
  Last writer wins: after the merge, the zone stored under the key of an incoming zone that
  is accepted (and is not a tombstone for an unknown zone) is at least as new as the incoming one,
  and no local zone is ever replaced by an older one.
\<close>

lemma merge_newest_wins:
  assumes "z \<in> set (e_ForwardZones env)" and "accepts zone_ops now skew z"
    and "z_ID z \<in> z_ID ` set (f_ForwardZones f) \<or> \<not> z_Deleted z"
  shows "(\<exists>y. zone_view (fst (Merge now f env skew)) (z_ID z) = Some y \<and> z_UpdatedAt z \<le> z_UpdatedAt y) \<and>
    (\<forall>k x. zone_view f k = Some x \<longrightarrow>
      (\<exists>y. zone_view (fst (Merge now f env skew)) k = Some y \<and> z_UpdatedAt x \<le> z_UpdatedAt y))"
proof -
  have "zone_view f (key zone_ops z) \<noteq> None \<or> \<not> deleted zone_ops z"
    using assms(3) view_None_iff [of "key zone_ops" "f_ForwardZones f"] by (auto simp: zone_ops_def)
  from lww_merge_newest [where m = "zone_view f", OF assms(1,2) this]
  have "\<exists>y. zone_view (fst (Merge now f env skew)) (key zone_ops z) = Some y \<and>
      updatedAt zone_ops z \<le> updatedAt zone_ops y"
    by (simp only: Merge_views)
  moreover have "\<exists>y. zone_view (fst (Merge now f env skew)) k = Some y \<and> updatedAt zone_ops x \<le> updatedAt zone_ops y"
    if "zone_view f k = Some x" for k x
    using lww_merge_at_mono [where m = "zone_view f", OF that] by (simp only: Merge_views)
  ultimately show ?thesis by (simp add: zone_ops_def)
qed

text \<open>
  The merge invents nothing and lets no private or badly dated item in: every item of the
  merged file was in the local file or is an item of the envelope that is not marked private and
  is dated within the accepted window.
\<close>

lemma merge_admits_only_accepted:
  "set (elems (f_UpstreamDefaults (fst (Merge now f env skew)))) \<subseteq>
     set (elems (f_UpstreamDefaults f)) \<union> {u \<in> set (e_UpstreamDefaults env). accepts upstream_ops now skew u} \<and>
   set (f_ForwardZones (fst (Merge now f env skew))) \<subseteq>
     set (f_ForwardZones f) \<union> {z \<in> set (e_ForwardZones env). accepts zone_ops now skew z} \<and>
   set (f_StaticRecords (fst (Merge now f env skew))) \<subseteq>
     set (f_StaticRecords f) \<union> {r \<in> set (e_StaticRecords env). accepts record_ops now skew r}"
proof -
  obtain r1 r2 where
    z: "f_ForwardZones (fst (Merge now f env skew)) =
      fst (merge_items zone_ops now skew (e_ForwardZones env) (f_ForwardZones f) r1)" and
    r: "f_StaticRecords (fst (Merge now f env skew)) =
      fst (merge_items record_ops now skew (e_StaticRecords env) (f_StaticRecords f) r2)"
    using Merge_fields(2,3) [of now f env skew] by auto
  show ?thesis by (simp only: Merge_fields(1) z r) (intro conjI merge_items_origin)
qed

text \<open>
  Delivering the same envelope twice is the same as delivering it once, for an envelope
  that does not name a key twice.
\<close>

lemma merge_redelivery:
  assumes "distinct (map (key upstream_ops) (e_UpstreamDefaults env))"
    and "distinct (map z_ID (e_ForwardZones env))" and "distinct (map r_ID (e_StaticRecords env))"
  shows "let once = fst (Merge now f env skew); twice = fst (Merge now once env skew) in
         upstream_view twice = upstream_view once \<and> zone_view twice = zone_view once \<and>
         record_view twice = record_view once"
proof -
  have d: "distinct (map (key zone_ops) (e_ForwardZones env))"
    "distinct (map (key record_ops) (e_StaticRecords env))"
    using assms(2,3) by (simp_all add: zone_ops_def record_ops_def)
  show ?thesis
    unfolding Let_def Merge_views
    using upstream_kind.lww_merge_idem [OF assms(1)] zone_kind.lww_merge_idem [OF d(1)]
      record_kind.lww_merge_idem [OF d(2)]
    by simp
qed

text \<open>
  The order of the items in an envelope does not matter when it names each key once; in
  particular sorting it by time (SortByUpdated) changes no outcome.
\<close>

lemma merge_order_irrelevant:
  assumes "distinct (map (key upstream_ops) (e_UpstreamDefaults env))"
    and "distinct (map z_ID (e_ForwardZones env))" and "distinct (map r_ID (e_StaticRecords env))"
  shows "upstream_view (fst (Merge now f (SortByUpdated env) skew)) = upstream_view (fst (Merge now f env skew)) \<and>
    zone_view (fst (Merge now f (SortByUpdated env) skew)) = zone_view (fst (Merge now f env skew)) \<and>
    record_view (fst (Merge now f (SortByUpdated env) skew)) = record_view (fst (Merge now f env skew))"
proof -
  have d: "distinct (map (key zone_ops) (e_ForwardZones env))"
    "distinct (map (key record_ops) (e_StaticRecords env))"
    using assms(2,3) by (simp_all add: zone_ops_def record_ops_def)
  show ?thesis
    unfolding Merge_views
    by (intro conjI lww_merge_order assms(1) d) (simp_all add: SortByUpdated_def)
qed

text \<open>
  Two peers that each merge what the other exports agree on their zones afterwards, provided
  identifiers are unique, everything is shared and dated within both windows, equal versions are
  equal zones, and a tombstone is only exported for a zone the other peer knows.
\<close>

lemma exchange_converges:
  assumes "distinct (map z_ID (f_ForwardZones fa))" and "distinct (map z_ID (f_ForwardZones fb))"
    and "\<forall>z \<in> set (f_ForwardZones fa). z_SyncPeers z = [] \<and> accepts zone_ops nowb skewb z"
    and "\<forall>z \<in> set (f_ForwardZones fb). z_SyncPeers z = [] \<and> accepts zone_ops nowa skewa z"
    and "\<forall>x \<in> set (f_ForwardZones fa). \<forall>y \<in> set (f_ForwardZones fb).
      z_ID x = z_ID y \<and> z_UpdatedAt x = z_UpdatedAt y \<and> z_Deleted x = z_Deleted y \<longrightarrow> x = y"
    and "\<forall>x \<in> set (f_ForwardZones fa). z_Deleted x \<longrightarrow> z_ID x \<in> z_ID ` set (f_ForwardZones fb)"
    and "\<forall>x \<in> set (f_ForwardZones fb). z_Deleted x \<longrightarrow> z_ID x \<in> z_ID ` set (f_ForwardZones fa)"
  shows "zone_view (fst (Merge nowa fa (FilterForExport tb ib 0 fb na) skewa)) =
         zone_view (fst (Merge nowb fb (FilterForExport ta ia 0 fa nb) skewb))"
proof -
  have all: "e_ForwardZones (FilterForExport t i 0 f n) = f_ForwardZones f"
    if "\<forall>z \<in> set (f_ForwardZones f). z_SyncPeers z = [] \<and> accepts zone_ops now skew z" for t i f n now skew
    using that by (auto simp: FilterForExport_def copy_items_filter SyncsToPeer_def accepts_def zone_ops_def
        intro!: filter_True)
  show ?thesis
    unfolding Merge_views all [OF assms(3)] all [OF assms(4)]
    by (rule zone_kind.exchange_agree) (use assms in \<open>auto simp: zone_ops_def\<close>)
qed


text \<open>
  The counts of a manifest are the numbers of live items in the envelope that the same
  configuration exports to the same peer.
\<close>

lemma manifest_counts_export:
  "m_Counts (BuildManifest now i seq f n) =
     \<lparr>c_UpstreamDefaults = length (filter (\<lambda>u. \<not> u_Deleted u) (e_UpstreamDefaults (FilterForExport now' i' seq' f n))),
      c_ForwardZones = length (live_zones (e_ForwardZones (FilterForExport now' i' seq' f n))),
      c_StaticRecords = length (live_records (e_StaticRecords (FilterForExport now' i' seq' f n)))\<rparr>"
  by (simp add: BuildManifest_def FilterForExport_def count_items_filter copy_items_filter
      live_zones_def live_records_def conj_commute cong: filter_cong)

text \<open>
  The hand-written integer conversion agrees with decimal printing on every 64-bit integer
  but the most negative one, for which it returns a lone minus sign, and never needs more than
  the 20 bytes of its buffer.
\<close>

lemma itoa_correct:
  assumes "min_int64 \<le> n" and "n \<le> max_int64"
  shows "itoa n = (if n = min_int64 then ''-'' else fmt_d n) \<and> length (itoa n) \<le> 20"
proof (cases "n = min_int64")
  case True
  then show ?thesis by (simp add: itoa_min)
next
  case False
  then have "itoa n = fmt_d n" using assms by (intro itoa_fmt_d) auto
  moreover have "length (nat_digits (nat \<bar>n\<bar>)) \<le> Suc 18"
    using assms False by (intro nat_digits_length) auto
  ultimately show ?thesis using False by (auto simp: fmt_d_def abs_if split: if_splits)
qed

text \<open>
  The merge key of an upstream default identifies its address, up to letter case, and its
  port: no two different upstreams collide, although addresses may contain colons themselves.
\<close>

lemma upstreamKey_inj:
  assumes "min_int64 < p" and "p \<le> max_int64" and "min_int64 < q" and "q \<le> max_int64"
  shows "upstreamKey a p = upstreamKey b q \<longleftrightarrow> ToLower a = ToLower b \<and> p = q"
proof
  assume "upstreamKey a p = upstreamKey b q"
  then have "ToLower a @ CHR '':'' # fmt_d p = ToLower b @ CHR '':'' # fmt_d q"
    using assms by (simp add: upstreamKey_def itoa_fmt_d)
  then have "ToLower a = ToLower b \<and> fmt_d p = fmt_d q" by (rule colon_split) (rule fmt_d_no_colon)+
  then show "ToLower a = ToLower b \<and> p = q" by simp
qed (simp add: upstreamKey_def)

text \<open>
  The summary written to the audit log says "noop" exactly when the merge counted nothing.
\<close>

lemma noop_iff_nothing_counted: "StringifyMerge r = ''noop'' \<longleftrightarrow> tally r = 0"
proof (cases "tally r = 0")
  case False
  then show ?thesis by (auto simp: StringifyMerge_def tally_def Let_def)
qed (simp add: StringifyMerge_def tally_def)

text \<open>
  C37. An item whose timestamp lies further back than the clock skew is rejected even when the
  receiver has never seen it: an envelope of such zones leaves the zones of the file untouched,
  however often it is delivered.
\<close>

theorem stale_zones_never_arrive:
  assumes "0 < skew" and "\<forall>z \<in> set (e_ForwardZones env). z_UpdatedAt z \<noteq> 0 \<and> skew < Sub now (z_UpdatedAt z)"
  shows "f_ForwardZones (fst (Merge now f env skew)) = f_ForwardZones f"
proof -
  have no: "\<not> accepts zone_ops now skew z" if "z \<in> set (e_ForwardZones env)" for z
    using assms that by (auto simp: accepts_def zone_ops_def)
  obtain r where "f_ForwardZones (fst (Merge now f env skew)) =
      fst (merge_items zone_ops now skew (e_ForwardZones env) (f_ForwardZones f) r)"
    using Merge_fields(2) by blast
  then show ?thesis using no by (simp add: merge_items_fst merge_loop_rejects)
qed

theorem stale_zones_never_arrive_witness:
  "f_ForwardZones (fst (Merge 1000 (sample_file []) (zone_envelope [corp_zone ''a'']) 300)) = []"
  using stale_zones_never_arrive [of 300 "zone_envelope [corp_zone ''a'']" 1000 "sample_file []"]
  by (simp add: merge_eval)



end
