(* ===== verification/AuditLog.thy ===== *)
theory AuditLog
  imports GoPrelude
begin

text \<open>
  The audit log of internal/audit/audit.go: one JSON object per line, appended under a mutex,
  and read back from the end.  The log is the content of the file (\<open>None\<close> when it does not
  exist).  The JSON encoding of an entry (package encoding/json) is a pair of parameters
  \<open>encode\<close> and \<open>decode\<close>; the results of the system calls are inputs.
\<close>

section \<open>Model\<close>

record Entry =
  e_Time :: time
  e_Actor :: string
  e_Action :: string
  e_Details :: string

type_synonym log = "string option"

text \<open>\<open>a_write\<close>: an error of the write call with the number of bytes that reached the file.\<close>

record audit_io =
  a_now :: time
  a_mkdir :: "string option"
  a_open :: "string option"
  a_write :: "(string \<times> nat) option"

definition Write :: "(Entry \<Rightarrow> (string, string) result) \<Rightarrow> audit_io \<Rightarrow> Entry \<Rightarrow> log \<Rightarrow> string option \<times> log" where
  "Write encode io e0 log =
     (let e = (if IsZero (e_Time e0) then e0\<lparr>e_Time := a_now io\<rparr> else e0) in
      case a_mkdir io of
        Some er \<Rightarrow> (Some er, log)
      | None \<Rightarrow>
        (case a_open io of
           Some er \<Rightarrow> (Some er, log)
         | None \<Rightarrow>
             let content = (case log of None \<Rightarrow> [] | Some c \<Rightarrow> c) in
             (case encode e of
                Inl er \<Rightarrow> (Some er, Some content)
              | Inr data \<Rightarrow>
                  let line = data @ [CHR 0x0A] in
                  (case a_write io of
                     Some (er, n) \<Rightarrow> (Some er, Some (content @ take n line))
                   | None \<Rightarrow> (None, Some (content @ line))))))"

text \<open>
  \<open>splitLines\<close> cuts at each line break and keeps a last line that has none; the loop's
  \<open>start\<close> index is the accumulated current line.
\<close>

fun splitLines_from :: "string \<Rightarrow> string \<Rightarrow> string list" where
  "splitLines_from cur [] = (if cur \<noteq> [] then [cur] else [])"
| "splitLines_from cur (c # s) =
     (if c = CHR 0x0A then cur # splitLines_from [] s else splitLines_from (cur @ [c]) s)"

definition splitLines :: "string \<Rightarrow> string list" where
  "splitLines s = splitLines_from [] s"

fun decode_lines :: "(string \<Rightarrow> Entry option) \<Rightarrow> string list \<Rightarrow> Entry list" where
  "decode_lines decode [] = []"
| "decode_lines decode (line # lines) =
     (if line = [] then decode_lines decode lines
      else
        (case decode line of
           Some e \<Rightarrow> e # decode_lines decode lines
         | None \<Rightarrow> decode_lines decode lines))"

text \<open>\<open>Tail n\<close>; \<open>readErr\<close> is an error of the read other than a missing file.\<close>

definition Tail :: "(string \<Rightarrow> Entry option) \<Rightarrow> string option \<Rightarrow> int \<Rightarrow> log \<Rightarrow> (string, Entry list) result" where
  "Tail decode readErr n log =
     (case (readErr, log) of
        (Some er, _) \<Rightarrow> Inl er
      | (None, None) \<Rightarrow> Inr []
      | (None, Some data) \<Rightarrow>
          let lines = splitLines data;
              lines = (if n > 0 \<and> int (length lines) > n then drop (length lines - nat n) lines else lines)
          in Inr (decode_lines decode lines))"

section \<open>Specification: the log is a list of entries\<close>

text \<open>The laws of the JSON encoding that the log relies on: an encoded entry is a single
  non-empty line and decodes to itself.\<close>

definition codec_ok :: "(Entry \<Rightarrow> (string, string) result) \<Rightarrow> (string \<Rightarrow> Entry option) \<Rightarrow> Entry \<Rightarrow> bool" where
  "codec_ok encode decode e \<longleftrightarrow>
     (\<exists>data. encode e = Inr data \<and> data \<noteq> [] \<and> CHR 0x0A \<notin> set data \<and> decode data = Some e)"

definition holds :: "(Entry \<Rightarrow> (string, string) result) \<Rightarrow> Entry list \<Rightarrow> log \<Rightarrow> bool" where
  "holds encode es log \<longleftrightarrow>
     (\<exists>ds. map encode es = map Inr ds \<and>
           (case log of None \<Rightarrow> [] | Some c \<Rightarrow> c) = concat (map (\<lambda>d. d @ [CHR 0x0A]) ds))"

definition last_entries :: "int \<Rightarrow> 'a list \<Rightarrow> 'a list" where
  "last_entries n es = (if n > 0 then drop (length es - nat n) es else es)"

section \<open>Lemmas\<close>

lemma splitLines_from_line:
  "CHR 0x0A \<notin> set d \<Longrightarrow> splitLines_from cur (d @ CHR 0x0A # s) = (cur @ d) # splitLines_from [] s"
  by (induction d arbitrary: cur) auto

lemma splitLines_concat:
  "\<forall>d \<in> set ds. CHR 0x0A \<notin> set d \<Longrightarrow> splitLines (concat (map (\<lambda>d. d @ [CHR 0x0A]) ds)) = ds"
  by (induction ds) (auto simp: splitLines_def splitLines_from_line)

lemma decode_encoded:
  "\<forall>e \<in> set es. codec_ok encode decode e \<Longrightarrow> map encode es = map Inr ds \<Longrightarrow>
   decode_lines decode ds = es \<and> (\<forall>d \<in> set ds. CHR 0x0A \<notin> set d)"
proof (induction es arbitrary: ds)
  case (Cons e es)
  then obtain d ds' where "ds = d # ds'" "encode e = Inr d" "map encode es = map Inr ds'"
    by (cases ds) auto
  with Cons show ?case by (auto simp: codec_ok_def)
qed simp

lemma Tail_holds:
  assumes ok: "\<forall>e \<in> set es. codec_ok encode decode e" and h: "holds encode es log"
  shows "Tail decode None n log = Inr (last_entries n es)"
proof -
  from h obtain ds where ds: "map encode es = map Inr ds"
    and c: "(case log of None \<Rightarrow> [] | Some c \<Rightarrow> c) = concat (map (\<lambda>d. d @ [CHR 0x0A]) ds)"
    by (auto simp: holds_def)
  have nl: "\<forall>d \<in> set ds. CHR 0x0A \<notin> set d" using decode_encoded [OF ok ds] by simp
  have len: "length ds = length es" using ds by (metis length_map)
  have drop: "decode_lines decode (drop k ds) = drop k es" for k
    using decode_encoded [of "drop k es" encode decode "drop k ds"] ok ds
    by (auto simp: drop_map [symmetric] dest: in_set_dropD)
  show ?thesis
  proof (cases log)
    case None
    then have "ds = []" using c by auto
    then show ?thesis using None len by (simp add: Tail_def last_entries_def)
  next
    case (Some data)
    then have "splitLines data = ds" using c nl by (simp add: splitLines_concat)
    then show ?thesis using Some len drop [of 0] drop
      by (auto simp: Tail_def last_entries_def Let_def)
  qed
qed

lemma Write_holds:
  assumes "holds encode es log" and "Write encode io e log = (None, log')"
  shows "holds encode (es @ [if IsZero (e_Time e) then e\<lparr>e_Time := a_now io\<rparr> else e]) log'"
proof -
  let ?e = "if IsZero (e_Time e) then e\<lparr>e_Time := a_now io\<rparr> else e"
  from assms(2) obtain data where d: "encode ?e = Inr data"
    and l: "log' = Some ((case log of None \<Rightarrow> [] | Some c \<Rightarrow> c) @ data @ [CHR 0x0A])"
    by (auto simp: Write_def Let_def split: option.splits sum.splits)
  from assms(1) obtain ds where "map encode es = map Inr ds"
    "(case log of None \<Rightarrow> [] | Some c \<Rightarrow> c) = concat (map (\<lambda>d. d @ [CHR 0x0A]) ds)"
    by (auto simp: holds_def)
  then show ?thesis using d l unfolding holds_def by (intro exI [of _ "ds @ [data]"]) simp
qed

section \<open>Properties\<close>

text \<open>An entry as Write stores it, and a sequence of successful writes.\<close>

definition stamped :: "audit_io \<times> Entry \<Rightarrow> Entry" where
  "stamped w = (case w of (io, e) \<Rightarrow> if IsZero (e_Time e) then e\<lparr>e_Time := a_now io\<rparr> else e)"

fun write_all :: "(Entry \<Rightarrow> (string, string) result) \<Rightarrow> (audit_io \<times> Entry) list \<Rightarrow> log \<Rightarrow> log option" where
  "write_all encode [] log = Some log"
| "write_all encode ((io, e) # ws) log =
     (case Write encode io e log of
        (None, log') \<Rightarrow> write_all encode ws log'
      | (Some er, log') \<Rightarrow> None)"

lemma write_all_holds:
  "holds encode es log \<Longrightarrow> write_all encode ws log = Some log' \<Longrightarrow> holds encode (es @ map stamped ws) log'"
proof (induction ws arbitrary: es log)
  case (Cons w ws)
  obtain io e where w: "w = (io, e)" by (cases w)
  with Cons.prems(2) obtain log1 where l: "Write encode io e log = (None, log1)"
    "write_all encode ws log1 = Some log'"
    by (auto split: prod.splits option.splits)
  have "holds encode (es @ [stamped w]) log1"
    using Write_holds [OF Cons.prems(1) l(1)] by (simp add: w stamped_def)
  from Cons.IH [OF this l(2)] show ?case by simp
qed simp

text \<open>
  C28. What was written can be read back: after any number of successful writes to a log that did
  not exist, Tail returns the entries in the order they were written, each with its time filled
  in, cut to the last n when a positive n is asked for.  Hypothesis: each entry survives its JSON
  encoding, which is a single non-empty line.
\<close>

theorem tail_returns_written:
  assumes "write_all encode ws None = Some log" and "\<forall>w \<in> set ws. codec_ok encode decode (stamped w)"
  shows "Tail decode None n log = Inr (last_entries n (map stamped ws))"
proof -
  have "holds encode [] None" by (simp add: holds_def)
  from write_all_holds [OF this assms(1)] have "holds encode (map stamped ws) log" by simp
  with assms(2) show ?thesis by (intro Tail_holds) auto
qed

definition entry_at :: "time \<Rightarrow> Entry" where
  "entry_at t = \<lparr>e_Time = t, e_Actor = ''ops'', e_Action = ''record-add'', e_Details = []\<rparr>"

definition audit_ok_io :: audit_io where
  "audit_ok_io = \<lparr>a_now = 5, a_mkdir = None, a_open = None, a_write = None\<rparr>"

theorem tail_returns_written_witness:
  "\<exists>log. write_all (\<lambda>e. Inr ''{}'') [(audit_ok_io, entry_at 0), (audit_ok_io, entry_at 5)] None = Some log \<and>
     Tail (\<lambda>_. Some (entry_at 5)) None 1 log = Inr [entry_at 5]"
proof -
  let ?ws = "[(audit_ok_io, entry_at 0), (audit_ok_io, entry_at 5)]"
  have w: "write_all (\<lambda>e. Inr ''{}'') ?ws None =
      Some (Some (''{}'' @ [CHR 0x0A] @ ''{}'' @ [CHR 0x0A]))"
    by (simp add: Write_def audit_ok_io_def entry_at_def IsZero_def)
  have "\<forall>w \<in> set ?ws. codec_ok (\<lambda>e. Inr ''{}'') (\<lambda>_. Some (entry_at 5)) (stamped w)"
    by (simp add: codec_ok_def stamped_def audit_ok_io_def entry_at_def IsZero_def)
  from tail_returns_written [OF w this, of 1] w show ?thesis
    by (simp add: last_entries_def stamped_def audit_ok_io_def entry_at_def IsZero_def)
qed

end
