(* ===== verification/PeerTLS.thy ===== *)
theory PeerTLS
  imports GoPrelude
begin

text \<open>
  The TLS configuration that two peers derive from their shared key, internal/sync/tlspsk.go: the
  search for a private key, the self-signed certificate, and the check of the presented public key
  that replaces the verification by certificate authorities.  The cryptography (HKDF, SHA-256,
  multiplication of the base point, certificates) is a record of parameters; signing a certificate
  uses random bytes, so two processes have records that differ in that component.
\<close>

section \<open>Data\<close>

type_synonym bytes = "8 word list"

text \<open>A big-endian number, big.Int.SetBytes.\<close>

definition SetBytes :: "bytes \<Rightarrow> nat" where
  "SetBytes bs = foldl (\<lambda>a b. 256 * a + unat b) 0 bs"

text \<open>The order of the curve P-256, elliptic.P256().Params().N.\<close>

definition P256_N :: nat where
  "P256_N = 0xffffffff00000000ffffffffffffffffbce6faada7179e84f3b9cac2fc632551"

datatype curve = P256 | OtherCurve string

text \<open>A public key as an interface value: a key of package ecdsa, or of another type.\<close>

datatype public_key = ECDSA curve nat nat | OtherKey string

record private_key =
  pk_D :: nat
  pk_PublicKey :: public_key

datatype key_usage = DigitalSignature | KeyEncipherment
datatype ext_key_usage = ServerAuth | ClientAuth

record template =
  tm_SerialNumber :: nat
  tm_Organization :: "string list"
  tm_CommonName :: string
  tm_NotBefore :: time
  tm_NotAfter :: time
  tm_KeyUsage :: "key_usage list"
  tm_ExtKeyUsage :: "ext_key_usage list"
  tm_BasicConstraintsValid :: bool
  tm_IsCA :: bool

record certificate =
  x_PublicKey :: public_key
  x_NotBefore :: time
  x_NotAfter :: time

record tls_certificate =
  tc_Certificate :: "bytes list"
  tc_Leaf :: certificate

record crypto =
  cr_hkdf :: "string \<Rightarrow> string \<Rightarrow> (string, bytes) result"
  cr_sha256 :: "bytes \<Rightarrow> bytes"
  cr_ScalarBaseMult :: "nat \<Rightarrow> (nat \<times> nat) option"
  cr_CreateCertificate :: "template \<Rightarrow> private_key \<Rightarrow> (string, bytes) result"
  cr_ParseCertificate :: "bytes \<Rightarrow> (string, certificate) result"
  cr_MarshalKey :: "private_key \<Rightarrow> (string, bytes) result"
  cr_KeyPair :: "bytes \<Rightarrow> bytes \<Rightarrow> (string, bytes list) result"

section \<open>The key\<close>

text \<open>The four bytes of the counter that is hashed with the seed.\<close>

definition counter_bytes :: "nat \<Rightarrow> bytes" where
  "counter_bytes i =
     [word_of_nat (drop_bit 24 i), word_of_nat (drop_bit 16 i), word_of_nat (drop_bit 8 i), word_of_nat i]"

fun key_loop ::
  "(bytes \<Rightarrow> bytes) \<Rightarrow> (nat \<Rightarrow> (nat \<times> nat) option) \<Rightarrow> bytes \<Rightarrow> nat \<Rightarrow> nat \<Rightarrow> nat \<Rightarrow> (string, private_key) result" where
  "key_loop sha mult seed i 0 d = Inl ''could not derive a valid ECDSA key from seed''"
| "key_loop sha mult seed i (Suc n) d =
     (let again = key_loop sha mult seed (Suc i) n (SetBytes (sha (seed @ counter_bytes i))) in
      if d > 0 \<and> d < P256_N then
        (case mult d of
           Some (x, y) \<Rightarrow> Inr \<lparr>pk_D = d, pk_PublicKey = ECDSA P256 x y\<rparr>
         | None \<Rightarrow> again)
      else again)"

definition ecdsaKeyFromSeed ::
  "(bytes \<Rightarrow> bytes) \<Rightarrow> (nat \<Rightarrow> (nat \<times> nat) option) \<Rightarrow> bytes \<Rightarrow> (string, private_key) result" where
  "ecdsaKeyFromSeed sha mult seed =
     (if length seed \<noteq> 32 then Inl (''seed must be 32 bytes, got '' @ fmt_d (int (length seed)))
      else key_loop sha mult seed 0 10000 (SetBytes seed))"

section \<open>The certificate\<close>

definition tlsPSKCommonName :: string where "tlsPSKCommonName = ''dnsforwarder-peer''"
definition tlsPSKOrg :: string where "tlsPSKOrg = ''dnsforwarder''"
definition certValidityYears :: int where "certValidityYears = 10"

text \<open>The instant 2024-01-01T00:00:00Z, in nanoseconds from the zero instant of package time.\<close>

definition certEpoch :: time where "certEpoch = 63839664000 * Second"

definition seedSha :: "(bytes \<Rightarrow> bytes) \<Rightarrow> bytes \<Rightarrow> bytes" where
  "seedSha sha seed = sha seed"

definition cert_template :: "(bytes \<Rightarrow> bytes) \<Rightarrow> bytes \<Rightarrow> template" where
  "cert_template sha seed =
     \<lparr>tm_SerialNumber = SetBytes (take 16 (seedSha sha seed)),
      tm_Organization = [tlsPSKOrg], tm_CommonName = tlsPSKCommonName,
      tm_NotBefore = certEpoch, tm_NotAfter = certEpoch + wrap64 (certValidityYears * 365 * 24 * 3600 * Second),
      tm_KeyUsage = [DigitalSignature, KeyEncipherment], tm_ExtKeyUsage = [ServerAuth, ClientAuth],
      tm_BasicConstraintsValid = True, tm_IsCA = False\<rparr>"

text \<open>\<open>labelled\<close> is fmt.Errorf with a prefix and the wrapped error.\<close>

definition labelled :: "string \<Rightarrow> (string, 'a) result \<Rightarrow> (string, 'a) result" where
  "labelled l r = (case r of Inl e \<Rightarrow> Inl (l @ '': '' @ e) | Inr x \<Rightarrow> Inr x)"

definition certFromPSK :: "crypto \<Rightarrow> string \<Rightarrow> (string, tls_certificate) result" where
  "certFromPSK cr psk =
     (if psk = [] then Inl ''psk is empty''
      else
        bind_res (labelled ''hkdf'' (cr_hkdf cr psk ''dnsforwarder-peer-sync-v1'')) (\<lambda>seed.
        bind_res (labelled ''derive key'' (ecdsaKeyFromSeed (cr_sha256 cr) (cr_ScalarBaseMult cr) seed)) (\<lambda>priv.
        bind_res (labelled ''create cert'' (cr_CreateCertificate cr (cert_template (cr_sha256 cr) seed) priv)) (\<lambda>der.
        bind_res (labelled ''parse cert'' (cr_ParseCertificate cr der)) (\<lambda>cert.
        bind_res (labelled ''marshal key'' (cr_MarshalKey cr priv)) (\<lambda>keyBytes.
        bind_res (labelled ''load pair'' (cr_KeyPair cr der keyBytes)) (\<lambda>chain.
          Inr \<lparr>tc_Certificate = chain, tc_Leaf = cert\<rparr>)))))))"

section \<open>Configurations\<close>

definition VersionTLS12 :: nat where "VersionTLS12 = 0x0303"

record server_config =
  sc_MinVersion :: nat
  sc_Certificates :: "tls_certificate list"

record client_config =
  cc_MinVersion :: nat
  cc_RootCAs :: "certificate list"
  cc_InsecureSkipVerify :: bool
  cc_VerifyPeerCertificate :: "bytes list \<Rightarrow> string option"

definition tlsConfigForServer :: "crypto \<Rightarrow> string \<Rightarrow> (string, server_config) result" where
  "tlsConfigForServer cr psk =
     bind_res (certFromPSK cr psk) (\<lambda>cert.
       Inr \<lparr>sc_MinVersion = VersionTLS12, sc_Certificates = [cert]\<rparr>)"

text \<open>publicKeysEqual: None when the keys agree.\<close>

definition publicKeysEqual :: "public_key \<Rightarrow> public_key \<Rightarrow> string option" where
  "publicKeysEqual a b =
     (case a of
        OtherKey t \<Rightarrow> Some (''unsupported peer public key type '' @ t)
      | ECDSA ca xa ya \<Rightarrow>
          (case b of
             OtherKey t \<Rightarrow> Some (''expected ECDSA public key, got '' @ t)
           | ECDSA cb xb yb \<Rightarrow>
               if ca \<noteq> cb then Some ''curve mismatch''
               else if xa \<noteq> xb \<or> ya \<noteq> yb then Some ''key coordinates differ''
               else None))"

definition verifyPeerPublicKey ::
  "(bytes \<Rightarrow> (string, certificate) result) \<Rightarrow> bytes list \<Rightarrow> public_key \<Rightarrow> string option" where
  "verifyPeerPublicKey parse rawCerts expected =
     (case rawCerts of
        [] \<Rightarrow> Some ''peer presented no certificate''
      | raw # _ \<Rightarrow>
          (case parse raw of
             Inl e \<Rightarrow> Some (''parse peer cert: '' @ e)
           | Inr cert \<Rightarrow>
               map_option (\<lambda>e. ''peer public key mismatch: '' @ e)
                 (publicKeysEqual (x_PublicKey cert) expected)))"

definition tlsConfigForClient :: "crypto \<Rightarrow> string \<Rightarrow> (string, client_config) result" where
  "tlsConfigForClient cr psk =
     bind_res (certFromPSK cr psk) (\<lambda>cert.
       let expected = x_PublicKey (tc_Leaf cert) in
       Inr \<lparr>cc_MinVersion = VersionTLS12, cc_RootCAs = [], cc_InsecureSkipVerify = True,
            cc_VerifyPeerCertificate =
              (\<lambda>rawCerts. verifyPeerPublicKey (cr_ParseCertificate cr) rawCerts expected)\<rparr>)"

section \<open>Fingerprints\<close>

text \<open>The uncompressed encoding of a point, elliptic.Marshal on P-256.\<close>

fun be_bytes :: "nat \<Rightarrow> nat \<Rightarrow> bytes" where
  "be_bytes 0 v = []"
| "be_bytes (Suc n) v = be_bytes n (v div 256) @ [word_of_nat v]"

definition publicKeyFingerprint :: "(bytes \<Rightarrow> bytes) \<Rightarrow> nat \<Rightarrow> nat \<Rightarrow> bytes" where
  "publicKeyFingerprint sha x y = sha ([4] @ be_bytes 32 x @ be_bytes 32 y)"

definition hex_upper :: "nat \<Rightarrow> char" where
  "hex_upper n = (if n < 10 then char_of (48 + n) else char_of (55 + n))"

definition fmt_02X :: "8 word \<Rightarrow> string" where
  "fmt_02X b = [hex_upper (unat b div 16), hex_upper (unat b mod 16)]"

fun fingerprint_from :: "nat \<Rightarrow> bytes \<Rightarrow> string" where
  "fingerprint_from i [] = []"
| "fingerprint_from i (b # fp) = (if i > 0 then '':'' else []) @ fmt_02X b @ fingerprint_from (Suc i) fp"

definition fingerprintString :: "bytes \<Rightarrow> string" where
  "fingerprintString fp = fingerprint_from 0 fp"

section \<open>Lemmas\<close>

subsection \<open>The search for a key\<close>

text \<open>The sequence of scalars that is tried, and which of them make a key.\<close>

fun candidate :: "(bytes \<Rightarrow> bytes) \<Rightarrow> bytes \<Rightarrow> nat \<Rightarrow> nat" where
  "candidate sha seed 0 = SetBytes seed"
| "candidate sha seed (Suc i) = SetBytes (sha (seed @ counter_bytes i))"

definition usable :: "(nat \<Rightarrow> (nat \<times> nat) option) \<Rightarrow> nat \<Rightarrow> bool" where
  "usable mult d \<longleftrightarrow> 0 < d \<and> d < P256_N \<and> mult d \<noteq> None"

definition key_of :: "(nat \<Rightarrow> (nat \<times> nat) option) \<Rightarrow> nat \<Rightarrow> private_key" where
  "key_of mult d = \<lparr>pk_D = d, pk_PublicKey = (case the (mult d) of (x, y) \<Rightarrow> ECDSA P256 x y)\<rparr>"

lemma key_loop_step:
  "key_loop sha mult seed i (Suc n) (candidate sha seed i) =
     (if usable mult (candidate sha seed i) then Inr (key_of mult (candidate sha seed i))
      else key_loop sha mult seed (Suc i) n (candidate sha seed (Suc i)))"
  by (auto simp: Let_def usable_def key_of_def split: option.split)

lemma key_loop_find:
  "key_loop sha mult seed i n (candidate sha seed i) =
     (case find (\<lambda>j. usable mult (candidate sha seed j)) [i..<i + n] of
        None \<Rightarrow> Inl ''could not derive a valid ECDSA key from seed''
      | Some j \<Rightarrow> Inr (key_of mult (candidate sha seed j)))"
proof (induction n arbitrary: i)
  case (Suc n)
  have "[i..<i + Suc n] = i # [Suc i..<Suc i + n]" by (simp add: upt_conv_Cons)
  then show ?case unfolding key_loop_step by (simp add: Suc.IH del: candidate.simps)
qed simp

lemma ecdsaKeyFromSeed_Inr:
  assumes "ecdsaKeyFromSeed sha mult seed = Inr k"
  shows "\<exists>d x y. k = \<lparr>pk_D = d, pk_PublicKey = ECDSA P256 x y\<rparr> \<and> 0 < d \<and> d < P256_N \<and> mult d = Some (x, y)"
proof -
  have "key_loop sha mult seed 0 10000 (candidate sha seed 0) = Inr k"
    using assms by (simp add: ecdsaKeyFromSeed_def split: if_splits)
  then obtain j where "find (\<lambda>j. usable mult (candidate sha seed j)) [0..<0 + 10000] = Some j"
    and k: "k = key_of mult (candidate sha seed j)"
    unfolding key_loop_find by (auto split: option.splits)
  then have "usable mult (candidate sha seed j)" by (auto simp: find_Some_iff)
  then show ?thesis using k by (auto simp: usable_def key_of_def)
qed

subsection \<open>The presented key\<close>

lemma publicKeysEqual_None:
  "publicKeysEqual a b = None \<longleftrightarrow> a = b \<and> (\<exists>c x y. a = ECDSA c x y)"
  by (auto simp: publicKeysEqual_def split: public_key.splits)

lemma verifyPeerPublicKey_None:
  "verifyPeerPublicKey parse raws k = None \<longleftrightarrow>
     (\<exists>raw rest cert. raws = raw # rest \<and> parse raw = Inr cert \<and> x_PublicKey cert = k \<and> (\<exists>c x y. k = ECDSA c x y))"
  by (auto simp: verifyPeerPublicKey_def publicKeysEqual_None split: list.split sum.split)

text \<open>The key pair that a shared key stands for.\<close>

definition psk_key :: "crypto \<Rightarrow> string \<Rightarrow> (string, private_key) result" where
  "psk_key cr psk =
     bind_res (cr_hkdf cr psk ''dnsforwarder-peer-sync-v1'') (ecdsaKeyFromSeed (cr_sha256 cr) (cr_ScalarBaseMult cr))"

text \<open>What crypto/x509 and crypto/tls document of certificates: a created certificate carries the
  key it was created for, and a loaded pair holds the certificate it was loaded from.\<close>

definition carries_key :: "crypto \<Rightarrow> bool" where
  "carries_key cr \<longleftrightarrow>
     (\<forall>t k der c. cr_CreateCertificate cr t k = Inr der \<and> cr_ParseCertificate cr der = Inr c \<longrightarrow>
        x_PublicKey c = pk_PublicKey k) \<and>
     (\<forall>der key chain. cr_KeyPair cr der key = Inr chain \<longrightarrow> chain = [der])"

lemma labelled_Inr [simp]: "labelled l r = Inr x \<longleftrightarrow> r = Inr x"
  by (cases r) (simp_all add: labelled_def)

lemma certFromPSK_Inr:
  assumes "certFromPSK cr psk = Inr cert" and "carries_key cr"
  shows "\<exists>k der. psk_key cr psk = Inr k \<and> tc_Certificate cert = [der] \<and>
    cr_ParseCertificate cr der = Inr (tc_Leaf cert) \<and> x_PublicKey (tc_Leaf cert) = pk_PublicKey k \<and> psk \<noteq> []"
  using assms
  by (auto simp: certFromPSK_def psk_key_def bind_res_eq_Inr carries_key_def split: if_splits) blast+

lemma psk_key_Inr:
  assumes "psk_key cr psk = Inr k"
  shows "\<exists>d x y. k = \<lparr>pk_D = d, pk_PublicKey = ECDSA P256 x y\<rparr> \<and> 0 < d \<and> d < P256_N \<and>
    cr_ScalarBaseMult cr d = Some (x, y)"
  using assms ecdsaKeyFromSeed_Inr by (auto simp: psk_key_def bind_res_eq_Inr)

text \<open>What the client configuration for a shared key accepts.\<close>

definition pinned :: "crypto \<Rightarrow> string \<Rightarrow> bytes list \<Rightarrow> bool" where
  "pinned cr psk raws \<longleftrightarrow>
     (\<exists>k raw rest cert. psk_key cr psk = Inr k \<and> raws = raw # rest \<and> cr_ParseCertificate cr raw = Inr cert \<and>
        x_PublicKey cert = pk_PublicKey k)"

lemma client_accepts_pinned:
  assumes "tlsConfigForClient cr psk = Inr cfg" and "carries_key cr"
  shows "cc_VerifyPeerCertificate cfg raws = None \<longleftrightarrow> pinned cr psk raws"
proof -
  obtain cert where c: "certFromPSK cr psk = Inr cert"
    and v: "cc_VerifyPeerCertificate cfg = (\<lambda>raws. verifyPeerPublicKey (cr_ParseCertificate cr) raws (x_PublicKey (tc_Leaf cert)))"
    using assms(1) by (auto simp: tlsConfigForClient_def bind_res_eq_Inr Let_def)
  obtain k where k: "psk_key cr psk = Inr k" "x_PublicKey (tc_Leaf cert) = pk_PublicKey k"
    using certFromPSK_Inr [OF c assms(2)] by blast
  then show ?thesis using psk_key_Inr [OF k(1)] by (auto simp: v verifyPeerPublicKey_None pinned_def)
qed

subsection \<open>Fingerprints\<close>

lemma hex_upper_inj:
  assumes "hex_upper m = hex_upper n" and "m < 16" and "n < 16"
  shows "m = n"
proof -
  have "of_char (hex_upper i) = (if i < 10 then 48 + i else 55 + i)" if "i < 16" for i :: nat
    using that by (simp add: hex_upper_def)
  then have "(if m < 10 then 48 + m else 55 + m) = (if n < 10 then 48 + n else 55 + n)"
    using assms by metis
  then show ?thesis by (simp split: if_splits)
qed

lemma fmt_02X_inj: "fmt_02X a = fmt_02X b \<Longrightarrow> a = b"
proof -
  assume "fmt_02X a = fmt_02X b"
  moreover have "unat c div 16 < 16" for c :: "8 word"
  proof -
    have "unat c < 2 ^ LENGTH(8)" by (rule unsigned_less)
    then show ?thesis by simp
  qed
  ultimately have "unat a div 16 = unat b div 16" "unat a mod 16 = unat b mod 16"
    using hex_upper_inj by (auto simp: fmt_02X_def)
  then have "unat a = unat b" by (metis div_mult_mod_eq)
  then show "a = b" by (simp add: unsigned_word_eqI)
qed

lemma fingerprint_from_inj: "fingerprint_from i a = fingerprint_from i b \<Longrightarrow> a = b"
proof (induction a arbitrary: i b)
  case Nil
  then show ?case by (cases b) (auto simp: fmt_02X_def)
next
  case (Cons x a)
  then obtain y b' where b: "b = y # b'" by (cases b) (auto simp: fmt_02X_def)
  have l: "length (fmt_02X c) = 2" for c by (simp add: fmt_02X_def)
  have "fmt_02X x = fmt_02X y" "fingerprint_from (Suc i) a = fingerprint_from (Suc i) b'"
    using Cons.prems l [of x] l [of y] unfolding b by (auto split: if_splits)
  then show ?case using Cons.IH fmt_02X_inj b by blast
qed

text \<open>Different digests print differently.\<close>

lemma fingerprintString_inj: "fingerprintString a = fingerprintString b \<longleftrightarrow> a = b"
  using fingerprint_from_inj by (auto simp: fingerprintString_def)

section \<open>Concrete inputs\<close>

text \<open>A record of functions in place of the cryptography: the shared key derives the scalar 5.\<close>

definition toy_crypto :: crypto where
  "toy_crypto =
     \<lparr>cr_hkdf = (\<lambda>psk salt. Inr (replicate 31 0 @ [5])), cr_sha256 = (\<lambda>b. b),
      cr_ScalarBaseMult = (\<lambda>d. Some (d, Suc d)),
      cr_CreateCertificate =
        (\<lambda>t k. if pk_PublicKey k = ECDSA P256 5 6 then Inr [1] else Inl ''unknown key''),
      cr_ParseCertificate = (\<lambda>der. Inr \<lparr>x_PublicKey = (if der = [1] then ECDSA P256 5 6 else OtherKey ''*rsa.PublicKey''),
          x_NotBefore = 0, x_NotAfter = 0\<rparr>),
      cr_MarshalKey = (\<lambda>k. Inr [2]), cr_KeyPair = (\<lambda>der key. Inr [der])\<rparr>"

lemma toy_seed: "SetBytes (replicate 31 0 @ [5]) = 5"
  by code_simp

lemma toy_key: "ecdsaKeyFromSeed (\<lambda>b. b) (\<lambda>d. Some (d, Suc d)) (replicate 31 0 @ [5]) =
    Inr \<lparr>pk_D = 5, pk_PublicKey = ECDSA P256 5 6\<rparr>"
proof -
  let ?seed = "replicate 31 0 @ [5] :: bytes"
  have c: "candidate (\<lambda>b. b) ?seed 0 = 5" by (simp only: candidate.simps toy_seed)
  have "usable (\<lambda>d. Some (d, Suc d)) 5" by (simp add: usable_def P256_N_def)
  then have "key_loop (\<lambda>b. b) (\<lambda>d. Some (d, Suc d)) ?seed 0 10000 5 = Inr (key_of (\<lambda>d. Some (d, Suc d)) 5)"
    using key_loop_step [of "\<lambda>b. b" "\<lambda>d. Some (d, Suc d)" ?seed 0 9999] unfolding c by (simp del: key_loop.simps)
  moreover have "length ?seed = 32" by simp
  ultimately show ?thesis by (simp only: ecdsaKeyFromSeed_def toy_seed) (simp add: key_of_def)
qed

lemma toy_cert:
  "certFromPSK toy_crypto ''k'' =
     Inr \<lparr>tc_Certificate = [[1]], tc_Leaf = \<lparr>x_PublicKey = ECDSA P256 5 6, x_NotBefore = 0, x_NotAfter = 0\<rparr>\<rparr>"
  by (simp add: certFromPSK_def toy_crypto_def toy_key labelled_def)

lemma toy_carries_key: "carries_key toy_crypto"
  by (auto simp: carries_key_def toy_crypto_def)

section \<open>Properties\<close>

text \<open>
  C17. The derivation of a private key is a search: the scalars tried are the seed itself and then
  the hashes of the seed with a counter, the result is the first of ten thousand that lies strictly
  between zero and the order of the curve and has a point, and there is an error exactly when
  none does or the seed does not have 32 bytes.
\<close>

theorem ecdsaKeyFromSeed_searches:
  "ecdsaKeyFromSeed sha mult seed =
     (if length seed \<noteq> 32 then Inl (''seed must be 32 bytes, got '' @ fmt_d (int (length seed)))
      else
        (case find (\<lambda>j. usable mult (candidate sha seed j)) [0..<10000] of
           None \<Rightarrow> Inl ''could not derive a valid ECDSA key from seed''
         | Some j \<Rightarrow> Inr (key_of mult (candidate sha seed j))))"
  using key_loop_find [of sha mult seed 0 10000] by (simp add: ecdsaKeyFromSeed_def)

text \<open>
  C16. Pinning: a client accepts what a server presents exactly when the first certificate parses
  and carries the public key derived from the shared key, which is a point of a private scalar in
  range.  No other certificate, and no chain to an authority, is accepted.
\<close>

theorem client_accepts_exactly_pinned:
  assumes "tlsConfigForClient cr psk = Inr cfg" and "carries_key cr"
  shows "\<exists>d x y. psk_key cr psk = Inr \<lparr>pk_D = d, pk_PublicKey = ECDSA P256 x y\<rparr> \<and>
    0 < d \<and> d < P256_N \<and> cr_ScalarBaseMult cr d = Some (x, y) \<and>
    (\<forall>raws. cc_VerifyPeerCertificate cfg raws = None \<longleftrightarrow>
      (\<exists>raw rest cert. raws = raw # rest \<and> cr_ParseCertificate cr raw = Inr cert \<and>
         x_PublicKey cert = ECDSA P256 x y))"
proof -
  obtain cert where "certFromPSK cr psk = Inr cert"
    using assms(1) by (auto simp: tlsConfigForClient_def bind_res_eq_Inr)
  then obtain k where k: "psk_key cr psk = Inr k" using certFromPSK_Inr assms(2) by blast
  obtain d x y where "k = \<lparr>pk_D = d, pk_PublicKey = ECDSA P256 x y\<rparr>" "0 < d" "d < P256_N"
    "cr_ScalarBaseMult cr d = Some (x, y)"
    using psk_key_Inr [OF k] by blast
  then show ?thesis using k client_accepts_pinned [OF assms] by (auto simp: pinned_def)
qed

theorem client_accepts_exactly_pinned_witness:
  "\<exists>cfg. tlsConfigForClient toy_crypto ''k'' = Inr cfg \<and>
     cc_VerifyPeerCertificate cfg [[1]] = None \<and> cc_VerifyPeerCertificate cfg [[7], [1]] \<noteq> None"
proof -
  obtain cfg where c: "tlsConfigForClient toy_crypto ''k'' = Inr cfg"
    by (simp add: tlsConfigForClient_def toy_cert)
  have k: "psk_key toy_crypto ''k'' = Inr \<lparr>pk_D = 5, pk_PublicKey = ECDSA P256 5 6\<rparr>"
    by (simp add: psk_key_def toy_crypto_def toy_key)
  have parse: "cr_ParseCertificate toy_crypto raw = Inr cert \<and> x_PublicKey cert = ECDSA P256 5 6 \<longleftrightarrow>
      raw = [1] \<and> cert = \<lparr>x_PublicKey = ECDSA P256 5 6, x_NotBefore = 0, x_NotAfter = 0\<rparr>" for raw cert
    by (auto simp: toy_crypto_def split: if_splits)
  from client_accepts_exactly_pinned [OF c toy_carries_key]
  have "cc_VerifyPeerCertificate cfg raws = None \<longleftrightarrow> (\<exists>rest. raws = [1] # rest)" for raws
    by (auto simp: k parse)
  then show ?thesis using c by (simp del: not_None_eq)
qed

text \<open>
  Two peers with the same shared key connect: whatever random bytes their certificates were signed
  with, the client's check accepts the certificate of the server, provided both use the same functions
  for everything that is not random.
\<close>

lemma same_key_accepted:
  assumes "tlsConfigForServer cs psk = Inr scfg" and "tlsConfigForClient cc psk = Inr ccfg"
    and "carries_key cs" and "carries_key cc"
    and "cr_hkdf cs = cr_hkdf cc" and "cr_sha256 cs = cr_sha256 cc"
    and "cr_ScalarBaseMult cs = cr_ScalarBaseMult cc" and "cr_ParseCertificate cs = cr_ParseCertificate cc"
  shows "\<exists>cert. sc_Certificates scfg = [cert] \<and> cc_VerifyPeerCertificate ccfg (tc_Certificate cert) = None"
proof -
  obtain cert where cert: "certFromPSK cs psk = Inr cert" "sc_Certificates scfg = [cert]"
    using assms(1) by (auto simp: tlsConfigForServer_def bind_res_eq_Inr)
  have "psk_key cs psk = psk_key cc psk" using assms(5-7) by (simp add: psk_key_def)
  then have "pinned cc psk (tc_Certificate cert)"
    using certFromPSK_Inr [OF cert(1) assms(3)] assms(8) by (auto simp: pinned_def)
  then show ?thesis using client_accepts_pinned [OF assms(2,4)] cert(2) by simp
qed

end
