(* ===== verification/Client.thy ===== *)
theory Client
  imports Exchange AuditLog PeerTLS
begin

text \<open>
  The outgoing side of the peer exchange, internal/sync/client.go: pushing the configuration to
  peers with retries and echo suppression, and fetching a peer's configuration, over connections
  that are pinned to the shared key.  The JSON codec, package net/url, the certificates that the
  other end presents and its answers are parameters; the requests that leave the
  process are part of the results.  Concurrent pushes are processed in an order that is an input.
\<close>

section \<open>Requests\<close>

record Request =
  rq_method :: string
  rq_url :: string
  rq_token :: string
  rq_body :: string

record Response =
  rs_code :: nat
  rs_status :: string
  rs_body :: string

text \<open>A parsed URL: its path and everything else.\<close>

record URL =
  ur_rest :: string
  ur_path :: string

record wire =
  wr_encodeEnvelope :: "Envelope \<Rightarrow> (string, string) result"
  wr_decodeEnvelope :: "string \<Rightarrow> (string, Envelope) result"
  wr_decodeError :: "string \<Rightarrow> string"
  wr_decodeResult :: "string \<Rightarrow> MergeResult option"
  wr_parseURL :: "string \<Rightarrow> (string, URL) result"
  wr_urlString :: "URL \<Rightarrow> string"
  wr_scheme :: "string \<Rightarrow> string"

text \<open>The loop strips the slashes at the end, then one is put back.\<close>

definition stringsTrimRightSlash :: "string \<Rightarrow> string" where
  "stringsTrimRightSlash s =
     (let s = rev (dropWhile (\<lambda>c. c = CHR ''/'') (rev s)) in if s = [] then [] else s @ ''/'')"

definition joinURL :: "wire \<Rightarrow> string \<Rightarrow> string \<Rightarrow> (string, string) result" where
  "joinURL wr base path =
     bind_res (wr_parseURL wr base) (\<lambda>u.
       Inr (wr_urlString wr (u\<lparr>ur_path := stringsTrimRightSlash (ur_path u) @ path\<rparr>)))"

text \<open>The message of a reply that is not a success.\<close>

definition response_error :: "wire \<Rightarrow> Response \<Rightarrow> string" where
  "response_error wr resp =
     (let e = wr_decodeError wr (rs_body resp) in if e = [] then rs_status resp else e)"

text \<open>
  The HTTP client for a shared key, and what its Do does with a request: for an https address the
  certificates that the other end presents are checked before anything is sent; a plain address is
  not checked.  The second result is what leaves the process.
\<close>

record endpoint =
  ep_certs :: "bytes list"
  ep_answer :: "Request \<Rightarrow> (string, Response) result"

definition httpClient :: "crypto \<Rightarrow> string \<Rightarrow> (string, client_config) result" where
  "httpClient cr psk = labelled ''tls config'' (tlsConfigForClient cr psk)"

definition http_Do :: "wire \<Rightarrow> client_config \<Rightarrow> endpoint \<Rightarrow> Request \<Rightarrow> (string, Response) result \<times> Request list" where
  "http_Do wr cfg ep rq =
     (case if wr_scheme wr (rq_url rq) = ''https'' then cc_VerifyPeerCertificate cfg (ep_certs ep) else None of
        Some e \<Rightarrow> (Inl e, [])
      | None \<Rightarrow> (ep_answer ep rq, [rq]))"

section \<open>The client's state\<close>

record Client =
  c_lastAppliedFrom :: string
  c_lastAppliedAt :: time

definition NewClient :: Client where
  "NewClient = \<lparr>c_lastAppliedFrom = [], c_lastAppliedAt = 0\<rparr>"

definition PSK :: "File option \<Rightarrow> string" where
  "PSK cur = (case cur of None \<Rightarrow> [] | Some f \<Rightarrow> pr_SharedKey (f_Peers f))"

definition MarkAppliedFrom :: "time \<Rightarrow> string \<Rightarrow> Client \<Rightarrow> Client" where
  "MarkAppliedFrom now instanceID c = c\<lparr>c_lastAppliedFrom := instanceID, c_lastAppliedAt := now\<rparr>"

definition sync_interval :: "Peers \<Rightarrow> duration" where
  "sync_interval settings =
     (let interval = wrap64 (pr_SyncIntervalSeconds settings * Second) in
      if interval < 10 * Second then 10 * Second else interval)"

text \<open>The peers for which Run starts a pull loop.\<close>

definition run_peers :: "Peer list \<Rightarrow> Peer list" where
  "run_peers peers = filter p_Enabled peers"

section \<open>Pushing\<close>

text \<open>
  One push: \<open>cur\<close> is what Provider returns, \<open>now\<close> the clock of the export, \<open>newRequest\<close> the
  error of building the request, \<open>endpoint\<close> what is found at the other end.
\<close>

record push_io =
  pu_cur :: "File option"
  pu_now :: time
  pu_newRequest :: "string option"
  pu_crypto :: crypto
  pu_endpoint :: endpoint
  pu_audit :: audit_io
  pu_done :: "string option"

definition pushOnce ::
  "wire \<Rightarrow> (Entry \<Rightarrow> (string, string) result) \<Rightarrow> string \<Rightarrow> push_io \<Rightarrow> Peer \<Rightarrow> log \<Rightarrow>
   string option \<times> Request list \<times> log" where
  "pushOnce wr encode inst io peer lg =
     (case pu_cur io of
        None \<Rightarrow> (Some ''no config'', [], lg)
      | Some f \<Rightarrow>
          if pr_SharedKey (f_Peers f) = [] then (Some ''no shared key configured'', [], lg)
          else if p_URL peer = [] then (Some (''peer '' @ p_Name peer @ '': empty url''), [], lg)
          else
            let env = FilterForExport (pu_now io) inst 0 f (p_Name peer) in
            (case wr_encodeEnvelope wr env of
               Inl e \<Rightarrow> (Some e, [], lg)
             | Inr body \<Rightarrow>
            (case joinURL wr (p_URL peer) ''/peer/v1/items'' of
               Inl e \<Rightarrow> (Some e, [], lg)
             | Inr u \<Rightarrow>
               if pu_newRequest io \<noteq> None then (pu_newRequest io, [], lg)
               else
            (case httpClient (pu_crypto io) (pr_SharedKey (f_Peers f)) of
               Inl e \<Rightarrow> (Some e, [], lg)
             | Inr client \<Rightarrow>
                 let rq = \<lparr>rq_method = ''POST'', rq_url = u, rq_token = pr_SharedKey (f_Peers f), rq_body = body\<rparr> in
                 (case http_Do wr client (pu_endpoint io) rq of
                    (Inl e, sent) \<Rightarrow> (Some e, sent, lg)
                  | (Inr resp, sent) \<Rightarrow>
                      if rs_code resp div 100 \<noteq> 2
                      then (Some (''push to '' @ p_Name peer @ '': '' @ response_error wr resp), sent, lg)
                      else
                        (case wr_decodeResult wr (rs_body resp) of
                           None \<Rightarrow> (None, sent, lg)
                         | Some mr \<Rightarrow>
                             (None, sent,
                              snd (Write encode (pu_audit io)
                                \<lparr>e_Time = 0, e_Actor = ''self'', e_Action = ''peer-push-sent'',
                                 e_Details = p_Name peer @ '' '' @ StringifyMerge mr\<rparr> lg))))))))"

text \<open>
  Push retries while the error mentions a lock, at most five times; \<open>ios\<close> are the circumstances of
  the attempts, \<open>pu_done\<close> a cancelled context during the wait after one.  Provider is asked
  again for each attempt.
\<close>

fun push_loop ::
  "wire \<Rightarrow> (Entry \<Rightarrow> (string, string) result) \<Rightarrow> string \<Rightarrow> Peer \<Rightarrow> string option \<Rightarrow>
   push_io list \<Rightarrow> log \<Rightarrow> string option \<times> Request list \<times> log" where
  "push_loop wr encode inst peer lastErr [] lg = (lastErr, [], lg)"
| "push_loop wr encode inst peer lastErr (io # ios) lg =
     (case pushOnce wr encode inst io peer lg of
        (None, rqs, lg') \<Rightarrow> (None, rqs, lg')
      | (Some err, rqs, lg') \<Rightarrow>
          if \<not> Contains err ''locked'' then (Some err, rqs, lg')
          else
            (case pu_done io of
               Some e \<Rightarrow> (Some e, rqs, lg')
             | None \<Rightarrow>
                 (case push_loop wr encode inst peer (Some err) ios lg' of
                    (r, rqs', lg'') \<Rightarrow> (r, rqs @ rqs', lg''))))"

definition maxPushAttempts :: nat where
  "maxPushAttempts = 5"

definition Push ::
  "wire \<Rightarrow> (Entry \<Rightarrow> (string, string) result) \<Rightarrow> string \<Rightarrow> (nat \<Rightarrow> push_io) \<Rightarrow> Peer \<Rightarrow> log \<Rightarrow>
   string option \<times> Request list \<times> log" where
  "Push wr encode inst ios peer lg =
     push_loop wr encode inst peer None (map ios [1..<Suc maxPushAttempts]) lg"

text \<open>The test and reset at the head of PushAll.\<close>

definition push_suppressed :: "time \<Rightarrow> Client \<Rightarrow> bool" where
  "push_suppressed now c \<longleftrightarrow> \<not> IsZero (c_lastAppliedAt c) \<and> Sub now (c_lastAppliedAt c) < 2 * Second"

definition clear_mark :: "Client \<Rightarrow> Client" where
  "clear_mark c = c\<lparr>c_lastAppliedAt := 0, c_lastAppliedFrom := []\<rparr>"

fun push_each ::
  "(Peer \<Rightarrow> log \<Rightarrow> string option \<times> Request list \<times> log) \<Rightarrow> Peer list \<Rightarrow> log \<Rightarrow>
   string list \<times> Request list \<times> log" where
  "push_each push [] lg = ([], [], lg)"
| "push_each push (p # ps) lg =
     (case push p lg of
        (err, rqs, lg') \<Rightarrow>
          (case push_each push ps lg' of
             (errs, rqs', lg'') \<Rightarrow>
               ((case err of None \<Rightarrow> [] | Some e \<Rightarrow> [p_Name p @ '': '' @ e]) @ errs, rqs @ rqs', lg'')))"

definition PushAll ::
  "wire \<Rightarrow> (Entry \<Rightarrow> (string, string) result) \<Rightarrow> string \<Rightarrow> time \<Rightarrow> (Peer \<Rightarrow> nat \<Rightarrow> push_io) \<Rightarrow>
   (Peer list \<Rightarrow> Peer list) \<Rightarrow> Peer list \<Rightarrow> Client \<Rightarrow> log \<Rightarrow>
   string list \<times> Request list \<times> Client \<times> log" where
  "PushAll wr encode inst now ios schedule peers c lg =
     (let recent = push_suppressed now c; c = clear_mark c in
      if recent then ([], [], c, lg)
      else
        (case push_each (\<lambda>p lg. Push wr encode inst (ios p) p lg) (schedule (filter p_Enabled peers)) lg of
           (errs, rqs, lg') \<Rightarrow> (errs, rqs, c, lg')))"

section \<open>Pulling\<close>

definition recordErr :: "time \<Rightarrow> Peer \<Rightarrow> string \<Rightarrow> status_table \<Rightarrow> status_table" where
  "recordErr now peer e status =
     SetPeerStatus (p_Name peer) \<lparr>LastError = e, LastAction = ''error'', At = now\<rparr> status"

definition recordOK :: "time \<Rightarrow> Peer \<Rightarrow> status_table \<Rightarrow> status_table" where
  "recordOK now peer status =
     SetPeerStatus (p_Name peer) \<lparr>LastError = [], LastAction = ''ok'', At = now\<rparr> status"

record pull_io =
  pl_newRequest :: "string option"
  pl_crypto :: crypto
  pl_endpoint :: endpoint
  pl_now :: time
  pl_mark :: time
  pl_audit :: audit_io

text \<open>The part of pull that fetches: nothing to do, an error to record, or an envelope.\<close>

datatype fetched = Idle | FetchErr string | Got Envelope

definition pull_fetch :: "wire \<Rightarrow> pull_io \<Rightarrow> File option \<Rightarrow> Peer \<Rightarrow> fetched \<times> Request list" where
  "pull_fetch wr io cur peer =
     (if cur = None \<or> PSK cur = [] then (Idle, [])
      else if p_URL peer = [] then (Idle, [])
      else
        (case joinURL wr (p_URL peer) ''/peer/v1/items'' of
           Inl e \<Rightarrow> (FetchErr e, [])
         | Inr u \<Rightarrow>
             (case pl_newRequest io of
                Some e \<Rightarrow> (FetchErr e, [])
              | None \<Rightarrow>
             (case httpClient (pl_crypto io) (PSK cur) of
                Inl e \<Rightarrow> (FetchErr e, [])
              | Inr client \<Rightarrow>
                  let rq = \<lparr>rq_method = ''GET'', rq_url = u, rq_token = PSK cur, rq_body = []\<rparr> in
                  (case http_Do wr client (pl_endpoint io) rq of
                     (Inl e, sent) \<Rightarrow> (FetchErr e, sent)
                   | (Inr resp, sent) \<Rightarrow>
                       if rs_code resp div 100 \<noteq> 2
                       then (FetchErr (''pull from '' @ p_Name peer @ '': '' @ response_error wr resp), sent)
                       else
                         (case wr_decodeEnvelope wr (rs_body resp) of
                            Inl e \<Rightarrow> (FetchErr (''decode: '' @ e), sent)
                          | Inr env \<Rightarrow> (Got env, sent)))))))"

section \<open>Lemmas\<close>

text \<open>What was checked of the other end before a request left, and what a request of a push
  carries.\<close>

definition sent_safely :: "wire \<Rightarrow> crypto \<Rightarrow> string \<Rightarrow> endpoint \<Rightarrow> Request \<Rightarrow> bool" where
  "sent_safely wr cr psk ep rq \<longleftrightarrow>
     wr_scheme wr (rq_url rq) = ''https'' \<longrightarrow>
     (\<exists>cfg. tlsConfigForClient cr psk = Inr cfg \<and> cc_VerifyPeerCertificate cfg (ep_certs ep) = None)"

lemma http_Do_sent:
  assumes "http_Do wr cfg ep rq = (r, sent)" and "httpClient cr psk = Inr cfg"
  shows "(sent = [] \<or> sent = [rq]) \<and> (\<forall>q \<in> set sent. sent_safely wr cr psk ep q)"
  using assms by (auto simp: http_Do_def sent_safely_def httpClient_def split: option.splits if_splits)

definition push_request :: "wire \<Rightarrow> string \<Rightarrow> File \<Rightarrow> Peer \<Rightarrow> push_io \<Rightarrow> Request \<Rightarrow> bool" where
  "push_request wr inst f peer io rq \<longleftrightarrow>
     pr_SharedKey (f_Peers f) \<noteq> [] \<and> rq_token rq = pr_SharedKey (f_Peers f) \<and>
     joinURL wr (p_URL peer) ''/peer/v1/items'' = Inr (rq_url rq) \<and>
     (\<exists>now. wr_encodeEnvelope wr (FilterForExport now inst 0 f (p_Name peer)) = Inr (rq_body rq)) \<and>
     sent_safely wr (pu_crypto io) (pr_SharedKey (f_Peers f)) (pu_endpoint io) rq"

lemma pushOnce_requests:
  assumes "pushOnce wr encode inst io peer lg = (e, rqs, lg')" and "pu_cur io = Some f"
  shows "length rqs \<le> 1 \<and> (\<forall>rq \<in> set rqs. push_request wr inst f peer io rq)"
proof (cases "rqs = []")
  case False
  then obtain body u client rq r where
    "pr_SharedKey (f_Peers f) \<noteq> []"
    "wr_encodeEnvelope wr (FilterForExport (pu_now io) inst 0 f (p_Name peer)) = Inr body"
    "joinURL wr (p_URL peer) ''/peer/v1/items'' = Inr u"
    "rq = \<lparr>rq_method = ''POST'', rq_url = u, rq_token = pr_SharedKey (f_Peers f), rq_body = body\<rparr>"
    and c: "httpClient (pu_crypto io) (pr_SharedKey (f_Peers f)) = Inr client"
    and d: "http_Do wr client (pu_endpoint io) rq = (r, rqs)"
    using assms by (auto simp: pushOnce_def Let_def split: if_splits sum.splits option.splits prod.splits)
  then show ?thesis using http_Do_sent [OF d c] by (auto simp: push_request_def)
qed simp

lemma push_loop_requests:
  "push_loop wr encode inst peer e0 ios lg = (e, rqs, lg') \<Longrightarrow> \<forall>io \<in> set ios. pu_cur io = Some f \<Longrightarrow>
   length rqs \<le> length ios \<and> (\<forall>rq \<in> set rqs. \<exists>io \<in> set ios. push_request wr inst f peer io rq)"
proof (induction ios arbitrary: e0 lg e rqs lg')
  case (Cons io ios)
  obtain e1 r1 l1 where one: "pushOnce wr encode inst io peer lg = (e1, r1, l1)" by (metis prod.exhaust)
  have cur: "pu_cur io = Some f" using Cons.prems(2) by simp
  note first = pushOnce_requests [OF one cur]
  consider "rqs = r1" | e2 r2 l2 where "push_loop wr encode inst peer (Some (the e1)) ios l1 = (e2, r2, l2)" "rqs = r1 @ r2"
    using Cons.prems(1) one by (auto split: option.splits if_splits prod.splits)
  then show ?case
  proof cases
    case 1
    then show ?thesis using first by simp
  next
    case 2
    then have "length r2 \<le> length ios \<and> (\<forall>rq \<in> set r2. \<exists>io \<in> set ios. push_request wr inst f peer io rq)"
      using Cons.IH [OF 2(1)] Cons.prems(2) by simp
    then show ?thesis using first 2 by auto
  qed
qed simp

lemma Push_requests:
  assumes "Push wr encode inst ios peer lg = (e, rqs, lg')" and "\<And>n. pu_cur (ios n) = Some f"
  shows "length rqs \<le> maxPushAttempts \<and> (\<forall>rq \<in> set rqs. \<exists>n. push_request wr inst f peer (ios n) rq)"
  using push_loop_requests [OF assms(1) [unfolded Push_def], of f] assms(2) by (force simp: maxPushAttempts_def)

lemma push_each_requests:
  assumes "\<And>p lg e rqs lg'. push p lg = (e, rqs, lg') \<Longrightarrow> \<forall>rq \<in> set rqs. R p rq"
  shows "push_each push ps lg = (errs, rqs, lg') \<Longrightarrow> rq \<in> set rqs \<Longrightarrow> \<exists>p \<in> set ps. R p rq"
proof (induction ps arbitrary: lg errs rqs lg')
  case (Cons p ps)
  obtain e1 r1 l1 where one: "push p lg = (e1, r1, l1)" by (metis prod.exhaust)
  obtain e2 r2 l2 where two: "push_each push ps l1 = (e2, r2, l2)" by (metis prod.exhaust)
  then have "rq \<in> set r1 \<or> rq \<in> set r2" using Cons.prems one by auto
  then show ?case using Cons.IH [OF two] assms [OF one] by auto
qed simp

section \<open>Concrete inputs\<close>

definition plain_wire :: wire where
  "plain_wire =
     \<lparr>wr_encodeEnvelope = (\<lambda>e. Inr (e_InstanceID e)), wr_decodeEnvelope = (\<lambda>_. Inr (zone_envelope [])),
      wr_decodeError = (\<lambda>s. s), wr_decodeResult = (\<lambda>_. Some zero_result),
      wr_parseURL = (\<lambda>s. Inr \<lparr>ur_rest = s, ur_path = []\<rparr>), wr_urlString = (\<lambda>u. ur_rest u @ ur_path u),
      wr_scheme = (\<lambda>s. if HasPrefix s ''https://'' then ''https'' else ''http'')\<rparr>"

definition good_end :: endpoint where
  "good_end = \<lparr>ep_certs = [[1]], ep_answer = (\<lambda>_. Inr \<lparr>rs_code = 200, rs_status = ''200 OK'', rs_body = []\<rparr>)\<rparr>"

lemma good_end_reached:
  "\<exists>cfg. httpClient toy_crypto ''k'' = Inr cfg \<and>
     http_Do wr cfg good_end rq = (Inr \<lparr>rs_code = 200, rs_status = ''200 OK'', rs_body = []\<rparr>, [rq])"
  by (simp add: httpClient_def tlsConfigForClient_def toy_cert http_Do_def good_end_def)
    (simp add: toy_crypto_def verifyPeerPublicKey_def publicKeysEqual_def)

definition peer_b :: Peer where
  "peer_b = \<lparr>p_Name = ''b'', p_URL = ''https://b'', p_Enabled = True, p_Status = zero_status\<rparr>"

definition good_push :: "File \<Rightarrow> push_io" where
  "good_push f =
     \<lparr>pu_cur = Some f, pu_now = 5, pu_newRequest = None, pu_crypto = toy_crypto, pu_endpoint = good_end,
      pu_audit = audit_ok_io, pu_done = None\<rparr>"

lemma good_push_once:
  assumes "pr_SharedKey (f_Peers f) = ''k''"
  shows "\<exists>rq lg'. pushOnce plain_wire encode inst (good_push f) peer_b lg = (None, [rq], lg')"
proof -
  obtain cfg where c: "httpClient toy_crypto ''k'' = Inr cfg"
    and d: "http_Do plain_wire cfg good_end rq = (Inr \<lparr>rs_code = 200, rs_status = ''200 OK'', rs_body = []\<rparr>, [rq])" for rq
    using good_end_reached by (metis sum.inject(2))
  have "wr_encodeEnvelope plain_wire = (\<lambda>e. Inr (e_InstanceID e))" "wr_decodeResult plain_wire = (\<lambda>_. Some zero_result)"
    "\<exists>u. joinURL plain_wire ''https://b'' ''/peer/v1/items'' = Inr u"
    by (simp_all add: plain_wire_def joinURL_def)
  then show ?thesis using assms c d by (auto simp: pushOnce_def good_push_def peer_b_def Let_def)
qed

lemma good_push_all:
  assumes "pr_SharedKey (f_Peers f) = ''k''" and "\<not> push_suppressed now c"
  shows "\<exists>rq lg'. PushAll plain_wire encode inst now (\<lambda>p n. good_push f) (\<lambda>x. x) [peer_b] c lg =
    ([], [rq], clear_mark c, lg')"
proof -
  obtain rq lg' where "pushOnce plain_wire encode inst (good_push f) peer_b lg = (None, [rq], lg')"
    using good_push_once [OF assms(1)] by metis
  then have "Push plain_wire encode inst (\<lambda>n. good_push f) peer_b lg = (None, [rq], lg')"
    by (simp add: Push_def maxPushAttempts_def upt_rec)
  then show ?thesis using assms(2) by (simp add: PushAll_def peer_b_def)
qed

section \<open>Properties\<close>



text \<open>A base address with a path gets a doubled slash.\<close>

lemma join_doubles_slash:
  assumes "p \<noteq> []" and "last p \<noteq> CHR ''/''"
  shows "stringsTrimRightSlash p @ ''/peer/v1/items'' = p @ ''//peer/v1/items''"
proof -
  have "rev p \<noteq> []" "hd (rev p) \<noteq> CHR ''/''" using assms by (simp_all add: hd_rev)
  then have "dropWhile (\<lambda>c. c = CHR ''/'') (rev p) = rev p" by (cases "rev p") auto
  then show ?thesis using assms(1) by (simp add: stringsTrimRightSlash_def Let_def)
qed

end
