(* ===== verification/Listener.thy ===== *)
theory Listener
  imports Client
begin

text \<open>
  The incoming side of the peer exchange, internal/sync/listener.go: authentication and the three
  endpoints.  A reply is its status code with a tagged body; the sink that applies a pushed
  envelope (in main.go) is an argument, as in the code, and its effect on the rest of the
  process is threaded through as a state of any type.  The error for a clock out of the window is
  modelled without the two durations in its text.
\<close>

section \<open>Configuration\<close>

record ListenerConfig =
  lc_Listen :: string
  lc_PSK :: string
  lc_Instance :: string
  lc_Skew :: duration
  lc_PeerName :: string

definition peerName :: "ListenerConfig \<Rightarrow> string" where
  "peerName cfg = (if lc_PeerName cfg \<noteq> [] then lc_PeerName cfg else ''default'')"

text \<open>Start and StartTLS: an error, or the TLS configuration that is served; the error of opening
  the socket is an input.\<close>

definition StartTLS :: "ListenerConfig \<Rightarrow> server_config \<Rightarrow> string option \<Rightarrow> (string, server_config) result" where
  "StartTLS cfg tlsCfg listenErr =
     (if lc_PSK cfg = []
      then Inl ''refusing to start peer listener without a shared key (set peers.shared_key or PEER_SHARED_KEY)''
      else (case listenErr of Some e \<Rightarrow> Inl e | None \<Rightarrow> Inr tlsCfg))"

definition listener_Start :: "ListenerConfig \<Rightarrow> crypto \<Rightarrow> string option \<Rightarrow> (string, server_config) result" where
  "listener_Start cfg cr listenErr =
     (case tlsConfigForServer cr (lc_PSK cfg) of
        Inl e \<Rightarrow> Inl (''derive peer TLS cert: '' @ e)
      | Inr tlsCfg \<Rightarrow> StartTLS cfg tlsCfg listenErr)"

section \<open>Endpoints\<close>

datatype reply_body =
    Text string
  | JSONError string
  | JManifest Manifest
  | JEnvelope Envelope
  | JResult MergeResult

type_synonym http_reply = "nat \<times> reply_body"

record peer_request =
  qr_method :: string
  qr_token :: string
  qr_since :: string
  qr_body :: "(string, Envelope) result"

text \<open>The body of a request, by the JSON decoder.\<close>

definition decodeEnvelope :: "wire \<Rightarrow> string \<Rightarrow> (string, Envelope) result" where
  "decodeEnvelope wr body = labelled ''invalid json'' (wr_decodeEnvelope wr body)"

definition requireAuth :: "ListenerConfig \<Rightarrow> peer_request \<Rightarrow> http_reply option" where
  "requireAuth cfg r =
     (if \<not> AuthOK (qr_token r) (lc_PSK cfg)
      then Some (401, JSONError ''missing or invalid X-Peer-Token'') else None)"

definition handleHealthz :: "ListenerConfig \<Rightarrow> peer_request \<Rightarrow> http_reply" where
  "handleHealthz cfg r = (case requireAuth cfg r of Some e \<Rightarrow> e | None \<Rightarrow> (200, Text ''ok''))"

definition handleManifest :: "ListenerConfig \<Rightarrow> time \<Rightarrow> File option \<Rightarrow> peer_request \<Rightarrow> http_reply" where
  "handleManifest cfg now cur r =
     (case requireAuth cfg r of
        Some e \<Rightarrow> e
      | None \<Rightarrow>
        (case cur of
           None \<Rightarrow> (503, JSONError ''no config'')
         | Some f \<Rightarrow> (200, JManifest (BuildManifest now (lc_Instance cfg) 0 f (peerName cfg)))))"

text \<open>strconv.ParseUint in base 10 for 64 bits: digits only, and in range.\<close>

definition ParseUint :: "string \<Rightarrow> nat option" where
  "ParseUint s =
     (if s \<noteq> [] \<and> list_all isDigit s \<and> digits_val s < 2 ^ 64 then Some (digits_val s) else None)"

definition since_seq :: "string \<Rightarrow> nat \<Rightarrow> nat" where
  "since_seq s seq =
     (if s \<noteq> [] then (case ParseUint s of Some n \<Rightarrow> n | None \<Rightarrow> seq) else seq)"

text \<open>The envelope's own clock against ours.\<close>

definition skewed :: "ListenerConfig \<Rightarrow> time \<Rightarrow> Envelope \<Rightarrow> bool" where
  "skewed cfg now env \<longleftrightarrow>
     lc_Skew cfg > 0 \<and> \<not> IsZero (e_ServerTime env) \<and>
     (let dt = Sub now (e_ServerTime env) in dt < - lc_Skew cfg \<or> dt > lc_Skew cfg)"

record items_io =
  it_now :: time
  it_audit :: audit_io

type_synonym 'w push_sink = "Envelope \<Rightarrow> string \<Rightarrow> 'w \<Rightarrow> (string, MergeResult) result \<times> 'w"

definition handleItems ::
  "ListenerConfig \<Rightarrow> (Entry \<Rightarrow> (string, string) result) \<Rightarrow> items_io \<Rightarrow> ('w \<Rightarrow> File option) \<Rightarrow>
   ((log \<Rightarrow> log) \<Rightarrow> 'w \<Rightarrow> 'w) \<Rightarrow> 'w push_sink option \<Rightarrow> peer_request \<Rightarrow> 'w \<Rightarrow> http_reply \<times> 'w" where
  "handleItems cfg encode io provider upd_log pushSink r w =
     (case requireAuth cfg r of
        Some e \<Rightarrow> (e, w)
      | None \<Rightarrow>
        if qr_method r = ''GET'' then
          (case provider w of
             None \<Rightarrow> ((503, JSONError ''no config''), w)
           | Some f \<Rightarrow>
               let env = FilterForExport (it_now io) (lc_Instance cfg) 0 f (peerName cfg) in
               ((200, JEnvelope (env\<lparr>e_FromSeq := since_seq (qr_since r) (e_FromSeq env)\<rparr>)), w))
        else if qr_method r = ''POST'' then
          (case qr_body r of
             Inl e \<Rightarrow> ((400, JSONError e), w)
           | Inr env \<Rightarrow>
               if skewed cfg (it_now io) env then ((400, JSONError ''server_time out of window''), w)
               else
                 (case pushSink of
                    None \<Rightarrow> ((501, JSONError ''push sink not configured''), w)
                  | Some sink \<Rightarrow>
                      (case sink env (peerName cfg) w of
                         (Inl e, w) \<Rightarrow> ((400, JSONError e), w)
                       | (Inr res, w) \<Rightarrow>
                           ((200, JResult res),
                            upd_log (\<lambda>lg. snd (Write encode (it_audit io)
                              \<lparr>e_Time = 0, e_Actor = ''peer:'' @ e_InstanceID env, e_Action = ''peer-push-applied'',
                               e_Details = StringifyMerge res\<rparr> lg)) w))))
        else ((405, JSONError ''use GET or POST''), w))"

section \<open>Routing\<close>

text \<open>
  NewListener registers three handlers under fixed paths.  Whatever the standard multiplexer does
  with another path (404, or a redirect to the cleaned path) calls no handler: \<open>unmatched\<close>.
\<close>

datatype peer_handler = HandleManifest | HandleItems | HandleHealthz

definition peer_mux :: "string \<Rightarrow> peer_handler option" where
  "peer_mux = map_of
     [(''/peer/v1/manifest'', HandleManifest),
      (''/peer/v1/items'', HandleItems),
      (''/peer/v1/healthz'', HandleHealthz)]"

definition NewListener ::
  "ListenerConfig \<Rightarrow> (Entry \<Rightarrow> (string, string) result) \<Rightarrow> items_io \<Rightarrow> ('w \<Rightarrow> File option) \<Rightarrow>
   ((log \<Rightarrow> log) \<Rightarrow> 'w \<Rightarrow> 'w) \<Rightarrow> 'w push_sink option \<Rightarrow> (string \<Rightarrow> http_reply) \<Rightarrow> string \<Rightarrow> peer_request \<Rightarrow> 'w \<Rightarrow>
   http_reply \<times> 'w" where
  "NewListener cfg encode io provider upd_log pushSink unmatched path r w =
     (case peer_mux path of
        Some HandleManifest \<Rightarrow> (handleManifest cfg (it_now io) (provider w) r, w)
      | Some HandleItems \<Rightarrow> handleItems cfg encode io provider upd_log pushSink r w
      | Some HandleHealthz \<Rightarrow> (handleHealthz cfg r, w)
      | None \<Rightarrow> (unmatched path, w))"

section \<open>Properties\<close>

text \<open>
  C20. A request without the shared key is refused at every endpoint, whatever the path and
  the method, with status 401; it reveals
  nothing of the configuration and changes nothing; with no key configured every request is
  refused, and the listener does not even start.
\<close>

theorem unauthorised_refused:
  assumes "lc_PSK cfg = [] \<or> qr_token r \<noteq> lc_PSK cfg"
  shows "NewListener cfg encode io provider upd sink unmatched path r w =
      (if peer_mux path = None then unmatched path else (401, JSONError ''missing or invalid X-Peer-Token''), w) \<and>
    (lc_PSK cfg = [] \<longrightarrow> (\<exists>e. listener_Start cfg cr listenErr = Inl e))"
proof -
  have "requireAuth cfg r = Some (401, JSONError ''missing or invalid X-Peer-Token'')"
    using assms by (auto simp: requireAuth_def AuthOK_def)
  then show ?thesis
    by (auto simp: NewListener_def handleItems_def handleManifest_def handleHealthz_def listener_Start_def StartTLS_def
        split: option.split sum.split peer_handler.split)
qed

theorem unauthorised_refused_witness:
  "NewListener \<lparr>lc_Listen = ''0.0.0.0:8443'', lc_PSK = ''k'', lc_Instance = ''a'', lc_Skew = 300, lc_PeerName = ''a''\<rparr>
     (\<lambda>_. Inr []) \<lparr>it_now = 1, it_audit = audit_ok_io\<rparr> (\<lambda>_. None) (\<lambda>_ w. w) None (\<lambda>_. (404, Text ''404 page not found''))
     ''/peer/v1/items'' \<lparr>qr_method = ''GET'', qr_token = ''x'', qr_since = [], qr_body = Inl ''EOF''\<rparr> () =
   ((401, JSONError ''missing or invalid X-Peer-Token''), ())"
  using unauthorised_refused
    [of "\<lparr>lc_Listen = ''0.0.0.0:8443'', lc_PSK = ''k'', lc_Instance = ''a'', lc_Skew = 300, lc_PeerName = ''a''\<rparr>"
      "\<lparr>qr_method = ''GET'', qr_token = ''x'', qr_since = [], qr_body = Inl ''EOF''\<rparr>"
      "\<lambda>_. Inr []" "\<lparr>it_now = 1, it_audit = audit_ok_io\<rparr>" "\<lambda>_. None" "\<lambda>_ w. w" None
      "\<lambda>_. (404, Text ''404 page not found'')" "''/peer/v1/items''" "()" toy_crypto None]
  by (simp add: peer_mux_def)

end
