(* ===== verification/Unbound.thy ===== *)
theory Unbound
  imports Config
begin

text \<open>
  The generator of internal/unbound/generate.go.  The code appends to a string builder, one
  line with its line break per call; the model is the list of these lines, and \<open>Generate\<close>
  their concatenation.
\<close>

section \<open>Addresses\<close>

definition DefaultListen :: string where
  "DefaultListen = ''127.0.0.1:15353''"

definition DefaultListenPort :: int where
  "DefaultListenPort = 15353"

definition ProxyAddr :: string where
  "ProxyAddr = DefaultListen"

definition ensureFQDN :: "string \<Rightarrow> string" where
  "ensureFQDN name = (if HasSuffix name ''.'' then name else name @ ''.'')"

definition splitHostPort :: "string \<Rightarrow> int \<Rightarrow> string \<times> int" where
  "splitHostPort s0 def =
     (let s = TrimSpace s0 in
      if \<not> Contains s '':'' then (s, def)
      else if HasPrefix s ''['' then
        (case IndexByte s (CHR '']'') of
           None \<Rightarrow> (s, def)
         | Some end \<Rightarrow>
             let host = take (end + 1) s;
                 rest = drop (end + 1) s;
                 rest = (if HasPrefix rest '':'' then drop 1 rest else rest);
                 p = Sscanf_d rest 0;
                 p = (if p = 0 then def else p)
             in (host, p))
      else
        (case LastIndexByte s (CHR '':'') of
           None \<Rightarrow> (s, def)
         | Some idx \<Rightarrow>
             let host = take idx s;
                 rest = drop (idx + 1) s;
                 p = Sscanf_d rest 0;
                 p = (if p = 0 then def else p)
             in (host, p)))"

section \<open>The generated file\<close>

abbreviation tab :: "string \<Rightarrow> string" where "tab s \<equiv> CHR 0x09 # s"
abbreviation quoted :: "string \<Rightarrow> string" where "quoted s \<equiv> [CHR 0x22] @ s @ [CHR 0x22]"

definition server_lines :: "File \<Rightarrow> string list" where
  "server_lines f =
     (let (host, port) = splitHostPort (s_DNSListen (f_Settings f)) 53 in
      [''# Generated by AzureDNSForwarder - do not edit by hand.'',
       ''server:'',
       tab ''verbosity: 1'',
       tab ''interface-automatic: no'',
       tab (''interface: '' @ host),
       tab (''port: '' @ fmt_d port),
       tab ''do-ip4: yes'',
       tab ''do-ip6: yes'',
       tab ''do-udp: yes'',
       tab ''do-tcp: yes'',
       tab ''cache-min-ttl: 60'',
       tab ''cache-max-ttl: 86400'',
       tab (''msg-cache-size: '' @ fmt_d (s_CacheSize (f_Settings f))),
       tab (''rrset-cache-size: '' @ fmt_d (s_CacheSize (f_Settings f)))] @
      (if s_DNSSEC (f_Settings f)
       then [tab (''module-config: '' @ quoted ''validator iterator''), tab ''trust-anchor-signaling: yes'']
       else [tab (''module-config: '' @ quoted ''iterator'')]) @
      (if s_LogQueries (f_Settings f) then [tab ''verbosity: 2''] else []) @
      [tab (''directory: '' @ quoted ''/etc/unbound''),
       tab (''username: '' @ quoted ''dnsfwd''),
       tab ''use-syslog: no'',
       tab (''logfile: '' @ quoted ''/dev/stdout''),
       tab ''num-threads: 1'',
       tab ''access-control: 0.0.0.0/0 allow'',
       tab ''access-control: ::/0 allow'',
       tab ''unwanted-reply-threshold: 0'',
       tab ''private-address: 168.63.129.16'',
       tab ''private-address: 169.254.169.254'',
       tab ''do-not-query-localhost: no'',
       []])"

definition record_lines :: "StaticRecord \<Rightarrow> string list" where
  "record_lines r =
     (if r_Deleted r then []
      else
        let name = ensureFQDN (r_Name r);
            val = r_Value r;
            val = (if r_Type r = ''CNAME'' \<and> \<not> HasSuffix val ''.'' then ensureFQDN val else val);
            line = (\<lambda>t. ''local-data: '' @ quoted (name @ '' '' @ fmt_d (r_TTL r) @ '' IN '' @ t @ '' '' @ val))
        in if ToUpper (r_Type r) = ''A'' then [line ''A'']
           else if ToUpper (r_Type r) = ''AAAA'' then [line ''AAAA'']
           else if ToUpper (r_Type r) = ''CNAME'' then [line ''CNAME'']
           else [])"

definition static_lines :: "File \<Rightarrow> string list" where
  "static_lines f =
     (if length (f_StaticRecords f) > 0 then concat (map record_lines (f_StaticRecords f)) @ [[]] else [])"

fun enabled_defaults :: "UpstreamDefault list \<Rightarrow> UpstreamDefault list" where
  "enabled_defaults [] = []"
| "enabled_defaults (u # us) =
     (if u_Deleted u \<or> \<not> u_Enabled u then enabled_defaults us else u # enabled_defaults us)"

definition forward_lines :: "string \<Rightarrow> int \<Rightarrow> string list" where
  "forward_lines addr port =
     tab (''forward-addr: '' @ addr) # (if port \<noteq> 53 then [tab (''forward-port: '' @ fmt_d port)] else [])"

definition default_zone_lines :: "File \<Rightarrow> string list" where
  "default_zone_lines f =
     (let enabled = enabled_defaults (elems (f_UpstreamDefaults f)) in
      if length enabled > 0 then
        [''forward-zone:'', tab (''name: '' @ quoted ''.'')] @
        concat (map (\<lambda>u. forward_lines (u_Address u) (u_Port u)) enabled) @
        [tab ''forward-tls-upstream: no'', []]
      else [])"

definition zone_lines :: "ForwardZone \<Rightarrow> string list" where
  "zone_lines z =
     (if z_Deleted z then []
      else
        let name = TrimPrefix (z_Name z) ''*.'' in
        [''forward-zone:'', tab (''name: '' @ quoted name)] @
        (if z_LeastLatency z then
           let (host, port) = splitHostPort DefaultListen DefaultListenPort;
               host = (if port \<noteq> 53 then host @ ''@'' @ fmt_d port else host)
           in [tab (''forward-addr: '' @ host)]
         else
           concat (map (\<lambda>u. let (host, port) = splitHostPort u 53 in forward_lines host port) (z_Upstreams z))) @
        [tab ''forward-tls-upstream: no'', []])"

definition Generate_lines :: "File \<Rightarrow> string list" where
  "Generate_lines f =
     server_lines f @ static_lines f @ default_zone_lines f @
     concat (map zone_lines (f_ForwardZones f)) @
     [''remote-control:'', tab ''control-enable: no'']"

definition Generate :: "File \<Rightarrow> string" where
  "Generate f = concat (map (\<lambda>l. l @ [CHR 0x0A]) (Generate_lines f))"

section \<open>Reading the generated file back\<close>

text \<open>
  The forward zones that a file of lines defines: a clause starts at \<open>forward-zone:\<close> and lasts
  while lines are indented or blank; its name is quoted, its targets are the forward-addr lines,
  each with the forward-port line that follows it, if any.
\<close>

type_synonym target = "string \<times> string option"
type_synonym zone_clause = "string \<times> target list"

abbreviation name_prefix :: string where "name_prefix \<equiv> tab (''name: '' @ [CHR 0x22])"
abbreviation addr_prefix :: string where "addr_prefix \<equiv> tab ''forward-addr: ''"
abbreviation port_prefix :: string where "port_prefix \<equiv> tab ''forward-port: ''"

fun set_last_port :: "string \<Rightarrow> target list \<Rightarrow> target list" where
  "set_last_port p [] = []"
| "set_last_port p [(a, q)] = [(a, Some p)]"
| "set_last_port p (t # ts) = t # set_last_port p ts"

definition close_clause :: "zone_clause option \<Rightarrow> zone_clause list" where
  "close_clause c = (case c of None \<Rightarrow> [] | Some z \<Rightarrow> [z])"

fun read_zones :: "zone_clause option \<Rightarrow> string list \<Rightarrow> zone_clause list" where
  "read_zones cur [] = close_clause cur"
| "read_zones cur (l # ls) =
     (if l = ''forward-zone:'' then close_clause cur @ read_zones (Some ([], [])) ls
      else if HasPrefix l name_prefix
      then read_zones (map_option (\<lambda>(n, as). (butlast (drop (length name_prefix) l), as)) cur) ls
      else if HasPrefix l addr_prefix
      then read_zones (map_option (\<lambda>(n, as). (n, as @ [(drop (length addr_prefix) l, None)])) cur) ls
      else if HasPrefix l port_prefix
      then read_zones (map_option (\<lambda>(n, as). (n, set_last_port (drop (length port_prefix) l) as)) cur) ls
      else if l = [] \<or> hd l = CHR 0x09 then read_zones cur ls
      else close_clause cur @ read_zones None ls)"

definition split_lines :: "string \<Rightarrow> string list" where
  "split_lines s = butlast (SplitByte s (CHR 0x0A))"

text \<open>The zones the configuration asks for.\<close>

definition target_of :: "string \<Rightarrow> int \<Rightarrow> target" where
  "target_of addr port = (addr, if port = 53 then None else Some (fmt_d port))"

definition zone_targets :: "ForwardZone \<Rightarrow> target list" where
  "zone_targets z =
     (if z_LeastLatency z then [(''127.0.0.1@15353'', None)]
      else map (\<lambda>u. case splitHostPort u 53 of (host, port) \<Rightarrow> target_of host port) (z_Upstreams z))"

definition wanted_zones :: "File \<Rightarrow> zone_clause list" where
  "wanted_zones f =
     (let us = filter active (elems (f_UpstreamDefaults f)) in
      if us = [] then [] else [(''.'', map (\<lambda>u. target_of (u_Address u) (u_Port u)) us)]) @
     map (\<lambda>z. (clean_name z, zone_targets z)) (live_zones (f_ForwardZones f))"

section \<open>Lemmas\<close>

subsection \<open>Host and port\<close>

lemma set_splitHostPort: "set (fst (splitHostPort s d)) \<subseteq> set s"
  using set_TrimSpace [of s]
  by (auto simp: splitHostPort_def Let_def split: option.split dest: in_set_takeD)

lemma splitHostPort_no_port:
  "CHR '':'' \<notin> set s \<Longrightarrow> (\<forall>c \<in> set s. \<not> isSpace c) \<Longrightarrow> splitHostPort s d = (s, d)"
  by (simp add: splitHostPort_def TrimSpace_id)

lemma Sscanf_nat_digits: "n \<le> nat max_int64 \<Longrightarrow> Sscanf_d (nat_digits n) p = int n"
proof -
  have "\<not> isSpace c" if "isDigit c" for c
    using that by (auto simp: isDigit_def isSpace_def Let_def)
  then have "dropWhile (\<lambda>c. isSpace c \<and> c \<noteq> CHR 0x0A) (nat_digits n) = nat_digits n"
    using nat_digits_isDigit [of n] by (intro dropWhile_all) auto
  moreover assume "n \<le> nat max_int64"
  ultimately show ?thesis using scan_nat_digits [of "[]" n] by (simp add: Sscanf_d_def)
qed

lemma digit_not_colon_space: "isDigit c \<Longrightarrow> c \<noteq> CHR '':'' \<and> \<not> isSpace c"
  by (auto simp: isDigit_def isSpace_def Let_def)

lemma splitHostPort_host_port:
  assumes "h = [] \<or> hd h \<noteq> CHR ''[''" and "\<forall>c \<in> set h. \<not> isSpace c"
    and "0 < n" and "n \<le> nat max_int64"
  shows "splitHostPort (h @ '':'' @ nat_digits n) d = (h, int n)"
proof -
  let ?s = "h @ CHR '':'' # nat_digits n"
  have dg: "\<forall>c \<in> set (nat_digits n). c \<noteq> CHR '':'' \<and> \<not> isSpace c"
    using nat_digits_isDigit digit_not_colon_space by blast
  have "\<forall>c \<in> set ?s. \<not> isSpace c" using assms(2) dg by (auto simp: isSpace_def)
  then have trim: "TrimSpace ?s = ?s" by (rule TrimSpace_id)
  have pre: "\<not> HasPrefix ?s ''[''" using assms(1) by (cases h) (auto simp: HasPrefix_def)
  have last: "LastIndexByte ?s (CHR '':'') = Some (length h)"
    using dg by (intro LastIndexByte_append) auto
  show ?thesis
    using assms(3,4) by (simp add: splitHostPort_def trim pre last Sscanf_nat_digits Let_def)
qed

subsection \<open>The reader on the generated lines\<close>

lemma HasPrefix_Cons [simp]: "HasPrefix (c # s) (d # p) \<longleftrightarrow> c = d \<and> HasPrefix s p"
  by (simp add: HasPrefix_def)

lemma HasPrefix_Nil [simp]: "HasPrefix s []" "HasPrefix [] (d # p) \<longleftrightarrow> False"
  by (simp_all add: HasPrefix_def)

lemma read_zones_skip:
  "''forward-zone:'' \<notin> set ls \<Longrightarrow> read_zones None (ls @ rest) = read_zones None rest"
  by (induction ls) (auto simp: close_clause_def)

lemma set_last_port_append [simp]: "set_last_port p (ts @ [(a, q)]) = ts @ [(a, Some p)]"
proof (induction ts)
  case (Cons t ts)
  then show ?case by (cases ts; cases t) simp_all
qed simp

lemma read_zones_forward:
  "read_zones (Some (n, as)) (forward_lines a p @ rest) = read_zones (Some (n, as @ [target_of a p])) rest"
  by (simp add: forward_lines_def target_of_def)

lemma read_zones_forwards:
  "read_zones (Some (n, as)) (concat (map (\<lambda>x. forward_lines (a x) (p x)) xs) @ rest) =
   read_zones (Some (n, as @ map (\<lambda>x. target_of (a x) (p x)) xs)) rest"
  by (induction xs arbitrary: as) (simp_all add: read_zones_forward)

lemma read_zones_clause_end:
  "read_zones cur ([tab ''forward-tls-upstream: no'', []] @ rest) = read_zones cur rest"
  by simp

lemma read_zones_clause_start:
  "read_zones cur ([''forward-zone:'', tab (''name: '' @ quoted n)] @ rest) =
   close_clause cur @ read_zones (Some (n, [])) rest"
  by simp

lemma server_lines_no_zone: "''forward-zone:'' \<notin> set (server_lines f)"
  by (auto simp: server_lines_def split: prod.split)

lemma static_lines_no_zone: "''forward-zone:'' \<notin> set (static_lines f)"
  by (simp add: static_lines_def record_lines_def Let_def)

lemma enabled_defaults_filter: "enabled_defaults us = filter active us"
  by (induction us) (auto simp: active_def)

lemma fmt_d_proxy_port: "fmt_d 15353 = ''15353''"
  by (simp add: fmt_d_def nat_digits.simps)

lemma proxy_host_port: "splitHostPort DefaultListen DefaultListenPort = (''127.0.0.1'', 15353)"
proof -
  have "nat_digits 15353 = ''15353''" by (simp add: nat_digits.simps)
  then show ?thesis
    using splitHostPort_host_port [of "''127.0.0.1''" 15353 DefaultListenPort]
    by (simp add: DefaultListen_def isSpace_def)
qed

lemma zone_lines_read:
  assumes "\<not> z_Deleted z"
  shows "read_zones cur (zone_lines z @ rest) =
         close_clause cur @ read_zones (Some (clean_name z, zone_targets z)) rest"
proof (cases "z_LeastLatency z")
  case True
  then show ?thesis using assms
    by (simp add: zone_lines_def zone_targets_def clean_name_def proxy_host_port fmt_d_proxy_port Let_def)
next
  case False
  have "concat (map (\<lambda>u. let (host, port) = splitHostPort u 53 in forward_lines host port) us) =
        concat (map (\<lambda>u. forward_lines (fst (splitHostPort u 53)) (snd (splitHostPort u 53))) us)" for us
    by (simp add: Let_def case_prod_beta)
  with False assms show ?thesis
    by (simp add: zone_lines_def zone_targets_def clean_name_def read_zones_forwards case_prod_beta)
qed

lemma read_zones_zones:
  "read_zones cur (concat (map zone_lines zs) @ [''remote-control:'', tab ''control-enable: no'']) =
   close_clause cur @ map (\<lambda>z. (clean_name z, zone_targets z)) (live_zones zs)"
proof (induction zs arbitrary: cur)
  case Nil
  then show ?case by (simp add: live_zones_def close_clause_def)
next
  case (Cons z zs)
  show ?case
  proof (cases "z_Deleted z")
    case True
    then show ?thesis using Cons by (simp add: zone_lines_def live_zones_def)
  next
    case False
    then show ?thesis
      using Cons by (simp add: zone_lines_read live_zones_def close_clause_def [of "Some _"] del: read_zones.simps)
  qed
qed

lemma read_Generate_lines: "read_zones None (Generate_lines f) = wanted_zones f"
proof -
  let ?us = "filter active (elems (f_UpstreamDefaults f))"
  let ?rest = "concat (map zone_lines (f_ForwardZones f)) @ [''remote-control:'', tab ''control-enable: no'']"
  have "read_zones None (Generate_lines f) = read_zones None (default_zone_lines f @ ?rest)"
    by (simp only: Generate_lines_def read_zones_skip server_lines_no_zone static_lines_no_zone
        append_assoc simp_thms)
  also have "\<dots> = (if ?us = [] then [] else [(''.'', map (\<lambda>u. target_of (u_Address u) (u_Port u)) ?us)]) @
      map (\<lambda>z. (clean_name z, zone_targets z)) (live_zones (f_ForwardZones f))"
  proof (cases "?us = []")
    case True
    then show ?thesis
      using read_zones_zones [of None "f_ForwardZones f"]
      by (simp add: default_zone_lines_def enabled_defaults_filter close_clause_def del: read_zones.simps)
  next
    case False
    then have "default_zone_lines f =
        [''forward-zone:'', tab (''name: '' @ quoted ''.'')] @
        concat (map (\<lambda>u. forward_lines (u_Address u) (u_Port u)) ?us) @
        [tab ''forward-tls-upstream: no'', []]"
      by (simp add: default_zone_lines_def enabled_defaults_filter)
    then have "read_zones None (default_zone_lines f @ ?rest) =
        read_zones (Some (''.'', map (\<lambda>u. target_of (u_Address u) (u_Port u)) ?us)) ?rest"
      by (simp only: append_assoc read_zones_clause_start read_zones_forwards read_zones_clause_end)
        (simp add: close_clause_def del: read_zones.simps)
    with False show ?thesis by (simp only: read_zones_zones) (simp add: close_clause_def)
  qed
  finally show ?thesis by (simp add: wanted_zones_def Let_def)
qed

subsection \<open>Lines stay lines\<close>

lemma SplitByte_no_sep: "b \<notin> set s \<Longrightarrow> SplitByte s b = [s]"
  by (induction s) auto

lemma SplitByte_append_sep: "b \<notin> set s \<Longrightarrow> SplitByte (s @ b # t) b = s # SplitByte t b"
  by (induction s) auto

lemma SplitByte_lines:
  "\<forall>l \<in> set ls. b \<notin> set l \<Longrightarrow> SplitByte (concat (map (\<lambda>l. l @ [b]) ls)) b = ls @ [[]]"
  by (induction ls) (auto simp: SplitByte_append_sep)

definition line_safe :: "string \<Rightarrow> bool" where
  "line_safe s \<longleftrightarrow> CHR 0x0A \<notin> set s"

lemma line_safe_simps [simp]:
  "line_safe []" "line_safe (c # s) \<longleftrightarrow> c \<noteq> CHR 0x0A \<and> line_safe s"
  "line_safe (s @ t) \<longleftrightarrow> line_safe s \<and> line_safe t"
  by (auto simp: line_safe_def)

lemma line_safe_fmt_d [simp]: "line_safe (fmt_d i)"
  using fmt_d_chars [of "CHR 0x0A" i] by (auto simp: line_safe_def isDigit_def)

lemma line_safe_subset: "set t \<subseteq> set s \<Longrightarrow> line_safe s \<Longrightarrow> line_safe t"
  by (auto simp: line_safe_def)

lemma line_safe_host: "line_safe s \<Longrightarrow> line_safe (fst (splitHostPort s d))"
  using set_splitHostPort line_safe_subset by blast

lemma lang_line_safe: "s \<in> lang r \<Longrightarrow> \<not> in_alphabet r (CHR 0x0A) \<Longrightarrow> line_safe s"
  using lang_alphabet by (auto simp: line_safe_def)

lemma patterns_line_safe:
  "\<not> in_alphabet domainRe (CHR 0x0A)" "\<not> in_alphabet labelRe (CHR 0x0A)"
  "\<not> in_alphabet dnsNameRe (CHR 0x0A)" "\<not> in_alphabet ipv4Re (CHR 0x0A)"
  "\<not> in_alphabet ipv6Re (CHR 0x0A)" "\<not> in_alphabet hostnameRe (CHR 0x0A)"
  by code_simp+

lemmas safe_langs = patterns_line_safe [THEN lang_line_safe [rotated]]

lemma ip_address_safe: "ip_address s \<Longrightarrow> line_safe s"
  by (auto simp: ip_address_def intro: safe_langs)

lemma zone_ok_safe:
  "zone_ok z \<Longrightarrow> line_safe (z_Name z)" "zone_ok z \<Longrightarrow> u \<in> set (z_Upstreams z) \<Longrightarrow> line_safe u"
  by (auto simp: zone_ok_def intro: safe_langs ip_address_safe)

lemma record_ok_safe:
  "record_ok r \<Longrightarrow> line_safe (r_Name r)" "record_ok r \<Longrightarrow> line_safe (r_Value r)"
  by (auto simp: record_ok_def intro: safe_langs)

lemma server_lines_safe:
  "line_safe (s_DNSListen (f_Settings f)) \<Longrightarrow> l \<in> set (server_lines f) \<Longrightarrow> line_safe l"
  using line_safe_host [of "s_DNSListen (f_Settings f)" 53]
  by (auto simp: server_lines_def case_prod_beta Let_def split: if_splits)

lemma line_safe_ensureFQDN [simp]: "line_safe (ensureFQDN s) = line_safe s"
  by (simp add: ensureFQDN_def)

lemma record_lines_safe: "record_ok r \<Longrightarrow> l \<in> set (record_lines r) \<Longrightarrow> line_safe l"
  using record_ok_safe [of r] by (auto simp: record_lines_def Let_def split: if_splits)

lemma static_lines_safe:
  "\<forall>r \<in> set (f_StaticRecords f). record_ok r \<Longrightarrow> l \<in> set (static_lines f) \<Longrightarrow> line_safe l"
  using record_lines_safe by (auto simp: static_lines_def split: if_splits)

lemma forward_lines_safe: "line_safe a \<Longrightarrow> l \<in> set (forward_lines a p) \<Longrightarrow> line_safe l"
  by (auto simp: forward_lines_def split: if_splits)

lemma default_zone_lines_safe:
  assumes "\<forall>u \<in> set (elems (f_UpstreamDefaults f)). upstream_ok u" and "l \<in> set (default_zone_lines f)"
  shows "line_safe l"
proof -
  have "line_safe (u_Address u)" if "u \<in> set (elems (f_UpstreamDefaults f))" "active u" for u
    using assms(1) that by (auto simp: upstream_ok_def active_def intro: ip_address_safe)
  with assms(2) show ?thesis
    by (auto simp: default_zone_lines_def enabled_defaults_filter Let_def split: if_splits
        intro: forward_lines_safe)
qed

lemma zone_lines_safe: "zone_ok z \<Longrightarrow> l \<in> set (zone_lines z) \<Longrightarrow> line_safe l"
  using zone_ok_safe [of z] line_safe_subset [OF set_TrimPrefix, of "z_Name z" "''*.''"]
  by (auto simp: zone_lines_def Let_def proxy_host_port case_prod_beta split: if_splits
      intro: forward_lines_safe [OF line_safe_host])

lemma split_Generate:
  assumes "file_ok f" and "line_safe (s_DNSListen (f_Settings f))"
  shows "split_lines (Generate f) = Generate_lines f"
proof -
  have "line_safe l" if l: "l \<in> set (Generate_lines f)" for l
  proof -
    from l consider "l \<in> set (server_lines f)" | "l \<in> set (static_lines f)"
      | "l \<in> set (default_zone_lines f)" | z where "z \<in> set (f_ForwardZones f)" "l \<in> set (zone_lines z)"
      | "l = ''remote-control:''" | "l = tab ''control-enable: no''"
      unfolding Generate_lines_def by auto
    then show ?thesis
    proof cases
      case 1
      then show ?thesis using assms(2) server_lines_safe by blast
    next
      case 2
      then show ?thesis using assms(1) static_lines_safe [of f l] by (simp add: file_ok_def)
    next
      case 3
      then show ?thesis using assms(1) default_zone_lines_safe [of f l] by (simp add: file_ok_def)
    next
      case 4
      then show ?thesis using assms(1) zone_lines_safe [of z l] by (simp add: file_ok_def)
    qed simp_all
  qed
  then have "\<forall>l \<in> set (Generate_lines f). CHR 0x0A \<notin> set l" by (simp add: line_safe_def)
  then show ?thesis by (simp add: split_lines_def Generate_def SplitByte_lines)
qed

subsection \<open>Order of the clauses\<close>

lemma zone_lines_no_data: "HasPrefix l ''local-data: '' \<Longrightarrow> l \<notin> set (zone_lines z)"
  by (auto simp: zone_lines_def forward_lines_def Let_def proxy_host_port case_prod_beta split: if_splits)

lemma default_zone_lines_no_data: "HasPrefix l ''local-data: '' \<Longrightarrow> l \<notin> set (default_zone_lines f)"
  by (auto simp: default_zone_lines_def forward_lines_def Let_def split: if_splits)

section \<open>The resolution test\<close>

text \<open>
  TestResolve of internal/unbound/test.go.  The tables and the client of package miekg/dns are
  parameters: \<open>StringToType\<close>, \<open>TypeToString\<close>, \<open>fqdn\<close> and the exchange with an upstream, which
  yields an error or the answers, the authoritative flag, the printed message and the time taken.
\<close>

record TestResult =
  t_Question :: string
  t_Qtype :: string
  t_Upstream :: string
  t_RTT :: duration
  t_Answers :: "string list"
  t_Authoritative :: bool
  t_Raw :: string

record test_response =
  tr_Answer :: "string list"
  tr_Authoritative :: bool
  tr_Raw :: string
  tr_rtt :: duration

definition TestResolve ::
  "(string \<Rightarrow> nat option) \<Rightarrow> (nat \<Rightarrow> string) \<Rightarrow> (string \<Rightarrow> string) \<Rightarrow>
   (string \<Rightarrow> nat \<Rightarrow> string \<Rightarrow> (string, test_response) result) \<Rightarrow>
   string \<Rightarrow> string \<Rightarrow> string \<Rightarrow> (string, TestResult) result" where
  "TestResolve StringToType TypeToString fqdn exchange name qtype upstream =
     (let upstream = (if \<not> Contains upstream '':'' then upstream @ '':53'' else upstream) in
      case StringToType (ToUpper qtype) of
        None \<Rightarrow> Inl (''unknown qtype '' @ quoted qtype)
      | Some qtypeUint \<Rightarrow>
          bind_res (exchange (fqdn name) qtypeUint upstream) (\<lambda>resp.
            Inr \<lparr>t_Question = fqdn name, t_Qtype = TypeToString qtypeUint, t_Upstream = upstream,
                 t_RTT = tr_rtt resp, t_Answers = tr_Answer resp,
                 t_Authoritative = tr_Authoritative resp, t_Raw = tr_Raw resp\<rparr>))"

section \<open>Properties\<close>



text \<open>
  Static records come first: every line the records produce stands before every line of a
  forward zone, so local data is defined before the zones that would forward the same names, and
  no forward clause contains a local-data line.
\<close>

lemma records_precede_zones:
  "\<exists>before after. Generate_lines f = before @ after \<and>
     (\<forall>l. HasPrefix l ''local-data: '' \<longrightarrow> l \<notin> set after) \<and>
     ''forward-zone:'' \<notin> set before \<and>
     concat (map record_lines (f_StaticRecords f)) = filter (\<lambda>l. HasPrefix l ''local-data: '') before"
proof (intro exI conjI)
  let ?data = "\<lambda>l. HasPrefix l ''local-data: ''"
  show "Generate_lines f = (server_lines f @ static_lines f) @
      (default_zone_lines f @ concat (map zone_lines (f_ForwardZones f)) @
       [''remote-control:'', tab ''control-enable: no''])"
    by (simp add: Generate_lines_def)
  show "\<forall>l. ?data l \<longrightarrow> l \<notin> set (default_zone_lines f @ concat (map zone_lines (f_ForwardZones f)) @
      [''remote-control:'', tab ''control-enable: no''])"
    using default_zone_lines_no_data zone_lines_no_data by (auto simp: HasPrefix_def)
  show "''forward-zone:'' \<notin> set (server_lines f @ static_lines f)"
    using server_lines_no_zone static_lines_no_zone by simp
  have "filter ?data (server_lines f) = []" by (simp add: server_lines_def Let_def case_prod_beta)
  moreover have "filter ?data (record_lines r) = record_lines r" for r
    by (simp add: record_lines_def Let_def)
  then have "filter ?data (static_lines f) = concat (map record_lines (f_StaticRecords f))"
    by (simp add: static_lines_def filter_concat comp_def)
  ultimately show "concat (map record_lines (f_StaticRecords f)) = filter ?data (server_lines f @ static_lines f)"
    by simp
qed

text \<open>
  Splitting "host:port" gives the host and the port back, for a host without blanks that is
  not bracketed and a positive 64-bit port; the default port is used when there is no colon.
\<close>

lemma splitHostPort_roundtrip:
  assumes "h = [] \<or> hd h \<noteq> CHR ''[''" and "\<forall>c \<in> set h. \<not> isSpace c"
    and "0 < p" and "p \<le> max_int64"
  shows "splitHostPort (h @ '':'' @ fmt_d p) d = (h, p) \<and>
    (CHR '':'' \<notin> set h \<longrightarrow> splitHostPort h d = (h, d))"
  using splitHostPort_host_port [OF assms(1,2), of "nat p" d] splitHostPort_no_port [OF _ assms(2), of d] assms(3,4)
  by (simp add: fmt_d_def)

text \<open>
  An IPv6 upstream written without brackets, which Validate accepts, is torn apart: its last
  group is taken for a port.
\<close>

lemma bare_ipv6_upstream_misread:
  "ip_address ''2001:db8::53'' \<and> splitHostPort ''2001:db8::53'' 53 = (''2001:db8:'', 53) \<and>
   ip_address ''2001:db8::1'' \<and> splitHostPort ''2001:db8::1'' 53 = (''2001:db8:'', 1)"
proof -
  have "MatchString ipv6Re ''2001:db8::53''" "MatchString ipv6Re ''2001:db8::1''" by code_simp+
  moreover have "splitHostPort ''2001:db8::53'' 53 = (''2001:db8:'', 53)"
    "splitHostPort ''2001:db8::1'' 53 = (''2001:db8:'', 1)"
    by code_simp+
  ultimately show ?thesis by (simp add: ip_address_def MatchString_iff_lang)
qed

end
