(* ===== verification/GoNet.thy ===== *)
theory GoNet
  imports GoPrelude
begin

text \<open>
  net.ParseIP and the textual form of an IPv4 address, as package net (through net/netip)
  defines them: dotted decimal without leading zeros, or IPv6 groups with at most one
  ellipsis and an optional trailing dotted quad; a zone is not accepted.  The result is the
  16-byte form.
\<close>

section \<open>IPv4\<close>

text \<open>\<open>val\<close> and \<open>digLen\<close> are the value and the number of digits of the field being read,
  \<open>fields\<close> the finished ones.\<close>

fun parseIPv4Fields :: "nat list \<Rightarrow> nat \<Rightarrow> nat \<Rightarrow> string \<Rightarrow> nat list option" where
  "parseIPv4Fields fields val digLen [] =
     (if length fields < 3 \<or> digLen = 0 then None else Some (fields @ [val]))"
| "parseIPv4Fields fields val digLen (c # s) =
     (if isDigit c then
        (if digLen = 1 \<and> val = 0 then None
         else
           let val' = val * 10 + (of_char c - 48) in
           if val' > 255 then None else parseIPv4Fields fields val' (Suc digLen) s)
      else if c = CHR ''.'' then
        (if digLen = 0 \<or> s = [] \<or> length fields = 3 then None
         else parseIPv4Fields (fields @ [val]) 0 0 s)
      else None)"

definition parseIPv4 :: "string \<Rightarrow> nat list option" where
  "parseIPv4 s = parseIPv4Fields [] 0 0 s"

definition v4_in_16 :: "nat list \<Rightarrow> nat list" where
  "v4_in_16 bs = replicate 10 0 @ [255, 255] @ bs"

section \<open>IPv6\<close>

definition hex_val :: "char \<Rightarrow> nat option" where
  "hex_val c =
     (let n = (of_char c :: nat) in
      if 48 \<le> n \<and> n \<le> 57 then Some (n - 48)
      else if 97 \<le> n \<and> n \<le> 102 then Some (n - 87)
      else if 65 \<le> n \<and> n \<le> 70 then Some (n - 55)
      else None)"

definition is_hex :: "char \<Rightarrow> bool" where
  "is_hex c \<longleftrightarrow> hex_val c \<noteq> None"

definition hex_group :: "string \<Rightarrow> nat" where
  "hex_group g = foldl (\<lambda>a c. 16 * a + (case hex_val c of Some d \<Rightarrow> d | None \<Rightarrow> 0)) 0 g"

text \<open>The loop over the groups: the bytes read so far, the position of the ellipsis and the
  rest of the text.\<close>

function parseIPv6_loop :: "nat list \<Rightarrow> nat option \<Rightarrow> string \<Rightarrow> (nat list \<times> nat option \<times> string) option" where
  "parseIPv6_loop ip ellipsis s =
     (if length ip \<ge> 16 then Some (ip, ellipsis, s)
      else
        let g = takeWhile is_hex s; rest = dropWhile is_hex s in
        if g = [] \<or> length g > 4 then None
        else if rest \<noteq> [] \<and> hd rest = CHR ''.'' then
          (if ellipsis = None \<and> length ip \<noteq> 12 then None
           else if length ip + 4 > 16 then None
           else (case parseIPv4 s of None \<Rightarrow> None | Some bs \<Rightarrow> Some (ip @ bs, ellipsis, [])))
        else
          let ip' = ip @ [hex_group g div 256, hex_group g mod 256] in
          (case rest of
             [] \<Rightarrow> Some (ip', ellipsis, [])
           | c # s1 \<Rightarrow>
               if c \<noteq> CHR '':'' then None
               else if s1 = [] then None
               else if hd s1 = CHR '':'' then
                 (if ellipsis \<noteq> None then None
                  else if tl s1 = [] then Some (ip', Some (length ip'), [])
                  else parseIPv6_loop ip' (Some (length ip')) (tl s1))
               else parseIPv6_loop ip' ellipsis s1))"
  by pat_completeness auto
termination
proof (relation "measure (\<lambda>(ip, ellipsis, s). length s)", goal_cases)
  case 1
  then show ?case by simp
next
  case (2 ip ellipsis s g rest ip' c s1)
  then have "length (c # s1) \<le> length s" using length_dropWhile_le [of is_hex s] by metis
  then show ?case by simp
next
  case (3 ip ellipsis s g rest ip' c s1)
  then have "length (c # s1) \<le> length s" using length_dropWhile_le [of is_hex s] by metis
  then show ?case by simp
qed

declare parseIPv6_loop.simps [simp del]

definition parseIPv6 :: "string \<Rightarrow> nat list option" where
  "parseIPv6 s =
     (if CHR ''%'' \<in> set s then None
      else
        let lead = HasPrefix s ''::'';
            s' = (if lead then drop 2 s else s) in
        if lead \<and> s' = [] then Some (replicate 16 0)
        else
          (case parseIPv6_loop [] (if lead then Some 0 else None) s' of
             None \<Rightarrow> None
           | Some (ip, ellipsis, rest) \<Rightarrow>
               if rest \<noteq> [] then None
               else if length ip < 16 then
                 (case ellipsis of
                    None \<Rightarrow> None
                  | Some e \<Rightarrow> Some (take e ip @ replicate (16 - length ip) 0 @ drop e ip))
               else if ellipsis \<noteq> None then None
               else Some ip))"

section \<open>ParseIP\<close>

fun ParseIP_scan :: "string \<Rightarrow> string \<Rightarrow> nat list option" where
  "ParseIP_scan whole [] = None"
| "ParseIP_scan whole (c # s) =
     (if c = CHR ''.'' then map_option v4_in_16 (parseIPv4 whole)
      else if c = CHR '':'' then parseIPv6 whole
      else if c = CHR ''%'' then None
      else ParseIP_scan whole s)"

definition ParseIP :: "string \<Rightarrow> nat list option" where
  "ParseIP s = ParseIP_scan s s"

text \<open>\<open>ip.To4() != nil\<close>: the address is an IPv4 address or an IPv4-mapped one.\<close>

definition is_v4 :: "nat list \<Rightarrow> bool" where
  "is_v4 ip \<longleftrightarrow> take 12 ip = replicate 10 0 @ [255, 255]"

text \<open>net.IP.String for an IPv4 address.\<close>

definition ipv4_string :: "nat \<Rightarrow> nat \<Rightarrow> nat \<Rightarrow> nat \<Rightarrow> string" where
  "ipv4_string a b c d =
     nat_digits a @ ''.'' @ nat_digits b @ ''.'' @ nat_digits c @ ''.'' @ nat_digits d"

section \<open>SplitHostPort\<close>

datatype split_err = MissingPort | TooManyColons | MissingBracket | UnexpectedOpen | UnexpectedClose

definition net_SplitHostPort :: "string \<Rightarrow> (split_err, string \<times> string) result" where
  "net_SplitHostPort hostport =
     (case LastIndexByte hostport (CHR '':'') of
        None \<Rightarrow> Inl MissingPort
      | Some i \<Rightarrow>
          let finish = (\<lambda>host j k.
                if CHR ''['' \<in> set (drop j hostport) then Inl UnexpectedOpen
                else if CHR '']'' \<in> set (drop k hostport) then Inl UnexpectedClose
                else Inr (host, drop (i + 1) hostport)) in
          if hd hostport = CHR ''['' then
            (case IndexByte hostport (CHR '']'') of
               None \<Rightarrow> Inl MissingBracket
             | Some e \<Rightarrow>
                 if e + 1 = length hostport then Inl MissingPort
                 else if e + 1 = i then finish (drop 1 (take e hostport)) 1 (e + 1)
                 else if hostport ! (e + 1) = CHR '':'' then Inl TooManyColons
                 else Inl MissingPort)
          else
            let host = take i hostport in
            if CHR '':'' \<in> set host then Inl TooManyColons else finish host 0 0)"

section \<open>An address printed by package net is read back\<close>

lemma parse_field:
  assumes "n \<le> 255"
  shows "parseIPv4Fields fs 0 0 (nat_digits n @ s) =
         parseIPv4Fields fs n (length (nat_digits n)) s"
proof -
  have step: "parseIPv4Fields fs v k (digit_char d # t) =
      (if k = 1 \<and> v = 0 then None
       else if v * 10 + d > 255 then None else parseIPv4Fields fs (v * 10 + d) (Suc k) t)"
    if "d < 10" for v k d t
    using that by (simp add: isDigit_digit_char)
  have "n < 10 \<or> (10 \<le> n \<and> n < 100) \<or> (100 \<le> n \<and> n < 1000)" using assms by auto
  then consider "n < 10" | "10 \<le> n" "n < 100" | "100 \<le> n" "n < 1000" by blast
  then show ?thesis
  proof cases
    case 1
    then have "nat_digits n = [digit_char n]" by (subst nat_digits.simps) simp
    with 1 assms show ?thesis by (simp add: step del: parseIPv4Fields.simps)
  next
    case 2
    then have "nat_digits n = [digit_char (n div 10), digit_char (n mod 10)]"
      by (subst nat_digits.simps) (simp add: nat_digits.simps [of "n div 10"])
    moreover have "n div 10 \<noteq> 0" "n div 10 \<le> 255" using 2 by auto
    ultimately show ?thesis using 2 assms by (simp add: step del: parseIPv4Fields.simps)
  next
    case 3
    have q: "n div 10 div 10 = n div 100" "n div 100 < 10" "\<not> n div 10 < 10" "\<not> n < 10"
      using 3 by (simp_all add: div_mult2_eq [symmetric])
    have "nat_digits (n div 100) = [digit_char (n div 100)]" using q by (subst nat_digits.simps) simp
    moreover have "nat_digits (n div 10) = nat_digits (n div 100) @ [digit_char (n div 10 mod 10)]"
      using q by (subst nat_digits.simps) simp
    moreover have "nat_digits n = nat_digits (n div 10) @ [digit_char (n mod 10)]"
      using q by (subst nat_digits.simps) simp
    ultimately have "nat_digits n = [digit_char (n div 100), digit_char (n div 10 mod 10), digit_char (n mod 10)]"
      by simp
    moreover have "n div 100 * 10 + n div 10 mod 10 = n div 10" "n div 100 \<noteq> 0" "n div 10 \<le> 255"
      using 3 assms q(1) div_mult_mod_eq [of "n div 10" 10] by auto
    ultimately show ?thesis using 3 assms by (simp add: step del: parseIPv4Fields.simps)
  qed
qed

lemma parse_dot:
  "k \<noteq> 0 \<Longrightarrow> s \<noteq> [] \<Longrightarrow> length fs < 3 \<Longrightarrow>
   parseIPv4Fields fs v k (CHR ''.'' # s) = parseIPv4Fields (fs @ [v]) 0 0 s"
  by (simp add: isDigit_def)

lemma parseIPv4_string:
  assumes "a \<le> 255" "b \<le> 255" "c \<le> 255" "d \<le> 255"
  shows "parseIPv4 (ipv4_string a b c d) = Some [a, b, c, d]"
proof -
  have "parseIPv4Fields [a, b, c] 0 0 (nat_digits d) = Some [a, b, c, d]"
    using parse_field [of d "[a, b, c]" "[]"] assms by simp
  then show ?thesis
    using assms unfolding parseIPv4_def ipv4_string_def
    by (simp add: parse_field parse_dot del: parseIPv4Fields.simps)
qed

lemma ParseIP_scan_dot:
  "\<forall>c \<in> set p. isDigit c \<Longrightarrow> ParseIP_scan w (p @ CHR ''.'' # s) = map_option v4_in_16 (parseIPv4 w)"
  by (induction p) (auto simp: isDigit_def)

lemma ParseIP_ipv4_string:
  assumes "a \<le> 255" "b \<le> 255" "c \<le> 255" "d \<le> 255"
  shows "ParseIP (ipv4_string a b c d) = Some (v4_in_16 [a, b, c, d])"
proof -
  have "ParseIP (ipv4_string a b c d) = map_option v4_in_16 (parseIPv4 (ipv4_string a b c d))"
    unfolding ParseIP_def by (subst (2) ipv4_string_def) (simp add: ParseIP_scan_dot nat_digits_isDigit)
  then show ?thesis by (simp add: parseIPv4_string assms)
qed

end
