(* ===== verification/Proxy.thy ===== *)
theory Proxy
  imports Config GoNet "HOL-Library.AList" "HOL-Library.Multiset"
begin

text \<open>
  The least-latency DNS proxy of internal/unbound/proxy: the table of zones it serves, the
  probe that resolves a zone and pings every address, the handler that answers queries from the
  probed records, and the ICMP helpers of ping.go.

  A zone's state is shared by pointer between the table and a running probe, so the table maps
  names to addresses of a small heap of zone states: a probe writes to the address it was
  started with, even when the table has been rebuilt in between.  The answers of the DNS
  client, the packets of the ICMP socket and the clock are inputs; dns.Fqdn (package
  miekg/dns) is a parameter.  Goroutines that run in parallel are processed in an order that
  is an input too.
\<close>

section \<open>Records and zones\<close>

definition TypeA :: nat where "TypeA = 1"
definition TypeCNAME :: nat where "TypeCNAME = 5"
definition TypeAAAA :: nat where "TypeAAAA = 28"

record latencyRecord =
  lr_Target :: string
  lr_Type :: nat
  lr_Value :: string
  lr_TTL :: "32 word"
  lr_RTT :: duration

record zoneState =
  zs_Name :: string
  zs_Upstream :: string
  zs_Interval :: duration
  zs_Records :: "latencyRecord list"
  zs_Updated :: time
  zs_Err :: string

record ProxyServer =
  px_zones :: "(string \<times> nat) list"
  px_heap :: "nat \<Rightarrow> zoneState option"
  px_next :: nat
  px_started :: bool
  px_done_closed :: bool

definition proxy_New :: ProxyServer where
  "proxy_New = \<lparr>px_zones = [], px_heap = Map.empty, px_next = 0, px_started = False,
                px_done_closed = False\<rparr>"

section \<open>The table of zones\<close>

definition zone_interval :: "ForwardZone \<Rightarrow> duration" where
  "zone_interval z =
     (let interval = wrap64 (z_LatencyTestFrequency z * Minute) in
      if interval \<le> 0 then 5 * Minute else interval)"

definition probe_upstream :: "string \<Rightarrow> string" where
  "probe_upstream up = (if \<not> Contains up '':'' then up @ '':53'' else up)"

definition fresh_zone :: "string \<Rightarrow> string \<Rightarrow> duration \<Rightarrow> zoneState" where
  "fresh_zone name upstream interval =
     \<lparr>zs_Name = name, zs_Upstream = upstream, zs_Interval = interval,
      zs_Records = [], zs_Updated = 0, zs_Err = []\<rparr>"

text \<open>One iteration of rebuildZones: \<open>old\<close> is the table before the rebuild.\<close>

definition rebuild_zone ::
  "(string \<Rightarrow> string) \<Rightarrow> (string \<times> nat) list \<Rightarrow> ForwardZone \<Rightarrow> ProxyServer \<Rightarrow> ProxyServer" where
  "rebuild_zone fqdn old z s =
     (if z_Deleted z \<or> \<not> z_LeastLatency z \<or> z_Wildcard z then s
      else
        (case z_Upstreams z of
           [] \<Rightarrow> s
         | up # _ \<Rightarrow>
             let name = fqdn (z_Name z);
                 interval = zone_interval z;
                 upstream = probe_upstream up;
                 alloc = s\<lparr>px_zones := AList.update name (px_next s) (px_zones s),
                           px_heap := (px_heap s)(px_next s := Some (fresh_zone name upstream interval)),
                           px_next := Suc (px_next s)\<rparr> in
             (case map_of old name of
                None \<Rightarrow> alloc
              | Some p \<Rightarrow>
                  (case px_heap s p of
                     None \<Rightarrow> alloc
                   | Some zs \<Rightarrow>
                       if zs_Upstream zs = upstream \<and> zs_Interval zs = interval
                       then s\<lparr>px_zones := AList.update name p (px_zones s)\<rparr>
                       else alloc))))"

fun rebuild_all :: "(string \<Rightarrow> string) \<Rightarrow> (string \<times> nat) list \<Rightarrow> ForwardZone list \<Rightarrow> ProxyServer \<Rightarrow> ProxyServer" where
  "rebuild_all fqdn old [] s = s"
| "rebuild_all fqdn old (z # zs) s = rebuild_all fqdn old zs (rebuild_zone fqdn old z s)"

definition rebuildZones :: "(string \<Rightarrow> string) \<Rightarrow> File option \<Rightarrow> ProxyServer \<Rightarrow> ProxyServer" where
  "rebuildZones fqdn cfg s =
     (case cfg of
        None \<Rightarrow> s\<lparr>px_zones := []\<rparr>
      | Some f \<Rightarrow> rebuild_all fqdn (px_zones s) (f_ForwardZones f) (s\<lparr>px_zones := []\<rparr>))"

definition zoneSnapshot :: "ProxyServer \<Rightarrow> nat list" where
  "zoneSnapshot s = map snd (px_zones s)"

definition proxy_Start :: "(string \<Rightarrow> string) \<Rightarrow> File option \<Rightarrow> ProxyServer \<Rightarrow> ProxyServer" where
  "proxy_Start fqdn cfg s =
     (if px_started s then s else (rebuildZones fqdn cfg s)\<lparr>px_started := True\<rparr>)"

text \<open>
  Stop closes the channel \<open>done\<close>, which New made once: closing it a second time panics.
  \<open>shutdown\<close> is the error of the DNS server's Shutdown.
\<close>

datatype stop_outcome = Stopped "string option" | StopPanic

definition proxy_Stop :: "string option \<Rightarrow> ProxyServer \<Rightarrow> stop_outcome \<times> ProxyServer" where
  "proxy_Stop shutdown s =
     (if \<not> px_started s then (Stopped None, s)
      else
        let s' = s\<lparr>px_started := False\<rparr> in
        if px_done_closed s then (StopPanic, s')
        else (Stopped shutdown, s'\<lparr>px_done_closed := True\<rparr>))"

section \<open>Pinging\<close>

datatype echo_body = BadMessage | OtherBody | EchoBody int int

datatype reply = ReadErr | Packet string duration echo_body

text \<open>
  The loop that waits for the echo: \<open>replies\<close> are the results of the successive reads with
  the time since the request was sent; running out of them is the deadline.
\<close>

fun await_echo :: "string \<Rightarrow> int \<Rightarrow> int \<Rightarrow> reply list \<Rightarrow> duration" where
  "await_echo addr ident seq [] = 0"
| "await_echo addr ident seq (ReadErr # rs) = 0"
| "await_echo addr ident seq (Packet peer rtt body # rs) =
     (if peer \<noteq> addr then await_echo addr ident seq rs
      else
        (case body of
           BadMessage \<Rightarrow> await_echo addr ident seq rs
         | OtherBody \<Rightarrow> await_echo addr ident seq rs
         | EchoBody i q \<Rightarrow> if i \<noteq> ident \<or> q \<noteq> seq then await_echo addr ident seq rs else rtt))"

text \<open>
  \<open>randInt\<close>: four random bytes read big-endian, or the clock when the random source fails
  (Go's remainder has the sign of the dividend).
\<close>

definition go_rem :: "int \<Rightarrow> int \<Rightarrow> int" where
  "go_rem a b = (if a < 0 then - ((- a) mod \<bar>b\<bar>) else a mod \<bar>b\<bar>)"

definition big_endian :: "nat list \<Rightarrow> int" where
  "big_endian b = foldl (\<lambda>a x. 256 * a + int x) 0 b"

datatype rand = RandBytes "nat list" | RandFailed time

definition randInt :: "rand \<Rightarrow> int \<Rightarrow> int" where
  "randInt r mx =
     (case r of RandBytes b \<Rightarrow> go_rem (big_endian b) mx | RandFailed now \<Rightarrow> go_rem now mx)"

definition uint16Bytes :: "int \<Rightarrow> int list" where
  "uint16Bytes v = [v mod 65536 div 256, v mod 65536 mod 256]"

record ping_io =
  pg_listen :: "string option"
  pg_id :: rand
  pg_seq :: rand
  pg_marshal :: "string option"
  pg_write :: "string option"
  pg_replies :: "reply list"

definition ping :: "ping_io \<Rightarrow> string \<Rightarrow> duration" where
  "ping io addr =
     (case ParseIP addr of
        None \<Rightarrow> 0
      | Some ip \<Rightarrow>
          if pg_listen io \<noteq> None then 0
          else
            let ident = randInt (pg_id io) (2 ^ 16);
                seq = randInt (pg_seq io) (2 ^ 16) in
            if pg_marshal io \<noteq> None then 0
            else if pg_write io \<noteq> None then 0
            else await_echo addr ident seq (pg_replies io))"

text \<open>
  The body of one goroutine of concurrentPinger under the mutex, and the whole function:
  \<open>done\<close> lists the addresses with their round-trip times in the order the goroutines finish.
\<close>

definition pinger_step ::
  "string \<times> duration \<Rightarrow> (string \<Rightarrow> duration option) \<times> duration \<Rightarrow> (string \<Rightarrow> duration option) \<times> duration" where
  "pinger_step a st =
     (case a of (addr, rtt) \<Rightarrow>
      case st of (res, best) \<Rightarrow>
        (res(addr := Some rtt), if rtt > 0 \<and> (best < 0 \<or> rtt < best) then rtt else best))"

definition concurrentPinger :: "(string \<times> duration) list \<Rightarrow> (string \<Rightarrow> duration option) \<times> duration" where
  "concurrentPinger done =
     (case fold pinger_step done (Map.empty, -1) of
        (res, best) \<Rightarrow> (res, if best < 0 then 0 else best))"

text \<open>\<open>containsSubstr\<close> compares the window at each position.\<close>

function containsSubstr_from :: "nat \<Rightarrow> string \<Rightarrow> string \<Rightarrow> bool" where
  "containsSubstr_from i s sub =
     (if i + length sub \<le> length s
      then (if take (length sub) (drop i s) = sub then True else containsSubstr_from (Suc i) s sub)
      else False)"
  by pat_completeness auto
termination by (relation "measure (\<lambda>(i, s, sub). Suc (length s) - i)") auto

declare containsSubstr_from.simps [simp del]

definition containsSubstr :: "string \<Rightarrow> string \<Rightarrow> bool" where
  "containsSubstr s sub = containsSubstr_from 0 s sub"

definition stringsContains :: "string \<Rightarrow> string \<Rightarrow> bool" where
  "stringsContains s sub \<longleftrightarrow>
     length s \<ge> length sub \<and> (s = sub \<or> (length s > 0 \<and> containsSubstr s sub))"

text \<open>\<open>parseUpstream\<close>; the error is the one of SplitHostPort or, \<open>None\<close>, of Atoi.\<close>

definition parseUpstream :: "string \<Rightarrow> (split_err option, string \<times> int) result" where
  "parseUpstream s =
     (case net_SplitHostPort s of
        Inl err \<Rightarrow> if stringsContains s '':'' then Inl (Some err) else Inr (s, 53)
      | Inr (host, portStr) \<Rightarrow>
          (case Atoi portStr of (port, failed) \<Rightarrow> if failed then Inl None else Inr (host, port)))"

section \<open>Probing a zone\<close>

datatype rr = RR_A string "32 word" | RR_AAAA string "32 word" | RR_CNAME string "32 word" | RR_Other

text \<open>The outcome of one exchange with the upstream: an error, or a response code and the
  answer section.\<close>

datatype exchange = ExchangeErr | Response nat "rr list"

fun answer_records :: "string \<Rightarrow> rr list \<Rightarrow> latencyRecord list" where
  "answer_records name [] = []"
| "answer_records name (RR_A v t # rs) =
     \<lparr>lr_Target = name, lr_Type = TypeA, lr_Value = v, lr_TTL = t, lr_RTT = 0\<rparr> # answer_records name rs"
| "answer_records name (RR_AAAA v t # rs) =
     \<lparr>lr_Target = name, lr_Type = TypeAAAA, lr_Value = v, lr_TTL = t, lr_RTT = 0\<rparr> # answer_records name rs"
| "answer_records name (RR_CNAME v t # rs) =
     \<lparr>lr_Target = name, lr_Type = TypeCNAME, lr_Value = v, lr_TTL = t, lr_RTT = 0\<rparr> # answer_records name rs"
| "answer_records name (RR_Other # rs) = answer_records name rs"

definition exchange_records :: "string \<Rightarrow> exchange \<Rightarrow> latencyRecord list" where
  "exchange_records name e =
     (case e of
        ExchangeErr \<Rightarrow> []
      | Response rcode answer \<Rightarrow> if rcode \<noteq> 0 then [] else answer_records name answer)"

fun str_less :: "string \<Rightarrow> string \<Rightarrow> bool" where
  "str_less [] [] \<longleftrightarrow> False"
| "str_less [] (d # t) \<longleftrightarrow> True"
| "str_less (c # s) [] \<longleftrightarrow> False"
| "str_less (c # s) (d # t) \<longleftrightarrow> (of_char c < (of_char d :: nat)) \<or> (c = d \<and> str_less s t)"

definition record_less :: "latencyRecord \<Rightarrow> latencyRecord \<Rightarrow> bool" where
  "record_less a b =
     (if lr_Type a \<noteq> lr_Type b then lr_Type a < lr_Type b else str_less (lr_Value a) (lr_Value b))"

text \<open>sort.Slice by \<open>record_less\<close>; it does not fix the order of records with the same type
  and value, the model keeps the answer's order for them.\<close>

fun insert_record :: "latencyRecord \<Rightarrow> latencyRecord list \<Rightarrow> latencyRecord list" where
  "insert_record x [] = [x]"
| "insert_record x (y # ys) = (if record_less y x then y # insert_record x ys else x # y # ys)"

definition sort_records :: "latencyRecord list \<Rightarrow> latencyRecord list" where
  "sort_records rs = foldr insert_record rs []"

definition resolveTarget ::
  "string \<Rightarrow> string \<Rightarrow> exchange \<Rightarrow> exchange \<Rightarrow> (string, latencyRecord list) result" where
  "resolveTarget name upstream rA rAAAA =
     (let out = exchange_records name rA @ exchange_records name rAAAA in
      if out = [] then Inl (''no A/AAAA/CNAME answers from '' @ upstream)
      else Inr (sort_records out))"

definition is_address :: "latencyRecord \<Rightarrow> bool" where
  "is_address r \<longleftrightarrow> lr_Type r = TypeA \<or> lr_Type r = TypeAAAA"

definition ping_targets :: "latencyRecord list \<Rightarrow> string list" where
  "ping_targets rs = map lr_Value (filter is_address rs)"

definition set_rtt :: "(string \<Rightarrow> duration option) \<Rightarrow> latencyRecord \<Rightarrow> latencyRecord" where
  "set_rtt rttMap r =
     (if is_address r then (case rttMap (lr_Value r) of Some v \<Rightarrow> r\<lparr>lr_RTT := v\<rparr> | None \<Rightarrow> r) else r)"

text \<open>The records that survive the pings of a probe: all of them when no ping was answered.\<close>

definition rank_records :: "(string \<times> duration) list \<Rightarrow> latencyRecord list \<Rightarrow> latencyRecord list" where
  "rank_records done records =
     (case concurrentPinger done of (rttMap, bestRTT) \<Rightarrow>
        let records = map (set_rtt rttMap) records;
            keepAll = bestRTT \<le> 0 in
        if \<not> keepAll then filter (\<lambda>r. lr_Type r = TypeCNAME \<or> lr_RTT r = bestRTT) records
        else records)"

record probe_io =
  pb_A :: exchange
  pb_AAAA :: exchange
  pb_done :: "(string \<times> duration) list"
  pb_now :: time

definition probe_state :: "probe_io \<Rightarrow> zoneState \<Rightarrow> zoneState" where
  "probe_state io z =
     (case resolveTarget (zs_Name z) (zs_Upstream z) (pb_A io) (pb_AAAA io) of
        Inl e \<Rightarrow> z\<lparr>zs_Err := e, zs_Updated := pb_now io\<rparr>
      | Inr records \<Rightarrow>
          z\<lparr>zs_Records := rank_records (pb_done io) records, zs_Err := [], zs_Updated := pb_now io\<rparr>)"

definition probeZone :: "probe_io \<Rightarrow> nat \<Rightarrow> ProxyServer \<Rightarrow> ProxyServer" where
  "probeZone io p s =
     (case px_heap s p of
        None \<Rightarrow> s
      | Some z \<Rightarrow> s\<lparr>px_heap := (px_heap s)(p := Some (probe_state io z))\<rparr>)"

text \<open>\<open>order\<close> is the order in which the probes of a pass finish.\<close>

definition probeAll :: "(nat \<Rightarrow> probe_io) \<Rightarrow> nat list \<Rightarrow> ProxyServer \<Rightarrow> ProxyServer" where
  "probeAll io order s = fold (\<lambda>p. probeZone (io p) p) order s"

definition RefreshNow ::
  "(string \<Rightarrow> string) \<Rightarrow> File option \<Rightarrow> (nat \<Rightarrow> probe_io) \<Rightarrow> (nat list \<Rightarrow> nat list) \<Rightarrow> ProxyServer \<Rightarrow> ProxyServer" where
  "RefreshNow fqdn cfg io schedule s =
     (let s = rebuildZones fqdn cfg s; zones = zoneSnapshot s in probeAll io (schedule zones) s)"

definition probe_due :: "time \<Rightarrow> ProxyServer \<Rightarrow> nat \<Rightarrow> bool" where
  "probe_due now s p =
     (case px_heap s p of
        None \<Rightarrow> False
      | Some z \<Rightarrow> \<not> (\<not> IsZero (zs_Updated z) \<and> Sub now (zs_Updated z) < zs_Interval z))"

definition runProbePass ::
  "(string \<Rightarrow> string) \<Rightarrow> File option \<Rightarrow> time \<Rightarrow> (nat \<Rightarrow> probe_io) \<Rightarrow> (nat list \<Rightarrow> nat list) \<Rightarrow> ProxyServer \<Rightarrow> ProxyServer" where
  "runProbePass fqdn cfg now io schedule s =
     (let s = rebuildZones fqdn cfg s; zones = zoneSnapshot s in
      probeAll io (schedule (filter (probe_due now s) zones)) s)"

text \<open>
  refreshLoop: a first pass, then one pass per tick until \<open>done\<close> is closed.  A pass runs with
  the configuration and the network of its moment.
\<close>

record pass_io =
  pp_cfg :: "File option"
  pp_now :: time
  pp_probe :: "nat \<Rightarrow> probe_io"
  pp_schedule :: "nat list \<Rightarrow> nat list"

datatype loop_event = Tick pass_io | Done

definition run_pass :: "(string \<Rightarrow> string) \<Rightarrow> pass_io \<Rightarrow> ProxyServer \<Rightarrow> ProxyServer" where
  "run_pass fqdn io s = runProbePass fqdn (pp_cfg io) (pp_now io) (pp_probe io) (pp_schedule io) s"

fun refresh_ticks :: "(string \<Rightarrow> string) \<Rightarrow> loop_event list \<Rightarrow> ProxyServer \<Rightarrow> ProxyServer" where
  "refresh_ticks fqdn [] s = s"
| "refresh_ticks fqdn (Done # es) s = s"
| "refresh_ticks fqdn (Tick io # es) s = refresh_ticks fqdn es (run_pass fqdn io s)"

definition refreshLoop :: "(string \<Rightarrow> string) \<Rightarrow> pass_io \<Rightarrow> loop_event list \<Rightarrow> ProxyServer \<Rightarrow> ProxyServer" where
  "refreshLoop fqdn io es s = refresh_ticks fqdn es (run_pass fqdn io s)"

section \<open>Answering queries\<close>

datatype answer =
    AnsA string "32 word" "nat list"
  | AnsAAAA string "32 word" "nat list"
  | AnsCNAME string "32 word" string

record question =
  q_Name :: string
  q_Qtype :: nat

record message =
  m_Authoritative :: bool
  m_RecursionAvailable :: bool
  m_Rcode :: nat
  m_Answer :: "answer list"

definition RcodeSuccess :: nat where "RcodeSuccess = 0"
definition RcodeFormatError :: nat where "RcodeFormatError = 1"
definition RcodeServerFailure :: nat where "RcodeServerFailure = 2"
definition RcodeNameError :: nat where "RcodeNameError = 3"

fun answer_ttl :: "32 word \<Rightarrow> latencyRecord list \<Rightarrow> 32 word" where
  "answer_ttl ttl [] = ttl"
| "answer_ttl ttl (rec # recs) =
     answer_ttl (if lr_TTL rec > 0 \<and> lr_TTL rec < ttl then lr_TTL rec else ttl) recs"

definition answer_for :: "question \<Rightarrow> 32 word \<Rightarrow> latencyRecord \<Rightarrow> answer list" where
  "answer_for q ttl rec =
     (if lr_Type rec = TypeA then
        (if q_Qtype q \<noteq> TypeA then []
         else (case ParseIP (lr_Value rec) of None \<Rightarrow> [] | Some ip \<Rightarrow> [AnsA (q_Name q) ttl ip]))
      else if lr_Type rec = TypeAAAA then
        (if q_Qtype q \<noteq> TypeAAAA then []
         else (case ParseIP (lr_Value rec) of None \<Rightarrow> [] | Some ip \<Rightarrow> [AnsAAAA (q_Name q) ttl ip]))
      else if lr_Type rec = TypeCNAME then [AnsCNAME (q_Name q) ttl (lr_Value rec)]
      else [])"

definition reply_with :: "nat \<Rightarrow> answer list \<Rightarrow> message" where
  "reply_with rcode answer =
     \<lparr>m_Authoritative = False, m_RecursionAvailable = True, m_Rcode = rcode, m_Answer = answer\<rparr>"

definition handle :: "question list \<Rightarrow> ProxyServer \<Rightarrow> message" where
  "handle questions s =
     (case questions of
        [] \<Rightarrow> reply_with RcodeFormatError []
      | q # _ \<Rightarrow>
          let name = ToLower (q_Name q) in
          (case map_of (px_zones s) name of
             None \<Rightarrow> reply_with RcodeServerFailure []
           | Some p \<Rightarrow>
             (case px_heap s p of
                None \<Rightarrow> reply_with RcodeServerFailure []
              | Some z \<Rightarrow>
                  if length (zs_Records z) = 0 then reply_with RcodeServerFailure []
                  else
                    let ttl = answer_ttl 60 (zs_Records z);
                        answer = concat (map (answer_for q ttl) (zs_Records z)) in
                    if length answer = 0 then reply_with RcodeNameError answer
                    else reply_with RcodeSuccess answer)))"

definition Healthy :: "ProxyServer \<Rightarrow> bool" where
  "Healthy s =
     list_all (\<lambda>p. case px_heap s p of
                     None \<Rightarrow> False
                   | Some z \<Rightarrow> \<not> (IsZero (zs_Updated z) \<or> length (zs_Records z) = 0)) (zoneSnapshot s)"

definition ZoneCount :: "ProxyServer \<Rightarrow> nat" where
  "ZoneCount s = length (px_zones s)"

definition isClosedErr :: "string option \<Rightarrow> bool" where
  "isClosedErr err =
     (case err of
        None \<Rightarrow> False
      | Some e \<Rightarrow> Contains e ''closed'' \<or> Contains e ''use of closed network connection'')"

section \<open>Lemmas\<close>

subsection \<open>Pinging\<close>

definition answered :: "(string \<times> duration) list \<Rightarrow> duration set" where
  "answered done = {t. t > 0 \<and> t \<in> snd ` set done}"

lemma finite_answered [simp]: "finite (answered done)"
  by (rule finite_subset [of _ "snd ` set done"]) (auto simp: answered_def)

lemma answered_snoc: "answered (ds @ [(a, t)]) = (if t > 0 then insert t (answered ds) else answered ds)"
  by (auto simp: answered_def)

lemma answered_Min_pos: "answered ds \<noteq> {} \<Longrightarrow> 0 < Min (answered ds)"
  using Min_in [OF finite_answered] unfolding answered_def by blast

lemma pinger_step_best:
  "snd (pinger_step (a, t) st) = (if t > 0 \<and> (snd st < 0 \<or> t < snd st) then t else snd st)"
  by (simp add: pinger_step_def case_prod_beta)

lemma pinger_best:
  "snd (fold pinger_step ds (Map.empty, -1)) = (if answered ds = {} then -1 else Min (answered ds))"
proof (induction ds rule: rev_induct)
  case Nil
  then show ?case by (simp add: answered_def)
next
  case (snoc d ds)
  obtain a t where d: "d = (a, t)" by (cases d)
  show ?case
  proof (cases "answered ds = {}")
    case True
    then show ?thesis using snoc by (simp add: d pinger_step_best answered_snoc)
  next
    case False
    obtain M where M: "Min (answered ds) = M" "0 < M" using answered_Min_pos [OF False] by blast
    moreover have "Min (insert t (answered ds)) = min t M" using False M by simp
    ultimately show ?thesis using snoc False by (auto simp: d pinger_step_best answered_snoc)
  qed
qed

lemma concurrentPinger_best:
  "snd (concurrentPinger ds) = (if answered ds = {} then 0 else Min (answered ds))"
proof (cases "answered ds = {}")
  case False
  obtain M where "Min (answered ds) = M" "0 < M" using answered_Min_pos [OF False] by blast
  then show ?thesis using False by (simp add: concurrentPinger_def case_prod_beta pinger_best)
qed (simp add: concurrentPinger_def case_prod_beta pinger_best)

lemma pinger_map:
  "distinct (map fst ds) \<Longrightarrow> fst (fold pinger_step ds (m, b)) = m ++ map_of ds"
proof (induction ds arbitrary: m b)
  case (Cons d ds)
  obtain a t where d: "d = (a, t)" by (cases d)
  have "map_of ds a = None" using Cons.prems by (auto simp: d map_of_eq_None_iff)
  then show ?case using Cons by (auto simp: d pinger_step_def map_add_def fun_eq_iff split: option.split)
qed simp

lemma concurrentPinger_map: "distinct (map fst ds) \<Longrightarrow> fst (concurrentPinger ds) = map_of ds"
  by (simp add: concurrentPinger_def case_prod_beta pinger_map)

lemma set_rtt_simps [simp]:
  "lr_Type (set_rtt m r) = lr_Type r" "lr_Value (set_rtt m r) = lr_Value r" "lr_TTL (set_rtt m r) = lr_TTL r"
  "is_address (set_rtt m r) = is_address r"
  by (auto simp: set_rtt_def is_address_def split: option.split)

lemma await_echo_positive:
  "await_echo addr i q rs \<noteq> 0 \<Longrightarrow> Packet addr (await_echo addr i q rs) (EchoBody i q) \<in> set rs"
  by (induction rs rule: await_echo.induct) (auto split: echo_body.splits if_splits)

lemma containsSubstr_from_iff:
  "containsSubstr_from i s sub \<longleftrightarrow> (\<exists>j \<ge> i. j + length sub \<le> length s \<and> take (length sub) (drop j s) = sub)"
proof (induction i s sub rule: containsSubstr_from.induct)
  case (1 i s sub)
  show ?case
  proof (cases "i + length sub \<le> length s")
    case True
    then show ?thesis using 1 containsSubstr_from.simps [of i s sub] by (metis Suc_leD le_refl not_less_eq_eq order_antisym)
  next
    case False
    then show ?thesis by (auto simp: containsSubstr_from.simps)
  qed
qed

lemma Contains_iff: "Contains s sub \<longleftrightarrow> (\<exists>u v. s = u @ sub @ v)"
proof (induction s)
  case (Cons c s)
  show ?case
  proof
    assume "Contains (c # s) sub"
    then consider t where "c # s = sub @ t" | u v where "s = u @ sub @ v"
      using Cons.IH by (auto simp: HasPrefix_iff)
    then show "\<exists>u v. c # s = u @ sub @ v"
    proof cases
      case 1
      then have "c # s = [] @ sub @ t" by simp
      then show ?thesis by blast
    next
      case 2
      then have "c # s = (c # u) @ sub @ v" by simp
      then show ?thesis by blast
    qed
  next
    assume "\<exists>u v. c # s = u @ sub @ v"
    then obtain u v where "c # s = u @ sub @ v" by blast
    then consider "c # s = sub @ v" | u' where "s = u' @ sub @ v" by (cases u) auto
    then show "Contains (c # s) sub"
    proof cases
      case 1
      then have "HasPrefix (c # s) sub" by (simp only: HasPrefix_append)
      then show ?thesis by simp
    next
      case 2
      then show ?thesis using Cons.IH by auto
    qed
  qed
qed simp

lemma window_iff:
  "(\<exists>j. j + length sub \<le> length s \<and> take (length sub) (drop j s) = sub) \<longleftrightarrow> (\<exists>u v. s = u @ sub @ v)"
proof
  assume "\<exists>j. j + length sub \<le> length s \<and> take (length sub) (drop j s) = sub"
  then obtain j where "take (length sub) (drop j s) = sub" by blast
  then have "s = take j s @ sub @ drop (length sub) (drop j s)" by (metis append_take_drop_id)
  then show "\<exists>u v. s = u @ sub @ v" by blast
next
  assume "\<exists>u v. s = u @ sub @ v"
  then obtain u v where "s = u @ sub @ v" by blast
  then show "\<exists>j. j + length sub \<le> length s \<and> take (length sub) (drop j s) = sub"
    by (intro exI [of _ "length u"]) simp
qed

subsection \<open>The table\<close>

definition served :: "ForwardZone \<Rightarrow> bool" where
  "served z \<longleftrightarrow> \<not> z_Deleted z \<and> z_LeastLatency z \<and> \<not> z_Wildcard z \<and> z_Upstreams z \<noteq> []"

lemma dom_update: "fst ` set (AList.update k v al) = insert k (fst ` set al)"
  by (metis dom_map_of_conv_image_fst fun_upd_def update_conv' dom_fun_upd option.distinct(1))

lemma rebuild_zone_keys:
  "fst ` set (px_zones (rebuild_zone fqdn old z s)) =
   (if served z then insert (fqdn (z_Name z)) (fst ` set (px_zones s)) else fst ` set (px_zones s))"
  by (cases "z_Upstreams z") (auto simp: rebuild_zone_def served_def Let_def dom_update split: option.split)

lemma rebuild_all_keys:
  "fst ` set (px_zones (rebuild_all fqdn old zs s)) =
   (\<lambda>z. fqdn (z_Name z)) ` {z \<in> set zs. served z} \<union> fst ` set (px_zones s)"
  by (induction zs arbitrary: s) (auto simp: rebuild_zone_keys)

section \<open>Concrete inputs\<close>

definition rec_A :: "string \<Rightarrow> latencyRecord" where
  "rec_A v = \<lparr>lr_Target = ''corp.example.com.'', lr_Type = TypeA, lr_Value = v, lr_TTL = 300, lr_RTT = 0\<rparr>"

definition one_zone :: "latencyRecord list \<Rightarrow> ProxyServer" where
  "one_zone rs =
     \<lparr>px_zones = [(''corp.example.com.'', 0)],
      px_heap = [0 \<mapsto> (fresh_zone ''corp.example.com.'' ''10.0.0.4:53'' Minute)\<lparr>zs_Records := rs\<rparr>],
      px_next = 1, px_started = True, px_done_closed = False\<rparr>"

lemma record_types [simp]: "TypeA \<noteq> TypeCNAME" "TypeAAAA \<noteq> TypeCNAME" "TypeA \<noteq> TypeAAAA"
  by (simp_all add: TypeA_def TypeCNAME_def TypeAAAA_def)

section \<open>Properties\<close>

text \<open>
  The best round-trip time of a probe is the least positive one among the pings, or zero
  when no ping was answered, in whatever order the concurrent pings finish.
\<close>

lemma best_rtt_is_minimum:
  "snd (concurrentPinger ds) = (if answered ds = {} then 0 else Min (answered ds))"
  by (rule concurrentPinger_best)

text \<open>
  C19. When some ping of distinct addresses was answered, the records a probe keeps are the aliases
  and the addresses with the least round-trip time; all of the latter are kept and there is at
  least one.
\<close>

theorem probe_keeps_fastest:
  assumes "distinct (map fst ds)" and "fst ` set ds = set (ping_targets records)" and "answered ds \<noteq> {}"
    and "\<forall>r \<in> set records. is_address r \<or> lr_Type r = TypeCNAME"
  shows "rank_records ds records =
      filter (\<lambda>r. lr_Type r = TypeCNAME \<or> lr_RTT r = Min (answered ds)) (map (set_rtt (map_of ds)) records) \<and>
    (\<exists>r \<in> set (rank_records ds records). is_address r) \<and>
    (\<forall>r \<in> set (rank_records ds records). is_address r \<longrightarrow> lr_RTT r = Min (answered ds))"
proof -
  obtain M where M: "Min (answered ds) = M" "0 < M" using answered_Min_pos [OF assms(3)] by blast
  have eq: "rank_records ds records =
      filter (\<lambda>r. lr_Type r = TypeCNAME \<or> lr_RTT r = M) (map (set_rtt (map_of ds)) records)"
    using M assms(1,3) concurrentPinger_best [of ds] concurrentPinger_map [of ds]
    by (simp add: rank_records_def case_prod_beta Let_def)
  have "M \<in> answered ds" using M(1) Min_in [OF finite_answered assms(3)] by simp
  then obtain a where a: "(a, M) \<in> set ds" by (auto simp: answered_def)
  then obtain r where r: "r \<in> set records" "is_address r" "lr_Value r = a"
    using assms(2) by (force simp: ping_targets_def)
  have "map_of ds a = Some M" using a assms(1) by (simp add: map_of_eq_Some_iff)
  then have "lr_RTT (set_rtt (map_of ds) r) = M" using r by (simp add: set_rtt_def)
  then have ex: "\<exists>x \<in> set (rank_records ds records). is_address x"
    using r by (intro bexI [of _ "set_rtt (map_of ds) r"]) (auto simp: eq)
  have "\<forall>x \<in> set (rank_records ds records). is_address x \<longrightarrow> lr_RTT x = M"
    using record_types by (auto simp: eq is_address_def simp del: record_types)
  then show ?thesis using eq ex M(1) by blast
qed

theorem probe_keeps_fastest_witness:
  "map lr_Value (rank_records [(''10.0.0.2'', 9), (''10.0.0.1'', 4)] [rec_A ''10.0.0.1'', rec_A ''10.0.0.2'']) = [''10.0.0.1'']"
proof -
  let ?ds = "[(''10.0.0.2'', 9), (''10.0.0.1'', 4)]" and ?rs = "[rec_A ''10.0.0.1'', rec_A ''10.0.0.2'']"
  have a: "answered ?ds = {4, 9}" by (auto simp: answered_def)
  have d: "distinct (map fst ?ds)" "answered ?ds \<noteq> {}" by (simp_all add: a)
  have t: "fst ` set ?ds = set (ping_targets ?rs)" "\<forall>r \<in> set ?rs. is_address r \<or> lr_Type r = TypeCNAME"
    by (auto simp: ping_targets_def rec_A_def is_address_def)
  from probe_keeps_fastest [OF d(1) t(1) d(2) t(2)] have "rank_records ?ds ?rs =
      filter (\<lambda>r. lr_Type r = TypeCNAME \<or> lr_RTT r = Min (answered ?ds)) (map (set_rtt (map_of ?ds)) ?rs)"
    by (rule conjunct1)
  then show ?thesis by (simp add: a rec_A_def set_rtt_def is_address_def)
qed

text \<open>
  When no ping was answered the probe keeps every record of the upstream's answer, in order,
  with its value, type and time to live.
\<close>

lemma probe_falls_back_to_all:
  assumes "answered ds = {}"
  shows "map (\<lambda>r. (lr_Type r, lr_Value r, lr_TTL r)) (rank_records ds records) =
         map (\<lambda>r. (lr_Type r, lr_Value r, lr_TTL r)) records"
proof -
  have "snd (concurrentPinger ds) = 0" using assms by (simp add: concurrentPinger_best)
  then show ?thesis by (simp add: rank_records_def case_prod_beta Let_def)
qed

text \<open>
  C25. A failed probe does not take a zone out of service: every query is answered as before.
\<close>

theorem failed_probe_keeps_answers:
  assumes "px_heap s p = Some z"
    and "resolveTarget (zs_Name z) (zs_Upstream z) (pb_A io) (pb_AAAA io) = Inl e"
  shows "handle qs (probeZone io p s) = handle qs s"
proof -
  have "px_zones (probeZone io p s) = px_zones s"
    "px_heap (probeZone io p s) = (px_heap s)(p \<mapsto> z\<lparr>zs_Err := e, zs_Updated := pb_now io\<rparr>)"
    using assms by (simp_all add: probeZone_def probe_state_def)
  then show ?thesis using assms(1) by (auto simp: handle_def Let_def split: list.split option.split)
qed

theorem failed_probe_keeps_answers_witness:
  "handle [\<lparr>q_Name = ''corp.example.com.'', q_Qtype = TypeA\<rparr>]
     (probeZone \<lparr>pb_A = ExchangeErr, pb_AAAA = Response 3 [], pb_done = [], pb_now = 5\<rparr> 0 (one_zone [rec_A ''10.0.0.1''])) =
   handle [\<lparr>q_Name = ''corp.example.com.'', q_Qtype = TypeA\<rparr>] (one_zone [rec_A ''10.0.0.1''])"
  by (rule failed_probe_keeps_answers
      [where z = "(fresh_zone ''corp.example.com.'' ''10.0.0.4:53'' Minute)\<lparr>zs_Records := [rec_A ''10.0.0.1'']\<rparr>"])
    (simp_all add: one_zone_def resolveTarget_def exchange_records_def fresh_zone_def Let_def)

fun ttl_of :: "answer \<Rightarrow> 32 word" where
  "ttl_of (AnsA n t ip) = t"
| "ttl_of (AnsAAAA n t ip) = t"
| "ttl_of (AnsCNAME n t v) = t"

lemma answer_ttl_bounds: "0 < ttl \<Longrightarrow> ttl \<le> 60 \<Longrightarrow> 0 < answer_ttl ttl rs \<and> answer_ttl ttl rs \<le> 60"
proof (induction rs arbitrary: ttl)
  case (Cons r rs)
  let ?t = "if lr_TTL r > 0 \<and> lr_TTL r < ttl then lr_TTL r else ttl"
  have "0 < ?t" using Cons.prems(1) by simp
  moreover have "?t \<le> ttl" by (simp add: order.strict_implies_order)
  then have "?t \<le> 60" using Cons.prems(2) by (rule order_trans)
  ultimately have "0 < answer_ttl ?t rs \<and> answer_ttl ?t rs \<le> 60" by (rule Cons.IH)
  then show ?case by (simp only: answer_ttl.simps)
qed simp

lemma answer_for_ttl: "a \<in> set (answer_for q ttl r) \<Longrightarrow> ttl_of a = ttl"
  by (auto simp: answer_for_def split: if_splits option.splits)

text \<open>
  C26. Every reply of the proxy reports success exactly when it carries an answer, and the time to
  live of an answer is between one second and a minute.
\<close>

theorem reply_well_formed:
  "(m_Rcode (handle qs s) = RcodeSuccess) = (m_Answer (handle qs s) \<noteq> []) \<and>
   list_all (\<lambda>a. 0 < ttl_of a \<and> ttl_of a \<le> 60) (m_Answer (handle qs s))"
proof -
  have ttl: "0 < answer_ttl 60 rs \<and> answer_ttl 60 rs \<le> 60" for rs by (rule answer_ttl_bounds) simp_all
  show ?thesis
    by (auto simp: handle_def reply_with_def Let_def list_all_iff answer_for_ttl ttl RcodeSuccess_def
        RcodeServerFailure_def RcodeNameError_def RcodeFormatError_def split: list.split option.split)
qed

text \<open>
  The names the proxy serves after a rebuild are exactly the fully qualified names of the live
  least-latency zones that are not wildcards and have an upstream.
\<close>

lemma rebuild_serves_exactly:
  "fst ` set (px_zones (rebuildZones fqdn (Some f) s)) =
     (\<lambda>z. fqdn (z_Name z)) ` {z \<in> set (f_ForwardZones f). served z}"
  by (simp add: rebuildZones_def rebuild_all_keys)



text \<open>
  A ping reports a time only for a reply that came from the address itself and echoes the
  identifier and sequence number of the request; replies of others are not counted.
\<close>

lemma ping_needs_own_echo:
  assumes "ping io addr \<noteq> 0"
  shows "Packet addr (ping io addr) (EchoBody (randInt (pg_id io) 65536) (randInt (pg_seq io) 65536))
           \<in> set (pg_replies io) \<and> ParseIP addr \<noteq> None"
  using assms await_echo_positive
  by (auto simp: ping_def Let_def split: option.splits if_splits)

definition echo_io :: ping_io where
  "echo_io =
     \<lparr>pg_listen = None, pg_id = RandBytes [0, 0, 0, 7], pg_seq = RandBytes [0, 0, 0, 8], pg_marshal = None,
      pg_write = None, pg_replies = [Packet ''10.0.0.9'' 3 (EchoBody 7 8), Packet ''10.0.0.1'' 4 (EchoBody 7 8)]\<rparr>"

text \<open>
  The substring test written by hand agrees with strings.Contains.
\<close>

lemma stringsContains_is_Contains: "stringsContains s sub = Contains s sub"
proof -
  have "containsSubstr s sub \<longleftrightarrow> (\<exists>u v. s = u @ sub @ v)"
    by (simp add: containsSubstr_def containsSubstr_from_iff window_iff)
  moreover have "sub = [] @ sub @ []" by simp
  ultimately show ?thesis unfolding stringsContains_def Contains_iff
    by (cases "s = []") (auto, metis append.left_neutral append.right_neutral)
qed

text \<open>
  An IPv4 address that was probed is returned: a query for the address record of a served
  zone that holds the printed form of an address carries the bytes of that address.
\<close>

lemma probed_address_answered:
  assumes "map_of (px_zones s) (ToLower (q_Name q)) = Some p" and "px_heap s p = Some z"
    and "r \<in> set (zs_Records z)" and "lr_Type r = TypeA" and "lr_Value r = ipv4_string a b c d"
    and "a \<le> 255" and "b \<le> 255" and "c \<le> 255" and "d \<le> 255" and "q_Qtype q = TypeA"
  shows "\<exists>ttl. AnsA (q_Name q) ttl (v4_in_16 [a, b, c, d]) \<in> set (m_Answer (handle (q # qs) s))"
proof -
  have ne: "zs_Records z \<noteq> []" using assms(3) by auto
  have "answer_for q ttl r = [AnsA (q_Name q) ttl (v4_in_16 [a, b, c, d])]" for ttl
    using assms(4-10) by (simp add: answer_for_def ParseIP_ipv4_string)
  then have "AnsA (q_Name q) ttl (v4_in_16 [a, b, c, d]) \<in> set (concat (map (answer_for q ttl) (zs_Records z)))" for ttl
    unfolding set_concat set_map by (intro UN_I [OF imageI [OF assms(3)]]) simp
  moreover have "m_Answer (handle (q # qs) s) =
      concat (map (answer_for q (answer_ttl 60 (zs_Records z))) (zs_Records z))"
    using assms(1,2) ne by (simp add: handle_def Let_def reply_with_def)
  ultimately show ?thesis by metis
qed

end
