(* ===== verification/ProxyTable.thy ===== *)
theory ProxyTable
  imports Proxy
begin

text \<open>
  The invariant of the latency proxy's state.  The code keeps a map from names to pointers to zone
  states; the model keeps the states in a heap.  The invariant says that the map has one entry per
  name and that every entry points to an allocated state of that name, so that the branches of the
  model for a dangling address, which the code does not have, are never taken; and that the channel
  which ends the probe loop is still open, so that the one Stop at the end of the process does not
  panic.
\<close>

section \<open>The invariant\<close>

definition points :: "(nat \<Rightarrow> zoneState option) \<Rightarrow> (string \<times> nat) list \<Rightarrow> bool" where
  "points h zs \<longleftrightarrow> (\<forall>(n, p) \<in> set zs. \<exists>z. h p = Some z \<and> zs_Name z = n)"

definition proxy_inv :: "ProxyServer \<Rightarrow> bool" where
  "proxy_inv s \<longleftrightarrow>
     distinct (map fst (px_zones s)) \<and> points (px_heap s) (px_zones s) \<and>
     (\<forall>p \<ge> px_next s. px_heap s p = None) \<and> \<not> px_done_closed s"

lemma points_Nil [simp]: "points h []"
  by (simp add: points_def)

lemma set_AList_update: "set (AList.update k v al) \<subseteq> insert (k, v) (set al)"
  by (induction al) auto

lemma points_update: "points h zs \<Longrightarrow> h p = Some z \<Longrightarrow> zs_Name z = n \<Longrightarrow> points h (AList.update n p zs)"
  using set_AList_update [of n p zs] by (fastforce simp: points_def)

lemma points_alloc: "points h zs \<Longrightarrow> h p = None \<Longrightarrow> points (h(p := Some z)) zs"
  by (fastforce simp: points_def)

lemma points_lookup: "points h zs \<Longrightarrow> map_of zs n = Some p \<Longrightarrow> \<exists>z. h p = Some z \<and> zs_Name z = n"
  by (fastforce simp: points_def dest: map_of_SomeD)

lemma proxy_New_inv: "proxy_inv proxy_New"
  by (simp add: proxy_inv_def proxy_New_def)

section \<open>Rebuilding the table\<close>

lemma rebuild_zone_inv:
  assumes "proxy_inv s" and "points (px_heap s) old"
  shows "proxy_inv (rebuild_zone fqdn old z s) \<and> points (px_heap (rebuild_zone fqdn old z s)) old"
proof (cases "z_Deleted z \<or> \<not> z_LeastLatency z \<or> z_Wildcard z \<or> z_Upstreams z = []")
  case True
  then show ?thesis using assms by (auto simp: rebuild_zone_def split: list.split)
next
  case False
  then obtain up ups where up: "z_Upstreams z = up # ups" by (cases "z_Upstreams z") auto
  let ?n = "fqdn (z_Name z)" and ?f = "fresh_zone (fqdn (z_Name z)) (probe_upstream up) (zone_interval z)"
  let ?alloc = "s\<lparr>px_zones := AList.update ?n (px_next s) (px_zones s),
                  px_heap := (px_heap s)(px_next s := Some ?f), px_next := Suc (px_next s)\<rparr>"
  have free: "px_heap s (px_next s) = None" using assms(1) by (simp add: proxy_inv_def)
  have "points ((px_heap s)(px_next s := Some ?f)) (AList.update ?n (px_next s) (px_zones s))"
  proof (rule points_update [where z = ?f])
    show "points ((px_heap s)(px_next s := Some ?f)) (px_zones s)"
      using assms(1) free by (intro points_alloc) (simp_all add: proxy_inv_def)
  qed (simp_all add: fresh_zone_def)
  then have alloc: "proxy_inv ?alloc \<and> points (px_heap ?alloc) old"
    using assms free points_alloc by (simp add: proxy_inv_def distinct_update)
  have keep: "proxy_inv (s\<lparr>px_zones := AList.update ?n p (px_zones s)\<rparr>)" if "map_of old ?n = Some p" for p
    using points_lookup [OF assms(2) that] points_update assms(1) by (auto simp: proxy_inv_def distinct_update)
  show ?thesis
    using False up alloc keep assms(2) by (auto simp: rebuild_zone_def Let_def split: option.split)
qed

lemma rebuild_all_inv:
  "proxy_inv s \<Longrightarrow> points (px_heap s) old \<Longrightarrow> proxy_inv (rebuild_all fqdn old zs s)"
proof (induction zs arbitrary: s)
  case (Cons z zs)
  then show ?case using rebuild_zone_inv [OF Cons.prems, of fqdn z] by simp
qed simp

lemma rebuildZones_inv: "proxy_inv s \<Longrightarrow> proxy_inv (rebuildZones fqdn cfg s)"
proof (cases cfg)
  case (Some f)
  assume inv: "proxy_inv s"
  then have "proxy_inv (s\<lparr>px_zones := []\<rparr>)" "points (px_heap (s\<lparr>px_zones := []\<rparr>)) (px_zones s)"
    by (simp_all add: proxy_inv_def)
  then show ?thesis using Some rebuild_all_inv by (simp add: rebuildZones_def)
qed (simp add: rebuildZones_def proxy_inv_def)

section \<open>Probing\<close>

lemma probe_state_Name [simp]: "zs_Name (probe_state io z) = zs_Name z"
  by (simp add: probe_state_def split: sum.split)

lemma probeZone_zones [simp]: "px_zones (probeZone io p s) = px_zones s"
  by (simp add: probeZone_def split: option.split)

lemma probeAll_zones [simp]: "px_zones (probeAll io ps s) = px_zones s"
  by (induction ps arbitrary: s) (simp_all add: probeAll_def)

lemma probeZone_inv: "proxy_inv s \<Longrightarrow> proxy_inv (probeZone io p s)"
  by (fastforce simp: probeZone_def proxy_inv_def points_def split: option.split)

lemma probeAll_inv: "proxy_inv s \<Longrightarrow> proxy_inv (probeAll io ps s)"
  by (induction ps arbitrary: s) (simp_all add: probeAll_def probeZone_inv)

lemma RefreshNow_inv: "proxy_inv s \<Longrightarrow> proxy_inv (RefreshNow fqdn cfg io schedule s)"
  by (simp add: RefreshNow_def Let_def probeAll_inv rebuildZones_inv)

lemma run_pass_inv: "proxy_inv s \<Longrightarrow> proxy_inv (run_pass fqdn io s)"
  by (simp add: run_pass_def runProbePass_def Let_def probeAll_inv rebuildZones_inv)

lemma refreshLoop_inv: "proxy_inv s \<Longrightarrow> proxy_inv (refreshLoop fqdn io es s)"
proof -
  have "proxy_inv s \<Longrightarrow> proxy_inv (refresh_ticks fqdn es s)" for s
    by (induction fqdn es s rule: refresh_ticks.induct) (simp_all add: run_pass_inv)
  then show "proxy_inv s \<Longrightarrow> proxy_inv (refreshLoop fqdn io es s)" by (simp add: refreshLoop_def run_pass_inv)
qed

lemma proxy_Start_inv: "proxy_inv s \<Longrightarrow> proxy_inv (proxy_Start fqdn cfg s)"
  using rebuildZones_inv [of s fqdn cfg] by (simp add: proxy_Start_def proxy_inv_def)

lemma proxy_Stop_clean: "proxy_inv s \<Longrightarrow> fst (proxy_Stop e s) = Stopped (if px_started s then e else None)"
  by (simp add: proxy_Stop_def proxy_inv_def Let_def)

text \<open>What the proxy serves after a refresh.\<close>

lemma RefreshNow_keys:
  "fst ` set (px_zones (RefreshNow fqdn (Some f) io schedule s)) =
   (\<lambda>z. fqdn (z_Name z)) ` {z \<in> set (f_ForwardZones f). served z}"
  by (simp add: RefreshNow_def Let_def rebuildZones_def rebuild_all_keys)

text \<open>Under the invariant every name of the table leads to a state of that name.\<close>

lemma proxy_inv_lookup:
  "proxy_inv s \<Longrightarrow> map_of (px_zones s) n = Some p \<Longrightarrow> \<exists>z. px_heap s p = Some z \<and> zs_Name z = n"
  unfolding proxy_inv_def using points_lookup by blast

end
