(* ===== verification/Watcher.thy ===== *)
theory Watcher
  imports Store Unbound ProxyTable AuditLog
begin

text \<open>
  The watcher of internal/watcher/watcher.go: it turns the current configuration into
  unbound.conf, has it checked, swaps it in, restarts unbound by a signal and polls the
  configuration file.  The outcomes of the system calls, of unbound-checkconf and of the signal
  attempts are inputs, as is the clock.  The watcher's registered proxy is a value of the proxy's
  own state (\<open>None\<close> before SetProxy); errors are the texts the code stores and returns.
\<close>

section \<open>State\<close>

record Watcher =
  w_instance :: string
  w_lastError :: string
  w_lastOK :: time
  w_cycles :: nat
  w_proxy :: "ProxyServer option"

text \<open>The output directory: the generated file, its temporary companion and the number of
  SIGTERMs that unbound has received.\<close>

record OutDir =
  o_conf :: "string option"
  o_tmp :: "string option"
  o_signals :: nat

definition watcher_New :: "string \<Rightarrow> Watcher" where
  "watcher_New inst =
     \<lparr>w_instance = inst, w_lastError = [], w_lastOK = 0, w_cycles = 0, w_proxy = None\<rparr>"

text \<open>What RefreshNow of the proxy needs from the network.\<close>

record proxy_env =
  pe_fqdn :: "string \<Rightarrow> string"
  pe_probe :: "nat \<Rightarrow> probe_io"
  pe_schedule :: "nat list \<Rightarrow> nat list"

definition refresh_proxy :: "proxy_env \<Rightarrow> File option \<Rightarrow> ProxyServer \<Rightarrow> ProxyServer" where
  "refresh_proxy pe cfg p = RefreshNow (pe_fqdn pe) cfg (pe_probe pe) (pe_schedule pe) p"

definition SetProxy :: "proxy_env \<Rightarrow> File option \<Rightarrow> ProxyServer option \<Rightarrow> Watcher \<Rightarrow> Watcher" where
  "SetProxy pe cfg p w = w\<lparr>w_proxy := map_option (refresh_proxy pe cfg) p\<rparr>"

definition Status :: "Watcher \<Rightarrow> time \<times> string" where
  "Status w = (w_lastOK w, w_lastError w)"

definition setErr :: "string \<Rightarrow> Watcher \<Rightarrow> Watcher" where
  "setErr e w = w\<lparr>w_lastError := e\<rparr>"

section \<open>Restarting unbound\<close>

text \<open>
  One attempt of Reload: the process id that is published at that moment, whether the process
  is found, whether the signal is delivered, and whether the context is done before the next
  attempt.
\<close>

record attempt =
  at_pid :: int
  at_find :: "string option"
  at_signal :: "string option"
  at_done :: "string option"

text \<open>\<open>n\<close> counts the attempts left; a missing attempt behaves like one with no process.\<close>

definition no_process :: attempt where
  "no_process = \<lparr>at_pid = 0, at_find = None, at_signal = None, at_done = None\<rparr>"

fun reload_loop :: "nat \<Rightarrow> string option \<Rightarrow> attempt list \<Rightarrow> string option \<times> bool" where
  "reload_loop 0 lastErr as =
     (let e = (case lastErr of None \<Rightarrow> ''unbound pid stayed at 0 after retries'' | Some e \<Rightarrow> e) in
      (Some (''signal unbound: '' @ e), False))"
| "reload_loop (Suc n) lastErr as =
     (let a = (case as of [] \<Rightarrow> no_process | a # _ \<Rightarrow> a);
          found = at_pid a > 0 \<and> at_find a = None in
      if found \<and> at_signal a = None then (None, True)
      else
        let lastErr' = (if at_pid a > 0 then (if at_find a \<noteq> None then at_find a else at_signal a) else lastErr) in
        (case at_done a of
           Some e \<Rightarrow> (Some e, False)
         | None \<Rightarrow> reload_loop n lastErr' (tl as)))"

text \<open>The error, and whether a signal was delivered.\<close>

definition Reload :: "attempt list \<Rightarrow> string option \<times> bool" where
  "Reload as = reload_loop 20 None as"

section \<open>Applying a configuration\<close>

datatype check_result = CheckOK | CheckFailed string string

record apply_io =
  ap_proxy :: proxy_env
  ap_mkdir :: "string option"
  ap_write :: "(string \<times> string option) option"
  ap_check :: check_result
  ap_rename :: "string option"
  ap_reload :: "attempt list"
  ap_now :: time
  ap_audit :: audit_io

definition check_message :: "string \<Rightarrow> string \<Rightarrow> string" where
  "check_message out err = (let msg = TrimSpace out in if msg = [] then err else msg)"

text \<open>The part of applyOnce after the rename.\<close>

definition apply_finish ::
  "(Entry \<Rightarrow> (string, string) result) \<Rightarrow> apply_io \<Rightarrow> string \<Rightarrow> Watcher \<Rightarrow> OutDir \<Rightarrow> log \<Rightarrow>
   string option \<times> Watcher \<times> OutDir \<times> log" where
  "apply_finish encode io reason w out log =
     (let (err, sent) = (if reason \<noteq> ''initial'' then Reload (ap_reload io) else (None, False));
          out = (if sent then out\<lparr>o_signals := Suc (o_signals out)\<rparr> else out) in
      case err of
        Some e \<Rightarrow> (Some e, setErr e w, out, log)
      | None \<Rightarrow>
          let w = w\<lparr>w_lastError := [], w_lastOK := ap_now io\<rparr>;
              (aerr, log) = Write encode (ap_audit io)
                 \<lparr>e_Time = 0, e_Actor = w_instance w, e_Action = ''config-applied'', e_Details = reason\<rparr> log in
          (None, w, out, log))"

definition applyOnce ::
  "(Entry \<Rightarrow> (string, string) result) \<Rightarrow> apply_io \<Rightarrow> string \<Rightarrow> File option \<Rightarrow> Watcher \<Rightarrow> OutDir \<Rightarrow> log \<Rightarrow>
   string option \<times> Watcher \<times> OutDir \<times> log" where
  "applyOnce encode io reason cur w out log =
     (case cur of
        None \<Rightarrow> (Some ''no config'', w, out, log)
      | Some f \<Rightarrow>
          let w = w\<lparr>w_proxy := map_option (refresh_proxy (ap_proxy io) (Some f)) (w_proxy w)\<rparr>;
              gen = Generate f in
          (case ap_mkdir io of
             Some e \<Rightarrow> (Some e, setErr e w, out, log)
           | None \<Rightarrow>
          (case ap_write io of
             Some (e, left) \<Rightarrow> (Some e, setErr e w, out\<lparr>o_tmp := left\<rparr>, log)
           | None \<Rightarrow>
               let out = out\<lparr>o_tmp := Some gen\<rparr> in
               (case ap_check io of
                  CheckFailed checkOut err \<Rightarrow>
                    let msg = ''unbound-checkconf failed: '' @ check_message checkOut err in
                    (Some msg, setErr msg w, out\<lparr>o_tmp := None\<rparr>, log)
                | CheckOK \<Rightarrow>
                    (case ap_rename io of
                       Some e \<Rightarrow> (Some e, setErr e w, out, log)
                     | None \<Rightarrow>
                         apply_finish encode io reason w
                           (out\<lparr>o_conf := o_tmp out, o_tmp := None\<rparr>) log)))))"

definition ApplyNow ::
  "(Entry \<Rightarrow> (string, string) result) \<Rightarrow> apply_io \<Rightarrow> File option \<Rightarrow> Watcher \<Rightarrow> OutDir \<Rightarrow> log \<Rightarrow>
   string option \<times> Watcher \<times> OutDir \<times> log" where
  "ApplyNow encode io cur w out log = applyOnce encode io ''api-save'' cur w out log"

section \<open>The polling loop\<close>

text \<open>The state of the process as far as the loop is concerned.\<close>

record Daemon =
  dm_store :: Store
  dm_disk :: Disk
  dm_watcher :: Watcher
  dm_out :: OutDir
  dm_log :: log

text \<open>The parameters: the codecs, the digest and the environment.\<close>

record codecs =
  cd_marshal :: "File \<Rightarrow> (string, string) result"
  cd_unmarshal :: "string \<Rightarrow> (string, File) result"
  cd_sha :: "string \<Rightarrow> string"
  cd_encode :: "Entry \<Rightarrow> (string, string) result"
  cd_env :: "string \<Rightarrow> string option"
  cd_readFile :: "string \<Rightarrow> string option"
  cd_errText :: "err \<Rightarrow> string"

definition apply_daemon :: "codecs \<Rightarrow> apply_io \<Rightarrow> string \<Rightarrow> Daemon \<Rightarrow> string option \<times> Daemon" where
  "apply_daemon cd io reason s =
     (case applyOnce (cd_encode cd) io reason (current (dm_store s)) (dm_watcher s) (dm_out s) (dm_log s) of
        (e, w, out, lg) \<Rightarrow> (e, s\<lparr>dm_watcher := w, dm_out := out, dm_log := lg\<rparr>))"

definition poll_interval :: "Settings \<Rightarrow> duration" where
  "poll_interval st =
     (let poll = wrap64 (s_PollSeconds st * Second) in if poll \<le> 0 then 10 * Second else poll)"

record tick_io =
  tk_read :: "string option"
  tk_apply :: apply_io

definition poll_tick :: "codecs \<Rightarrow> tick_io \<Rightarrow> Daemon \<Rightarrow> Daemon" where
  "poll_tick cd io s =
     (let s = s\<lparr>dm_watcher := (dm_watcher s)\<lparr>w_cycles := Suc (w_cycles (dm_watcher s))\<rparr>\<rparr> in
      case ReloadIfChanged (cd_unmarshal cd) (cd_sha cd) (cd_env cd) (cd_readFile cd) (tk_read io)
             (dm_store s) (dm_disk s) of
        (changed, Some e, st) \<Rightarrow> s\<lparr>dm_store := st, dm_watcher := setErr (cd_errText cd e) (dm_watcher s)\<rparr>
      | (changed, None, st) \<Rightarrow>
          let s = s\<lparr>dm_store := st\<rparr> in
          if \<not> changed then s else snd (apply_daemon cd (tk_apply io) ''poll-change'' s))"

text \<open>Run: the initial apply, then one \<open>poll_tick\<close> per tick until the context is done (the end
  of the list).\<close>

definition Run :: "codecs \<Rightarrow> apply_io \<Rightarrow> tick_io list \<Rightarrow> Daemon \<Rightarrow> Daemon" where
  "Run cd io ticks s =
     (case current (dm_store s) of
        None \<Rightarrow> s
      | Some f \<Rightarrow> fold (poll_tick cd) ticks (snd (apply_daemon cd io ''initial'' s)))"

text \<open>main starts the latency proxy and hands it to the watcher; its refresh loop then works on the
  same proxy, with the configuration that is current at the tick.\<close>

definition start_proxy :: "proxy_env \<Rightarrow> Daemon \<Rightarrow> Daemon" where
  "start_proxy pe s =
     (let cfg = current (dm_store s); p = proxy_Start (pe_fqdn pe) cfg proxy_New in
      s\<lparr>dm_watcher := SetProxy pe cfg (Some p) (dm_watcher s)\<rparr>)"

definition proxy_tick :: "(string \<Rightarrow> string) \<Rightarrow> pass_io \<Rightarrow> Daemon \<Rightarrow> Daemon" where
  "proxy_tick fqdn io s =
     (let io = io\<lparr>pp_cfg := current (dm_store s)\<rparr>; w = dm_watcher s in
      s\<lparr>dm_watcher := w\<lparr>w_proxy := map_option (run_pass fqdn io) (w_proxy w)\<rparr>\<rparr>)"

section \<open>Lemmas\<close>

lemma apply_finish_conf:
  "apply_finish encode io reason w out lg = (e, w', out', lg') \<Longrightarrow>
   o_conf out' = o_conf out \<and> o_tmp out' = o_tmp out \<and> w_lastError w' = (case e of None \<Rightarrow> [] | Some m \<Rightarrow> m)"
  by (auto simp: apply_finish_def Let_def setErr_def split: option.splits prod.splits if_splits)

text \<open>Every way applyOnce can end.\<close>

lemma applyOnce_cases:
  assumes "applyOnce encode io reason cur w out lg = (e, w', out', lg')"
  obtains (none) "cur = None" "e = Some ''no config''" "w' = w" "out' = out"
  | (failed) f m where "cur = Some f" "e = Some m" "w_lastError w' = m" "o_conf out' = o_conf out"
  | (swapped) f where "cur = Some f" "ap_check io = CheckOK" "o_conf out' = Some (Generate f)" "o_tmp out' = None"
      "w_lastError w' = (case e of None \<Rightarrow> [] | Some m \<Rightarrow> m)"
proof (cases cur)
  case None
  then show thesis using assms none by (simp add: applyOnce_def)
next
  case (Some f)
  show thesis
  proof (cases "ap_mkdir io = None \<and> ap_write io = None \<and> ap_check io = CheckOK \<and> ap_rename io = None")
    case True
    then have "apply_finish encode io reason
        (w\<lparr>w_proxy := map_option (refresh_proxy (ap_proxy io) (Some f)) (w_proxy w)\<rparr>)
        (out\<lparr>o_conf := Some (Generate f), o_tmp := None\<rparr>) lg = (e, w', out', lg')"
      using assms Some by (simp add: applyOnce_def Let_def)
    from apply_finish_conf [OF this] show thesis using swapped [OF Some] True by simp
  next
    case False
    then have "\<exists>m. e = Some m \<and> w_lastError w' = m \<and> o_conf out' = o_conf out"
      using assms Some
      by (auto simp: applyOnce_def Let_def setErr_def split: option.splits check_result.splits prod.splits)
    then show thesis using failed [OF Some] by blast
  qed
qed

text \<open>The generated file always comes from a valid configuration.\<close>

definition conf_inv :: "OutDir \<Rightarrow> bool" where
  "conf_inv out \<longleftrightarrow> (\<forall>t. o_conf out = Some t \<longrightarrow> (\<exists>f. complete_file f \<and> t = Generate f))"

text \<open>The proxy the watcher refreshes is in order.\<close>

definition watcher_inv :: "Watcher \<Rightarrow> bool" where
  "watcher_inv w \<longleftrightarrow> (\<forall>p. w_proxy w = Some p \<longrightarrow> proxy_inv p)"

definition daemon_inv :: "Daemon \<Rightarrow> bool" where
  "daemon_inv s \<longleftrightarrow> store_inv (dm_store s) \<and> conf_inv (dm_out s) \<and> watcher_inv (dm_watcher s)"

lemma watcher_inv_simps [simp]:
  "watcher_inv (w\<lparr>w_cycles := n\<rparr>) = watcher_inv w" "watcher_inv (setErr e w) = watcher_inv w"
  "watcher_inv (watcher_New i)"
  by (simp_all add: watcher_inv_def setErr_def watcher_New_def)

text \<open>What applyOnce does to the proxy: a refresh, whatever else happens.\<close>

lemma applyOnce_proxy:
  assumes "applyOnce encode io reason cur w out lg = (e, w', out', lg')"
  shows "w_proxy w' =
    (case cur of None \<Rightarrow> w_proxy w | Some f \<Rightarrow> map_option (refresh_proxy (ap_proxy io) (Some f)) (w_proxy w))"
  using assms
  by (auto simp: applyOnce_def apply_finish_def Let_def setErr_def
      split: option.splits check_result.splits prod.splits if_splits)

lemma applyOnce_watcher_inv:
  "applyOnce encode io reason cur w out lg = (e, w', out', lg') \<Longrightarrow> watcher_inv w \<Longrightarrow> watcher_inv w'"
  by (drule applyOnce_proxy, cases cur; cases "w_proxy w")
    (auto simp: watcher_inv_def refresh_proxy_def RefreshNow_inv)

lemma SetProxy_inv: "proxy_inv p \<Longrightarrow> watcher_inv (SetProxy pe cfg (Some p) w)"
  by (simp add: SetProxy_def watcher_inv_def refresh_proxy_def RefreshNow_inv)

lemma apply_daemon_store [simp]:
  "dm_store (snd (apply_daemon cd io reason s)) = dm_store s"
  "dm_disk (snd (apply_daemon cd io reason s)) = dm_disk s"
  by (simp_all add: apply_daemon_def case_prod_beta)

lemma apply_daemon_inv:
  assumes "daemon_inv s"
  shows "daemon_inv (snd (apply_daemon cd io reason s))"
proof -
  obtain e w' out' lg' where a: "applyOnce (cd_encode cd) io reason (current (dm_store s)) (dm_watcher s)
      (dm_out s) (dm_log s) = (e, w', out', lg')"
    by (metis prod.exhaust)
  have "conf_inv out'"
    using a
  proof (cases rule: applyOnce_cases)
    case (swapped f)
    then have "complete_file f" using assms by (auto simp: daemon_inv_def store_inv_def)
    then show ?thesis using swapped by (auto simp: conf_inv_def)
  qed (use assms in \<open>auto simp: daemon_inv_def conf_inv_def\<close>)
  moreover have "snd (apply_daemon cd io reason s) = s\<lparr>dm_watcher := w', dm_out := out', dm_log := lg'\<rparr>"
    using a by (simp add: apply_daemon_def)
  ultimately show ?thesis using assms applyOnce_watcher_inv [OF a] by (simp add: daemon_inv_def)
qed

lemma poll_tick_inv: "daemon_inv s \<Longrightarrow> daemon_inv (poll_tick cd io s)"
proof -
  assume inv: "daemon_inv s"
  obtain c e st where r: "ReloadIfChanged (cd_unmarshal cd) (cd_sha cd) (cd_env cd) (cd_readFile cd)
      (tk_read io) (dm_store s) (dm_disk s) = (c, e, st)"
    by (metis prod.exhaust)
  then have "store_inv st" using inv ReloadIfChanged_inv by (auto simp: daemon_inv_def)
  then have i: "daemon_inv (s\<lparr>dm_watcher := w, dm_store := st\<rparr>)" "daemon_inv (s\<lparr>dm_store := st, dm_watcher := w\<rparr>)"
    if "watcher_inv w" for w
    using inv that by (simp_all add: daemon_inv_def)
  have w: "watcher_inv (dm_watcher s)" using inv by (simp add: daemon_inv_def)
  show ?thesis using r w i apply_daemon_inv [OF i(1)] apply_daemon_inv [OF i(2)]
    by (auto simp: poll_tick_def Let_def split: option.split)
qed

lemma start_proxy_inv: "daemon_inv s \<Longrightarrow> daemon_inv (start_proxy pe s)"
  by (simp add: start_proxy_def daemon_inv_def Let_def SetProxy_inv proxy_Start_inv proxy_New_inv)

lemma proxy_tick_inv: "daemon_inv s \<Longrightarrow> daemon_inv (proxy_tick fqdn io s)"
  by (auto simp: proxy_tick_def daemon_inv_def watcher_inv_def Let_def run_pass_inv)

lemma Run_inv: "daemon_inv s \<Longrightarrow> daemon_inv (Run cd io ticks s)"
proof -
  assume "daemon_inv s"
  moreover have "daemon_inv d \<Longrightarrow> daemon_inv (fold (poll_tick cd) ticks d)" for d
    by (induction ticks arbitrary: d) (simp_all add: poll_tick_inv)
  ultimately show ?thesis by (simp add: Run_def apply_daemon_inv split: option.split)
qed

definition signalled :: "attempt \<Rightarrow> bool" where
  "signalled a \<longleftrightarrow> at_pid a > 0 \<and> at_find a = None \<and> at_signal a = None"

lemma reload_loop_signals:
  "i < n \<Longrightarrow> i < length as \<Longrightarrow> signalled (as ! i) \<Longrightarrow> (\<And>j. j < i \<Longrightarrow> at_done (as ! j) = None) \<Longrightarrow>
   reload_loop n e as = (None, True)"
proof (induction n arbitrary: i e as)
  case (Suc n)
  obtain a as' where as: "as = a # as'" using Suc.prems(2) by (cases as) auto
  show ?case
  proof (cases i)
    case 0
    then show ?thesis using Suc.prems(3) by (simp add: as signalled_def Let_def)
  next
    case (Suc k)
    then have "at_done a = None" using Suc.prems(4) [of 0] by (simp add: as)
    moreover have "reload_loop n e' as' = (None, True)" for e'
      using Suc.IH [of k as'] Suc.prems Suc by (fastforce simp: as)
    ultimately show ?thesis by (simp add: as Let_def)
  qed
qed simp

section \<open>Concrete inputs\<close>

definition no_probe :: proxy_env where
  "no_probe =
     \<lparr>pe_fqdn = (\<lambda>n. n @ ''.''),
      pe_probe = (\<lambda>_. \<lparr>pb_A = ExchangeErr, pb_AAAA = ExchangeErr, pb_done = [], pb_now = 4\<rparr>),
      pe_schedule = (\<lambda>x. x)\<rparr>"

definition live_process :: attempt where
  "live_process = \<lparr>at_pid = 42, at_find = None, at_signal = None, at_done = None\<rparr>"

definition calm_apply :: apply_io where
  "calm_apply =
     \<lparr>ap_proxy = no_probe, ap_mkdir = None, ap_write = None, ap_check = CheckOK, ap_rename = None,
      ap_reload = [no_process, live_process], ap_now = 9, ap_audit = audit_ok_io\<rparr>"

definition fresh_out :: OutDir where
  "fresh_out = \<lparr>o_conf = None, o_tmp = None, o_signals = 0\<rparr>"

lemma calm_reload [simp]: "Reload [no_process, live_process] = (None, True)"
  unfolding Reload_def
  by (rule reload_loop_signals [of 1]) (simp_all add: signalled_def live_process_def no_process_def)

section \<open>Properties\<close>

text \<open>
  C4. The running unbound.conf is only ever replaced by text that unbound-checkconf has accepted
  and that is generated from the current configuration; in every other outcome it is what it was,
  and the failure is what the status reports.
\<close>

theorem conf_replaced_only_when_checked:
  assumes "applyOnce encode io reason (Some f) w out lg = (e, w', out', lg')"
  shows "(o_conf out' = o_conf out \<or> ap_check io = CheckOK \<and> o_conf out' = Some (Generate f)) \<and>
    (e = None \<longrightarrow> ap_check io = CheckOK \<and> o_conf out' = Some (Generate f) \<and> o_tmp out' = None) \<and>
    snd (Status w') = (case e of None \<Rightarrow> [] | Some m \<Rightarrow> m)"
  using assms by (cases rule: applyOnce_cases) (auto simp: Status_def)

theorem conf_replaced_only_when_checked_witness:
  "\<exists>w' out' lg'. applyOnce (\<lambda>_. Inr ''{}'') (calm_apply\<lparr>ap_check := CheckFailed ''bad '' ''exit 1''\<rparr>) ''api-save''
       (Some (DefaultConfig 1)) (watcher_New ''a'') fresh_out None =
       (Some ''unbound-checkconf failed: bad'', w', out', lg') \<and>
     o_conf out' = None \<and> snd (Status w') = ''unbound-checkconf failed: bad''"
proof -
  have "check_message ''bad '' ''exit 1'' = ''bad''" by code_simp
  then obtain w' out' lg' where a: "applyOnce (\<lambda>_. Inr ''{}'') (calm_apply\<lparr>ap_check := CheckFailed ''bad '' ''exit 1''\<rparr>)
      ''api-save'' (Some (DefaultConfig 1)) (watcher_New ''a'') fresh_out None =
      (Some ''unbound-checkconf failed: bad'', w', out', lg')"
    by (simp add: applyOnce_def calm_apply_def Let_def)
  from conf_replaced_only_when_checked [OF a] show ?thesis
    using a by (auto simp: calm_apply_def fresh_out_def)
qed

text \<open>
  C21. Hot reload: at the tick after the file has changed to a valid configuration, the watcher
  loads it and, when the check and the restart succeed, unbound.conf is generated from it, unbound
  has been signalled once and no error is reported.
\<close>

theorem hot_reload:
  assumes "d_file (dm_disk s) = Some data" and "tk_read io = None" and "cd_sha cd data \<noteq> hash (dm_store s)"
    and "cd_unmarshal cd data = Inr f0"
    and "Validate (SeedFromEnv (cd_env cd) (cd_readFile cd) f0) = Inr f"
    and "ap_mkdir (tk_apply io) = None" and "ap_write (tk_apply io) = None" and "ap_check (tk_apply io) = CheckOK"
    and "ap_rename (tk_apply io) = None" and "Reload (ap_reload (tk_apply io)) = (None, True)"
  shows "current (dm_store (poll_tick cd io s)) = Some f \<and>
    o_conf (dm_out (poll_tick cd io s)) = Some (Generate f) \<and>
    o_signals (dm_out (poll_tick cd io s)) = Suc (o_signals (dm_out s)) \<and>
    w_lastError (dm_watcher (poll_tick cd io s)) = []"
proof -
  have "ReloadIfChanged (cd_unmarshal cd) (cd_sha cd) (cd_env cd) (cd_readFile cd) None
      (dm_store s) (dm_disk s) = (True, None, setCurrent f (cd_sha cd data) (dm_store s))"
    using assms(1,3-5) by (simp add: ReloadIfChanged_def)
  then show ?thesis using assms(2,6-)
    by (simp add: poll_tick_def apply_daemon_def applyOnce_def apply_finish_def Let_def case_prod_beta)
qed

definition sample_codecs :: codecs where
  "sample_codecs =
     \<lparr>cd_marshal = one_marshal, cd_unmarshal = (\<lambda>_. Inr (DefaultConfig 1)), cd_sha = (\<lambda>x. x),
      cd_encode = (\<lambda>_. Inr ''{}''), cd_env = (\<lambda>_. None), cd_readFile = (\<lambda>_. None), cd_errText = (\<lambda>_. ''error'')\<rparr>"

definition idle_daemon :: Daemon where
  "idle_daemon =
     \<lparr>dm_store = NewStore, dm_disk = empty_disk\<lparr>d_file := Some ''doc''\<rparr>, dm_watcher = watcher_New ''a'',
      dm_out = fresh_out, dm_log = None\<rparr>"

theorem hot_reload_witness:
  "o_conf (dm_out (poll_tick sample_codecs \<lparr>tk_read = None, tk_apply = calm_apply\<rparr> idle_daemon)) =
   Some (Generate (DefaultConfig 1))"
proof -
  have v: "Validate (DefaultConfig 1) = Inr (DefaultConfig 1)"
    using DefaultConfig_complete by (simp add: Validate_Inr_iff complete_file_def)
  have s: "SeedFromEnv (\<lambda>_. None) (\<lambda>_. None) (DefaultConfig 1) = DefaultConfig 1"
    by simp
  show ?thesis
    using hot_reload [of idle_daemon "''doc''" "\<lparr>tk_read = None, tk_apply = calm_apply\<rparr>" sample_codecs
        "DefaultConfig 1" "DefaultConfig 1"] v s
    by (simp add: idle_daemon_def empty_disk_def sample_codecs_def NewStore_def calm_apply_def)
qed



end
