(* ===== verification/Peering.thy ===== *)
theory Peering
  imports Listener Watcher
begin

text \<open>
  The wiring of cmd/dnsforwarderd/main.go: the process as one state, the hooks that a save fires
  (push to the peers, reload unbound), the two ways a peer's configuration is applied (pull and
  push, with retries while the file is locked), the pull of internal/sync/client.go, and the small
  functions of main.  The circumstances of an operation, that is all answers of the system, the
  network and the clock it sees, are one record.
\<close>

section \<open>The process\<close>

text \<open>
  The daemon, the client's mark, the status of the peers, the instance identifier, the requests that
  have left the process, and what the peer engine was started with: the configuration of the
  listener that runs and the peers that have a pull loop.
\<close>

record World =
  wd :: Daemon
  wd_client :: Client
  wd_status :: status_table
  wd_instance :: string
  wd_sent :: "Request list"
  wd_listener :: "(ListenerConfig \<times> server_config) option"
  wd_pulls :: "Peer list"

abbreviation wd_store :: "World \<Rightarrow> Store" where "wd_store w \<equiv> dm_store (wd w)"
abbreviation wd_current :: "World \<Rightarrow> File option" where "wd_current w \<equiv> current (dm_store (wd w))"
abbreviation wd_log :: "World \<Rightarrow> log" where "wd_log w \<equiv> dm_log (wd w)"

definition upd_log :: "(log \<Rightarrow> log) \<Rightarrow> World \<Rightarrow> World" where
  "upd_log g w = w\<lparr>wd := (wd w)\<lparr>dm_log := g (dm_log (wd w))\<rparr>\<rparr>"

record hook_io =
  hk_push_now :: time
  hk_push :: "Peer \<Rightarrow> nat \<Rightarrow> push_io"
  hk_order :: "Peer list \<Rightarrow> Peer list"
  hk_apply :: apply_io

text \<open>The hook registered by SetOnSave: push to every enabled peer of the configuration that is
  current by then; the errors are only logged.\<close>

definition on_save_hook :: "wire \<Rightarrow> codecs \<Rightarrow> hook_io \<Rightarrow> World \<Rightarrow> World" where
  "on_save_hook wr cd io w =
     (case wd_current w of
        None \<Rightarrow> w
      | Some cur \<Rightarrow>
          (case PushAll wr (cd_encode cd) (wd_instance w) (hk_push_now io)
                  (\<lambda>p n. (hk_push io p n)\<lparr>pu_cur := Some cur\<rparr>) (hk_order io)
                  (pr_List (f_Peers cur)) (wd_client w) (wd_log w) of
             (errs, rqs, c, lg) \<Rightarrow>
               (upd_log (\<lambda>_. lg) w)\<lparr>wd_client := c, wd_sent := wd_sent w @ rqs\<rparr>))"

text \<open>The hook registered by SetOnApply.\<close>

definition on_apply_hook :: "codecs \<Rightarrow> hook_io \<Rightarrow> World \<Rightarrow> World" where
  "on_apply_hook cd io w = w\<lparr>wd := snd (apply_daemon cd (hk_apply io) ''api-save'' (wd w))\<rparr>"

primrec run_hook :: "wire \<Rightarrow> codecs \<Rightarrow> hook_io \<Rightarrow> hook \<Rightarrow> World \<Rightarrow> World" where
  "run_hook wr cd io OnSave w = on_save_hook wr cd io w"
| "run_hook wr cd io OnApply w = on_apply_hook cd io w"

record change_io =
  ch_save :: save_io
  ch_hooks :: hook_io

text \<open>A save with the hooks it fires.\<close>

definition save_world ::
  "wire \<Rightarrow> codecs \<Rightarrow> change_io \<Rightarrow> string \<Rightarrow> mutation option \<Rightarrow> World \<Rightarrow> (err, File) result \<times> World" where
  "save_world wr cd io actor mutate w =
     (case Save (cd_marshal cd) (cd_sha cd) (ch_save io) actor mutate (dm_store (wd w)) (dm_disk (wd w)) of
        (r, st, dk, hs) \<Rightarrow>
          (r, fold (run_hook wr cd (ch_hooks io)) hs (w\<lparr>wd := (wd w)\<lparr>dm_store := st, dm_disk := dk\<rparr>\<rparr>)))"

section \<open>Applying a peer's configuration\<close>

text \<open>
  Merge as the mutation of a save: it replaces the three slices and perhaps the settings and
  writes no peer.  The retry loop stops at the first outcome that is not ErrLocked, at the latest
  after \<open>maxAttempts\<close>; how long it sleeps in between is left out.
\<close>

definition merge_mutation :: "time \<Rightarrow> Envelope \<Rightarrow> duration \<Rightarrow> mutation" where
  "merge_mutation now env skew = unshared (\<lambda>f. Inr (fst (Merge now f env skew)))"

record retry_io =
  rt_merge_now :: time
  rt_change :: change_io

definition maxAttempts :: nat where
  "maxAttempts = 20"

fun save_retry ::
  "wire \<Rightarrow> codecs \<Rightarrow> (nat \<Rightarrow> retry_io) \<Rightarrow> nat \<Rightarrow> nat \<Rightarrow> string \<Rightarrow> Envelope \<Rightarrow> duration \<Rightarrow> World \<Rightarrow> err option \<times> World" where
  "save_retry wr cd ios attempt 0 actor env skew w = (Some ErrLocked, w)"
| "save_retry wr cd ios attempt (Suc n) actor env skew w =
     (case save_world wr cd (rt_change (ios attempt)) actor
             (Some (merge_mutation (rt_merge_now (ios attempt)) env skew)) w of
        (Inr f, w') \<Rightarrow> (None, w')
      | (Inl e, w') \<Rightarrow>
          if e \<noteq> ErrLocked then (Some e, w')
          else save_retry wr cd ios (Suc attempt) n actor env skew w')"

text \<open>ClientConfig.Apply.\<close>

definition Apply ::
  "wire \<Rightarrow> codecs \<Rightarrow> (nat \<Rightarrow> retry_io) \<Rightarrow> duration \<Rightarrow> Envelope \<Rightarrow> string \<Rightarrow> World \<Rightarrow> err option \<times> World" where
  "Apply wr cd ios skew env source w =
     save_retry wr cd ios 1 maxAttempts (''peer:'' @ source) env skew w"

text \<open>ListenerConfig.PushSink: the result that is reported comes from a merge into a copy, the
  mark is set before the save whose hook would echo the push.\<close>

record sink_io =
  sk_merge_now :: time
  sk_mark :: time
  sk_retry :: "nat \<Rightarrow> retry_io"

definition PushSink :: "wire \<Rightarrow> codecs \<Rightarrow> sink_io \<Rightarrow> duration \<Rightarrow> World push_sink" where
  "PushSink wr cd io skew env peer w =
     (case wd_current w of
        None \<Rightarrow> (Inl ''no config'', w)
      | Some before \<Rightarrow>
          let draft = Clone before;
              res = snd (Merge (sk_merge_now io) draft env skew);
              w = w\<lparr>wd_client := MarkAppliedFrom (sk_mark io) (e_InstanceID env) (wd_client w)\<rparr> in
          (case save_retry wr cd (sk_retry io) 1 maxAttempts (''peer:'' @ e_InstanceID env) env skew w of
             (None, w) \<Rightarrow> (Inr res, w)
           | (Some e, w) \<Rightarrow> (Inl (cd_errText cd e), w)))"

section \<open>Pull\<close>

definition set_status :: "(status_table \<Rightarrow> status_table) \<Rightarrow> World \<Rightarrow> World" where
  "set_status g w = w\<lparr>wd_status := g (wd_status w)\<rparr>"

text \<open>Client.pull with \<open>Apply\<close> as its Apply function.\<close>

definition pull :: "wire \<Rightarrow> codecs \<Rightarrow> pull_io \<Rightarrow> (nat \<Rightarrow> retry_io) \<Rightarrow> duration \<Rightarrow> Peer \<Rightarrow> World \<Rightarrow> World" where
  "pull wr cd io ios skew peer w0 =
     (case pull_fetch wr io (wd_current w0) peer of
        (fetched, rqs) \<Rightarrow>
          let w = w0\<lparr>wd_sent := wd_sent w0 @ rqs\<rparr> in
          (case fetched of
             Idle \<Rightarrow> w
           | FetchErr e \<Rightarrow> set_status (recordErr (pl_now io) peer e) w
           | Got env \<Rightarrow>
               (case Apply wr cd ios skew env (p_Name peer) w of
                  (Some e, w) \<Rightarrow> set_status (recordErr (pl_now io) peer (cd_errText cd e)) w
                | (None, w) \<Rightarrow>
                    let w = w\<lparr>wd_client := MarkAppliedFrom (pl_mark io) (e_InstanceID env) (wd_client w)\<rparr>;
                        w = upd_log (\<lambda>lg. snd (Write (cd_encode cd) (pl_audit io)
                              \<lparr>e_Time = 0, e_Actor = ''peer:'' @ e_InstanceID env,
                               e_Action = ''peer-pull-applied'', e_Details = p_Name peer\<rparr> lg)) w in
                    set_status (recordOK (pl_now io) peer) w)))"

section \<open>Start-up\<close>

text \<open>
  startPeerListenerAndClient: without a configuration or a shared key nothing is started and no
  hook is registered; the listener's failure leaves the hooks unregistered too.
\<close>

definition skew_of :: "Peers \<Rightarrow> duration" where
  "skew_of p = wrap64 (pr_ClockSkewSeconds p * Second)"

definition listener_config :: "string \<Rightarrow> Peers \<Rightarrow> ListenerConfig" where
  "listener_config instanceID p =
     \<lparr>lc_Listen = pr_Listen p, lc_PSK = pr_SharedKey p, lc_Instance = instanceID,
      lc_Skew = skew_of p, lc_PeerName = instanceID\<rparr>"

definition startPeerListenerAndClient :: "crypto \<Rightarrow> string option \<Rightarrow> World \<Rightarrow> World" where
  "startPeerListenerAndClient cr listenErr w =
     (case wd_current w of
        None \<Rightarrow> w
      | Some cur \<Rightarrow>
          if pr_SharedKey (f_Peers cur) = [] then w
          else
            (case listener_Start (listener_config (wd_instance w) (f_Peers cur)) cr listenErr of
               Inl e \<Rightarrow> w
             | Inr tls \<Rightarrow>
                 w\<lparr>wd := (wd w)\<lparr>dm_store := SetOnApply (SetOnSave (dm_store (wd w)))\<rparr>,
                   wd_listener := Some (listener_config (wd_instance w) (f_Peers cur), tls),
                   wd_pulls := run_peers (pr_List (f_Peers cur))\<rparr>))"

text \<open>A request of a peer, answered by the listener that runs, if one does; the skew of the sink is the
  one the listener was started with.\<close>

definition peer_serve ::
  "wire \<Rightarrow> codecs \<Rightarrow> items_io \<Rightarrow> sink_io \<Rightarrow> (string \<Rightarrow> http_reply) \<Rightarrow> string \<Rightarrow> peer_request \<Rightarrow> World \<Rightarrow>
   (http_reply \<times> World) option" where
  "peer_serve wr cd io sio unmatched path r w =
     (case wd_listener w of
        None \<Rightarrow> None
      | Some (cfg, tls) \<Rightarrow>
          Some (NewListener cfg (cd_encode cd) io wd_current upd_log (Some (PushSink wr cd sio (lc_Skew cfg)))
                  unmatched path r w))"

definition envOr :: "(string \<Rightarrow> string) \<Rightarrow> string \<Rightarrow> string \<Rightarrow> string" where
  "envOr getenv k def = (let v = getenv k in if v \<noteq> [] then v else def)"

definition defaultInstance :: "(string, string) result \<Rightarrow> string" where
  "defaultInstance hostname =
     (let h = (case hostname of Inl e \<Rightarrow> ''unknown'' | Inr h \<Rightarrow> if h = [] then ''unknown'' else h) in TrimSpace h)"

definition http_listen :: "File option \<Rightarrow> string" where
  "http_listen cur =
     (case cur of
        Some f \<Rightarrow> if s_HTTPListen (f_Settings f) \<noteq> [] then s_HTTPListen (f_Settings f) else ''0.0.0.0:80''
      | None \<Rightarrow> ''0.0.0.0:80'')"

text \<open>
  superviseUnbound publishes the process id that Reload signals.  It first waits for the generated
  file: \<open>polls\<close> are the outcomes of its checks, where \<open>ConfCancelled\<close> is a missing file followed by
  the end of the context.  Each round is one start of unbound: its id on success, which is cleared
  when the process ends; a failed start clears it too.  The result is the list of the published
  values in time order, kept at 32 bits as the code does.
\<close>

datatype conf_poll = ConfPresent | ConfMissing | ConfCancelled

fun await_conf :: "conf_poll list \<Rightarrow> bool" where
  "await_conf [] \<longleftrightarrow> False"
| "await_conf (ConfPresent # ps) \<longleftrightarrow> True"
| "await_conf (ConfMissing # ps) \<longleftrightarrow> await_conf ps"
| "await_conf (ConfCancelled # ps) \<longleftrightarrow> False"

record unbound_run =
  sv_ctxErr :: bool
  sv_start :: "int option"
  sv_done :: bool

fun supervise_rounds :: "unbound_run list \<Rightarrow> int list" where
  "supervise_rounds [] = []"
| "supervise_rounds (r # rs) =
     (if sv_ctxErr r then []
      else (case sv_start r of None \<Rightarrow> [] | Some pid \<Rightarrow> [wrap32 pid]) @ [0] @
           (if sv_done r then [] else supervise_rounds rs))"

definition superviseUnbound :: "conf_poll list \<Rightarrow> unbound_run list \<Rightarrow> int list" where
  "superviseUnbound polls rounds = (if await_conf polls then supervise_rounds rounds else [])"

section \<open>The pull loop\<close>

text \<open>runOne: one pull at once, then one per tick until the context ends.\<close>

datatype pull_event = PullTick pull_io "nat \<Rightarrow> retry_io" | PullDone

fun pull_ticks :: "wire \<Rightarrow> codecs \<Rightarrow> duration \<Rightarrow> Peer \<Rightarrow> pull_event list \<Rightarrow> World \<Rightarrow> World" where
  "pull_ticks wr cd skew peer [] w = w"
| "pull_ticks wr cd skew peer (PullDone # es) w = w"
| "pull_ticks wr cd skew peer (PullTick io ios # es) w =
     pull_ticks wr cd skew peer es (pull wr cd io ios skew peer w)"

definition runOne ::
  "wire \<Rightarrow> codecs \<Rightarrow> duration \<Rightarrow> pull_io \<Rightarrow> (nat \<Rightarrow> retry_io) \<Rightarrow> pull_event list \<Rightarrow> Peer \<Rightarrow> World \<Rightarrow> World" where
  "runOne wr cd skew io ios es peer w = pull_ticks wr cd skew peer es (pull wr cd io ios skew peer w)"

text \<open>
  Client.Run: one pull loop for each peer that was enabled at the start, all interleaved.  An element
  of the schedule is a loop (by its position) that pulls, with the circumstances; the skew is the
  one of the start.
\<close>

definition pull_turn :: "wire \<Rightarrow> codecs \<Rightarrow> nat \<Rightarrow> pull_io \<Rightarrow> (nat \<Rightarrow> retry_io) \<Rightarrow> World \<Rightarrow> World" where
  "pull_turn wr cd n io ios w =
     (case wd_listener w of
        None \<Rightarrow> w
      | Some (cfg, tls) \<Rightarrow>
          if n < length (wd_pulls w) then pull wr cd io ios (lc_Skew cfg) (wd_pulls w ! n) w else w)"

definition client_Run :: "wire \<Rightarrow> codecs \<Rightarrow> (nat \<times> pull_io \<times> (nat \<Rightarrow> retry_io)) list \<Rightarrow> World \<Rightarrow> World" where
  "client_Run wr cd schedule w = fold (\<lambda>(n, io, ios). pull_turn wr cd n io ios) schedule w"

section \<open>Lemmas\<close>

definition world_inv :: "World \<Rightarrow> bool" where
  "world_inv w \<longleftrightarrow> daemon_inv (wd w)"

lemma upd_log_simps [simp]:
  "dm_store (wd (upd_log g w)) = dm_store (wd w)" "dm_disk (wd (upd_log g w)) = dm_disk (wd w)"
  "dm_out (wd (upd_log g w)) = dm_out (wd w)" "dm_watcher (wd (upd_log g w)) = dm_watcher (wd w)"
  "wd_client (upd_log g w) = wd_client w" "wd_sent (upd_log g w) = wd_sent w"
  "wd_instance (upd_log g w) = wd_instance w" "world_inv (upd_log g w) = world_inv w"
  by (simp_all add: upd_log_def world_inv_def daemon_inv_def)

lemma world_inv_updates [simp]:
  "world_inv (w\<lparr>wd_client := c\<rparr>) = world_inv w" "world_inv (w\<lparr>wd_sent := rs\<rparr>) = world_inv w"
  "world_inv (w\<lparr>wd_status := st\<rparr>) = world_inv w"
  by (simp_all add: world_inv_def)

lemma on_save_hook_simps [simp]:
  "dm_store (wd (on_save_hook wr cd io w)) = dm_store (wd w)" "dm_disk (wd (on_save_hook wr cd io w)) = dm_disk (wd w)"
  "dm_out (wd (on_save_hook wr cd io w)) = dm_out (wd w)" "world_inv (on_save_hook wr cd io w) = world_inv w"
  by (simp_all add: on_save_hook_def world_inv_def daemon_inv_def split: option.split prod.split)

lemma on_apply_hook_simps [simp]:
  "dm_store (wd (on_apply_hook cd io w)) = dm_store (wd w)" "dm_disk (wd (on_apply_hook cd io w)) = dm_disk (wd w)"
  "wd_sent (on_apply_hook cd io w) = wd_sent w" "wd_client (on_apply_hook cd io w) = wd_client w"
  by (simp_all add: on_apply_hook_def)

lemma run_hook_store [simp]:
  "dm_store (wd (run_hook wr cd io h w)) = dm_store (wd w)" "dm_disk (wd (run_hook wr cd io h w)) = dm_disk (wd w)"
  by (cases h; simp)+

lemma run_hook_inv: "world_inv w \<Longrightarrow> world_inv (run_hook wr cd io h w)"
  by (cases h) (simp_all add: on_apply_hook_def world_inv_def apply_daemon_inv
      on_save_hook_simps(4) [unfolded world_inv_def])

lemma run_hooks_store [simp]:
  "dm_store (wd (fold (run_hook wr cd io) hs w)) = dm_store (wd w)"
  "dm_disk (wd (fold (run_hook wr cd io) hs w)) = dm_disk (wd w)"
  by (induction hs arbitrary: w) simp_all

lemma run_hooks_inv: "world_inv w \<Longrightarrow> world_inv (fold (run_hook wr cd io) hs w)"
  by (induction hs arbitrary: w) (simp_all add: run_hook_inv)

lemma save_world_inv:
  assumes "world_inv w" and "save_world wr cd io actor m w = (r, w')"
  shows "world_inv w'"
proof -
  obtain r0 st dk hs where s: "Save (cd_marshal cd) (cd_sha cd) (ch_save io) actor m (dm_store (wd w)) (dm_disk (wd w)) =
      (r0, st, dk, hs)"
    by (metis prod.exhaust)
  then have "store_inv st" using assms(1) Save_inv by (auto simp: world_inv_def daemon_inv_def)
  then have "world_inv (w\<lparr>wd := (wd w)\<lparr>dm_store := st, dm_disk := dk\<rparr>\<rparr>)"
    using assms(1) by (simp add: world_inv_def daemon_inv_def)
  then show ?thesis using assms(2) s run_hooks_inv by (auto simp: save_world_def)
qed

lemma save_world_current:
  "save_world wr cd io actor m w = (Inr f, w') \<Longrightarrow> wd_current w' = Some f"
  by (auto simp: save_world_def split: prod.splits elim!: Save_success)

text \<open>The whole process is a configuration store in the sense of the interface, for the API and
  the peer engine alike.\<close>

interpretation engine: config_store
  "\<lambda>(io, actor, m). save_world wr cd io actor m" wd_current world_inv
  for wr cd
proof unfold_locales
  fix s op r s'
  assume "world_inv s" and "(case op of (io, actor, m) \<Rightarrow> save_world wr cd io actor m) s = (r, s')"
  then show "world_inv s'" by (auto split: prod.splits dest: save_world_inv)
next
  fix op s f s'
  assume "(case op of (io, actor, m) \<Rightarrow> save_world wr cd io actor m) s = (Inr f, s')"
  then show "wd_current s' = Some f" by (auto split: prod.splits dest: save_world_current)
next
  fix s f
  assume "world_inv s" and "wd_current s = Some f"
  then show "complete_file f" by (simp add: world_inv_def daemon_inv_def store_inv_def)
qed

lemma save_retry_inv:
  "world_inv w \<Longrightarrow> save_retry wr cd ios a n actor env skew w = (e, w') \<Longrightarrow> world_inv w'"
  by (induction n arbitrary: a w)
    (auto split: prod.splits sum.splits if_splits dest: save_world_inv)

lemma PushSink_inv: "world_inv w \<Longrightarrow> PushSink wr cd io skew env peer w = (r, w') \<Longrightarrow> world_inv w'"
  by (auto simp: PushSink_def Let_def split: option.splits prod.splits dest: save_retry_inv [rotated])

lemma pull_inv:
  assumes "world_inv w"
  shows "world_inv (pull wr cd io ios skew peer w)"
proof -
  obtain ft rqs where f: "pull_fetch wr io (wd_current w) peer = (ft, rqs)" by (metis prod.exhaust)
  show ?thesis
  proof (cases ft)
    case (Got env)
    obtain e w1 where a: "Apply wr cd ios skew env (p_Name peer) (w\<lparr>wd_sent := wd_sent w @ rqs\<rparr>) = (e, w1)"
      by (metis prod.exhaust)
    have "world_inv w1" using save_retry_inv [OF _ a [unfolded Apply_def]] assms by simp
    then show ?thesis using f Got a by (cases e) (simp_all add: pull_def Let_def set_status_def)
  qed (use f assms in \<open>simp_all add: pull_def Let_def set_status_def\<close>)
qed

lemma pull_ticks_inv: "world_inv w \<Longrightarrow> world_inv (pull_ticks wr cd skew peer es w)"
  by (induction wr cd skew peer es w rule: pull_ticks.induct) (simp_all add: pull_inv)

lemma runOne_inv: "world_inv w \<Longrightarrow> world_inv (runOne wr cd skew io ios es peer w)"
  by (simp add: runOne_def pull_ticks_inv pull_inv)

lemma pull_turn_inv: "world_inv w \<Longrightarrow> world_inv (pull_turn wr cd n io ios w)"
  by (simp add: pull_turn_def pull_inv split: option.split)

lemma client_Run_inv: "world_inv w \<Longrightarrow> world_inv (client_Run wr cd schedule w)"
  unfolding client_Run_def by (induction schedule arbitrary: w) (auto simp: pull_turn_inv)

lemma handleItems_inv:
  assumes "world_inv w" and "\<And>env p w r w'. world_inv w \<Longrightarrow> sink env p w = (r, w') \<Longrightarrow> world_inv w'"
  shows "world_inv (snd (handleItems cfg encode io wd_current upd_log (Some sink) r w))"
  using assms
  by (auto simp: handleItems_def Let_def split: option.split sum.split prod.split)

lemma NewListener_inv:
  "world_inv w \<Longrightarrow>
   world_inv (snd (NewListener cfg encode io wd_current upd_log (Some (PushSink wr cd sio skew)) unmatched path r w))"
  using PushSink_inv
  by (auto simp: NewListener_def intro!: handleItems_inv split: option.split peer_handler.split)

text \<open>What the peer engine was started with stays as it is, whatever is saved, pulled or pushed.\<close>

definition engine :: "World \<Rightarrow> (ListenerConfig \<times> server_config) option \<times> Peer list" where
  "engine w = (wd_listener w, wd_pulls w)"

lemma engine_updates [simp]:
  "engine (w\<lparr>wd := d\<rparr>) = engine w" "engine (w\<lparr>wd_client := c\<rparr>) = engine w" "engine (w\<lparr>wd_sent := rs\<rparr>) = engine w"
  "engine (w\<lparr>wd_status := st\<rparr>) = engine w" "engine (upd_log g w) = engine w" "engine (set_status h w) = engine w"
  by (simp_all add: engine_def upd_log_def set_status_def)

lemma run_hook_engine [simp]: "engine (run_hook wr cd io h w) = engine w"
  by (cases h) (simp_all add: on_save_hook_def on_apply_hook_def engine_def upd_log_def split: option.split prod.split)

lemma run_hooks_engine [simp]: "engine (fold (run_hook wr cd io) hs w) = engine w"
  by (induction hs arbitrary: w) simp_all

lemma save_world_engine: "save_world wr cd io actor m w = (r, w') \<Longrightarrow> engine w' = engine w"
  by (auto simp: save_world_def split: prod.splits)

lemma save_retry_engine: "save_retry wr cd ios a n actor env skew w = (e, w') \<Longrightarrow> engine w' = engine w"
  by (induction n arbitrary: a w) (auto split: prod.splits sum.splits if_splits dest: save_world_engine)

lemma PushSink_engine: "PushSink wr cd io skew env peer w = (r, w') \<Longrightarrow> engine w' = engine w"
  by (auto simp: PushSink_def Let_def split: option.splits prod.splits dest: save_retry_engine)

lemma pull_engine [simp]: "engine (pull wr cd io ios skew peer w) = engine w"
  by (auto simp: pull_def Apply_def Let_def split: prod.split option.split fetched.split dest: save_retry_engine)

lemma NewListener_engine [simp]:
  "engine (snd (NewListener cfg encode io wd_current upd_log (Some (PushSink wr cd sio skew)) unmatched path r w)) = engine w"
  by (auto simp: NewListener_def handleItems_def Let_def split: option.split peer_handler.split sum.split prod.split
      dest: PushSink_engine)

lemma peer_serve_keeps:
  assumes "peer_serve wr cd io sio unmatched path r w = Some (reply, w')"
  shows "world_inv w \<Longrightarrow> world_inv w'" and "engine w' = engine w"
proof -
  obtain cfg tls where "NewListener cfg (cd_encode cd) io wd_current upd_log (Some (PushSink wr cd sio (lc_Skew cfg)))
      unmatched path r w = (reply, w')"
    using assms by (auto simp: peer_serve_def split: option.splits)
  then have w': "w' = snd (NewListener cfg (cd_encode cd) io wd_current upd_log (Some (PushSink wr cd sio (lc_Skew cfg)))
      unmatched path r w)"
    by simp
  show "world_inv w \<Longrightarrow> world_inv w'" unfolding w' by (rule NewListener_inv)
  show "engine w' = engine w" unfolding w' by simp
qed

text \<open>A published process id is withdrawn before the next one appears, and nothing is left
  published at the end.\<close>

lemma supervise_rounds_alternate: "successively (\<lambda>x y. x = 0 \<or> y = 0) (supervise_rounds rs)"
  by (induction rs) (auto simp: successively_append_iff successively_Cons split: option.split)

lemma supervise_rounds_last: "supervise_rounds rs \<noteq> [] \<Longrightarrow> last (supervise_rounds rs) = 0"
  by (induction rs) (auto split: option.split)

lemma save_world_locked:
  assumes "io_mkdir (ch_save io) = None" and "io_open (ch_save io) = None" and "io_flock (ch_save io) = WouldBlock"
  shows "save_world wr cd io actor m w = (Inl ErrLocked, w)"
proof -
  have "wd w\<lparr>dm_store := dm_store (wd w), dm_disk := dm_disk (wd w)\<rparr> = wd w" by (cases "wd w") simp
  then show ?thesis using assms by (cases w) (simp add: save_world_def Save_def)
qed

lemma save_retry_skips_locked:
  assumes "\<And>j. a \<le> j \<Longrightarrow> j < a + k \<Longrightarrow> io_mkdir (ch_save (rt_change (ios j))) = None \<and>
      io_open (ch_save (rt_change (ios j))) = None \<and> io_flock (ch_save (rt_change (ios j))) = WouldBlock"
  shows "save_retry wr cd ios a (k + n) actor env skew w = save_retry wr cd ios (a + k) n actor env skew w"
  using assms
proof (induction k arbitrary: a)
  case (Suc k)
  have "save_retry wr cd ios a (Suc k + n) actor env skew w = save_retry wr cd ios (Suc a) (k + n) actor env skew w"
    using Suc.prems [of a] by (simp add: save_world_locked)
  also have "\<dots> = save_retry wr cd ios (a + Suc k) n actor env skew w"
    using Suc.IH [of "Suc a"] Suc.prems by simp
  finally show ?case .
qed simp

lemma PushAll_suppressed:
  "push_suppressed now c \<Longrightarrow> PushAll wr encode inst now ios schedule peers c lg = ([], [], clear_mark c, lg)"
  by (simp add: PushAll_def)

lemma suppressed_hook:
  "push_suppressed (hk_push_now io) (wd_client w) \<Longrightarrow> wd_sent (on_save_hook wr cd io w) = wd_sent w"
  by (simp add: on_save_hook_def PushAll_suppressed split: option.split)

lemma hooks_of_save: "fireOnSave s @ fireOnApply s \<in> {[], [OnSave], [OnApply], [OnSave, OnApply]}"
  by (simp add: fireOnSave_def fireOnApply_def)

lemma suppressed_hooks:
  "push_suppressed (hk_push_now io) (wd_client w) \<Longrightarrow> hs \<in> {[], [OnSave], [OnApply], [OnSave, OnApply]} \<Longrightarrow>
   wd_sent (fold (run_hook wr cd io) hs w) = wd_sent w"
  by (auto simp: suppressed_hook)

text \<open>A successful save of an unshared mutation, in the whole process.\<close>

lemma save_world_commits:
  assumes "io_ok (ch_save io)" and "wd_current w = Some c" and "m (Snapshot c) = Inr draft" and "file_ok draft"
    and "cd_marshal cd (saved_file (ch_save io) actor draft) = Inr data"
  shows "\<exists>w1 hs. save_world wr cd io actor (Some (unshared m)) w =
      (Inr (saved_file (ch_save io) actor draft), fold (run_hook wr cd (ch_hooks io)) hs w1) \<and>
    hs = fireOnSave (wd_store w) @ fireOnApply (wd_store w) \<and>
    wd_current w1 = Some (saved_file (ch_save io) actor draft) \<and>
    d_file (dm_disk (wd w1)) = Some data \<and> wd_client w1 = wd_client w \<and> wd_sent w1 = wd_sent w \<and>
    dm_out (wd w1) = dm_out (wd w)"
proof -
  have "Save (cd_marshal cd) (cd_sha cd) (ch_save io) actor (Some (unshared m)) (dm_store (wd w)) (dm_disk (wd w)) =
      (Inr (saved_file (ch_save io) actor draft),
       setCurrent (saved_file (ch_save io) actor draft) (cd_sha cd data) (dm_store (wd w)),
       (dm_disk (wd w))\<lparr>d_file := Some data, d_tmp := None\<rparr>, fireOnSave (wd_store w) @ fireOnApply (wd_store w))"
    using assms save_commit_ok [of "ch_save io" draft "cd_marshal cd" actor data "cd_sha cd"]
    by (simp add: Save_unshared io_ok_def)
  then show ?thesis
    by (intro exI [of _ "w\<lparr>wd := (wd w)\<lparr>dm_store :=
            setCurrent (saved_file (ch_save io) actor draft) (cd_sha cd data) (dm_store (wd w)),
          dm_disk := (dm_disk (wd w))\<lparr>d_file := Some data, d_tmp := None\<rparr>\<rparr>\<rparr>"]
        exI [of _ "fireOnSave (wd_store w) @ fireOnApply (wd_store w)"])
      (simp add: save_world_def)
qed

section \<open>Concrete inputs\<close>

definition quiet_hooks :: hook_io where
  "quiet_hooks =
     \<lparr>hk_push_now = 6, hk_push = (\<lambda>p n. good_push (sample_file [])), hk_order = (\<lambda>x. x), hk_apply = calm_apply\<rparr>"

definition calm_change :: change_io where
  "calm_change = \<lparr>ch_save = calm_io, ch_hooks = quiet_hooks\<rparr>"

definition locked_change :: change_io where
  "locked_change = \<lparr>ch_save = calm_io\<lparr>io_flock := WouldBlock\<rparr>, ch_hooks = quiet_hooks\<rparr>"

definition idle_world :: World where
  "idle_world =
     \<lparr>wd = idle_daemon\<lparr>dm_store := SetOnSave (setCurrent ((DefaultConfig 1)\<lparr>f_Peers :=
             (f_Peers (DefaultConfig 1))\<lparr>pr_SharedKey := ''k'', pr_List := [peer_b]\<rparr>\<rparr>) ''h'' NewStore)\<rparr>,
      wd_client = NewClient, wd_status = Map.empty, wd_instance = ''a'', wd_sent = [],
      wd_listener = None, wd_pulls = []\<rparr>"

definition keyed_default :: File where
  "keyed_default = (DefaultConfig 1)\<lparr>f_Peers := (f_Peers (DefaultConfig 1))\<lparr>pr_SharedKey := ''k'', pr_List := [peer_b]\<rparr>\<rparr>"

lemma idle_world_simps [simp]: "wd_current idle_world = Some keyed_default" "wd_sent idle_world = []"
  by (simp_all add: idle_world_def keyed_default_def SetOnSave_def)

lemma Snapshot_keyed [simp]: "Snapshot keyed_default = keyed_default"
  by (simp add: keyed_default_def Snapshot_def DefaultConfig_def append_nil_def)

lemma Merge_empty: "fst (Merge now f (zone_envelope []) skew) = f"
  by (cases f) (auto simp: Merge_def zone_envelope_def merge_upstreams_def merge_zones_def merge_records_def
      merge_items_def elems_def Let_def split: option.split)

lemma file_ok_keyed [simp]: "file_ok keyed_default"
  by (simp add: keyed_default_def)

section \<open>Properties\<close>

text \<open>
  C22. Lock contention does not lose a peer's configuration: when the file is locked by another
  writer for fewer than twenty attempts, applying a pulled envelope has exactly the outcome and
  the effect of the save at the first attempt that gets the lock.
\<close>

theorem apply_retries_until_unlocked:
  assumes "k < 20"
    and "\<forall>j. 1 \<le> j \<and> j \<le> k \<longrightarrow> io_mkdir (ch_save (rt_change (ios j))) = None \<and>
      io_open (ch_save (rt_change (ios j))) = None \<and> io_flock (ch_save (rt_change (ios j))) = WouldBlock"
    and "save_world wr cd (rt_change (ios (Suc k))) (''peer:'' @ source)
      (Some (merge_mutation (rt_merge_now (ios (Suc k))) env skew)) w = (r, w')" and "r \<noteq> Inl ErrLocked"
  shows "Apply wr cd ios skew env source w = (case r of Inl e \<Rightarrow> Some e | Inr f \<Rightarrow> None, w')"
proof -
  obtain n where n: "20 = k + Suc n" using assms(1) by (metis add_Suc_right less_imp_Suc_add)
  have "Apply wr cd ios skew env source w =
      save_retry wr cd ios (1 + k) (Suc n) (''peer:'' @ source) env skew w"
    unfolding Apply_def maxAttempts_def n by (rule save_retry_skips_locked) (use assms(2) in auto)
  then show ?thesis using assms(3,4) by (auto split: sum.splits)
qed

theorem apply_retries_until_unlocked_witness:
  "wd_current (snd (Apply plain_wire sample_codecs
      (\<lambda>n. \<lparr>rt_merge_now = 5, rt_change = if n \<le> 3 then locked_change else calm_change\<rparr>) 300 (zone_envelope []) ''b'' idle_world)) =
   Some (saved_file calm_io ''peer:b'' keyed_default)"
proof -
  let ?ios = "\<lambda>n::nat. \<lparr>rt_merge_now = 5, rt_change = if n \<le> 3 then locked_change else calm_change\<rparr>"
  let ?m = "\<lambda>f. Inr (fst (Merge 5 f (zone_envelope []) 300)) :: (string, File) result"
  obtain w1 hs where s: "save_world plain_wire sample_codecs calm_change ''peer:b'' (Some (unshared ?m)) idle_world =
      (Inr (saved_file calm_io ''peer:b'' keyed_default), fold (run_hook plain_wire sample_codecs quiet_hooks) hs w1)"
    "wd_current w1 = Some (saved_file calm_io ''peer:b'' keyed_default)"
    using save_world_commits [of calm_change idle_world keyed_default ?m keyed_default sample_codecs "''peer:b''" "''doc''" plain_wire]
    by (auto simp: calm_change_def Merge_empty sample_codecs_def one_marshal_def)
  have l: "\<forall>j. 1 \<le> j \<and> j \<le> 3 \<longrightarrow> io_mkdir (ch_save (rt_change (?ios j))) = None \<and>
      io_open (ch_save (rt_change (?ios j))) = None \<and> io_flock (ch_save (rt_change (?ios j))) = WouldBlock"
    by (simp add: locked_change_def calm_io_def)
  have r: "save_world plain_wire sample_codecs (rt_change (?ios (Suc 3))) (''peer:'' @ ''b'')
      (Some (merge_mutation (rt_merge_now (?ios (Suc 3))) (zone_envelope []) 300)) idle_world =
      (Inr (saved_file calm_io ''peer:b'' keyed_default), fold (run_hook plain_wire sample_codecs quiet_hooks) hs w1)"
    using s(1) by (simp add: merge_mutation_def)
  have "Apply plain_wire sample_codecs ?ios 300 (zone_envelope []) ''b'' idle_world =
      (case Inr (saved_file calm_io ''peer:b'' keyed_default) of Inl e \<Rightarrow> Some e | Inr f \<Rightarrow> None,
       fold (run_hook plain_wire sample_codecs quiet_hooks) hs w1)"
    by (rule apply_retries_until_unlocked [OF _ l r]) simp_all
  then show ?thesis using s(2) by simp
qed

text \<open>
  A peer's push is applied and not echoed: with the lock free and a mergeable envelope the
  sink answers with the merge's counters, the merged configuration is saved and current, and no
  request leaves the process although the save fires the push hook, when that hook runs within
  two seconds.
\<close>

lemma push_applied_not_echoed:
  assumes "wd_current w = Some f" and "io_ok (ch_save (rt_change (sk_retry io 1)))"
    and "file_ok (fst (Merge (rt_merge_now (sk_retry io 1)) (Snapshot f) env skew))"
    and "cd_marshal cd (saved_file (ch_save (rt_change (sk_retry io 1))) (''peer:'' @ e_InstanceID env)
      (fst (Merge (rt_merge_now (sk_retry io 1)) (Snapshot f) env skew))) = Inr data"
    and "sk_mark io \<noteq> 0" and "Sub (hk_push_now (ch_hooks (rt_change (sk_retry io 1)))) (sk_mark io) < 2 * Second"
  shows "\<exists>w'. PushSink wr cd io skew env peer w = (Inr (snd (Merge (sk_merge_now io) (Snapshot f) env skew)), w') \<and>
    wd_current w' = Some (saved_file (ch_save (rt_change (sk_retry io 1))) (''peer:'' @ e_InstanceID env)
      (fst (Merge (rt_merge_now (sk_retry io 1)) (Snapshot f) env skew))) \<and>
    d_file (dm_disk (wd w')) = Some data \<and> wd_sent w' = wd_sent w"
proof -
  let ?io = "rt_change (sk_retry io 1)" and ?actor = "''peer:'' @ e_InstanceID env"
  let ?m = "\<lambda>f. Inr (fst (Merge (rt_merge_now (sk_retry io 1)) f env skew)) :: (string, File) result"
  let ?draft = "fst (Merge (rt_merge_now (sk_retry io 1)) (Snapshot f) env skew)"
  let ?w = "w\<lparr>wd_client := MarkAppliedFrom (sk_mark io) (e_InstanceID env) (wd_client w)\<rparr>"
  obtain w1 hs where s: "save_world wr cd ?io ?actor (Some (unshared ?m)) ?w =
      (Inr (saved_file (ch_save ?io) ?actor ?draft), fold (run_hook wr cd (ch_hooks ?io)) hs w1)"
    and h: "hs = fireOnSave (wd_store ?w) @ fireOnApply (wd_store ?w)"
    and w1: "wd_current w1 = Some (saved_file (ch_save ?io) ?actor ?draft)" "d_file (dm_disk (wd w1)) = Some data"
      "wd_client w1 = wd_client ?w" "wd_sent w1 = wd_sent ?w"
    using save_world_commits [of ?io ?w f ?m ?draft cd ?actor data wr] assms(1-4) by auto
  have "push_suppressed (hk_push_now (ch_hooks ?io)) (wd_client w1)"
    using w1(3) assms(5,6) by (simp add: push_suppressed_def MarkAppliedFrom_def IsZero_def)
  then have "wd_sent (fold (run_hook wr cd (ch_hooks ?io)) hs w1) = wd_sent w"
    using suppressed_hooks [of "ch_hooks ?io" w1 hs wr cd] hooks_of_save [of "wd_store ?w"] h w1(4) by simp
  moreover have "save_retry wr cd (sk_retry io) 1 maxAttempts ?actor env skew ?w =
      (None, fold (run_hook wr cd (ch_hooks ?io)) hs w1)"
    using s by (simp add: maxAttempts_def numeral_eq_Suc merge_mutation_def)
  ultimately show ?thesis using assms(1) w1 by (simp add: PushSink_def Let_def)
qed


definition good_pull :: pull_io where
  "good_pull =
     \<lparr>pl_newRequest = None, pl_crypto = toy_crypto, pl_endpoint = good_end,
      pl_now = 6, pl_mark = 6, pl_audit = audit_ok_io\<rparr>"

lemma good_pull_fetch: "\<exists>rq. pull_fetch plain_wire good_pull (Some keyed_default) peer_b = (Got (zone_envelope []), [rq])"
proof -
  obtain cfg where c: "httpClient toy_crypto ''k'' = Inr cfg"
    and d: "http_Do plain_wire cfg good_end rq = (Inr \<lparr>rs_code = 200, rs_status = ''200 OK'', rs_body = []\<rparr>, [rq])" for rq
    using good_end_reached by (metis sum.inject(2))
  have k: "PSK (Some keyed_default) = ''k''" by (simp add: PSK_def keyed_default_def)
  have "wr_decodeEnvelope plain_wire = (\<lambda>_. Inr (zone_envelope []))"
    "\<exists>u. joinURL plain_wire ''https://b'' ''/peer/v1/items'' = Inr u"
    by (simp_all add: plain_wire_def joinURL_def)
  then show ?thesis using k c d by (auto simp: pull_fetch_def good_pull_def peer_b_def Let_def)
qed


end
