(* ===== verification/Server.thy ===== *)
theory Server
  imports Peering
begin

text \<open>
  The HTTP API of internal/server/server.go, one definition per handler.  A handler gets what
  the router and the decoders make of the request (path parameters, headers, the decoded body or
  the decoding error), the circumstances of its saves, and the state of the process; it returns
  the reply and the new state.  A reply is a status code with a tagged body.  The quoting verb
  %q of error texts is rendered with plain quotes.  The router and the
  pages are in the theory Routes.
\<close>

section \<open>Requests and replies\<close>

datatype api_body =
    ErrText string
  | OkReason string
  | OkPeer string
  | OkPlain
  | OkMessage string
  | JFile File
  | JZones "ForwardZone list"
  | JDefaults "UpstreamDefault list"
  | JRecords "StaticRecord list"
  | JSettings Settings
  | JPeers Peers
  | JEntries "Entry list"
  | JTest TestResult
  | JExport bool File
  | JStatus string string time string int time string
  | JRows string string int "(Peer \<times> bool \<times> nat) list"
  | OkText string

type_synonym api_reply = "nat \<times> api_body"

record api_io =
  ai_actor :: string
  ai_now :: time
  ai_id :: "nat list"
  ai_save :: change_io
  ai_save2 :: change_io
  ai_apply :: apply_io
  ai_audit :: audit_io

text \<open>audit.String renders values as JSON: parameters.\<close>

record api_codecs =
  ac_wire :: wire
  ac_codecs :: codecs
  ac_settings :: "Settings \<Rightarrow> string"
  ac_peer :: "string \<Rightarrow> string \<Rightarrow> string"

definition actorOf :: "string \<Rightarrow> string \<Rightarrow> string" where
  "actorOf header fallback = (if header \<noteq> [] then header else fallback)"

definition hex_digit :: "nat \<Rightarrow> char" where
  "hex_digit n = (if n < 10 then digit_char n else char_of (87 + n))"

text \<open>Eight random bytes in hexadecimal.\<close>

definition newID :: "nat list \<Rightarrow> string" where
  "newID b = concat (map (\<lambda>x. [hex_digit (x div 16), hex_digit (x mod 16)]) b)"

section \<open>Normalisation of peers\<close>

fun normalize_loop :: "string set \<Rightarrow> string list \<Rightarrow> string list" where
  "normalize_loop seen [] = []"
| "normalize_loop seen (p0 # ps) =
     (let p = TrimSpace p0 in
      if p = [] then normalize_loop seen ps
      else
        let key = ToLower p in
        if key \<in> seen then normalize_loop seen ps
        else p # normalize_loop (insert key seen) ps)"

definition normalizePeerList :: "string list \<Rightarrow> string list" where
  "normalizePeerList peers = normalize_loop {} peers"

definition normalizePeer :: "string \<Rightarrow> string \<Rightarrow> (string, string \<times> string) result" where
  "normalizePeer name url =
     (let name = TrimSpace name; url = TrimSpace url in
      if url = [] then Inl ''url is required''
      else if \<not> HasPrefix url ''https://'' then Inl ''peer url must use https://''
      else let name = (if name = [] then peerNameFromURL url else name) in Inr (name, url))"

section \<open>Steps shared by the handlers\<close>

definition audit_write :: "api_codecs \<Rightarrow> api_io \<Rightarrow> string \<Rightarrow> string \<Rightarrow> string \<Rightarrow> World \<Rightarrow> World" where
  "audit_write ac io actor action details w =
     upd_log (\<lambda>lg. snd (Write (cd_encode (ac_codecs ac)) (ai_audit io)
       \<lparr>e_Time = 0, e_Actor = actor, e_Action = action, e_Details = details\<rparr> lg)) w"

definition afterSave :: "api_codecs \<Rightarrow> api_io \<Rightarrow> string \<Rightarrow> World \<Rightarrow> api_reply \<times> World" where
  "afterSave ac io reason w =
     (case apply_daemon (ac_codecs ac) (ai_apply io) ''api-save'' (wd w) of
        (Some e, d) \<Rightarrow> ((500, ErrText (''saved but reload failed: '' @ e)), w\<lparr>wd := d\<rparr>)
      | (None, d) \<Rightarrow> ((200, OkReason reason), w\<lparr>wd := d\<rparr>))"

definition api_save ::
  "api_codecs \<Rightarrow> change_io \<Rightarrow> string \<Rightarrow> mutation \<Rightarrow> World \<Rightarrow> (err, File) result \<times> World" where
  "api_save ac io actor m w = save_world (ac_wire ac) (ac_codecs ac) io actor (Some m) w"

text \<open>Save, then the audit entry, then the reload.\<close>

definition save_reply ::
  "api_codecs \<Rightarrow> api_io \<Rightarrow> string \<Rightarrow> mutation \<Rightarrow> string \<Rightarrow> string \<Rightarrow> string \<Rightarrow> World \<Rightarrow> api_reply \<times> World" where
  "save_reply ac io actor m action details reason w =
     (case api_save ac (ai_save io) actor m w of
        (Inl e, w) \<Rightarrow> ((400, ErrText (cd_errText (ac_codecs ac) e)), w)
      | (Inr f, w) \<Rightarrow> afterSave ac io reason (audit_write ac io actor action details w))"

text \<open>Save and audit without a reload, for the peer handlers.\<close>

definition save_peer_reply ::
  "api_codecs \<Rightarrow> api_io \<Rightarrow> string \<Rightarrow> mutation \<Rightarrow> string \<Rightarrow> string \<Rightarrow> api_body \<Rightarrow> World \<Rightarrow> api_reply \<times> World" where
  "save_peer_reply ac io actor m action details ok w =
     (case api_save ac (ai_save io) actor m w of
        (Inl e, w) \<Rightarrow> ((400, ErrText (cd_errText (ac_codecs ac) e)), w)
      | (Inr f, w) \<Rightarrow> ((200, ok), audit_write ac io actor action details w))"

text \<open>Tombstone, then hard delete (whose failure is only logged), then the audit entry; no
  reload.\<close>

definition delete_reply ::
  "api_codecs \<Rightarrow> api_io \<Rightarrow> string \<Rightarrow> mutation \<Rightarrow> mutation \<Rightarrow> string \<Rightarrow> string \<Rightarrow> World \<Rightarrow> api_reply \<times> World" where
  "delete_reply ac io actor tombstone remove action details w =
     (case api_save ac (ai_save io) actor tombstone w of
        (Inl e, w) \<Rightarrow> ((400, ErrText (cd_errText (ac_codecs ac) e)), w)
      | (Inr f, w) \<Rightarrow>
          (case api_save ac (ai_save2 io) actor remove w of
             (r, w) \<Rightarrow> ((200, OkReason action), audit_write ac io actor action details w)))"

text \<open>The loops that look for the first match: change it, or cut it out.\<close>

fun update_first :: "('a \<Rightarrow> bool) \<Rightarrow> ('a \<Rightarrow> 'a) \<Rightarrow> 'a list \<Rightarrow> 'a list option" where
  "update_first P g [] = None"
| "update_first P g (x # xs) = (if P x then Some (g x # xs) else map_option ((#) x) (update_first P g xs))"

fun remove_first :: "('a \<Rightarrow> bool) \<Rightarrow> 'a list \<Rightarrow> 'a list" where
  "remove_first P [] = []"
| "remove_first P (x # xs) = (if P x then xs else x # remove_first P xs)"

section \<open>Forwarders\<close>

record forwarderBody =
  fb_Name :: string
  fb_Wildcard :: bool
  fb_Upstreams :: "string list"
  fb_LeastLatency :: bool
  fb_LatencyTestFrequency :: int
  fb_DoNotSync :: bool
  fb_SyncPeers :: "string list"

definition apiListForwarders :: "World \<Rightarrow> api_reply" where
  "apiListForwarders w =
     (case wd_current w of
        None \<Rightarrow> (503, ErrText ''no config'')
      | Some f \<Rightarrow> (200, JZones (filter (\<lambda>z. \<not> z_Deleted z) (f_ForwardZones (Snapshot f)))))"

definition new_zone :: "string \<Rightarrow> forwarderBody \<Rightarrow> ForwardZone" where
  "new_zone ident b =
     \<lparr>z_ID = ident, z_Name = fb_Name b, z_Wildcard = fb_Wildcard b, z_Upstreams = fb_Upstreams b,
      z_LeastLatency = fb_LeastLatency b, z_LatencyTestFrequency = fb_LatencyTestFrequency b,
      z_DoNotSync = fb_DoNotSync b, z_SyncPeers = normalizePeerList (fb_SyncPeers b),
      z_UpdatedAt = 0, z_UpdatedBy = [], z_Deleted = False\<rparr>"

definition apiAddForwarder ::
  "api_codecs \<Rightarrow> api_io \<Rightarrow> (string, forwarderBody) result \<Rightarrow> World \<Rightarrow> api_reply \<times> World" where
  "apiAddForwarder ac io body w =
     (case body of
        Inl e \<Rightarrow> ((400, ErrText e), w)
      | Inr b \<Rightarrow>
          let actor = actorOf (ai_actor io) ''api''; z = new_zone (newID (ai_id io)) b in
          save_reply ac io actor (unshared (\<lambda>f. Inr (f\<lparr>f_ForwardZones := f_ForwardZones f @ [z]\<rparr>)))
            ''forwarder-add'' (z_Name z) ''forwarder-add'' w)"

definition edit_zone :: "time \<Rightarrow> string \<Rightarrow> forwarderBody \<Rightarrow> ForwardZone \<Rightarrow> ForwardZone" where
  "edit_zone now actor b z =
     z\<lparr>z_Name := fb_Name b, z_Wildcard := fb_Wildcard b, z_Upstreams := fb_Upstreams b,
       z_LeastLatency := fb_LeastLatency b, z_LatencyTestFrequency := fb_LatencyTestFrequency b,
       z_DoNotSync := fb_DoNotSync b,
       z_SyncPeers := (if fb_DoNotSync b then [] else normalizePeerList (fb_SyncPeers b)),
       z_UpdatedAt := now, z_UpdatedBy := actor\<rparr>"

definition change_zone :: "string \<Rightarrow> (ForwardZone \<Rightarrow> ForwardZone) \<Rightarrow> File \<Rightarrow> (string, File) result" where
  "change_zone ident g f =
     (case update_first (\<lambda>z. z_ID z = ident) g (f_ForwardZones f) of
        Some zs \<Rightarrow> Inr (f\<lparr>f_ForwardZones := zs\<rparr>)
      | None \<Rightarrow> Inl (''forwarder '' @ ident @ '' not found''))"

definition apiUpdateForwarder ::
  "api_codecs \<Rightarrow> api_io \<Rightarrow> string \<Rightarrow> (string, forwarderBody) result \<Rightarrow> World \<Rightarrow> api_reply \<times> World" where
  "apiUpdateForwarder ac io ident body w =
     (case body of
        Inl e \<Rightarrow> ((400, ErrText e), w)
      | Inr b \<Rightarrow>
          let actor = actorOf (ai_actor io) ''api'' in
          save_reply ac io actor (unshared (change_zone ident (edit_zone (ai_now io) actor b)))
            ''forwarder-update'' ident ''forwarder-update'' w)"

definition apiDeleteForwarder :: "api_codecs \<Rightarrow> api_io \<Rightarrow> string \<Rightarrow> World \<Rightarrow> api_reply \<times> World" where
  "apiDeleteForwarder ac io ident w =
     (let actor = actorOf (ai_actor io) ''api'' in
      delete_reply ac io actor
        (unshared (change_zone ident (\<lambda>z. z\<lparr>z_Deleted := True, z_UpdatedAt := ai_now io, z_UpdatedBy := actor\<rparr>)))
        (unshared (\<lambda>f. Inr (f\<lparr>f_ForwardZones := remove_first (\<lambda>z. z_ID z = ident) (f_ForwardZones f)\<rparr>)))
        ''forwarder-delete'' ident w)"

section \<open>Upstream defaults\<close>

record defaultBody =
  db_Address :: string
  db_Port :: int
  db_Enabled :: "bool option"
  db_Note :: string
  db_DoNotSync :: bool
  db_SyncPeers :: "string list"

definition apiListDefaults :: "World \<Rightarrow> api_reply" where
  "apiListDefaults w =
     (case wd_current w of
        None \<Rightarrow> (503, ErrText ''no config'')
      | Some f \<Rightarrow> (200, JDefaults (filter (\<lambda>u. \<not> u_Deleted u) (elems (f_UpstreamDefaults (Snapshot f))))))"

definition new_default :: "defaultBody \<Rightarrow> UpstreamDefault" where
  "new_default b =
     \<lparr>u_Address = db_Address b, u_Port = db_Port b,
      u_Enabled = (case db_Enabled b of Some e \<Rightarrow> e | None \<Rightarrow> True), u_Note = db_Note b,
      u_DoNotSync = db_DoNotSync b, u_SyncPeers = normalizePeerList (db_SyncPeers b),
      u_UpdatedAt = 0, u_UpdatedBy = [], u_Deleted = False\<rparr>"

definition add_default :: "UpstreamDefault \<Rightarrow> File \<Rightarrow> (string, File) result" where
  "add_default u f =
     (if list_ex (\<lambda>x. u_Address x = u_Address u \<and> u_Port x = u_Port u) (elems (f_UpstreamDefaults f))
      then Inl (''upstream '' @ u_Address u @ '':'' @ fmt_d (u_Port u) @ '' already exists'')
      else Inr (f\<lparr>f_UpstreamDefaults := Some (elems (f_UpstreamDefaults f) @ [u])\<rparr>))"

definition apiAddDefault ::
  "api_codecs \<Rightarrow> api_io \<Rightarrow> (string, defaultBody) result \<Rightarrow> World \<Rightarrow> api_reply \<times> World" where
  "apiAddDefault ac io body w =
     (case body of
        Inl e \<Rightarrow> ((400, ErrText e), w)
      | Inr b \<Rightarrow>
          let actor = actorOf (ai_actor io) ''api''; u = new_default b in
          save_reply ac io actor (unshared (add_default u)) ''default-add'' (UpstreamDefault_String u) ''default-add'' w)"

definition edit_default :: "time \<Rightarrow> string \<Rightarrow> defaultBody \<Rightarrow> UpstreamDefault \<Rightarrow> UpstreamDefault" where
  "edit_default now actor b u =
     (let u = (case db_Enabled b of Some e \<Rightarrow> u\<lparr>u_Enabled := e\<rparr> | None \<Rightarrow> u);
          u = (if db_Note b \<noteq> [] then u\<lparr>u_Note := db_Note b\<rparr> else u);
          u = (if db_Address b \<noteq> [] then u\<lparr>u_Address := db_Address b\<rparr> else u);
          u = (if db_Port b \<noteq> 0 then u\<lparr>u_Port := db_Port b\<rparr> else u)
      in u\<lparr>u_DoNotSync := db_DoNotSync b,
           u_SyncPeers := (if db_DoNotSync b then [] else normalizePeerList (db_SyncPeers b)),
           u_UpdatedAt := now, u_UpdatedBy := actor\<rparr>)"

abbreviation at_default :: "string \<Rightarrow> int \<Rightarrow> UpstreamDefault \<Rightarrow> bool" where
  "at_default addr port u \<equiv> u_Address u = addr \<and> u_Port u = port"

text \<open>The update loop goes on after a match; the delete loops stop at the first.\<close>

definition change_defaults ::
  "string \<Rightarrow> int \<Rightarrow> (UpstreamDefault \<Rightarrow> UpstreamDefault) \<Rightarrow> File \<Rightarrow> (string, File) result" where
  "change_defaults addr port g f =
     (if list_ex (at_default addr port) (elems (f_UpstreamDefaults f))
      then Inr (f\<lparr>f_UpstreamDefaults :=
             map_option (map (\<lambda>u. if at_default addr port u then g u else u)) (f_UpstreamDefaults f)\<rparr>)
      else Inl (''upstream '' @ addr @ '':'' @ fmt_d port @ '' not found''))"

definition apiUpdateDefault ::
  "api_codecs \<Rightarrow> api_io \<Rightarrow> string \<Rightarrow> string \<Rightarrow> (string, defaultBody) result \<Rightarrow> World \<Rightarrow> api_reply \<times> World" where
  "apiUpdateDefault ac io addr portStr body w =
     (let port = fst (Atoi portStr) in
      case body of
        Inl e \<Rightarrow> ((400, ErrText e), w)
      | Inr b \<Rightarrow>
          let actor = actorOf (ai_actor io) ''api'' in
          save_reply ac io actor (unshared (change_defaults addr port (edit_default (ai_now io) actor b)))
            ''default-update'' (addr @ '':'' @ fmt_d port @ '' peers=['' @ Join (db_SyncPeers b) '' '' @ '']'')
            ''default-update'' w)"

definition tombstone_default :: "time \<Rightarrow> string \<Rightarrow> string \<Rightarrow> int \<Rightarrow> File \<Rightarrow> (string, File) result" where
  "tombstone_default now actor addr port f =
     (case update_first (at_default addr port)
             (\<lambda>u. u\<lparr>u_Deleted := True, u_Enabled := False, u_UpdatedAt := now, u_UpdatedBy := actor\<rparr>)
             (elems (f_UpstreamDefaults f)) of
        Some us \<Rightarrow> Inr (f\<lparr>f_UpstreamDefaults := Some us\<rparr>)
      | None \<Rightarrow> Inl (''upstream '' @ addr @ '':'' @ fmt_d port @ '' not found''))"

definition apiDeleteDefault :: "api_codecs \<Rightarrow> api_io \<Rightarrow> string \<Rightarrow> string \<Rightarrow> World \<Rightarrow> api_reply \<times> World" where
  "apiDeleteDefault ac io addr portStr w =
     (let port = fst (Atoi portStr); actor = actorOf (ai_actor io) ''api'' in
      delete_reply ac io actor
        (unshared (tombstone_default (ai_now io) actor addr port))
        (unshared (\<lambda>f. Inr (f\<lparr>f_UpstreamDefaults := map_option (remove_first (at_default addr port)) (f_UpstreamDefaults f)\<rparr>)))
        ''default-delete'' (addr @ '':'' @ fmt_d port) w)"

section \<open>Static records\<close>

record recordBody =
  rb_Name :: string
  rb_Type :: string
  rb_Value :: string
  rb_TTL :: int
  rb_DoNotSync :: bool
  rb_SyncPeers :: "string list"

definition apiListRecords :: "World \<Rightarrow> api_reply" where
  "apiListRecords w =
     (case wd_current w of
        None \<Rightarrow> (503, ErrText ''no config'')
      | Some f \<Rightarrow> (200, JRecords (filter (\<lambda>r. \<not> r_Deleted r) (f_StaticRecords (Snapshot f)))))"

definition new_record :: "string \<Rightarrow> recordBody \<Rightarrow> StaticRecord" where
  "new_record ident b =
     \<lparr>r_ID = ident, r_Name = rb_Name b, r_Type = ToUpper (rb_Type b), r_Value = rb_Value b, r_TTL = rb_TTL b,
      r_DoNotSync = rb_DoNotSync b, r_SyncPeers = normalizePeerList (rb_SyncPeers b),
      r_UpdatedAt = 0, r_UpdatedBy = [], r_Deleted = False\<rparr>"

definition apiAddRecord ::
  "api_codecs \<Rightarrow> api_io \<Rightarrow> (string, recordBody) result \<Rightarrow> World \<Rightarrow> api_reply \<times> World" where
  "apiAddRecord ac io body w =
     (case body of
        Inl e \<Rightarrow> ((400, ErrText e), w)
      | Inr b \<Rightarrow>
          let actor = actorOf (ai_actor io) ''api''; r = new_record (newID (ai_id io)) b in
          save_reply ac io actor (unshared (\<lambda>f. Inr (f\<lparr>f_StaticRecords := f_StaticRecords f @ [r]\<rparr>)))
            ''record-add'' (r_Name r @ '' '' @ r_Type r) ''record-add'' w)"

definition edit_record :: "time \<Rightarrow> string \<Rightarrow> recordBody \<Rightarrow> StaticRecord \<Rightarrow> StaticRecord" where
  "edit_record now actor b r =
     r\<lparr>r_Name := rb_Name b, r_Type := ToUpper (rb_Type b), r_Value := rb_Value b, r_TTL := rb_TTL b,
       r_DoNotSync := rb_DoNotSync b,
       r_SyncPeers := (if rb_DoNotSync b then [] else normalizePeerList (rb_SyncPeers b)),
       r_UpdatedAt := now, r_UpdatedBy := actor\<rparr>"

definition change_record :: "string \<Rightarrow> (StaticRecord \<Rightarrow> StaticRecord) \<Rightarrow> File \<Rightarrow> (string, File) result" where
  "change_record ident g f =
     (case update_first (\<lambda>r. r_ID r = ident) g (f_StaticRecords f) of
        Some rs \<Rightarrow> Inr (f\<lparr>f_StaticRecords := rs\<rparr>)
      | None \<Rightarrow> Inl (''record '' @ ident @ '' not found''))"

definition apiUpdateRecord ::
  "api_codecs \<Rightarrow> api_io \<Rightarrow> string \<Rightarrow> (string, recordBody) result \<Rightarrow> World \<Rightarrow> api_reply \<times> World" where
  "apiUpdateRecord ac io ident body w =
     (case body of
        Inl e \<Rightarrow> ((400, ErrText e), w)
      | Inr b \<Rightarrow>
          let actor = actorOf (ai_actor io) ''api'' in
          save_reply ac io actor (unshared (change_record ident (edit_record (ai_now io) actor b)))
            ''record-update'' ident ''record-update'' w)"

definition apiDeleteRecord :: "api_codecs \<Rightarrow> api_io \<Rightarrow> string \<Rightarrow> World \<Rightarrow> api_reply \<times> World" where
  "apiDeleteRecord ac io ident w =
     (let actor = actorOf (ai_actor io) ''api'' in
      delete_reply ac io actor
        (unshared (change_record ident (\<lambda>r. r\<lparr>r_Deleted := True, r_UpdatedAt := ai_now io, r_UpdatedBy := actor\<rparr>)))
        (unshared (\<lambda>f. Inr (f\<lparr>f_StaticRecords := remove_first (\<lambda>r. r_ID r = ident) (f_StaticRecords f)\<rparr>)))
        ''record-delete'' ident w)"

section \<open>Whole configurations and settings\<close>

definition replace_config :: "File \<Rightarrow> File \<Rightarrow> (string, File) result" where
  "replace_config body f =
     Inr (f\<lparr>f_Settings := Settings_WithDefaults (f_Settings body),
            f_UpstreamDefaults := f_UpstreamDefaults body,
            f_ForwardZones := f_ForwardZones body, f_StaticRecords := f_StaticRecords body\<rparr>)"

definition apiGetConfig :: "World \<Rightarrow> api_reply" where
  "apiGetConfig w =
     (case wd_current w of None \<Rightarrow> (503, ErrText ''no config loaded'') | Some f \<Rightarrow> (200, JFile (Snapshot f)))"

definition apiPutConfig ::
  "api_codecs \<Rightarrow> api_io \<Rightarrow> (string, File) result \<Rightarrow> World \<Rightarrow> api_reply \<times> World" where
  "apiPutConfig ac io body w =
     (case body of
        Inl e \<Rightarrow> ((400, ErrText (''invalid json: '' @ e)), w)
      | Inr b \<Rightarrow>
          save_reply ac io (actorOf (ai_actor io) ''api'') (unshared (replace_config b))
            ''config-replace'' [] ''config-replace'' w)"

text \<open>The upload: an error of the form, of the file or of the read, or the text of the file.\<close>

definition apiImport ::
  "api_codecs \<Rightarrow> api_io \<Rightarrow> (string, string) result \<Rightarrow> World \<Rightarrow> api_reply \<times> World" where
  "apiImport ac io upload w =
     (case upload of
        Inl e \<Rightarrow> ((400, ErrText e), w)
      | Inr data \<Rightarrow>
          (case cd_unmarshal (ac_codecs ac) data of
             Inl e \<Rightarrow> ((400, ErrText (''yaml parse: '' @ e)), w)
           | Inr b \<Rightarrow>
               save_reply ac io (actorOf (ai_actor io) ''import'') (unshared (replace_config b))
                 ''config-import'' [] ''import'' w))"

text \<open>The export; the flag of the body tells which of the two comments precedes the YAML.\<close>

definition apiExport :: "string \<Rightarrow> World \<Rightarrow> api_reply" where
  "apiExport secrets w =
     (case wd_current w of
        None \<Rightarrow> (503, ErrText ''no config'')
      | Some f \<Rightarrow>
          let snap = Snapshot f;
              includeSecrets = (secrets = ''1'');
              snap = (if \<not> includeSecrets then snap\<lparr>f_Peers := (f_Peers snap)\<lparr>pr_SharedKey := []\<rparr>\<rparr> else snap) in
          (200, JExport includeSecrets snap))"

definition apiGetSettings :: "World \<Rightarrow> api_reply" where
  "apiGetSettings w =
     (case wd_current w of
        None \<Rightarrow> (503, ErrText ''no config'')
      | Some f \<Rightarrow> (200, JSettings (f_Settings (Snapshot f))))"

definition apiPutSettings ::
  "api_codecs \<Rightarrow> api_io \<Rightarrow> (string, Settings) result \<Rightarrow> World \<Rightarrow> api_reply \<times> World" where
  "apiPutSettings ac io body w =
     (case body of
        Inl e \<Rightarrow> ((400, ErrText e), w)
      | Inr b \<Rightarrow>
          save_reply ac io (actorOf (ai_actor io) ''api'')
            (unshared (\<lambda>f. Inr (f\<lparr>f_Settings := Settings_WithDefaults b\<rparr>)))
            ''settings-update'' (ac_settings ac b) ''settings-update'' w)"

section \<open>Status, audit and test\<close>

definition apiStatus :: "World \<Rightarrow> api_reply" where
  "apiStatus w =
     (let (lastOK, lastErr) = Status (dm_watcher (wd w)); hsh = hash (wd_store w);
          (ver, updated, updatedBy) =
            (case wd_current w of None \<Rightarrow> (0, 0, []) | Some f \<Rightarrow> (f_Version f, f_Updated f, f_UpdatedBy f)) in
      (200, JStatus (wd_instance w) hsh lastOK lastErr ver updated updatedBy))"

definition apiHealthz :: "World \<Rightarrow> api_reply" where
  "apiHealthz w =
     (case wd_current w of
        None \<Rightarrow> (503, ErrText ''no config'')
      | Some f \<Rightarrow>
          let (lastOK, lastErr) = Status (dm_watcher (wd w)) in
          if lastErr \<noteq> [] then (503, ErrText (''config error: '' @ lastErr)) else (200, OkText ''ok''))"

definition apiAudit :: "(string \<Rightarrow> Entry option) \<Rightarrow> string option \<Rightarrow> World \<Rightarrow> api_reply" where
  "apiAudit decode readErr w =
     (case Tail decode readErr 200 (wd_log w) of
        Inl e \<Rightarrow> (500, ErrText e)
      | Inr es \<Rightarrow> (200, JEntries es))"

record testBody =
  tb_Name :: string
  tb_Qtype :: string
  tb_Upstream :: string

text \<open>The address the test queries when none is given: our own unbound.\<close>

definition own_resolver :: "string \<Rightarrow> string" where
  "own_resolver dnsListen =
     (let (host, port) =
            (if dnsListen \<noteq> [] then
               (case net_SplitHostPort dnsListen of
                  Inr (h, p) \<Rightarrow> (h, Sscanf_d p 53)
                | Inl e \<Rightarrow> (''127.0.0.1'', 53))
             else (''127.0.0.1'', 53));
          host = (if host = [] \<or> host = ''0.0.0.0'' \<or> host = ''::'' then ''127.0.0.1'' else host)
      in host @ '':'' @ fmt_d port)"

definition apiTest ::
  "(string \<Rightarrow> string \<Rightarrow> string \<Rightarrow> (string, TestResult) result) \<Rightarrow> (string, testBody) result \<Rightarrow> World \<Rightarrow> api_reply" where
  "apiTest resolve body w =
     (case body of
        Inl e \<Rightarrow> (400, ErrText e)
      | Inr b \<Rightarrow>
          if tb_Name b = [] then (400, ErrText ''name is required'')
          else
            let qtype = (if tb_Qtype b = [] then ''A'' else tb_Qtype b) in
            (case wd_current w of
               None \<Rightarrow> (503, ErrText ''no config'')
             | Some f \<Rightarrow>
                 let upstream = (if tb_Upstream b = [] then own_resolver (s_DNSListen (f_Settings f)) else tb_Upstream b) in
                 (case resolve (tb_Name b) qtype upstream of
                    Inl e \<Rightarrow> (502, ErrText e)
                  | Inr res \<Rightarrow> (200, JTest res))))"

section \<open>Sync partners\<close>

record peerBody =
  pb_Name :: string
  pb_URL :: string
  pb_Enabled :: "bool option"

definition apiListPeers :: "World \<Rightarrow> api_reply" where
  "apiListPeers w =
     (case wd_current w of
        None \<Rightarrow> (503, ErrText ''no config'')
      | Some f \<Rightarrow> (200, JPeers ((f_Peers (Snapshot f))\<lparr>pr_SharedKey := []\<rparr>)))"

definition with_peers :: "Peer list \<Rightarrow> File \<Rightarrow> File" where
  "with_peers ps f = f\<lparr>f_Peers := (f_Peers f)\<lparr>pr_List := ps\<rparr>\<rparr>"

definition add_peer :: "string \<Rightarrow> string \<Rightarrow> bool \<Rightarrow> File \<Rightarrow> (string, File) result" where
  "add_peer name url enabled f =
     (if list_ex (\<lambda>p. p_Name p = name) (pr_List (f_Peers f))
      then Inl (''peer '' @ quoted name @ '' already exists'')
      else Inr (with_peers (pr_List (f_Peers f) @
             [\<lparr>p_Name = name, p_URL = url, p_Enabled = enabled, p_Status = zero_status\<rparr>]) f))"

definition apiAddPeer ::
  "api_codecs \<Rightarrow> api_io \<Rightarrow> (string, peerBody) result \<Rightarrow> World \<Rightarrow> api_reply \<times> World" where
  "apiAddPeer ac io body w =
     (case body of
        Inl e \<Rightarrow> ((400, ErrText (''invalid json: '' @ e)), w)
      | Inr b \<Rightarrow>
          (case normalizePeer (pb_Name b) (pb_URL b) of
             Inl e \<Rightarrow> ((400, ErrText e), w)
           | Inr (name, url) \<Rightarrow>
               let enabled = (case pb_Enabled b of Some e \<Rightarrow> e | None \<Rightarrow> True);
                   actor = actorOf (ai_actor io) ''api'' in
               save_peer_reply ac io actor (unshared (add_peer name url enabled))
                 ''peer-add'' (ac_peer ac name url) (OkPeer name) w))"

text \<open>
  Updating writes into the element of the list in place, and deleting shifts the elements behind
  it down: the draft shares its backing array with the current configuration, so the second
  component, what the current list reads afterwards, changes too.
\<close>

definition edit_peer :: "peerBody \<Rightarrow> Peer \<Rightarrow> Peer" where
  "edit_peer b p =
     (let p = (if pb_URL b \<noteq> [] then p\<lparr>p_URL := pb_URL b\<rparr> else p) in
      case pb_Enabled b of Some e \<Rightarrow> p\<lparr>p_Enabled := e\<rparr> | None \<Rightarrow> p)"

definition update_peer :: "string \<Rightarrow> peerBody \<Rightarrow> mutation" where
  "update_peer name b f =
     (let ps = pr_List (f_Peers f) in
      if \<not> list_ex (\<lambda>p. p_Name p = name) ps then (Inl (''peer '' @ quoted name @ '' not found''), ps)
      else
        (case (if pb_URL b \<noteq> [] then normalizePeer name (pb_URL b) else Inr (name, [])) of
           Inl e \<Rightarrow> (Inl e, ps)
         | Inr _ \<Rightarrow>
             (case update_first (\<lambda>p. p_Name p = name) (edit_peer b) ps of
                None \<Rightarrow> (Inl (''peer '' @ quoted name @ '' not found''), ps)
              | Some ps' \<Rightarrow> (Inr (with_peers ps' f), ps'))))"

definition apiUpdatePeer ::
  "api_codecs \<Rightarrow> api_io \<Rightarrow> string \<Rightarrow> (string, peerBody) result \<Rightarrow> World \<Rightarrow> api_reply \<times> World" where
  "apiUpdatePeer ac io name body w =
     (case body of
        Inl e \<Rightarrow> ((400, ErrText (''invalid json: '' @ e)), w)
      | Inr b \<Rightarrow>
          save_peer_reply ac io (actorOf (ai_actor io) ''api'') (update_peer name b) ''peer-update'' name OkPlain w)"

definition delete_peer :: "string \<Rightarrow> mutation" where
  "delete_peer name f =
     (let ps = pr_List (f_Peers f); ps' = remove_first (\<lambda>p. p_Name p = name) ps in
      if \<not> list_ex (\<lambda>p. p_Name p = name) ps then (Inl (''peer '' @ quoted name @ '' not found''), ps)
      else (Inr (with_peers ps' f), ps' @ [last ps]))"

definition apiDeletePeer :: "api_codecs \<Rightarrow> api_io \<Rightarrow> string \<Rightarrow> World \<Rightarrow> api_reply \<times> World" where
  "apiDeletePeer ac io name w =
     save_peer_reply ac io (actorOf (ai_actor io) ''api'') (delete_peer name) ''peer-delete'' name OkPlain w"

definition apiSyncPeer :: "api_codecs \<Rightarrow> api_io \<Rightarrow> string \<Rightarrow> World \<Rightarrow> api_reply \<times> World" where
  "apiSyncPeer ac io name w =
     (case wd_current w of
        None \<Rightarrow> ((503, ErrText ''no config''), w)
      | Some f \<Rightarrow>
          if list_ex (\<lambda>p. p_Name p = name) (pr_List (f_Peers f))
          then ((200, OkMessage ''sync engine not yet enabled in this build (peer CRUD is wired up; networking will follow)''),
                audit_write ac io (actorOf (ai_actor io) ''api'') ''peer-sync-request'' name w)
          else ((404, ErrText ''peer not found''), w))"

definition live_status :: "status_table \<Rightarrow> Peer \<Rightarrow> Peer" where
  "live_status status p =
     (let st = GetPeerStatus (p_Name p) status in
      if \<not> IsZero (At st)
      then p\<lparr>p_Status := (p_Status p)\<lparr>ps_LastContact := At st, ps_LastError := LastError st,
                                       ps_LastAction := LastAction st\<rparr>\<rparr>
      else p)"

definition apiPeersStatus :: "World \<Rightarrow> api_reply" where
  "apiPeersStatus w =
     (case wd_current w of
        None \<Rightarrow> (503, ErrText ''no config'')
      | Some f \<Rightarrow>
          let psk = pr_SharedKey (f_Peers f) in
          (200, JRows (wd_instance w) (pr_Listen (f_Peers f)) (pr_SyncIntervalSeconds (f_Peers f))
             (map (\<lambda>p. (live_status (wd_status w) p, psk \<noteq> [], length psk)) (pr_List (f_Peers f)))))"

section \<open>Lemmas\<close>

subsection \<open>Every handler keeps the invariant\<close>

lemma audit_write_simps [simp]:
  "world_inv (audit_write ac io a b c w) = world_inv w" "wd_current (audit_write ac io a b c w) = wd_current w"
  "dm_out (wd (audit_write ac io a b c w)) = dm_out (wd w)"
  by (simp_all add: audit_write_def)

lemma api_save_inv: "world_inv w \<Longrightarrow> api_save ac io actor m w = (r, w') \<Longrightarrow> world_inv w'"
  unfolding api_save_def by (rule save_world_inv)

lemma afterSave_inv: "world_inv w \<Longrightarrow> world_inv (snd (afterSave ac io reason w))"
  using apply_daemon_inv [of "wd w" "ac_codecs ac" "ai_apply io" "''api-save''"]
  by (auto simp: afterSave_def world_inv_def split: prod.splits option.splits)

lemma afterSave_current: "wd_current (snd (afterSave ac io reason w)) = wd_current w"
proof -
  obtain e d where a: "apply_daemon (ac_codecs ac) (ai_apply io) ''api-save'' (wd w) = (e, d)"
    by (metis prod.exhaust)
  then have "dm_store d = dm_store (wd w)"
    using apply_daemon_store(1) [of "ac_codecs ac" "ai_apply io" "''api-save''" "wd w"] by simp
  then show ?thesis using a by (cases e) (simp_all add: afterSave_def)
qed

lemma save_reply_inv: "world_inv w \<Longrightarrow> world_inv (snd (save_reply ac io actor m a d r w))"
  by (auto simp: save_reply_def afterSave_inv split: prod.split sum.split dest: api_save_inv)

lemma save_peer_reply_inv: "world_inv w \<Longrightarrow> world_inv (snd (save_peer_reply ac io actor m a d ok w))"
  by (auto simp: save_peer_reply_def split: prod.split sum.split dest: api_save_inv)

lemma delete_reply_inv: "world_inv w \<Longrightarrow> world_inv (snd (delete_reply ac io actor t m a d w))"
  by (auto simp: delete_reply_def split: prod.split sum.split dest: api_save_inv)

lemmas api_handler_defs = apiPutConfig_def apiImport_def apiPutSettings_def apiAddForwarder_def
  apiUpdateForwarder_def apiDeleteForwarder_def apiAddDefault_def apiUpdateDefault_def
  apiDeleteDefault_def apiAddRecord_def apiUpdateRecord_def apiDeleteRecord_def apiAddPeer_def
  apiUpdatePeer_def apiDeletePeer_def apiSyncPeer_def

lemma api_handlers_inv:
  assumes "world_inv w"
  shows "world_inv (snd (apiPutConfig ac io bf w))" "world_inv (snd (apiImport ac io bi w))"
    "world_inv (snd (apiPutSettings ac io bs w))"
    "world_inv (snd (apiAddForwarder ac io bz w))" "world_inv (snd (apiUpdateForwarder ac io i bz w))"
    "world_inv (snd (apiDeleteForwarder ac io i w))"
    "world_inv (snd (apiAddDefault ac io bd w))" "world_inv (snd (apiUpdateDefault ac io a p bd w))"
    "world_inv (snd (apiDeleteDefault ac io a p w))"
    "world_inv (snd (apiAddRecord ac io br w))" "world_inv (snd (apiUpdateRecord ac io i br w))"
    "world_inv (snd (apiDeleteRecord ac io i w))"
    "world_inv (snd (apiAddPeer ac io bp w))" "world_inv (snd (apiUpdatePeer ac io n bp w))"
    "world_inv (snd (apiDeletePeer ac io n w))" "world_inv (snd (apiSyncPeer ac io n w))"
  using assms
  by (auto simp: api_handler_defs Let_def save_reply_inv save_peer_reply_inv delete_reply_inv
      split: sum.split option.split prod.split)

text \<open>No handler touches what the peer engine was started with.\<close>

lemma api_save_engine: "api_save ac io actor m w = (r, w') \<Longrightarrow> engine w' = engine w"
  unfolding api_save_def by (rule save_world_engine)

lemma reply_engine [simp]:
  "engine (audit_write ac io a b c w) = engine w"
  "engine (snd (afterSave ac io reason w)) = engine w"
  "engine (snd (save_reply ac io actor m a d r w)) = engine w"
  "engine (snd (save_peer_reply ac io actor m a d ok w)) = engine w"
  "engine (snd (delete_reply ac io actor t m a d w)) = engine w"
proof -
  show au: "engine (audit_write ac io a b c w) = engine w" for a b c w by (simp add: audit_write_def)
  show af: "engine (snd (afterSave ac io reason w)) = engine w" for reason w
    by (simp add: afterSave_def split: prod.split option.split)
  show "engine (snd (save_reply ac io actor m a d r w)) = engine w"
    "engine (snd (save_peer_reply ac io actor m a d ok w)) = engine w"
    "engine (snd (delete_reply ac io actor t m a d w)) = engine w"
    by (auto simp: save_reply_def save_peer_reply_def delete_reply_def au af split: prod.split sum.split dest!: api_save_engine)
qed

lemma api_handlers_engine [simp]:
  "engine (snd (apiPutConfig ac io bf w)) = engine w" "engine (snd (apiImport ac io bi w)) = engine w"
  "engine (snd (apiPutSettings ac io bs w)) = engine w"
  "engine (snd (apiAddForwarder ac io bz w)) = engine w" "engine (snd (apiUpdateForwarder ac io i bz w)) = engine w"
  "engine (snd (apiDeleteForwarder ac io i w)) = engine w"
  "engine (snd (apiAddDefault ac io bd w)) = engine w" "engine (snd (apiUpdateDefault ac io ad po bd w)) = engine w"
  "engine (snd (apiDeleteDefault ac io ad po w)) = engine w"
  "engine (snd (apiAddRecord ac io br w)) = engine w" "engine (snd (apiUpdateRecord ac io i br w)) = engine w"
  "engine (snd (apiDeleteRecord ac io i w)) = engine w"
  "engine (snd (apiAddPeer ac io bp w)) = engine w" "engine (snd (apiUpdatePeer ac io n bp w)) = engine w"
  "engine (snd (apiDeletePeer ac io n w)) = engine w" "engine (snd (apiSyncPeer ac io n w)) = engine w"
  by (auto simp: api_handler_defs Let_def split: sum.split option.split prod.split)

subsection \<open>Normalised peer lists\<close>

lemma ToLower_Nil [simp]: "ToLower s = [] \<longleftrightarrow> s = []"
  by (simp add: ToLower_def)

lemma normalize_loop_spec:
  "distinct (map ToLower (normalize_loop seen ps)) \<and>
   ToLower ` set (normalize_loop seen ps) = (\<lambda>p. ToLower (TrimSpace p)) ` set ps - {[]} - seen"
proof (induction ps arbitrary: seen)
  case (Cons p ps)
  show ?case
    using Cons.IH [of seen] Cons.IH [of "insert (ToLower (TrimSpace p)) seen"]
    by (auto simp: Let_def)
qed simp

subsection \<open>Valid configurations after an edit\<close>

lemma Snapshot_nonempty:
  assumes "elems (f_UpstreamDefaults c) \<noteq> []"
  shows "Snapshot c = c"
proof -
  have "append_nil (f_UpstreamDefaults c) = f_UpstreamDefaults c"
    using assms by (cases "f_UpstreamDefaults c") (simp_all add: append_nil_def)
  then show ?thesis by (cases c) (simp add: Snapshot_def)
qed

lemma live_zones_Cons: "live_zones (z # zs) = (if z_Deleted z then live_zones zs else z # live_zones zs)"
  by (simp add: live_zones_def)

lemma update_first_names:
  assumes "update_first P g zs = Some zs'" and "\<And>z. clean_name (g z) = clean_name z" and "\<And>z. z_Deleted (g z)"
    and "distinct (map clean_name (live_zones zs))"
  shows "distinct (map clean_name (live_zones zs')) \<and> set (live_zones zs') \<subseteq> set (live_zones zs)"
  using assms(1,4)
proof (induction zs arbitrary: zs')
  case (Cons z zs)
  show ?case
  proof (cases "P z")
    case True
    then show ?thesis using Cons.prems assms(3) by (auto simp: live_zones_Cons split: if_splits)
  next
    case False
    then obtain ys where ys: "update_first P g zs = Some ys" "zs' = z # ys" using Cons.prems(1) by auto
    have ih: "distinct (map clean_name (live_zones ys))" "set (live_zones ys) \<subseteq> set (live_zones zs)"
      using Cons.IH [OF ys(1)] Cons.prems(2) by (simp_all add: live_zones_Cons split: if_splits)
    from ih(2) have "clean_name ` set (live_zones ys) \<subseteq> clean_name ` set (live_zones zs)" by (rule image_mono)
    then show ?thesis using ih Cons.prems(2) by (auto simp: ys(2) live_zones_Cons split: if_splits)
  qed
qed simp

lemma update_first_set:
  "update_first P g zs = Some zs' \<Longrightarrow> set zs' \<subseteq> set zs \<union> g ` set zs"
  by (induction zs arbitrary: zs') (auto split: if_splits)

lemma update_first_exists: "x \<in> set xs \<Longrightarrow> P x \<Longrightarrow> \<exists>ys. update_first P g xs = Some ys \<and> length ys = length xs"
  by (induction xs) auto

lemma update_first_map:
  "update_first P g xs = Some ys \<Longrightarrow> (\<And>x. k (g x) = k x) \<Longrightarrow> map k ys = map k xs"
  by (induction xs arbitrary: ys) (auto split: if_splits)

lemma remove_first_subset: "set (remove_first P xs) \<subseteq> set xs"
  by (induction xs) auto

lemma remove_first_distinct:
  "distinct (map k (filter Q xs)) \<Longrightarrow> distinct (map k (filter Q (remove_first P xs)))"
proof (induction xs)
  case (Cons x xs)
  then show ?case using remove_first_subset [of P xs] by (auto split: if_splits)
qed simp

lemma remove_first_gone:
  "distinct (map k xs) \<Longrightarrow> v \<notin> k ` set (remove_first (\<lambda>x. k x = v) xs)"
  by (induction xs) (auto simp: image_iff)

definition tombstone_zone :: "time \<Rightarrow> string \<Rightarrow> ForwardZone \<Rightarrow> ForwardZone" where
  "tombstone_zone now actor z = z\<lparr>z_Deleted := True, z_UpdatedAt := now, z_UpdatedBy := actor\<rparr>"

lemma tombstone_zone_simps [simp]:
  "clean_name (tombstone_zone now a z) = clean_name z" "z_Deleted (tombstone_zone now a z)"
  "z_ID (tombstone_zone now a z) = z_ID z" "zone_ok (tombstone_zone now a z) = zone_ok z"
  by (simp_all add: tombstone_zone_def clean_name_def zone_ok_def)

lemma file_ok_zones:
  assumes "file_ok f" and "\<exists>u \<in> set (elems (f_UpstreamDefaults f)). active u"
    and "\<forall>z \<in> set zs. zone_ok z" and "distinct (map clean_name (live_zones zs))"
  shows "file_ok (f\<lparr>f_ForwardZones := zs\<rparr>)"
  using assms by (simp add: file_ok_def)

lemma file_ok_tombstone:
  assumes "file_ok f" and "\<exists>u \<in> set (elems (f_UpstreamDefaults f)). active u"
    and "update_first P (tombstone_zone now a) (f_ForwardZones f) = Some zs"
  shows "file_ok (f\<lparr>f_ForwardZones := zs\<rparr>)"
proof (rule file_ok_zones [OF assms(1,2)])
  show "\<forall>z \<in> set zs. zone_ok z"
    using update_first_set [OF assms(3)] assms(1) by (auto simp: file_ok_def)
  show "distinct (map clean_name (live_zones zs))"
    using update_first_names [OF assms(3)] assms(1) by (simp add: file_ok_def)
qed

lemma file_ok_remove:
  assumes "file_ok f" and "\<exists>u \<in> set (elems (f_UpstreamDefaults f)). active u"
  shows "file_ok (f\<lparr>f_ForwardZones := remove_first P (f_ForwardZones f)\<rparr>)"
proof (rule file_ok_zones [OF assms])
  show "\<forall>z \<in> set (remove_first P (f_ForwardZones f)). zone_ok z"
    using remove_first_subset [of P "f_ForwardZones f"] assms(1) by (auto simp: file_ok_def)
  show "distinct (map clean_name (live_zones (remove_first P (f_ForwardZones f))))"
    using assms(1) by (simp add: file_ok_def live_zones_def remove_first_distinct)
qed

lemma file_ok_saved: "file_ok d \<Longrightarrow> file_ok (saved_file io a d)"
  by (simp add: saved_file_def file_ok_filled)

lemma active_saved:
  "\<exists>u \<in> set (elems (f_UpstreamDefaults d)). active u \<Longrightarrow>
   \<exists>u \<in> set (elems (f_UpstreamDefaults (saved_file io a d))). active u"
  by (force simp: active_def)

text \<open>A save through the API that goes well and fires no apply hook.\<close>

lemma api_save_calm:
  assumes "\<not> onApply (wd_store w)" and "io_ok (ch_save io)" and "wd_current w = Some c"
    and "m (Snapshot c) = Inr draft" and "file_ok draft" and "\<forall>f. \<exists>data. cd_marshal (ac_codecs ac) f = Inr data"
  shows "\<exists>w'. api_save ac io actor (unshared m) w = (Inr (saved_file (ch_save io) actor draft), w') \<and>
    wd_current w' = Some (saved_file (ch_save io) actor draft) \<and> \<not> onApply (wd_store w') \<and>
    dm_out (wd w') = dm_out (wd w)"
proof -
  let ?f = "saved_file (ch_save io) actor draft"
  obtain data where data: "cd_marshal (ac_codecs ac) ?f = Inr data" using assms(6) by blast
  have "Save (cd_marshal (ac_codecs ac)) (cd_sha (ac_codecs ac)) (ch_save io) actor (Some (unshared m)) (wd_store w)
      (dm_disk (wd w)) = (Inr ?f, setCurrent ?f (cd_sha (ac_codecs ac) data) (wd_store w),
      (dm_disk (wd w))\<lparr>d_file := Some data, d_tmp := None\<rparr>, fireOnSave (wd_store w) @ fireOnApply (wd_store w))"
    using assms(2-5) save_commit_ok [OF assms(2,5), of "cd_marshal (ac_codecs ac)" actor data "cd_sha (ac_codecs ac)"] data
    by (simp add: Save_unshared io_ok_def)
  then show ?thesis
    using assms(1) by (auto simp: api_save_def save_world_def fireOnSave_def fireOnApply_def)
qed

section \<open>Concrete inputs\<close>

definition sample_ac :: api_codecs where
  "sample_ac =
     \<lparr>ac_wire = plain_wire, ac_codecs = sample_codecs, ac_settings = (\<lambda>_. ''{}''), ac_peer = (\<lambda>_ _. ''{}'')\<rparr>"

definition calm_api :: api_io where
  "calm_api =
     \<lparr>ai_actor = ''ops'', ai_now = 5, ai_id = [0, 1, 2, 3, 4, 5, 6, 255], ai_save = calm_change,
      ai_save2 = calm_change, ai_apply = calm_apply, ai_audit = audit_ok_io\<rparr>"

text \<open>A process without sync partners that forwards one zone.\<close>

definition lone_world :: World where
  "lone_world =
     \<lparr>wd = idle_daemon\<lparr>dm_store := setCurrent ((DefaultConfig 1)\<lparr>f_ForwardZones := [corp_zone ''a'']\<rparr>) ''h'' NewStore\<rparr>,
      wd_client = NewClient, wd_status = Map.empty, wd_instance = ''a'', wd_sent = [],
      wd_listener = None, wd_pulls = []\<rparr>"

abbreviation lone_file :: File where
  "lone_file \<equiv> (DefaultConfig 1)\<lparr>f_ForwardZones := [corp_zone ''a'']\<rparr>"

lemma lone_world_simps [simp]:
  "wd_current lone_world = Some lone_file" "onApply (wd_store lone_world) = False"
  by (simp_all add: lone_world_def NewStore_def setCurrent_def)

lemma active_DefaultConfig: "\<exists>u \<in> set (elems (f_UpstreamDefaults (DefaultConfig t))). active u"
  by (simp add: DefaultConfig_def active_def)

lemma lone_file_ok: "file_ok lone_file"
  using file_ok_zones [OF file_ok_DefaultConfig active_DefaultConfig, of "[corp_zone ''a'']"] zone_ok_corp_zone [of "''a''"]
  by (simp add: live_zones_def)

lemma sample_marshal: "cd_marshal (ac_codecs sample_ac) f = Inr ''doc''"
  by (simp add: sample_ac_def sample_codecs_def one_marshal_def)

lemma calm_api_ok [simp]: "io_ok (ch_save (ai_save calm_api))" "io_ok (ch_save (ai_save2 calm_api))"
  by (simp_all add: calm_api_def calm_change_def)

section \<open>Properties\<close>

text \<open>
  C33. Deleting a forwarder through the API succeeds and removes the zone from the configuration,
  but in a process whose peer engine is not running (no shared key, so no apply hook) nothing is
  regenerated: unbound keeps the old file and is not signalled, although the handler reports
  success.
\<close>

theorem delete_forwarder_not_applied:
  assumes "\<not> onApply (wd_store w)" and "wd_current w = Some c" and "file_ok c"
    and "\<exists>u \<in> set (elems (f_UpstreamDefaults c)). active u"
    and "ident \<in> z_ID ` set (f_ForwardZones c)" and "distinct (map z_ID (f_ForwardZones c))"
    and "io_ok (ch_save (ai_save io))" and "io_ok (ch_save (ai_save2 io))"
    and "\<forall>f. \<exists>data. cd_marshal (ac_codecs ac) f = Inr data"
  shows "\<exists>w' c'. apiDeleteForwarder ac io ident w = ((200, OkReason ''forwarder-delete''), w') \<and>
    wd_current w' = Some c' \<and> ident \<notin> z_ID ` set (f_ForwardZones c') \<and> dm_out (wd w') = dm_out (wd w)"
proof -
  let ?actor = "actorOf (ai_actor io) ''api''"
  let ?t = "tombstone_zone (ai_now io) ?actor" and ?P = "\<lambda>z. z_ID z = ident"
  have snap: "Snapshot c = c" using assms(4) by (intro Snapshot_nonempty) auto
  obtain zs where zs: "update_first ?P ?t (f_ForwardZones c) = Some zs"
    using assms(5) update_first_exists [of _ "f_ForwardZones c" ?P ?t] by (auto simp: image_iff)
  let ?d1 = "c\<lparr>f_ForwardZones := zs\<rparr>"
  have ok1: "file_ok ?d1" by (rule file_ok_tombstone [OF assms(3,4) zs])
  obtain w1 where w1: "api_save ac (ai_save io) ?actor (unshared (change_zone ident ?t)) w =
      (Inr (saved_file (ch_save (ai_save io)) ?actor ?d1), w1)"
    "wd_current w1 = Some (saved_file (ch_save (ai_save io)) ?actor ?d1)" "\<not> onApply (wd_store w1)"
    "dm_out (wd w1) = dm_out (wd w)"
    using api_save_calm [OF assms(1,7,2) _ ok1 assms(9), of "change_zone ident ?t"] snap zs
    by (auto simp: change_zone_def)
  let ?f1 = "saved_file (ch_save (ai_save io)) ?actor ?d1"
  let ?rm = "\<lambda>f. f\<lparr>f_ForwardZones := remove_first ?P (f_ForwardZones f)\<rparr>"
  have act1: "\<exists>u \<in> set (elems (f_UpstreamDefaults ?f1)). active u" using assms(4) by (intro active_saved) simp
  have snap1: "Snapshot ?f1 = ?f1" using act1 by (intro Snapshot_nonempty) auto
  have ok2: "file_ok (?rm ?f1)" by (rule file_ok_remove [OF file_ok_saved [OF ok1] act1])
  obtain w2 where w2: "api_save ac (ai_save2 io) ?actor (unshared (\<lambda>f. Inr (?rm f))) w1 =
      (Inr (saved_file (ch_save (ai_save2 io)) ?actor (?rm ?f1)), w2)"
    "wd_current w2 = Some (saved_file (ch_save (ai_save2 io)) ?actor (?rm ?f1))" "dm_out (wd w2) = dm_out (wd w1)"
    using api_save_calm [OF w1(3) assms(8) w1(2) _ ok2 assms(9), of "\<lambda>f. Inr (?rm f)"] snap1 by auto
  have "map z_ID zs = map z_ID (f_ForwardZones c)" using update_first_map [OF zs, of z_ID] by simp
  then have "distinct (map z_ID (f_ForwardZones ?f1))" using assms(6) by (simp add: comp_def)
  from remove_first_gone [OF this, of ident]
  have "ident \<notin> z_ID ` set (f_ForwardZones (saved_file (ch_save (ai_save2 io)) ?actor (?rm ?f1)))"
    by (simp add: image_image)
  moreover have "apiDeleteForwarder ac io ident w =
      ((200, OkReason ''forwarder-delete''), audit_write ac io ?actor ''forwarder-delete'' ident w2)"
    using w1(1) w2(1) by (simp add: apiDeleteForwarder_def delete_reply_def Let_def tombstone_zone_def [abs_def])
  ultimately show ?thesis using w1(4) w2 by auto
qed

theorem delete_forwarder_not_applied_witness:
  "\<exists>w' c'. apiDeleteForwarder sample_ac calm_api ''a'' lone_world = ((200, OkReason ''forwarder-delete''), w') \<and>
     wd_current w' = Some c' \<and> ''a'' \<notin> z_ID ` set (f_ForwardZones c') \<and> dm_out (wd w') = dm_out (wd lone_world)"
  by (rule delete_forwarder_not_applied [of _ lone_file])
    (use lone_file_ok active_DefaultConfig in \<open>simp_all add: sample_marshal corp_zone_def\<close>)



text \<open>
  C34. The peer list of the configuration in memory is changed by a request that fails: when the
  save of an accepted edit of a peer goes wrong (the file cannot be written, say), the handler
  answers 400 and the file is untouched, yet the current configuration already has the edited
  list, because the copy the save works on shares it.
\<close>

theorem failed_peer_update_leaks:
  assumes "io_mkdir (ch_save (ai_save io)) = None" and "io_open (ch_save (ai_save io)) = None"
    and "io_flock (ch_save (ai_save io)) = FlockOK" and "io_unlock (ch_save (ai_save io)) = None"
    and "wd_current w = Some c" and "update_peer name b (Snapshot c) = (Inr draft, ps)"
    and "fst (apiUpdatePeer ac io name (Inr b) w) = (400, msg)"
  shows "wd_current (snd (apiUpdatePeer ac io name (Inr b) w)) = Some (with_peers ps c) \<and>
    d_file (dm_disk (wd (snd (apiUpdatePeer ac io name (Inr b) w)))) = d_file (dm_disk (wd w))"
proof -
  let ?actor = "actorOf (ai_actor io) ''api''" and ?s = "dm_store (wd w)" and ?d = "dm_disk (wd w)"
  let ?io = "ch_save (ai_save io)" and ?cd = "ac_codecs ac"
  obtain r st dk hs where c: "save_commit (cd_marshal ?cd) (cd_sha ?cd) ?io ?actor draft (alias_peers ps ?s) ?d =
      (r, st, dk, hs)"
    by (metis prod.exhaust)
  have "Save (cd_marshal ?cd) (cd_sha ?cd) ?io ?actor (Some (update_peer name b)) ?s ?d = (r, st, dk, hs)"
    using assms(1-3,5,6) c by (simp add: Save_def Let_def)
  then have a: "api_save ac (ai_save io) ?actor (update_peer name b) w =
      (r, fold (run_hook (ac_wire ac) ?cd (ch_hooks (ai_save io))) hs (w\<lparr>wd := (wd w)\<lparr>dm_store := st, dm_disk := dk\<rparr>\<rparr>))"
    by (simp add: api_save_def save_world_def)
  then obtain e where e: "r = Inl e"
    using assms(7) by (cases r) (simp_all add: apiUpdatePeer_def save_peer_reply_def)
  have st: "st = alias_peers ps ?s \<and> d_file dk = d_file ?d \<and> hs = []"
    using save_commit_failure [OF c [unfolded e] assms(4)] .
  then have "snd (apiUpdatePeer ac io name (Inr b) w) = w\<lparr>wd := (wd w)\<lparr>dm_store := alias_peers ps ?s, dm_disk := dk\<rparr>\<rparr>"
    using a e by (simp add: apiUpdatePeer_def save_peer_reply_def)
  then show ?thesis using assms(5) st by (simp add: alias_peers_def with_peers_def)
qed

definition full_disk_api :: api_io where
  "full_disk_api =
     calm_api\<lparr>ai_save := calm_change\<lparr>ch_save := calm_io\<lparr>io_write := Some (''no space left'', None)\<rparr>\<rparr>\<rparr>"

theorem failed_peer_update_leaks_witness:
  "\<exists>c'. wd_current (snd (apiUpdatePeer sample_ac full_disk_api ''b''
       (Inr \<lparr>pb_Name = [], pb_URL = [], pb_Enabled = Some False\<rparr>) idle_world)) = Some c' \<and>
     map p_Enabled (pr_List (f_Peers c')) = [False]"
proof -
  let ?b = "\<lparr>pb_Name = [], pb_URL = [], pb_Enabled = Some False\<rparr>" and ?p = "peer_b\<lparr>p_Enabled := False\<rparr>"
  let ?io = "ch_save (ai_save full_disk_api)" and ?d = "with_peers [?p] keyed_default"
  have io: "io_mkdir ?io = None" "io_open ?io = None" "io_flock ?io = FlockOK" "io_unlock ?io = None"
    "io_write ?io = Some (''no space left'', None)"
    by (simp_all add: full_disk_api_def calm_io_def)
  have u: "update_peer ''b'' ?b (Snapshot keyed_default) = (Inr ?d, [?p])"
    unfolding Snapshot_keyed
    by (simp add: update_peer_def edit_peer_def keyed_default_def peer_b_def with_peers_def Let_def)
  have ok: "file_ok (?d\<lparr>f_Updated := t, f_UpdatedBy := a, f_Version := v\<rparr>)" for t a v
    by (simp add: with_peers_def)
  have "save_commit (cd_marshal sample_codecs) (cd_sha sample_codecs) ?io ''ops'' ?d s d =
      (Inl (ErrOs ''no space left''), s, d\<lparr>d_tmp := None\<rparr>, [])" for s d
    using io(5) ok by (simp add: save_commit_def Let_def Validate_Inr_iff [THEN iffD2] sample_codecs_def one_marshal_def)
  then have "fst (apiUpdatePeer sample_ac full_disk_api ''b'' (Inr ?b) idle_world) = (400, ErrText ''error'')"
    using io u by (simp add: apiUpdatePeer_def save_peer_reply_def api_save_def save_world_def Save_def Let_def
        sample_ac_def full_disk_api_def calm_api_def actorOf_def sample_codecs_def)
  from failed_peer_update_leaks [OF io(1-4) idle_world_simps(1) u this] show ?thesis
    by (simp add: with_peers_def)
qed

text \<open>
  Normalising a list of peer names keeps each name once, up to letter case, in trimmed form,
  loses no name but the blank ones, and is stable under repetition of itself as far as names are
  concerned.
\<close>

lemma normalizePeerList_spec:
  "distinct (map ToLower (normalizePeerList ps)) \<and>
   ToLower ` set (normalizePeerList ps) = (\<lambda>p. ToLower (TrimSpace p)) ` set ps - {[]} \<and>
   list_all (\<lambda>p. TrimSpace p = p \<and> p \<noteq> []) (normalizePeerList ps)"
proof -
  have "list_all (\<lambda>p. TrimSpace p = p \<and> p \<noteq> []) (normalize_loop seen ps)" for seen
    by (induction ps arbitrary: seen) (simp_all add: Let_def)
  then show ?thesis using normalize_loop_spec [of "{}" ps] by (simp add: normalizePeerList_def)
qed

text \<open>The shared key is masked in the peer list and in a plain export, and not in apiGetConfig.\<close>

lemma shared_key_replies:
  assumes "wd_current w = Some f"
  shows "\<exists>p. apiListPeers w = (200, JPeers p) \<and> pr_SharedKey p = []"
    and "s \<noteq> ''1'' \<Longrightarrow> \<exists>g. apiExport s w = (200, JExport False g) \<and> pr_SharedKey (f_Peers g) = []"
    and "\<exists>g. apiGetConfig w = (200, JFile g) \<and> pr_SharedKey (f_Peers g) = pr_SharedKey (f_Peers f)"
  using assms by (simp_all add: apiListPeers_def apiExport_def apiGetConfig_def Let_def)

end
