(* ===== verification/Routes.thy ===== *)
theory Routes
  imports Server
begin

text \<open>
  The rest of internal/server/server.go: the table of routes, the dispatch of a request to its
  handler, and the HTML pages.  The router (chi), the decoders of request bodies, the parsed
  templates and the resolver behind the test are parameters; the middlewares (request identifiers,
  logging, recovery, a timeout) neither choose a handler nor touch the state and are left out.
\<close>

section \<open>Pages\<close>

record statusView =
  sv_LastOK :: time
  sv_LastErr :: string
  sv_Hash :: string
  sv_Version :: int

record pageData =
  pd_Title :: string
  pd_Instance :: string
  pd_Config :: "File option"
  pd_Status :: statusView
  pd_Active :: string

definition statusView_of :: "World \<Rightarrow> statusView" where
  "statusView_of w =
     (let cur = wd_current w; (lastOK, lastErr) = Status (dm_watcher (wd w)); hsh = hash (wd_store w);
          ver = (case cur of None \<Rightarrow> 0 | Some f \<Rightarrow> f_Version f) in
      \<lparr>sv_LastOK = lastOK, sv_LastErr = lastErr, sv_Hash = hsh, sv_Version = ver\<rparr>)"

text \<open>The page data a page handler starts from: a title and the entry of the menu.\<close>

definition page :: "string \<Rightarrow> string \<Rightarrow> pageData" where
  "page title act =
     \<lparr>pd_Title = title, pd_Instance = [], pd_Config = None,
      pd_Status = \<lparr>sv_LastOK = 0, sv_LastErr = [], sv_Hash = [], sv_Version = 0\<rparr>, pd_Active = act\<rparr>"

text \<open>
  The server: its instance name and the template set of each page.  The store, the watcher and the
  audit log it holds are parts of the process state.
\<close>

record 'tpl http_server =
  hs_instance :: string
  hs_pages :: "string \<Rightarrow> 'tpl option"

text \<open>The files each page is parsed from.\<close>

definition page_files :: "(string \<times> string list) list" where
  "page_files =
     [(''dashboard.html'', [''base.html'', ''dashboard.html'']),
      (''forwarders.html'', [''base.html'', ''forwarders.html'']),
      (''records.html'', [''base.html'', ''records.html'']),
      (''settings.html'', [''base.html'', ''settings.html'']),
      (''sync_partners.html'', [''base.html'', ''sync_partners.html'']),
      (''import_export.html'', [''base.html'', ''import_export.html'']),
      (''audit.html'', [''base.html'', ''audit.html''])]"

fun parse_pages ::
  "(string list \<Rightarrow> (string, 'tpl) result) \<Rightarrow> (string \<times> string list) list \<Rightarrow> (string \<Rightarrow> 'tpl option) \<Rightarrow>
   (string, string \<Rightarrow> 'tpl option) result" where
  "parse_pages parse [] parsed = Inr parsed"
| "parse_pages parse ((name, files) # ps) parsed =
     (case parse files of
        Inl e \<Rightarrow> Inl e
      | Inr t \<Rightarrow> parse_pages parse ps (parsed(name \<mapsto> t)))"

text \<open>
  \<open>New\<close>: the two subdirectories of the assets (an error each, or none), then the pages in the order
  in which the range over the map yields them.
\<close>

definition server_New ::
  "string option \<Rightarrow> string option \<Rightarrow> (string list \<Rightarrow> (string, 'tpl) result) \<Rightarrow> (string \<times> string list) list \<Rightarrow> string \<Rightarrow>
   (string, 'tpl http_server) result" where
  "server_New staticErr tplErr parse order inst =
     (case staticErr of
        Some e \<Rightarrow> Inl e
      | None \<Rightarrow>
        (case tplErr of
           Some e \<Rightarrow> Inl e
         | None \<Rightarrow>
             bind_res (parse_pages parse order Map.empty) (\<lambda>parsed.
               Inr \<lparr>hs_instance = inst, hs_pages = parsed\<rparr>)))"

section \<open>Routes\<close>

datatype http_method = GET | POST | PUT | PATCH | DELETE

datatype api_handler =
    H_Status | H_GetConfig | H_PutConfig
  | H_ListForwarders | H_AddForwarder | H_UpdateForwarder | H_DeleteForwarder
  | H_ListDefaults | H_AddDefault | H_UpdateDefault | H_DeleteDefault
  | H_ListRecords | H_AddRecord | H_UpdateRecord | H_DeleteRecord
  | H_GetSettings | H_PutSettings
  | H_ListPeers | H_AddPeer | H_UpdatePeer | H_DeletePeer | H_SyncPeer | H_PeersStatus
  | H_Export | H_Import | H_Audit | H_Test | H_Healthz

datatype handler =
    Static
  | Dashboard | ForwardersPage | RecordsPage | SettingsPage | SyncPartnersPage | ImportExportPage | AuditPage
  | Api api_handler

text \<open>A route: the method it is registered for (none stands for every method), its pattern, its handler.\<close>

type_synonym route = "http_method option \<times> string \<times> handler"

definition api_routes :: "(http_method \<times> string \<times> api_handler) list" where
  "api_routes =
     [(GET, ''/status'', H_Status),
      (GET, ''/config'', H_GetConfig),
      (PUT, ''/config'', H_PutConfig),
      (GET, ''/forwarders'', H_ListForwarders),
      (POST, ''/forwarders'', H_AddForwarder),
      (PUT, ''/forwarders/{id}'', H_UpdateForwarder),
      (DELETE, ''/forwarders/{id}'', H_DeleteForwarder),
      (GET, ''/defaults'', H_ListDefaults),
      (POST, ''/defaults'', H_AddDefault),
      (PATCH, ''/defaults/{addr}/{port}'', H_UpdateDefault),
      (DELETE, ''/defaults/{addr}/{port}'', H_DeleteDefault),
      (GET, ''/records'', H_ListRecords),
      (POST, ''/records'', H_AddRecord),
      (PUT, ''/records/{id}'', H_UpdateRecord),
      (DELETE, ''/records/{id}'', H_DeleteRecord),
      (GET, ''/settings'', H_GetSettings),
      (PUT, ''/settings'', H_PutSettings),
      (GET, ''/peers'', H_ListPeers),
      (POST, ''/peers'', H_AddPeer),
      (PUT, ''/peers/{name}'', H_UpdatePeer),
      (DELETE, ''/peers/{name}'', H_DeletePeer),
      (POST, ''/peers/{name}/sync'', H_SyncPeer),
      (GET, ''/peers/status'', H_PeersStatus),
      (GET, ''/export'', H_Export),
      (POST, ''/import'', H_Import),
      (GET, ''/audit'', H_Audit),
      (POST, ''/test'', H_Test),
      (GET, ''/healthz'', H_Healthz)]"

definition routes :: "route list" where
  "routes =
     [(None, ''/static/*'', Static),
      (Some GET, ''/'', Dashboard),
      (Some GET, ''/forwarders'', ForwardersPage),
      (Some GET, ''/records'', RecordsPage),
      (Some GET, ''/settings'', SettingsPage),
      (Some GET, ''/sync-partners'', SyncPartnersPage),
      (Some GET, ''/import-export'', ImportExportPage),
      (Some GET, ''/audit'', AuditPage)]
     @ map (\<lambda>(m, p, h). (Some m, ''/api'' @ p, Api h)) api_routes"

section \<open>Serving a request\<close>

text \<open>The decoders of request bodies and of the lines of the audit log.\<close>

record body_codecs =
  bc_file :: "string \<Rightarrow> (string, File) result"
  bc_forwarder :: "string \<Rightarrow> (string, forwarderBody) result"
  bc_default :: "string \<Rightarrow> (string, defaultBody) result"
  bc_record :: "string \<Rightarrow> (string, recordBody) result"
  bc_settings :: "string \<Rightarrow> (string, Settings) result"
  bc_peer :: "string \<Rightarrow> (string, peerBody) result"
  bc_test :: "string \<Rightarrow> (string, testBody) result"
  bc_upload :: "string \<Rightarrow> (string, string) result"
  bc_entry :: "string \<Rightarrow> Entry option"

text \<open>
  A request with what its handler meets: the header X-Actor, the clock and the system calls of its
  saves (\<open>hq_io\<close>), the outcome of reading the audit log, and the DNS servers a test asks.
\<close>

record http_request =
  hq_method :: http_method
  hq_path :: string
  hq_body :: string
  hq_query :: "string \<Rightarrow> string"
  hq_io :: api_io
  hq_readErr :: "string option"
  hq_resolve :: "string \<Rightarrow> string \<Rightarrow> string \<Rightarrow> (string, TestResult) result"

type_synonym url_params = "string \<Rightarrow> string"

fun api_call ::
  "body_codecs \<Rightarrow> api_codecs \<Rightarrow> api_handler \<Rightarrow> url_params \<Rightarrow> http_request \<Rightarrow> World \<Rightarrow> api_reply \<times> World" where
  "api_call bc ac H_Status u q w = (apiStatus w, w)"
| "api_call bc ac H_GetConfig u q w = (apiGetConfig w, w)"
| "api_call bc ac H_PutConfig u q w = apiPutConfig ac (hq_io q) (bc_file bc (hq_body q)) w"
| "api_call bc ac H_ListForwarders u q w = (apiListForwarders w, w)"
| "api_call bc ac H_AddForwarder u q w = apiAddForwarder ac (hq_io q) (bc_forwarder bc (hq_body q)) w"
| "api_call bc ac H_UpdateForwarder u q w =
     apiUpdateForwarder ac (hq_io q) (u ''id'') (bc_forwarder bc (hq_body q)) w"
| "api_call bc ac H_DeleteForwarder u q w = apiDeleteForwarder ac (hq_io q) (u ''id'') w"
| "api_call bc ac H_ListDefaults u q w = (apiListDefaults w, w)"
| "api_call bc ac H_AddDefault u q w = apiAddDefault ac (hq_io q) (bc_default bc (hq_body q)) w"
| "api_call bc ac H_UpdateDefault u q w =
     apiUpdateDefault ac (hq_io q) (u ''addr'') (u ''port'') (bc_default bc (hq_body q)) w"
| "api_call bc ac H_DeleteDefault u q w = apiDeleteDefault ac (hq_io q) (u ''addr'') (u ''port'') w"
| "api_call bc ac H_ListRecords u q w = (apiListRecords w, w)"
| "api_call bc ac H_AddRecord u q w = apiAddRecord ac (hq_io q) (bc_record bc (hq_body q)) w"
| "api_call bc ac H_UpdateRecord u q w =
     apiUpdateRecord ac (hq_io q) (u ''id'') (bc_record bc (hq_body q)) w"
| "api_call bc ac H_DeleteRecord u q w = apiDeleteRecord ac (hq_io q) (u ''id'') w"
| "api_call bc ac H_GetSettings u q w = (apiGetSettings w, w)"
| "api_call bc ac H_PutSettings u q w = apiPutSettings ac (hq_io q) (bc_settings bc (hq_body q)) w"
| "api_call bc ac H_ListPeers u q w = (apiListPeers w, w)"
| "api_call bc ac H_AddPeer u q w = apiAddPeer ac (hq_io q) (bc_peer bc (hq_body q)) w"
| "api_call bc ac H_UpdatePeer u q w = apiUpdatePeer ac (hq_io q) (u ''name'') (bc_peer bc (hq_body q)) w"
| "api_call bc ac H_DeletePeer u q w = apiDeletePeer ac (hq_io q) (u ''name'') w"
| "api_call bc ac H_SyncPeer u q w = apiSyncPeer ac (hq_io q) (u ''name'') w"
| "api_call bc ac H_PeersStatus u q w = (apiPeersStatus w, w)"
| "api_call bc ac H_Export u q w = (apiExport (hq_query q ''secrets'') w, w)"
| "api_call bc ac H_Import u q w = apiImport ac (hq_io q) (bc_upload bc (hq_body q)) w"
| "api_call bc ac H_Audit u q w = (apiAudit (bc_entry bc) (hq_readErr q) w, w)"
| "api_call bc ac H_Test u q w = (apiTest (hq_resolve q) (bc_test bc (hq_body q)) w, w)"
| "api_call bc ac H_Healthz u q w = (apiHealthz w, w)"

text \<open>
  The answer to a request: a reply of the API, a template executed on page data, a plain error, a
  file below /static, or the answer of the router when no route fits.
\<close>

datatype 'tpl response =
    Reply api_reply
  | Html 'tpl string pageData
  | HttpError nat string
  | StaticFile string
  | Unrouted nat

definition render :: "'tpl http_server \<Rightarrow> string \<Rightarrow> pageData \<Rightarrow> World \<Rightarrow> 'tpl response" where
  "render srv name pd w =
     (let pd = (if pd_Instance pd = [] then pd\<lparr>pd_Instance := hs_instance srv\<rparr> else pd);
          pd = (if sv_Hash (pd_Status pd) = [] \<and> hash (wd_store w) \<noteq> []
                then pd\<lparr>pd_Status := statusView_of w\<rparr> else pd);
          pd = (case pd_Config pd of
                  None \<Rightarrow> (case wd_current w of None \<Rightarrow> pd | Some cur \<Rightarrow> pd\<lparr>pd_Config := Some (Snapshot cur)\<rparr>)
                | Some _ \<Rightarrow> pd) in
      case hs_pages srv name of
        None \<Rightarrow> HttpError 500 (''no template for '' @ name)
      | Some t \<Rightarrow> Html t name pd)"

fun serve ::
  "'tpl http_server \<Rightarrow> body_codecs \<Rightarrow> api_codecs \<Rightarrow> handler \<Rightarrow> url_params \<Rightarrow> http_request \<Rightarrow> World \<Rightarrow>
   'tpl response \<times> World" where
  "serve srv bc ac Static u q w = (StaticFile (hq_path q), w)"
| "serve srv bc ac Dashboard u q w = (render srv ''dashboard.html'' (page ''Dashboard'' ''dashboard'') w, w)"
| "serve srv bc ac ForwardersPage u q w = (render srv ''forwarders.html'' (page ''Forwarders'' ''forwarders'') w, w)"
| "serve srv bc ac RecordsPage u q w = (render srv ''records.html'' (page ''Static Records'' ''records'') w, w)"
| "serve srv bc ac SettingsPage u q w = (render srv ''settings.html'' (page ''Settings'' ''settings'') w, w)"
| "serve srv bc ac SyncPartnersPage u q w = (render srv ''sync_partners.html'' (page ''Sync Partners'' ''sync'') w, w)"
| "serve srv bc ac ImportExportPage u q w = (render srv ''import_export.html'' (page ''Import / Export'' ''import'') w, w)"
| "serve srv bc ac AuditPage u q w = (render srv ''audit.html'' (page ''Audit'' ''audit'') w, w)"
| "serve srv bc ac (Api h) u q w = (case api_call bc ac h u q w of (r, w') \<Rightarrow> (Reply r, w'))"

text \<open>
  The router: \<open>mux\<close> stands for chi, which gets the table and finds the handler of a method and a path
  with the parameters of the path, or answers 404 or 405 itself.
\<close>

type_synonym mux = "route list \<Rightarrow> http_method \<Rightarrow> string \<Rightarrow> (nat, handler \<times> url_params) result"

definition Router ::
  "mux \<Rightarrow> 'tpl http_server \<Rightarrow> body_codecs \<Rightarrow> api_codecs \<Rightarrow> http_request \<Rightarrow> World \<Rightarrow> 'tpl response \<times> World" where
  "Router mx srv bc ac q w =
     (case mx routes (hq_method q) (hq_path q) of
        Inl code \<Rightarrow> (Unrouted code, w)
      | Inr (h, u) \<Rightarrow> serve srv bc ac h u q w)"

text \<open>What the table relies on: a handler is called only for a method it is registered for.\<close>

definition calls_registered :: "mux \<Rightarrow> bool" where
  "calls_registered mx \<longleftrightarrow>
     (\<forall>rs m p h u. mx rs m p = Inr (h, u) \<longrightarrow> (\<exists>pat. (Some m, pat, h) \<in> set rs \<or> (None, pat, h) \<in> set rs))"

section \<open>Lemmas\<close>

subsection \<open>Dispatch\<close>

text \<open>The handlers that only read.\<close>

fun reads_only :: "handler \<Rightarrow> bool" where
  "reads_only (Api h) \<longleftrightarrow> h \<in> {H_Status, H_GetConfig, H_ListForwarders, H_ListDefaults, H_ListRecords, H_GetSettings,
     H_ListPeers, H_PeersStatus, H_Export, H_Audit, H_Test, H_Healthz}"
| "reads_only h \<longleftrightarrow> True"

lemma serve_api [simp]:
  "fst (serve srv bc ac (Api h) u q w) = Reply (fst (api_call bc ac h u q w))"
  "snd (serve srv bc ac (Api h) u q w) = snd (api_call bc ac h u q w)"
  by (simp_all split: prod.split)

declare serve.simps(9) [simp del]

lemma serve_reads_only: "reads_only h \<Longrightarrow> snd (serve srv bc ac h u q w) = w"
  by (cases h) auto

lemma get_routes_read:
  "(m, pat, h) \<in> set routes \<Longrightarrow> m = Some GET \<or> m = None \<Longrightarrow> reads_only h"
  by (auto simp: routes_def api_routes_def)

lemma registered_get:
  "calls_registered mx \<Longrightarrow> mx routes GET p = Inr (h, u) \<Longrightarrow> reads_only h"
proof -
  assume "calls_registered mx" and "mx routes GET p = Inr (h, u)"
  then obtain pat where "(Some GET, pat, h) \<in> set routes \<or> (None, pat, h) \<in> set routes"
    unfolding calls_registered_def by blast
  then show ?thesis using get_routes_read by blast
qed

lemma api_call_inv: "world_inv w \<Longrightarrow> world_inv (snd (api_call bc ac h u q w))"
  by (cases h) (simp_all add: api_handlers_inv)

lemma api_call_engine [simp]: "engine (snd (api_call bc ac h u q w)) = engine w"
  by (cases h) simp_all

lemma Router_inv: "world_inv w \<Longrightarrow> world_inv (snd (Router mx srv bc ac q w))"
proof -
  assume w: "world_inv w"
  have "world_inv (snd (serve srv bc ac h u q w))" for h u
    using w api_call_inv [OF w] by (cases h) simp_all
  then show ?thesis using w by (auto simp: Router_def split: sum.split)
qed

subsection \<open>Templates\<close>

lemma parse_pages_dom:
  "parse_pages parse ps m = Inr parsed \<Longrightarrow> dom parsed = dom m \<union> fst ` set ps"
proof (induction ps arbitrary: m)
  case (Cons p ps)
  then show ?case by (cases p) (auto split: sum.splits)
qed simp

lemma server_New_pages:
  assumes "server_New staticErr tplErr parse order inst = Inr srv" and "set order = set page_files"
  shows "hs_instance srv = inst" and "name \<in> fst ` set page_files \<Longrightarrow> \<exists>t. hs_pages srv name = Some t"
proof -
  obtain parsed where p: "parse_pages parse order Map.empty = Inr parsed"
    "srv = \<lparr>hs_instance = inst, hs_pages = parsed\<rparr>"
    using assms(1) by (auto simp: server_New_def bind_res_def split: option.splits sum.splits)
  show "hs_instance srv = inst" using p(2) by simp
  show "name \<in> fst ` set page_files \<Longrightarrow> \<exists>t. hs_pages srv name = Some t"
    using parse_pages_dom [OF p(1)] assms(2) p(2) by auto
qed

lemma render_page:
  assumes "hs_pages srv name = Some t"
  shows "render srv name (page title act) w =
    Html t name \<lparr>pd_Title = title, pd_Instance = hs_instance srv, pd_Config = map_option Snapshot (wd_current w),
      pd_Status = (if hash (wd_store w) = [] then pd_Status (page title act) else statusView_of w), pd_Active = act\<rparr>"
  using assms by (cases "wd_current w") (simp_all add: render_def page_def Let_def)

subsection \<open>The shared key\<close>

text \<open>The state with another shared key in the configuration in memory.\<close>

definition rekey_file :: "string \<Rightarrow> File \<Rightarrow> File" where
  "rekey_file k f = f\<lparr>f_Peers := (f_Peers f)\<lparr>pr_SharedKey := k\<rparr>\<rparr>"

definition rekey :: "string \<Rightarrow> World \<Rightarrow> World" where
  "rekey k w = w\<lparr>wd := (wd w)\<lparr>dm_store := (dm_store (wd w))\<lparr>current := map_option (rekey_file k) (wd_current w)\<rparr>\<rparr>\<rparr>"

lemma rekey_simps [simp]:
  "wd_current (rekey k w) = map_option (rekey_file k) (wd_current w)" "dm_watcher (wd (rekey k w)) = dm_watcher (wd w)"
  "hash (wd_store (rekey k w)) = hash (wd_store w)" "wd_log (rekey k w) = wd_log w"
  "wd_status (rekey k w) = wd_status w" "wd_instance (rekey k w) = wd_instance w"
  by (simp_all add: rekey_def)

lemma rekey_file_simps [simp]:
  "Snapshot (rekey_file k f) = rekey_file k (Snapshot f)" "f_Version (rekey_file k f) = f_Version f"
  "f_Updated (rekey_file k f) = f_Updated f" "f_UpdatedBy (rekey_file k f) = f_UpdatedBy f"
  "f_Settings (rekey_file k f) = f_Settings f" "f_UpstreamDefaults (rekey_file k f) = f_UpstreamDefaults f"
  "f_ForwardZones (rekey_file k f) = f_ForwardZones f" "f_StaticRecords (rekey_file k f) = f_StaticRecords f"
  "pr_SharedKey (f_Peers (rekey_file k f)) = k" "pr_List (f_Peers (rekey_file k f)) = pr_List (f_Peers f)"
  "pr_Listen (f_Peers (rekey_file k f)) = pr_Listen (f_Peers f)"
  "pr_SyncIntervalSeconds (f_Peers (rekey_file k f)) = pr_SyncIntervalSeconds (f_Peers f)"
  by (simp_all add: rekey_file_def Snapshot_def)

lemma rekey_masked [simp]:
  "(f_Peers (rekey_file k f))\<lparr>pr_SharedKey := []\<rparr> = (f_Peers f)\<lparr>pr_SharedKey := []\<rparr>"
  "(rekey_file k f)\<lparr>f_Peers := p\<rparr> = f\<lparr>f_Peers := p\<rparr>"
  by (simp_all add: rekey_file_def)

text \<open>The requests whose reply carries the key: the configuration, and the export that asks for secrets.\<close>

definition reveals_key :: "api_handler \<Rightarrow> http_request \<Rightarrow> bool" where
  "reveals_key h q \<longleftrightarrow> h = H_GetConfig \<or> h = H_Export \<and> hq_query q ''secrets'' = ''1''"

lemmas read_handler_defs = apiStatus_def apiGetConfig_def apiListForwarders_def apiListDefaults_def apiListRecords_def
  apiGetSettings_def apiListPeers_def apiPeersStatus_def apiExport_def apiAudit_def apiTest_def apiHealthz_def

lemma masked_reply:
  assumes "reads_only (Api h)" and "\<not> reveals_key h q" and "length k = length k'"
  shows "fst (api_call bc ac h u q (rekey k w)) = fst (api_call bc ac h u q (rekey k' w))"
proof -
  have "k = [] \<longleftrightarrow> k' = []" using assms(3) by auto
  then show ?thesis
    using assms by (cases "wd_current w") (auto simp: read_handler_defs reveals_key_def Let_def split: sum.split)
qed

lemma revealed_reply:
  assumes "reveals_key h q" and "wd_current w \<noteq> None"
  shows "\<exists>g. fst (api_call bc ac h u q (rekey k w)) \<in> {(200, JFile g), (200, JExport True g)} \<and>
    pr_SharedKey (f_Peers g) = k"
  using assms by (auto simp: read_handler_defs reveals_key_def Let_def)

lemma revealed_differs:
  assumes "reveals_key h q" and "wd_current w \<noteq> None" and "k \<noteq> k'"
  shows "fst (api_call bc ac h u q (rekey k w)) \<noteq> fst (api_call bc ac h u q (rekey k' w))"
  using revealed_reply [OF assms(1,2), of bc ac u k] revealed_reply [OF assms(1,2), of bc ac u k'] assms(3)
  by fastforce

section \<open>Concrete inputs\<close>

text \<open>A router for the paths without parameters.\<close>

definition exact_mux :: mux where
  "exact_mux rs m p =
     (case List.find (\<lambda>(m', pat, h). (m' = Some m \<or> m' = None) \<and> pat = p) rs of
        None \<Rightarrow> Inl 404
      | Some (m', pat, h) \<Rightarrow> Inr (h, \<lambda>_. []))"

lemma exact_mux_registered: "calls_registered exact_mux"
  unfolding calls_registered_def exact_mux_def
  by (auto simp: find_Some_iff split: option.splits) (metis nth_mem)+

definition sample_bodies :: body_codecs where
  "sample_bodies =
     \<lparr>bc_file = (\<lambda>_. Inl ''EOF''), bc_forwarder = (\<lambda>_. Inl ''EOF''), bc_default = (\<lambda>_. Inl ''EOF''),
      bc_record = (\<lambda>_. Inl ''EOF''), bc_settings = (\<lambda>_. Inl ''EOF''), bc_peer = (\<lambda>_. Inl ''EOF''),
      bc_test = (\<lambda>_. Inl ''EOF''), bc_upload = (\<lambda>_. Inl ''no file''), bc_entry = (\<lambda>_. None)\<rparr>"

definition sample_request :: "http_method \<Rightarrow> string \<Rightarrow> http_request" where
  "sample_request m p =
     \<lparr>hq_method = m, hq_path = p, hq_body = [], hq_query = (\<lambda>_. []), hq_io = calm_api, hq_readErr = None,
      hq_resolve = (\<lambda>_ _ _. Inl ''timeout'')\<rparr>"

text \<open>A server whose templates are the lists of their files.\<close>

definition sample_server :: "string list http_server" where
  "sample_server = \<lparr>hs_instance = ''a'', hs_pages = map_of page_files\<rparr>"

section \<open>Properties\<close>

text \<open>
  A GET request changes nothing, whatever its path: neither the configuration nor the files, the
  log, the watcher or the peers.
\<close>

lemma get_requests_read_only:
  assumes "calls_registered mx" and "hq_method q = GET"
  shows "snd (Router mx srv bc ac q w) = w"
  using assms registered_get [OF assms(1)] by (auto simp: Router_def serve_reads_only split: sum.split)

text \<open>
  C27. Once the server is constructed, in whatever order the templates were parsed, every page of the
  menu has its template: a page never ends in the error for a missing one, and it shows the
  configuration that is in force under the name of this instance.
\<close>

theorem pages_always_render:
  assumes "server_New staticErr tplErr parse order inst = Inr srv" and "set order = set page_files"
    and "h \<in> {Dashboard, ForwardersPage, RecordsPage, SettingsPage, SyncPartnersPage, ImportExportPage, AuditPage}"
  shows "\<exists>t name pd. fst (serve srv bc ac h u q w) = Html t name pd \<and> hs_pages srv name = Some t \<and>
    pd_Instance pd = inst \<and> pd_Config pd = map_option Snapshot (wd_current w) \<and>
    (hash (wd_store w) \<noteq> [] \<longrightarrow> sv_Hash (pd_Status pd) = hash (wd_store w) \<and>
       sv_Version (pd_Status pd) = (case wd_current w of None \<Rightarrow> 0 | Some f \<Rightarrow> f_Version f))"
proof -
  obtain name title act where h: "fst (serve srv bc ac h u q w) = render srv name (page title act) w"
    "name \<in> fst ` set page_files"
    using assms(3) by (auto simp: page_files_def)
  then obtain t where t: "hs_pages srv name = Some t" using server_New_pages(2) [OF assms(1,2)] by blast
  show ?thesis
    unfolding h(1) render_page [OF t] using t server_New_pages(1) [OF assms(1,2)]
    by (auto simp: statusView_of_def Let_def split: prod.split)
qed

theorem pages_always_render_witness:
  "\<exists>t name pd. fst (serve sample_server sample_bodies sample_ac Dashboard (\<lambda>_. []) (sample_request GET ''/'') lone_world) =
     Html t name pd \<and> pd_Config pd = map_option Snapshot (wd_current lone_world)"
proof -
  have "server_New None None Inr (rev page_files) ''a'' = Inr sample_server"
    by (auto simp: server_New_def page_files_def sample_server_def bind_res_def fun_eq_iff)
  from pages_always_render [OF this, of Dashboard sample_bodies sample_ac "\<lambda>_. []" "sample_request GET ''/''" lone_world]
  show ?thesis by auto
qed



end
