(* ===== verification/Process.thy ===== *)
theory Process
  imports Routes
begin

text \<open>
  The process as a whole: how main (cmd/dnsforwarderd/main.go) puts it together, and everything
  that can happen to it afterwards as a machine over events.
\<close>

section \<open>The state at the start\<close>

definition load_world :: "codecs \<Rightarrow> load_io \<Rightarrow> World \<Rightarrow> World" where
  "load_world cd io w =
     (case Load (cd_marshal cd) (cd_unmarshal cd) (cd_sha cd) (cd_env cd) (cd_readFile cd) io
             (dm_store (wd w)) (dm_disk (wd w)) of
        (e, st, dk) \<Rightarrow> w\<lparr>wd := (wd w)\<lparr>dm_store := st, dm_disk := dk\<rparr>\<rparr>)"

definition initial_world :: "string \<Rightarrow> Disk \<Rightarrow> log \<Rightarrow> World" where
  "initial_world inst d lg =
     \<lparr>wd = \<lparr>dm_store = NewStore, dm_disk = d, dm_watcher = watcher_New inst, dm_out = fresh_out, dm_log = lg\<rparr>,
      wd_client = NewClient, wd_status = Map.empty, wd_instance = inst, wd_sent = [],
      wd_listener = None, wd_pulls = []\<rparr>"

section \<open>Starting the process\<close>

definition DefaultPath :: string where
  "DefaultPath = ''/config/dnsforwarder.yaml''"

record flags =
  fl_config :: string
  fl_out :: string
  fl_confName :: string
  fl_unboundBin :: string
  fl_instance :: string
  fl_supervise :: bool

definition flag_defaults :: "(string \<Rightarrow> string) \<Rightarrow> (string, string) result \<Rightarrow> flags" where
  "flag_defaults getenv hostname =
     \<lparr>fl_config = envOr getenv ''DNSFWD_CONFIG'' DefaultPath,
      fl_out = envOr getenv ''DNSFWD_OUT'' ''/etc/unbound'',
      fl_confName = envOr getenv ''DNSFWD_CONF_NAME'' ''unbound.conf'',
      fl_unboundBin = envOr getenv ''DNSFWD_UNBOUND_BIN'' ''unbound'',
      fl_instance = envOr getenv ''DNSFWD_INSTANCE'' (defaultInstance hostname),
      fl_supervise = True\<rparr>"

text \<open>The values strconv.ParseBool accepts.\<close>

definition ParseBool :: "string \<Rightarrow> bool option" where
  "ParseBool s =
     (if s \<in> {''1'', ''t'', ''T'', ''TRUE'', ''true'', ''True''} then Some True
      else if s \<in> {''0'', ''f'', ''F'', ''FALSE'', ''false'', ''False''} then Some False
      else None)"

text \<open>
  flag.Parse over the flags of the command line, each with its value; an unknown flag or a value
  that is not a boolean where one is needed ends the process.
\<close>

definition set_flag :: "string \<Rightarrow> string \<Rightarrow> flags \<Rightarrow> (string, flags) result" where
  "set_flag name v fl =
     (if name = ''config'' then Inr (fl\<lparr>fl_config := v\<rparr>)
      else if name = ''out'' then Inr (fl\<lparr>fl_out := v\<rparr>)
      else if name = ''conf-name'' then Inr (fl\<lparr>fl_confName := v\<rparr>)
      else if name = ''unbound-bin'' then Inr (fl\<lparr>fl_unboundBin := v\<rparr>)
      else if name = ''instance'' then Inr (fl\<lparr>fl_instance := v\<rparr>)
      else if name = ''supervise-unbound'' then
        (case ParseBool v of
           None \<Rightarrow> Inl (''invalid boolean value '' @ quoted v @ '' for -'' @ name)
         | Some b \<Rightarrow> Inr (fl\<lparr>fl_supervise := b\<rparr>))
      else Inl (''flag provided but not defined: -'' @ name))"

fun flag_Parse :: "(string \<times> string) list \<Rightarrow> flags \<Rightarrow> (string, flags) result" where
  "flag_Parse [] fl = Inr fl"
| "flag_Parse ((name, v) # args) fl = bind_res (set_flag name v fl) (flag_Parse args)"

text \<open>
  What main does before its goroutines run freely: load the file (an error is only logged), build
  the server (an error ends the process), start the proxy and hand it to the watcher, name the
  instance, start the peer engine.  The result is the address of the HTTP server and the state.
  The watcher, the supervisor and the servers then contribute the events below.
\<close>

definition SetInstanceID :: "string \<Rightarrow> World \<Rightarrow> World" where
  "SetInstanceID s w = w\<lparr>wd_instance := s\<rparr>"

record 'tpl main_io =
  mi_load :: load_io
  mi_static :: "string option"
  mi_templates :: "string option"
  mi_parse :: "string list \<Rightarrow> (string, 'tpl) result"
  mi_order :: "(string \<times> string list) list"
  mi_proxy :: proxy_env
  mi_crypto :: crypto
  mi_listen :: "string option"

definition main_start ::
  "api_codecs \<Rightarrow> 'tpl main_io \<Rightarrow> flags \<Rightarrow> Disk \<Rightarrow> log \<Rightarrow> (string, 'tpl http_server \<times> string \<times> World) result" where
  "main_start ac io fl d lg =
     (let w = load_world (ac_codecs ac) (mi_load io) (initial_world (fl_instance fl) d lg) in
      bind_res (server_New (mi_static io) (mi_templates io) (mi_parse io) (mi_order io) (fl_instance fl)) (\<lambda>srv.
        let listen = http_listen (wd_current w);
            w = w\<lparr>wd := start_proxy (mi_proxy io) (wd w)\<rparr>;
            w = SetInstanceID (fl_instance fl) w;
            w = startPeerListenerAndClient (mi_crypto io) (mi_listen io) w in
        Inr (srv, listen, w)))"

text \<open>
  The end of main: when the context is done, by a signal or because the HTTP server failed, the HTTP
  server is shut down and the proxy is stopped; both errors are dropped.  \<open>shutdown\<close> is the error of
  the DNS server's Shutdown.
\<close>

definition main_stop :: "string option \<Rightarrow> World \<Rightarrow> stop_outcome \<times> World" where
  "main_stop shutdown w =
     (case w_proxy (dm_watcher (wd w)) of
        None \<Rightarrow> (Stopped None, w)
      | Some p \<Rightarrow>
          (case proxy_Stop shutdown p of
             (r, p') \<Rightarrow> (r, w\<lparr>wd := (wd w)\<lparr>dm_watcher := (dm_watcher (wd w))\<lparr>w_proxy := Some p'\<rparr>\<rparr>\<rparr>)))"

section \<open>The process as a sequence of events\<close>

text \<open>
  Everything that can happen to a process, with its circumstances: the initial load, the first
  apply and the polls of the watcher, the start and the probe passes of the latency proxy, the start
  of the peer engine, pulls of its loops, requests of peers to its listener, requests to any handler of the API, and a foreign
  write to the configuration file.
\<close>

datatype event =
    LoadConfig load_io
  | InitialApply apply_io
  | Poll tick_io
  | StartPeers crypto "string option"
  | Pull nat pull_io "nat \<Rightarrow> retry_io"
  | PeerRequest items_io sink_io "string \<Rightarrow> http_reply" string peer_request
  | ApiRequest body_codecs api_handler url_params http_request
  | StartProxy proxy_env
  | ProxyTick "string \<Rightarrow> string" pass_io
  | ForeignWrite "string option"

primrec exec :: "api_codecs \<Rightarrow> event \<Rightarrow> World \<Rightarrow> World" where
  "exec ac (LoadConfig io) w = load_world (ac_codecs ac) io w"
| "exec ac (InitialApply io) w = w\<lparr>wd := snd (apply_daemon (ac_codecs ac) io ''initial'' (wd w))\<rparr>"
| "exec ac (Poll io) w = w\<lparr>wd := poll_tick (ac_codecs ac) io (wd w)\<rparr>"
| "exec ac (StartPeers c l) w = startPeerListenerAndClient c l w"
| "exec ac (Pull n io ios) w = pull_turn (ac_wire ac) (ac_codecs ac) n io ios w"
| "exec ac (PeerRequest io sio unmatched path r) w =
     (case peer_serve (ac_wire ac) (ac_codecs ac) io sio unmatched path r w of None \<Rightarrow> w | Some (reply, w') \<Rightarrow> w')"
| "exec ac (ApiRequest bc h u q) w = snd (api_call bc ac h u q w)"
| "exec ac (StartProxy pe) w = w\<lparr>wd := start_proxy pe (wd w)\<rparr>"
| "exec ac (ProxyTick fqdn io) w = w\<lparr>wd := proxy_tick fqdn io (wd w)\<rparr>"
| "exec ac (ForeignWrite c) w = w\<lparr>wd := (wd w)\<lparr>dm_disk := (dm_disk (wd w))\<lparr>d_file := c\<rparr>\<rparr>\<rparr>"

section \<open>Lemmas\<close>

lemma load_world_inv: "world_inv w \<Longrightarrow> world_inv (load_world cd io w)"
  by (auto simp: load_world_def world_inv_def daemon_inv_def split: prod.split dest: Load_inv)

lemma exec_inv: "world_inv w \<Longrightarrow> world_inv (exec ac e w)"
proof (cases e)
  case (Poll io)
  assume "world_inv w"
  then show ?thesis using Poll poll_tick_inv by (simp add: world_inv_def)
next
  case (InitialApply io)
  assume "world_inv w"
  then show ?thesis using InitialApply apply_daemon_inv by (simp add: world_inv_def)
next
  case (StartPeers c l)
  assume "world_inv w"
  then show ?thesis using StartPeers
    by (auto simp: startPeerListenerAndClient_def world_inv_def daemon_inv_def store_inv_def SetOnApply_def
        SetOnSave_def split: option.split sum.split)
next
  case (PeerRequest io sio unmatched path r)
  assume "world_inv w"
  then show ?thesis using PeerRequest by (auto split: option.split dest: peer_serve_keeps(1))
next
  case (StartProxy pe)
  assume "world_inv w"
  then show ?thesis using StartProxy start_proxy_inv by (simp add: world_inv_def)
next
  case (ProxyTick fqdn io)
  assume "world_inv w"
  then show ?thesis using ProxyTick proxy_tick_inv by (simp add: world_inv_def)
next
  case (ForeignWrite c)
  assume "world_inv w"
  then show ?thesis using ForeignWrite by (simp add: world_inv_def daemon_inv_def)
qed (simp_all add: load_world_inv pull_turn_inv api_call_inv)

lemma run_events_inv: "world_inv w \<Longrightarrow> world_inv (fold (exec ac) es w)"
  by (induction es arbitrary: w) (simp_all add: exec_inv)

text \<open>Only its start sets up the peer engine.\<close>

fun starts_peers :: "event \<Rightarrow> bool" where
  "starts_peers (StartPeers c l) \<longleftrightarrow> True"
| "starts_peers e \<longleftrightarrow> False"

lemma exec_engine: "\<not> starts_peers e \<Longrightarrow> engine (exec ac e w) = engine w"
proof (cases e)
  case (PeerRequest io sio unmatched path r)
  then show ?thesis by (auto split: option.split dest: peer_serve_keeps(2))
qed (auto simp: load_world_def pull_turn_def split: prod.split option.split)

lemma run_events_engine: "list_all (\<lambda>e. \<not> starts_peers e) es \<Longrightarrow> engine (fold (exec ac) es w) = engine w"
  by (induction es arbitrary: w) (simp_all add: exec_engine)

lemma initial_world_inv: "world_inv (initial_world inst d lg)"
  by (simp add: initial_world_def world_inv_def daemon_inv_def store_inv_def NewStore_def conf_inv_def fresh_out_def)

text \<open>The start of the process is a run of three events.\<close>

lemma main_start_events:
  "main_start ac io fl d lg = Inr (srv, listen, w) \<Longrightarrow>
   w = fold (exec ac) [LoadConfig (mi_load io), StartProxy (mi_proxy io), StartPeers (mi_crypto io) (mi_listen io)]
     (initial_world (fl_instance fl) d lg)"
proof -
  have same: "SetInstanceID inst ((load_world cd lio (initial_world inst d lg))\<lparr>wd := x\<rparr>) =
      (load_world cd lio (initial_world inst d lg))\<lparr>wd := x\<rparr>" for cd lio inst x
    by (simp add: SetInstanceID_def load_world_def initial_world_def split: prod.split)
  show "main_start ac io fl d lg = Inr (srv, listen, w) \<Longrightarrow> ?thesis"
    by (auto simp: main_start_def Let_def bind_res_def same split: sum.splits)
qed

text \<open>A file that cannot be read leaves the process without a configuration, and without the peer engine.\<close>

lemma main_start_unreadable:
  assumes "main_start ac io fl d lg = Inr (srv, listen, w)" and "l_read (mi_load io) = None"
    and "d_file d = Some data" and "cd_unmarshal (ac_codecs ac) data = Inl e"
  shows "wd_current w = None" "\<not> onApply (wd_store w)" "listen = ''0.0.0.0:80''" "dm_disk (wd w) = d"
  using assms
  by (auto simp: main_start_def Let_def bind_res_def load_world_def initial_world_def Load_def NewStore_def
      start_proxy_def SetInstanceID_def startPeerListenerAndClient_def http_listen_def split: sum.splits)

text \<open>A save without a configuration in memory starts from the defaults.\<close>

lemma api_save_from_defaults:
  assumes "wd_current w = None" and "\<not> onApply (wd_store w)" and "io_ok (ch_save io)"
    and "m (Clone (DefaultConfig (io_now_default (ch_save io)))) = Inr draft" and "file_ok draft"
    and "cd_marshal (ac_codecs ac) (saved_file (ch_save io) actor draft) = Inr data"
  shows "\<exists>w'. api_save ac io actor (unshared m) w = (Inr (saved_file (ch_save io) actor draft), w') \<and>
    wd_current w' = Some (saved_file (ch_save io) actor draft) \<and> d_file (dm_disk (wd w')) = Some data"
proof -
  let ?f = "saved_file (ch_save io) actor draft" and ?cd = "ac_codecs ac"
  have "alias_peers ps (wd_store w) = wd_store w" for ps using assms(1) by (simp add: alias_peers_def)
  then have "Save (cd_marshal ?cd) (cd_sha ?cd) (ch_save io) actor (Some (unshared m)) (wd_store w) (dm_disk (wd w)) =
      (Inr ?f, setCurrent ?f (cd_sha ?cd data) (wd_store w),
       (dm_disk (wd w))\<lparr>d_file := Some data, d_tmp := None\<rparr>, fireOnSave (wd_store w) @ fireOnApply (wd_store w))"
    using assms(1,3,4) save_commit_ok [OF assms(3,5), of "cd_marshal ?cd" actor data "cd_sha ?cd"] assms(6)
    by (simp add: Save_def unshared_def Let_def io_ok_def)
  then show ?thesis
    using assms(2) by (auto simp: api_save_def save_world_def fireOnSave_def fireOnApply_def)
qed

lemma afterSave_disk: "dm_disk (wd (snd (afterSave ac io reason w))) = dm_disk (wd w)"
proof (cases "apply_daemon (ac_codecs ac) (ai_apply io) ''api-save'' (wd w)")
  case (Pair e d)
  then show ?thesis
    using apply_daemon_store(2) [of "ac_codecs ac" "ai_apply io" "''api-save''" "wd w"]
    by (cases e) (simp_all add: afterSave_def)
qed

text \<open>The proxy is stopped without a panic, whatever has happened since the start.\<close>

lemma main_stop_clean: "fst (main_stop shutdown (fold (exec ac) es (initial_world inst d lg))) \<noteq> StopPanic"
proof -
  let ?w = "fold (exec ac) es (initial_world inst d lg)"
  have "world_inv ?w" by (rule run_events_inv [OF initial_world_inv])
  then have "\<forall>p. w_proxy (dm_watcher (wd ?w)) = Some p \<longrightarrow> proxy_inv p"
    by (simp add: world_inv_def daemon_inv_def watcher_inv_def)
  then show ?thesis
    using proxy_Stop_clean by (auto simp: main_stop_def split: option.split prod.split) (metis fst_conv stop_outcome.distinct(1))
qed

section \<open>Properties\<close>

text \<open>
  C3. The invariant of the whole process: after any sequence of events (loads, polls, pulls,
  probe passes, requests of peers and of the API, foreign writes to the file), with any outcomes of
  the system calls, the configuration in memory is one that Validate accepts unchanged, the file
  unbound runs on, if there is one, was generated from such a configuration, and the table of the
  latency proxy leads from each name to a state of that name.
\<close>

theorem process_stays_valid:
  "pred_option (\<lambda>f. Validate f = Inr f) (wd_current (fold (exec ac) es (initial_world inst d lg))) \<and>
   pred_option (\<lambda>t. \<exists>f. Validate f = Inr f \<and> t = Generate f)
     (o_conf (dm_out (wd (fold (exec ac) es (initial_world inst d lg))))) \<and>
   pred_option proxy_inv (w_proxy (dm_watcher (wd (fold (exec ac) es (initial_world inst d lg)))))"
proof -
  have valid: "complete_file f \<Longrightarrow> Validate f = Inr f" for f by (simp add: complete_file_def Validate_Inr_iff)
  define w where "w = fold (exec ac) es (initial_world inst d lg)"
  have "world_inv w" unfolding w_def by (rule run_events_inv [OF initial_world_inv])
  then have inv: "store_inv (wd_store w)" "conf_inv (dm_out (wd w))" "watcher_inv (dm_watcher (wd w))"
    by (simp_all add: world_inv_def daemon_inv_def)
  show ?thesis unfolding w_def [symmetric]
  proof (intro conjI)
    show "pred_option (\<lambda>f. Validate f = Inr f) (wd_current w)"
      using inv(1) valid by (cases "wd_current w") (auto simp: store_inv_def)
    show "pred_option (\<lambda>t. \<exists>f. Validate f = Inr f \<and> t = Generate f) (o_conf (dm_out (wd w)))"
      using inv(2) valid by (cases "o_conf (dm_out (wd w))") (auto simp: conf_inv_def)
    show "pred_option proxy_inv (w_proxy (dm_watcher (wd w)))"
      using inv(3) by (cases "w_proxy (dm_watcher (wd w))") (auto simp: watcher_inv_def)
  qed
qed


definition broken_codecs :: api_codecs where
  "broken_codecs = sample_ac\<lparr>ac_codecs := sample_codecs\<lparr>cd_unmarshal := (\<lambda>_. Inl ''yaml: line 1'')\<rparr>\<rparr>"

definition calm_main :: "string list main_io" where
  "calm_main =
     \<lparr>mi_load = boot_io, mi_static = None, mi_templates = None, mi_parse = Inr, mi_order = page_files,
      mi_proxy = no_probe, mi_crypto = toy_crypto, mi_listen = None\<rparr>"

definition host_body :: recordBody where
  "host_body =
     \<lparr>rb_Name = ''host.corp.example.com'', rb_Type = ''a'', rb_Value = ''10.1.2.3'', rb_TTL = 60,
      rb_DoNotSync = False, rb_SyncPeers = []\<rparr>"


text \<open>
  C31. The peer engine keeps the settings it was started with.  After any events that put another
  shared key into force (an edit of the file, say), the listener refuses the peers that present the
  current key with 401 and still answers those that present the old one; and the peers that are
  pulled from are those of the start, whoever was added or removed.
\<close>

theorem engine_keeps_old_key:
  assumes "wd_listener w = Some (cfg, tls)" and "list_all (\<lambda>e. \<not> starts_peers e) es" and "w' = fold (exec ac) es w"
    and "wd_current w' = Some f" and "pr_SharedKey (f_Peers f) \<noteq> lc_PSK cfg" and "lc_PSK cfg \<noteq> []"
    and "peer_mux path \<noteq> None" and "qr_token r = pr_SharedKey (f_Peers f)" and "qr_token r' = lc_PSK cfg"
  shows "peer_serve wr cd io sio unmatched path r w' = Some ((401, JSONError ''missing or invalid X-Peer-Token''), w') \<and>
    peer_serve wr cd io sio unmatched ''/peer/v1/healthz'' r' w' = Some ((200, Text ''ok''), w') \<and>
    wd_pulls w' = wd_pulls w"
proof -
  have e: "wd_listener w' = Some (cfg, tls)" "wd_pulls w' = wd_pulls w"
    using run_events_engine [OF assms(2), of ac w] assms(1,3) by (auto simp: engine_def)
  have a: "requireAuth cfg r = Some (401, JSONError ''missing or invalid X-Peer-Token'')" "requireAuth cfg r' = None"
    using assms(5,6,8,9) by (simp_all add: requireAuth_def AuthOK_def)
  have p: "peer_mux ''/peer/v1/healthz'' = Some HandleHealthz" by (simp add: peer_mux_def)
  obtain h where "peer_mux path = Some h" using assms(7) by blast
  then show ?thesis
    using e a p
    by (cases h) (simp_all add: peer_serve_def NewListener_def handleItems_def handleManifest_def handleHealthz_def)
qed

definition rotated :: File where
  "rotated = rekey_file ''k2'' keyed_default"

definition rotating_ac :: api_codecs where
  "rotating_ac = sample_ac\<lparr>ac_codecs := sample_codecs\<lparr>cd_unmarshal := (\<lambda>_. Inr rotated)\<rparr>\<rparr>"

lemma rotated_valid: "Validate rotated = Inr rotated"
proof -
  have "file_ok rotated" using file_ok_keyed by (simp add: rotated_def rekey_file_def file_ok_def)
  moreover have "filled rotated = rotated"
    by (simp add: rotated_def rekey_file_def keyed_default_def DefaultConfig_def filled_def Settings_WithDefaults_def
        Peers_WithDefaults_def UpstreamDefault_defaults_def)
  ultimately show ?thesis by (simp add: Validate_Inr_iff)
qed

theorem engine_keeps_old_key_witness:
  "\<exists>w'. w' = fold (exec rotating_ac) [Poll \<lparr>tk_read = None, tk_apply = calm_apply\<rparr>] (startPeerListenerAndClient toy_crypto None idle_world) \<and>
     wd_current w' = Some rotated \<and>
     peer_serve plain_wire sample_codecs \<lparr>it_now = 5, it_audit = audit_ok_io\<rparr>
       \<lparr>sk_merge_now = 5, sk_mark = 5, sk_retry = (\<lambda>_. \<lparr>rt_merge_now = 5, rt_change = calm_change\<rparr>)\<rparr> (\<lambda>_. (404, Text []))
       ''/peer/v1/items'' \<lparr>qr_method = ''GET'', qr_token = ''k2'', qr_since = [], qr_body = Inl ''EOF''\<rparr> w' =
     Some ((401, JSONError ''missing or invalid X-Peer-Token''), w')"
proof -
  let ?w = "startPeerListenerAndClient toy_crypto None idle_world" and ?tick = "\<lparr>tk_read = None, tk_apply = calm_apply\<rparr>"
  let ?cfg = "listener_config ''a'' (f_Peers keyed_default)"
  let ?w' = "fold (exec rotating_ac) [Poll ?tick] ?w"
  let ?r = "\<lambda>k. \<lparr>qr_method = ''GET'', qr_token = k, qr_since = [], qr_body = Inl ''EOF''\<rparr>"
  have k: "pr_SharedKey (f_Peers keyed_default) = ''k''" "wd_instance idle_world = ''a''"
    by (simp_all add: keyed_default_def idle_world_def)
  obtain tls where tls: "listener_Start ?cfg toy_crypto None = Inr tls"
    using k by (simp add: listener_Start_def StartTLS_def tlsConfigForServer_def toy_cert listener_config_def)
  have w: "wd_listener ?w = Some (?cfg, tls)" "dm_disk (wd ?w) = dm_disk (wd idle_world)" "hash (wd_store ?w) = hash (wd_store idle_world)"
    using tls k by (simp_all add: startPeerListenerAndClient_def SetOnApply_def SetOnSave_def)
  have d: "d_file (dm_disk (wd ?w)) = Some ''doc''" "hash (wd_store ?w) = ''h''"
    unfolding w by (simp_all add: idle_world_def idle_daemon_def SetOnSave_def)
  have cd: "cd_unmarshal (ac_codecs rotating_ac) = (\<lambda>_. Inr rotated)" "cd_sha (ac_codecs rotating_ac) = (\<lambda>x. x)"
    "cd_env (ac_codecs rotating_ac) = (\<lambda>_. None)" "cd_readFile (ac_codecs rotating_ac) = (\<lambda>_. None)"
    by (simp_all add: rotating_ac_def sample_codecs_def)
  have "wd_current ?w' = Some rotated"
    using d cd rotated_valid by (simp add: poll_tick_def ReloadIfChanged_def case_prod_beta)
  moreover have "pr_SharedKey (f_Peers rotated) = ''k2''" by (simp add: rotated_def)
  ultimately show ?thesis
    using engine_keeps_old_key [OF w(1), of "[Poll ?tick]" ?w' rotating_ac rotated "''/peer/v1/items''" "?r ''k2''" "?r ''k''"] k(1)
    by (simp add: listener_config_def peer_mux_def)
qed

end
