(* ===== verification/Replicas.thy ===== *)
theory Replicas
  imports Store
begin

text \<open>
  Several processes that share one configuration file, as the README's deployment has them: the
  steps of Store.Save (internal/config/store.go) taken apart at every point where another process
  can get in between, the polls of ReloadIfChanged at any moment, and crashes, which release the
  lock of the operating system and lose the memory of the process.  Writing the temporary file is
  not atomic, renaming it is.
\<close>

section \<open>Steps\<close>

text \<open>What Save computes under the lock before it touches the disk: the validated draft and its
  bytes.\<close>

definition prepare ::
  "(File \<Rightarrow> (string, string) result) \<Rightarrow> save_io \<Rightarrow> string \<Rightarrow> (File \<Rightarrow> (string, File) result) \<Rightarrow> Store \<Rightarrow>
   (err, File \<times> string) result" where
  "prepare marshal io actor m s =
     (let cur = (case current s of None \<Rightarrow> DefaultConfig (io_now_default io) | Some c \<Rightarrow> c) in
      case m (Clone cur) of
        Inl e \<Rightarrow> Inl (ErrMutate e)
      | Inr draft \<Rightarrow>
          (case Validate (stampItems (io_now_stamp io) actor
                  (draft\<lparr>f_Updated := io_now_updated io, f_UpdatedBy := actor, f_Version := CurrentVersion\<rparr>)) of
             Inl e \<Rightarrow> Inl (ErrValidate e)
           | Inr f \<Rightarrow>
               (case marshal f of
                  Inl e \<Rightarrow> Inl (ErrMarshal e)
                | Inr data \<Rightarrow> Inr (f, data))))"

text \<open>Where a process is inside Save.\<close>

datatype phase =
    NoSave
  | Locked
  | Drafted File string
  | Writing File string
  | Written File string
  | Renamed File string

record Cluster =
  cl_disk :: Disk
  cl_lock :: "nat option"
  cl_store :: "nat \<Rightarrow> Store"
  cl_phase :: "nat \<Rightarrow> phase"

definition at_phase :: "nat \<Rightarrow> phase \<Rightarrow> Cluster \<Rightarrow> Cluster" where
  "at_phase i p c = c\<lparr>cl_phase := (cl_phase c)(i := p)\<rparr>"

definition release :: "nat \<Rightarrow> Cluster \<Rightarrow> Cluster" where
  "release i c = at_phase i NoSave (c\<lparr>cl_lock := None\<rparr>)"

definition with_tmp :: "string option \<Rightarrow> Cluster \<Rightarrow> Cluster" where
  "with_tmp t c = c\<lparr>cl_disk := (cl_disk c)\<lparr>d_tmp := t\<rparr>\<rparr>"

definition with_store :: "nat \<Rightarrow> Store \<Rightarrow> Cluster \<Rightarrow> Cluster" where
  "with_store i s c = c\<lparr>cl_store := (cl_store c)(i := s)\<rparr>"

definition renamed :: "Cluster \<Rightarrow> Cluster" where
  "renamed c = c\<lparr>cl_disk := \<lparr>d_file = d_tmp (cl_disk c), d_tmp = None\<rparr>\<rparr>"

text \<open>A save that finds the lock taken returns ErrLocked and changes nothing: it is no step.\<close>

inductive replica_step ::
  "(File \<Rightarrow> (string, string) result) \<Rightarrow> (string \<Rightarrow> (string, File) result) \<Rightarrow> (string \<Rightarrow> string) \<Rightarrow>
   (string \<Rightarrow> string option) \<Rightarrow> (string \<Rightarrow> string option) \<Rightarrow> Cluster \<Rightarrow> Cluster \<Rightarrow> bool"
  for marshal unmarshal sha env readFile where
  acquire: "cl_lock c = None \<Longrightarrow> cl_phase c i = NoSave \<Longrightarrow>
    replica_step marshal unmarshal sha env readFile c (at_phase i Locked (c\<lparr>cl_lock := Some i\<rparr>))"
| refuse: "cl_phase c i = Locked \<Longrightarrow> prepare marshal io actor m (cl_store c i) = Inl e \<Longrightarrow>
    replica_step marshal unmarshal sha env readFile c (release i c)"
| draft: "cl_phase c i = Locked \<Longrightarrow> prepare marshal io actor m (cl_store c i) = Inr (f, data) \<Longrightarrow>
    replica_step marshal unmarshal sha env readFile c (at_phase i (Drafted f data) c)"
| write_part: "cl_phase c i = Drafted f data \<Longrightarrow>
    replica_step marshal unmarshal sha env readFile c (at_phase i (Writing f data) (with_tmp (Some part) c))"
| write_error: "cl_phase c i = Writing f data \<Longrightarrow>
    replica_step marshal unmarshal sha env readFile c (release i c)"
| write_all: "cl_phase c i = Writing f data \<Longrightarrow>
    replica_step marshal unmarshal sha env readFile c (at_phase i (Written f data) (with_tmp (Some data) c))"
| rename_error: "cl_phase c i = Written f data \<Longrightarrow>
    replica_step marshal unmarshal sha env readFile c (release i c)"
| rename: "cl_phase c i = Written f data \<Longrightarrow>
    replica_step marshal unmarshal sha env readFile c (at_phase i (Renamed f data) (renamed c))"
| commit: "cl_phase c i = Renamed f data \<Longrightarrow>
    replica_step marshal unmarshal sha env readFile c
      (release i (with_store i (setCurrent f (sha data) (cl_store c i)) c))"
| poll: "ReloadIfChanged unmarshal sha env readFile readErr (cl_store c i) (cl_disk c) = (ch, e, s) \<Longrightarrow>
    replica_step marshal unmarshal sha env readFile c (with_store i s c)"
| crash: "replica_step marshal unmarshal sha env readFile c
      (with_store i NewStore (at_phase i NoSave (c\<lparr>cl_lock := (if cl_lock c = Some i then None else cl_lock c)\<rparr>)))"

definition fresh_cluster :: "Disk \<Rightarrow> Cluster" where
  "fresh_cluster d = \<lparr>cl_disk = d, cl_lock = None, cl_store = (\<lambda>_. NewStore), cl_phase = (\<lambda>_. NoSave)\<rparr>"

section \<open>Invariant\<close>

text \<open>The bytes of some valid configuration, complete.\<close>

definition whole :: "(File \<Rightarrow> (string, string) result) \<Rightarrow> string \<Rightarrow> bool" where
  "whole marshal data \<longleftrightarrow> (\<exists>f. complete_file f \<and> marshal f = Inr data)"

fun phase_ok :: "(File \<Rightarrow> (string, string) result) \<Rightarrow> Disk \<Rightarrow> phase \<Rightarrow> bool" where
  "phase_ok marshal d NoSave \<longleftrightarrow> True"
| "phase_ok marshal d Locked \<longleftrightarrow> True"
| "phase_ok marshal d (Drafted f data) \<longleftrightarrow> complete_file f \<and> marshal f = Inr data"
| "phase_ok marshal d (Writing f data) \<longleftrightarrow> complete_file f \<and> marshal f = Inr data"
| "phase_ok marshal d (Written f data) \<longleftrightarrow> complete_file f \<and> marshal f = Inr data \<and> d_tmp d = Some data"
| "phase_ok marshal d (Renamed f data) \<longleftrightarrow> complete_file f \<and> marshal f = Inr data \<and> d_file d = Some data"

definition cluster_inv :: "(File \<Rightarrow> (string, string) result) \<Rightarrow> string option \<Rightarrow> Cluster \<Rightarrow> bool" where
  "cluster_inv marshal content c \<longleftrightarrow>
     (\<forall>i. cl_phase c i \<noteq> NoSave \<longrightarrow> cl_lock c = Some i) \<and>
     (\<forall>i. phase_ok marshal (cl_disk c) (cl_phase c i)) \<and>
     (\<forall>i. store_inv (cl_store c i)) \<and>
     (d_file (cl_disk c) = content \<or> (\<exists>data. d_file (cl_disk c) = Some data \<and> whole marshal data))"

lemma cluster_simps [simp]:
  "cl_disk (at_phase i p c) = cl_disk c" "cl_lock (at_phase i p c) = cl_lock c"
  "cl_store (at_phase i p c) = cl_store c" "cl_phase (at_phase i p c) = (cl_phase c)(i := p)"
  "cl_disk (release i c) = cl_disk c" "cl_lock (release i c) = None"
  "cl_store (release i c) = cl_store c" "cl_phase (release i c) = (cl_phase c)(i := NoSave)"
  "cl_disk (with_tmp t c) = (cl_disk c)\<lparr>d_tmp := t\<rparr>" "cl_lock (with_tmp t c) = cl_lock c"
  "cl_store (with_tmp t c) = cl_store c" "cl_phase (with_tmp t c) = cl_phase c"
  "cl_disk (with_store i s c) = cl_disk c" "cl_lock (with_store i s c) = cl_lock c"
  "cl_store (with_store i s c) = (cl_store c)(i := s)" "cl_phase (with_store i s c) = cl_phase c"
  "cl_disk (renamed c) = \<lparr>d_file = d_tmp (cl_disk c), d_tmp = None\<rparr>" "cl_lock (renamed c) = cl_lock c"
  "cl_store (renamed c) = cl_store c" "cl_phase (renamed c) = cl_phase c"
  by (simp_all add: at_phase_def release_def with_tmp_def with_store_def renamed_def)

lemma fresh_cluster_inv: "cluster_inv marshal (d_file d) (fresh_cluster d)"
  by (simp add: cluster_inv_def fresh_cluster_def store_inv_def NewStore_def)

lemma prepare_Inr:
  assumes "prepare marshal io actor m s = Inr (f, data)"
  shows "complete_file f \<and> marshal f = Inr data"
  using assms by (auto simp: prepare_def Let_def Validate_Inr_iff complete_file_filled split: sum.splits)

text \<open>A phase that holds the lock is the only one: the others are \<open>NoSave\<close>.\<close>

lemma only_holder:
  assumes "cluster_inv marshal content c" and "cl_phase c i \<noteq> NoSave \<or> cl_lock c = None" and "j \<noteq> i"
  shows "cl_phase c j = NoSave"
proof (rule ccontr)
  assume "cl_phase c j \<noteq> NoSave"
  then have "cl_lock c = Some j" using assms(1) by (simp add: cluster_inv_def)
  moreover have "cl_phase c i \<noteq> NoSave \<Longrightarrow> cl_lock c = Some i" using assms(1) by (simp add: cluster_inv_def)
  ultimately show False using assms(2,3) by auto
qed

text \<open>A step of the process that holds the lock, or takes it.\<close>

lemma holder_step:
  assumes "cluster_inv marshal content c" and "cl_phase c i \<noteq> NoSave \<or> cl_lock c = None"
    and "cl_phase c' = (cl_phase c)(i := p)" and "p \<noteq> NoSave \<Longrightarrow> cl_lock c' = Some i"
    and "phase_ok marshal (cl_disk c') p" and "\<And>j. store_inv (cl_store c' j)"
    and "d_file (cl_disk c') = content \<or> (\<exists>data. d_file (cl_disk c') = Some data \<and> whole marshal data)"
  shows "cluster_inv marshal content c'"
proof -
  have none: "cl_phase c' j = NoSave" if "j \<noteq> i" for j
    using only_holder [OF assms(1,2) that] assms(3) that by simp
  have self: "cl_phase c' i = p" using assms(3) by simp
  show ?thesis unfolding cluster_inv_def
  proof (intro conjI allI impI)
    fix j
    show "cl_lock c' = Some j" if "cl_phase c' j \<noteq> NoSave"
      using that none self assms(4) by (cases "j = i") auto
    show "phase_ok marshal (cl_disk c') (cl_phase c' j)"
      using none self assms(5) by (cases "j = i") auto
  qed (use assms(6,7) in blast)+
qed

lemma cluster_invD:
  assumes "cluster_inv marshal content c"
  shows "store_inv (cl_store c i)" and "phase_ok marshal (cl_disk c) (cl_phase c i)"
    and "d_file (cl_disk c) = content \<or> (\<exists>data. d_file (cl_disk c) = Some data \<and> whole marshal data)"
    and "cl_phase c i \<noteq> NoSave \<Longrightarrow> cl_lock c = Some i"
  using assms by (simp_all add: cluster_inv_def)

lemma with_store_inv:
  assumes "cluster_inv marshal content c" and "store_inv s"
  shows "cluster_inv marshal content (with_store i s c)"
  using assms by (simp add: cluster_inv_def)

lemma crash_inv:
  assumes "cluster_inv marshal content c"
  shows "cluster_inv marshal content
    (at_phase i NoSave (c\<lparr>cl_lock := (if cl_lock c = Some i then None else cl_lock c)\<rparr>))"
  using assms by (auto simp: cluster_inv_def)

lemma NewStore_inv: "store_inv NewStore"
  by (simp add: store_inv_def NewStore_def)

lemma replica_step_inv:
  assumes "replica_step marshal unmarshal sha env readFile c c'" and inv: "cluster_inv marshal content c"
  shows "cluster_inv marshal content c'"
proof -
  note base = cluster_invD(1,3) [OF inv]
  have lock: "cl_lock c = Some i" if "cl_phase c i = p" "p \<noteq> NoSave" for i p
    using cluster_invD(4) [OF inv] that by simp
  have ph: "phase_ok marshal (cl_disk c) p" if "cl_phase c i = p" for i p
    using cluster_invD(2) [OF inv, of i] that by simp
  show ?thesis using assms(1)
  proof cases
    case (acquire i)
    then show ?thesis by (intro holder_step [OF inv, where i = i and p = "Locked"]) (use base in simp_all)
  next
    case (refuse i io actor m e)
    then show ?thesis by (intro holder_step [OF inv, where i = i and p = "NoSave"]) (use base in simp_all)
  next
    case (draft i io actor m f data)
    then show ?thesis
      by (intro holder_step [OF inv, where i = i and p = "Drafted f data"]) (use base lock [OF draft(2)] prepare_Inr [OF draft(3)] in simp_all)
  next
    case (write_part i f data part)
    then show ?thesis
      by (intro holder_step [OF inv, where i = i and p = "Writing f data"]) (use base lock [OF write_part(2)] ph [OF write_part(2)] in simp_all)
  next
    case (write_error i f data)
    then show ?thesis by (intro holder_step [OF inv, where i = i and p = "NoSave"]) (use base in simp_all)
  next
    case (write_all i f data)
    then show ?thesis
      by (intro holder_step [OF inv, where i = i and p = "Written f data"]) (use base lock [OF write_all(2)] ph [OF write_all(2)] in simp_all)
  next
    case (rename_error i f data)
    then show ?thesis by (intro holder_step [OF inv, where i = i and p = "NoSave"]) (use base in simp_all)
  next
    case (rename i f data)
    then show ?thesis
      by (intro holder_step [OF inv, where i = i and p = "Renamed f data"])
        (use base lock [OF rename(2)] ph [OF rename(2)] in \<open>auto simp: whole_def\<close>)
  next
    case (commit i f data)
    then show ?thesis
      by (intro holder_step [OF inv, where i = i and p = "NoSave"]) (use base ph [OF commit(2)] in auto)
  next
    case (poll readErr i ch e s)
    then show ?thesis
      using with_store_inv [OF inv] ReloadIfChanged_inv [OF cluster_invD(1) [OF inv]] by blast
  next
    case (crash i)
    have "cluster_inv marshal content (with_store i NewStore
        (at_phase i NoSave (c\<lparr>cl_lock := (if cl_lock c = Some i then None else cl_lock c)\<rparr>)))"
      by (intro with_store_inv crash_inv inv NewStore_inv)
    then show ?thesis using crash by (simp only:)
  qed
qed

lemma replica_steps_inv:
  "(replica_step marshal unmarshal sha env readFile)\<^sup>*\<^sup>* c c' \<Longrightarrow> cluster_inv marshal content c \<Longrightarrow>
   cluster_inv marshal content c'"
  by (induction rule: rtranclp_induct) (auto intro: replica_step_inv)

section \<open>The steps add up to Save\<close>

text \<open>Nothing is gained or lost by taking Save apart: run without interruption by a process that
  has a configuration, its steps have exactly the effect of Save.\<close>

lemma Save_prepare:
  assumes "Save marshal sha io actor (Some (unshared m)) s d = (Inr f, s', d', hs)" and "current s = Some c"
  shows "\<exists>data. prepare marshal io actor m s = Inr (f, data) \<and> s' = setCurrent f (sha data) s \<and>
    d' = d\<lparr>d_file := Some data, d_tmp := None\<rparr>"
proof -
  have io: "io_mkdir io = None" "io_open io = None" "io_flock io = FlockOK"
    using assms(1) by (auto simp: Save_def split: option.splits flock_result.splits)
  then obtain draft where dr: "m (Snapshot c) = Inr draft"
    and sc: "save_commit marshal sha io actor draft s d = (Inr f, s', d', hs)"
    using assms by (auto simp: Save_unshared split: sum.splits)
  from sc show ?thesis
    by (rule save_commit_success)
      (use sc dr assms(2) in \<open>auto simp: save_commit_def prepare_def Let_def split: sum.splits option.splits\<close>)
qed

section \<open>Two changes at once\<close>

text \<open>The mutation of apiAddForwarder.\<close>

definition append_zone :: "ForwardZone \<Rightarrow> File \<Rightarrow> (string, File) result" where
  "append_zone z f = Inr (f\<lparr>f_ForwardZones := f_ForwardZones f @ [z]\<rparr>)"

definition zone_ids :: "File \<Rightarrow> string set" where
  "zone_ids f = z_ID ` set (f_ForwardZones f)"

lemma prepare_saved:
  assumes "prepare marshal io actor m s = Inr (f, data)" and "current s = Some c" and "m (Snapshot c) = Inr draft"
  shows "f = saved_file io actor draft"
  using assms by (simp add: prepare_def Let_def Validate_Inr_iff saved_file_def split: sum.splits)

lemma zone_ids_saved: "zone_ids (saved_file io actor f) = zone_ids f"
  by (simp add: zone_ids_def image_image)

lemma prepare_append_zone:
  assumes "prepare marshal io actor (append_zone z) s = Inr (f, data)" and "current s = Some c"
  shows "zone_ids f = insert (z_ID z) (zone_ids c)"
  using prepare_saved [OF assms, unfolded append_zone_def, OF refl]
  by (simp add: zone_ids_saved) (simp add: zone_ids_def)

section \<open>Concrete inputs\<close>

text \<open>The zone that a replica adds to the default configuration, and the save that adds it.\<close>

lemma file_ok_added:
  assumes "ident \<noteq> []"
  shows "file_ok ((DefaultConfig 1)\<lparr>f_ForwardZones := [corp_zone ident]\<rparr>)"
  using file_ok_DefaultConfig [of 1] zone_ok_corp_zone [OF assms]
  by (simp add: file_ok_def live_zones_def DefaultConfig_def)

lemma booted_append:
  assumes "ident \<noteq> []"
  shows "Save one_marshal (\<lambda>x. x) calm_io ''ops'' (Some (unshared (append_zone (corp_zone ident)))) booted d =
    (Inr (saved_file calm_io ''ops'' ((DefaultConfig 1)\<lparr>f_ForwardZones := [corp_zone ident]\<rparr>)),
     setCurrent (saved_file calm_io ''ops'' ((DefaultConfig 1)\<lparr>f_ForwardZones := [corp_zone ident]\<rparr>)) ''doc'' booted,
     d\<lparr>d_file := Some ''doc'', d_tmp := None\<rparr>, fireOnSave booted @ fireOnApply booted)"
proof -
  have "append_zone (corp_zone ident) (Snapshot (DefaultConfig 1)) =
      Inr ((DefaultConfig 1)\<lparr>f_ForwardZones := [corp_zone ident]\<rparr>)"
    by (simp add: append_zone_def) (simp add: DefaultConfig_def)
  moreover have "io_mkdir calm_io = None" "io_open calm_io = None" "io_flock calm_io = FlockOK"
    by (simp_all add: calm_io_def)
  ultimately show ?thesis
    using save_commit_ok [OF io_ok_calm file_ok_added [OF assms], of one_marshal "''ops''" "''doc''" "\<lambda>x. x" booted d]
    by (simp add: Save_unshared one_marshal_def)
qed

section \<open>Properties\<close>



text \<open>
  C12. The atomic Save refines to its system calls: whenever a process that has a configuration
  saves successfully, the interleaved model has a run of single steps, from the same cluster with
  the lock free, that ends with exactly the store and the disk that Save returns, the lock free
  again and every other process untouched.
\<close>

theorem save_as_steps:
  assumes "Save marshal sha io actor (Some (unshared m)) (cl_store c i) (cl_disk c) = (Inr f, s', d', hs)"
    and "current (cl_store c i) = Some cur" and "cl_lock c = None" and "cl_phase c i = NoSave"
  shows "(replica_step marshal unmarshal sha env readFile)\<^sup>*\<^sup>* c (with_store i s' (c\<lparr>cl_disk := d'\<rparr>))"
proof -
  let ?R = "replica_step marshal unmarshal sha env readFile"
  obtain data where p: "prepare marshal io actor m (cl_store c i) = Inr (f, data)"
    and s': "s' = setCurrent f (sha data) (cl_store c i)"
    and d': "d' = (cl_disk c)\<lparr>d_file := Some data, d_tmp := None\<rparr>"
    using Save_prepare [OF assms(1,2)] by blast
  let ?c1 = "at_phase i Locked (c\<lparr>cl_lock := Some i\<rparr>)"
  let ?c2 = "at_phase i (Drafted f data) ?c1"
  let ?c3 = "at_phase i (Writing f data) (with_tmp (Some []) ?c2)"
  let ?c4 = "at_phase i (Written f data) (with_tmp (Some data) ?c3)"
  let ?c5 = "at_phase i (Renamed f data) (renamed ?c4)"
  let ?c6 = "release i (with_store i (setCurrent f (sha data) (cl_store ?c5 i)) ?c5)"
  have steps: "?R c ?c1" "?R ?c1 ?c2" "?R ?c2 ?c3" "?R ?c3 ?c4" "?R ?c4 ?c5"
    using assms(3,4) p by (simp_all add: replica_step.intros)
  have last: "?R ?c5 ?c6" by (rule replica_step.commit) simp
  have "?R\<^sup>*\<^sup>* c ?c6"
    by (rule converse_rtranclp_into_rtranclp [of ?R, OF steps(1)], rule converse_rtranclp_into_rtranclp [of ?R, OF steps(2)],
        rule converse_rtranclp_into_rtranclp [of ?R, OF steps(3)], rule converse_rtranclp_into_rtranclp [of ?R, OF steps(4)],
        rule converse_rtranclp_into_rtranclp [of ?R, OF steps(5)], rule r_into_rtranclp [of ?R, OF last])
  moreover have "(cl_phase c)(i := NoSave) = cl_phase c" using assms(4) by (simp add: fun_upd_idem)
  then have "?c6 = with_store i s' (c\<lparr>cl_disk := d'\<rparr>)"
    using assms(3) s' d'
    by (cases c, cases "cl_disk c") (simp add: release_def at_phase_def with_store_def with_tmp_def renamed_def)
  ultimately show ?thesis by simp
qed

theorem save_as_steps_witness:
  "\<exists>c'. (replica_step one_marshal (\<lambda>_. Inl ''e'') (\<lambda>x. x) (\<lambda>_. None) (\<lambda>_. None))\<^sup>*\<^sup>*
       (with_store 0 booted (fresh_cluster empty_disk)) c' \<and>
     d_file (cl_disk c') = Some ''doc'' \<and> cl_lock c' = None \<and> current (cl_store c' 1) = None"
proof -
  let ?c = "with_store 0 booted (fresh_cluster empty_disk)"
  note sv = booted_append [of "''a''" "cl_disk ?c", simplified]
  have c: "current (cl_store ?c 0) = Some (DefaultConfig 1)" "cl_lock ?c = None" "cl_phase ?c 0 = NoSave"
    "cl_store ?c 0 = booted"
    by (simp_all add: fresh_cluster_def)
  have other: "current (cl_store ?c 1) = None" by (simp add: fresh_cluster_def NewStore_def)
  from save_as_steps [OF _ c(1-3), of one_marshal "\<lambda>x. x" calm_io "''ops''"] sv c(4) other
  show ?thesis by (fastforce simp: fresh_cluster_def)
qed

text \<open>
  C36. Of two changes that two replicas make before either has polled, the first is lost without
  an error: both saves succeed, and the file afterwards has the zone that the second added but not
  the one of the first, because Save starts from the memory of the process and not from the file
  it has locked.
\<close>

theorem concurrent_change_lost:
  assumes "current sa = Some c" and "current sb = Some c"
    and "Save marshal sha ioa a (Some (unshared (append_zone za))) sa d = (Inr fa, sa', d1, hsa)"
    and "Save marshal sha iob b (Some (unshared (append_zone zb))) sb d1 = (Inr fb, sb', d2, hsb)"
    and "z_ID za \<notin> zone_ids c" and "z_ID za \<noteq> z_ID zb"
  shows "(\<exists>data. d_file d2 = Some data \<and> marshal fb = Inr data) \<and>
    z_ID za \<in> zone_ids fa \<and> z_ID zb \<in> zone_ids fb \<and> z_ID za \<notin> zone_ids fb"
proof -
  obtain da db where a: "prepare marshal ioa a (append_zone za) sa = Inr (fa, da)"
    and b: "prepare marshal iob b (append_zone zb) sb = Inr (fb, db)" and "d2 = d1\<lparr>d_file := Some db, d_tmp := None\<rparr>"
    using Save_prepare [OF assms(3,1)] Save_prepare [OF assms(4,2)] by blast
  then show ?thesis
    using prepare_append_zone [OF a assms(1)] prepare_append_zone [OF b assms(2)] prepare_Inr [OF b] assms(5,6) by simp
qed

theorem concurrent_change_lost_witness:
  "\<exists>fa fb sa' sb' d1 d2 hsa hsb.
     Save one_marshal (\<lambda>x. x) calm_io ''ops'' (Some (unshared (append_zone (corp_zone ''a'')))) booted empty_disk =
       (Inr fa, sa', d1, hsa) \<and>
     Save one_marshal (\<lambda>x. x) calm_io ''ops'' (Some (unshared (append_zone (corp_zone ''b'')))) booted d1 =
       (Inr fb, sb', d2, hsb) \<and> ''a'' \<in> zone_ids fa \<and> ''a'' \<notin> zone_ids fb"
proof -
  have id: "z_ID (corp_zone i) = i" for i by (simp add: corp_zone_def)
  have none: "zone_ids (DefaultConfig 1) = {}" by (simp add: zone_ids_def DefaultConfig_def)
  note a = booted_append [of "''a''" empty_disk, simplified]
  note b = booted_append [of "''b''" "empty_disk\<lparr>d_file := Some ''doc'', d_tmp := None\<rparr>", simplified]
  from concurrent_change_lost [OF booted_simps(1) booted_simps(1) a b] show ?thesis
    using a b id none by fastforce
qed

end
