(* ===== verification/Gossip.thy ===== *)
theory Gossip
  imports Exchange
begin

text \<open>
  Any number of instances that exchange their configurations, by pushes or pulls in any order, any
  number of times and along any paths.  One exchange is what applying a peer's export does to the
  receiver: Merge as the mutation of a save (the theory Network shows that a pull and a push over
  the wire have exactly this effect).  A locale states what the exchange does to one kind of items;
  it is interpreted for upstream defaults, zones and records.
\<close>

section \<open>Exchanges\<close>

text \<open>
  An exchange: the receiver and the sender, the receiver's clock and skew at the merge, the clock,
  the name and the peer name of the export, and the circumstances and the actor of the save.
\<close>

record exchange =
  x_dst :: nat
  x_src :: nat
  x_now :: time
  x_skew :: duration
  x_export :: time
  x_inst :: string
  x_peer :: string
  x_save :: save_io
  x_actor :: string

definition exchange_file :: "exchange \<Rightarrow> File \<Rightarrow> File \<Rightarrow> File" where
  "exchange_file g f e =
     saved_file (x_save g) (x_actor g)
       (fst (Merge (x_now g) (Snapshot f) (FilterForExport (x_export g) (x_inst g) 0 e (x_peer g)) (x_skew g)))"

definition exchange_step :: "exchange \<Rightarrow> (nat \<Rightarrow> File) \<Rightarrow> nat \<Rightarrow> File" where
  "exchange_step g fs = fs(x_dst g := exchange_file g (fs (x_dst g)) (fs (x_src g)))"

text \<open>Whose initial configuration has reached an instance, directly or through others.\<close>

definition heard_step :: "exchange \<Rightarrow> (nat \<Rightarrow> nat set) \<Rightarrow> nat \<Rightarrow> nat set" where
  "heard_step g h = h(x_dst g := h (x_dst g) \<union> h (x_src g))"

definition heard :: "exchange list \<Rightarrow> nat \<Rightarrow> nat set" where
  "heard gs = fold heard_step gs (\<lambda>i. {i})"

section \<open>The newest of a set of items\<close>

definition newest :: "'a item_ops \<Rightarrow> 'a set \<Rightarrow> (string \<Rightarrow> 'a option) \<Rightarrow> bool" where
  "newest ops S m \<longleftrightarrow>
     (\<forall>s y. m s = Some y \<longrightarrow> y \<in> S \<and> key ops y = s) \<and>
     (\<forall>x \<in> S. \<exists>y. m (key ops x) = Some y \<and> updatedAt ops x \<le> updatedAt ops y)"

lemma newest_dominates:
  "newest ops S m \<Longrightarrow> x \<in> S \<Longrightarrow> \<exists>y. m (key ops x) = Some y \<and> updatedAt ops x \<le> updatedAt ops y"
  by (simp add: newest_def)

text \<open>Versions are told apart by their timestamps.\<close>

definition versioned :: "'a item_ops \<Rightarrow> 'a set \<Rightarrow> bool" where
  "versioned ops V \<longleftrightarrow>
     (\<forall>x \<in> V. \<forall>y \<in> V. key ops x = key ops y \<and> updatedAt ops x = updatedAt ops y \<longrightarrow> x = y)"

lemma versioned_subset: "versioned ops V \<Longrightarrow> W \<subseteq> V \<Longrightarrow> versioned ops W"
  unfolding versioned_def by (meson subsetD)

lemma newest_unique:
  assumes "newest ops S m" and "newest ops S m'" and "versioned ops S"
  shows "m = m'"
proof
  fix s
  have some: "n s = Some x" if a: "newest ops S a" "a s = Some x" and n: "newest ops S n" for a n x
  proof -
    have x: "x \<in> S" "key ops x = s" using a by (auto simp: newest_def)
    then obtain y where y: "n s = Some y" "updatedAt ops x \<le> updatedAt ops y" using n by (auto simp: newest_def)
    then have "y \<in> S" "key ops y = s" using n by (auto simp: newest_def)
    then have "updatedAt ops y \<le> updatedAt ops x" using a by (fastforce simp: newest_def)
    then show ?thesis using assms(3) x y \<open>y \<in> S\<close> \<open>key ops y = s\<close> by (auto simp: versioned_def)
  qed
  show "m s = m' s"
    using some [OF assms(1) _ assms(2)] some [OF assms(2) _ assms(1)] by (cases "m s"; cases "m' s") auto
qed

text \<open>What dominates a set stands for it.\<close>

lemma newest_absorb:
  assumes "newest ops (S \<union> X) m" and "X \<subseteq> T" and "\<forall>t \<in> T. \<exists>x \<in> X. key ops x = key ops t \<and> updatedAt ops t \<le> updatedAt ops x"
  shows "newest ops (S \<union> T) m"
  unfolding newest_def
proof (intro conjI allI impI ballI)
  fix s y
  assume "m s = Some y"
  then show "y \<in> S \<union> T" "key ops y = s" using assms(1,2) by (auto simp: newest_def)
next
  fix x
  assume "x \<in> S \<union> T"
  then obtain z where z: "z \<in> S \<union> X" "key ops z = key ops x" "updatedAt ops x \<le> updatedAt ops z"
    using assms(3) by blast
  obtain y where "m (key ops z) = Some y" "updatedAt ops z \<le> updatedAt ops y"
    using newest_dominates [OF assms(1) z(1)] by blast
  then show "\<exists>y. m (key ops x) = Some y \<and> updatedAt ops x \<le> updatedAt ops y"
    using z by (auto intro: order_trans)
qed

lemma newest_view: "distinct (map (key ops) xs) \<Longrightarrow> newest ops (set xs) (view (key ops) xs)"
  by (auto simp: newest_def view_distinct)

context lww_kind begin

lemma newest_lww_step:
  assumes "newest ops S m" and "versioned ops (insert x S)" and "accepts ops now skew x"
    and "\<not> deleted ops x" and "\<forall>y \<in> S. \<not> deleted ops y"
  shows "newest ops (insert x S) (lww_step ops now skew x m)"
proof (cases "m (key ops x)")
  case None
  then have "\<forall>y \<in> S. key ops y \<noteq> key ops x" using assms(1) by (fastforce simp: newest_def)
  then show ?thesis using None assms by (auto simp: newest_def lww_step_def)
next
  case (Some c)
  then have c: "c \<in> S" "key ops c = key ops x" using assms(1) by (auto simp: newest_def)
  have w: "wins ops c x \<longleftrightarrow> updatedAt ops c < updatedAt ops x"
    using c assms(2,4,5) unchanged_refl by (auto simp: wins_def versioned_def)
  have le: "updatedAt ops y \<le> updatedAt ops c" if "y \<in> S" "key ops y = key ops x" for y
    using that assms(1) Some by (fastforce simp: newest_def)
  show ?thesis
  proof (cases "wins ops c x")
    case True
    then show ?thesis using Some assms(1,3) w le by (fastforce simp: newest_def lww_step_def)
  next
    case False
    then show ?thesis using Some assms(1,3) w by (auto simp: newest_def lww_step_def)
  qed
qed

lemma newest_lww_merge:
  assumes "newest ops S m" and "versioned ops (S \<union> set xs)" and "\<forall>x \<in> set xs. accepts ops now skew x"
    and "\<forall>y \<in> S \<union> set xs. \<not> deleted ops y"
  shows "newest ops (S \<union> set xs) (lww_merge ops now skew xs m)"
  using assms
proof (induction xs arbitrary: S m)
  case (Cons x xs)
  have "newest ops (insert x S) (lww_step ops now skew x m)"
    using Cons.prems by (intro newest_lww_step) (auto simp: versioned_def)
  then show ?case using Cons.IH [of "insert x S"] Cons.prems by simp
qed simp

end

section \<open>One kind of items in the network\<close>

text \<open>
  The starting point: in every file the keys are distinct; every item is settled, live, acceptable
  to every receiver at every exchange; no two versions of an item have one timestamp.
\<close>

definition mergeable ::
  "'a item_ops \<Rightarrow> (File \<Rightarrow> 'a list) \<Rightarrow> ('a \<Rightarrow> bool) \<Rightarrow> exchange list \<Rightarrow> (nat \<Rightarrow> File) \<Rightarrow> bool" where
  "mergeable ops items settled gs fs \<longleftrightarrow>
     (\<forall>i. distinct (map (key ops) (items (fs i)))) \<and>
     (\<forall>i. \<forall>x \<in> set (items (fs i)). settled x \<and> \<not> deleted ops x \<and>
        (\<forall>g \<in> set gs. accepts ops (x_now g) (x_skew g) x)) \<and>
     versioned ops (\<Union>i. set (items (fs i)))"

text \<open>The state of the network against the starting point: each instance holds the newest of what
  it has heard.\<close>

definition holds_newest ::
  "'a item_ops \<Rightarrow> (File \<Rightarrow> 'a list) \<Rightarrow> (nat \<Rightarrow> File) \<Rightarrow> (nat \<Rightarrow> nat set) \<Rightarrow> (nat \<Rightarrow> File) \<Rightarrow> bool" where
  "holds_newest ops items fs0 h fs \<longleftrightarrow>
     (\<forall>i. distinct (map (key ops) (items (fs i))) \<and>
        newest ops (\<Union>k \<in> h i. set (items (fs0 k))) (view (key ops) (items (fs i))))"

text \<open>
  What an exchange promises for one kind of items, as long as every item is \<open>settled\<close>: shared with
  everybody, stamped and complete, so that neither the export nor the save touches it.
\<close>

locale exchanged = lww_kind ops for ops :: "'a item_ops" +
  fixes items :: "File \<Rightarrow> 'a list" and settled :: "'a \<Rightarrow> bool"
  assumes exchange_view: "\<forall>x \<in> set (items f) \<union> set (items e). settled x \<Longrightarrow>
      view (key ops) (items (exchange_file g f e)) =
      lww_merge ops (x_now g) (x_skew g) (items e) (view (key ops) (items f))"
    and exchange_items: "\<forall>x \<in> set (items f) \<union> set (items e). settled x \<Longrightarrow>
      set (items (exchange_file g f e)) \<subseteq> set (items f) \<union> set (items e)"
    and exchange_distinct: "\<forall>x \<in> set (items f) \<union> set (items e). settled x \<Longrightarrow>
      distinct (map (key ops) (items f)) \<Longrightarrow> distinct (map (key ops) (items (exchange_file g f e)))"
begin

lemma holds_newest_items:
  assumes "holds_newest ops items fs0 h fs"
  shows "set (items (fs i)) \<subseteq> (\<Union>k \<in> h i. set (items (fs0 k)))"
proof
  fix x
  assume "x \<in> set (items (fs i))"
  then have "view (key ops) (items (fs i)) (key ops x) = Some x"
    using assms by (simp add: holds_newest_def view_distinct)
  then show "x \<in> (\<Union>k \<in> h i. set (items (fs0 k)))" using assms by (simp add: holds_newest_def newest_def)
qed

lemma holds_newest_step:
  assumes inv: "holds_newest ops items fs0 h fs" and m: "mergeable ops items settled gs fs0" and g: "g \<in> set gs"
  shows "holds_newest ops items fs0 (heard_step g h) (exchange_step g fs)"
proof -
  let ?U = "\<Union>i. set (items (fs0 i))" and ?H = "\<lambda>i. \<Union>k \<in> h i. set (items (fs0 k))"
  let ?d = "fs (x_dst g)" and ?s = "fs (x_src g)"
  have sub: "set (items ?d) \<subseteq> ?H (x_dst g)" "set (items ?s) \<subseteq> ?H (x_src g)"
    using holds_newest_items [OF inv] by blast+
  have all: "settled x \<and> \<not> deleted ops x \<and> accepts ops (x_now g) (x_skew g) x" if "x \<in> ?U" for x
    using m g that by (auto simp: mergeable_def)
  have st: "\<forall>x \<in> set (items ?d) \<union> set (items ?s). settled x" using sub all by blast
  have "newest ops (?H (x_dst g) \<union> set (items ?s))
      (lww_merge ops (x_now g) (x_skew g) (items ?s) (view (key ops) (items ?d)))"
  proof (rule newest_lww_merge)
    show "newest ops (?H (x_dst g)) (view (key ops) (items ?d))" using inv by (simp add: holds_newest_def)
    have "versioned ops ?U" using m by (simp add: mergeable_def)
    then show "versioned ops (?H (x_dst g) \<union> set (items ?s))"
      by (rule versioned_subset) (use sub(2) in blast)
  qed (use sub all in blast)+
  then have "newest ops (?H (x_dst g) \<union> ?H (x_src g)) (view (key ops) (items (exchange_file g ?d ?s)))"
    unfolding exchange_view [OF st]
  proof (rule newest_absorb [OF _ sub(2)], intro ballI)
    fix t
    assume t: "t \<in> ?H (x_src g)"
    have "newest ops (?H (x_src g)) (view (key ops) (items ?s))" using inv by (simp add: holds_newest_def)
    from newest_dominates [OF this t]
    obtain y where "view (key ops) (items ?s) (key ops t) = Some y" "updatedAt ops t \<le> updatedAt ops y" by blast
    then show "\<exists>x \<in> set (items ?s). key ops x = key ops t \<and> updatedAt ops t \<le> updatedAt ops x"
      by (auto dest: view_SomeD)
  qed
  moreover have "distinct (map (key ops) (items (exchange_file g ?d ?s)))"
    using exchange_distinct [OF st] inv by (simp add: holds_newest_def)
  ultimately show ?thesis
    using inv by (simp add: holds_newest_def exchange_step_def heard_step_def UN_Un)
qed

lemma holds_newest_run:
  assumes "mergeable ops items settled gs fs" and "set gs' \<subseteq> set gs" and "holds_newest ops items fs h fs'"
  shows "holds_newest ops items fs (fold heard_step gs' h) (fold exchange_step gs' fs')"
  using assms(2,3)
proof (induction gs' arbitrary: h fs')
  case (Cons g gs')
  then show ?case using holds_newest_step [OF Cons.prems(2) assms(1), of g] by simp
qed simp

lemma exchanges_hold_newest: "mergeable ops items settled gs fs \<Longrightarrow> holds_newest ops items fs (heard gs) (fold exchange_step gs fs)"
  unfolding heard_def
  by (rule holds_newest_run) (auto simp: holds_newest_def mergeable_def newest_view)

text \<open>Instances that have heard the same agree, and nothing that was heard is lost.\<close>

lemma heard_same_agree:
  assumes "mergeable ops items settled gs fs" and "heard gs i = heard gs j"
  shows "view (key ops) (items (fold exchange_step gs fs i)) = view (key ops) (items (fold exchange_step gs fs j))"
proof -
  note inv = exchanges_hold_newest [OF assms(1)]
  have "versioned ops (\<Union>i. set (items (fs i)))" using assms(1) by (simp add: mergeable_def)
  then have "versioned ops (\<Union>k \<in> heard gs j. set (items (fs k)))" by (rule versioned_subset) blast
  then show ?thesis
    using inv assms(2) newest_unique unfolding holds_newest_def by metis
qed

lemma heard_not_lost:
  assumes "mergeable ops items settled gs fs" and "k \<in> heard gs i" and "x \<in> set (items (fs k))"
  shows "\<exists>y. view (key ops) (items (fold exchange_step gs fs i)) (key ops x) = Some y \<and> updatedAt ops x \<le> updatedAt ops y"
proof -
  have "newest ops (\<Union>k \<in> heard gs i. set (items (fs k))) (view (key ops) (items (fold exchange_step gs fs i)))"
    using exchanges_hold_newest [OF assms(1)] by (simp add: holds_newest_def)
  then show ?thesis by (rule newest_dominates) (use assms(2,3) in blast)
qed

end

section \<open>The three kinds\<close>

definition settled_upstream :: "UpstreamDefault \<Rightarrow> bool" where
  "settled_upstream u \<longleftrightarrow>
     \<not> u_DoNotSync u \<and> u_SyncPeers u = [] \<and> u_UpdatedAt u \<noteq> 0 \<and> u_UpdatedBy u \<noteq> [] \<and> u_Port u \<noteq> 0"

definition settled_zone :: "ForwardZone \<Rightarrow> bool" where
  "settled_zone z \<longleftrightarrow> \<not> z_DoNotSync z \<and> z_SyncPeers z = [] \<and> z_UpdatedAt z \<noteq> 0 \<and> z_UpdatedBy z \<noteq> []"

definition settled_record :: "StaticRecord \<Rightarrow> bool" where
  "settled_record r \<longleftrightarrow> \<not> r_DoNotSync r \<and> r_SyncPeers r = [] \<and> r_UpdatedAt r \<noteq> 0 \<and> r_UpdatedBy r \<noteq> []"

lemma settled_fixed:
  "settled_upstream u \<Longrightarrow> UpstreamDefault_defaults (stampUpstream t a u) = u"
  "settled_zone z \<Longrightarrow> stampZone t a z = z"
  "settled_record r \<Longrightarrow> stampRecord t a r = r"
  by (simp_all add: settled_upstream_def settled_zone_def settled_record_def stampUpstream_def stampZone_def
      stampRecord_def UpstreamDefault_defaults_def IsZero_def Let_def)

lemma settled_export:
  "\<forall>u \<in> set (elems (f_UpstreamDefaults e)). settled_upstream u \<Longrightarrow>
   e_UpstreamDefaults (FilterForExport t i n e p) = elems (f_UpstreamDefaults e)"
  "\<forall>z \<in> set (f_ForwardZones e). settled_zone z \<Longrightarrow> e_ForwardZones (FilterForExport t i n e p) = f_ForwardZones e"
  "\<forall>r \<in> set (f_StaticRecords e). settled_record r \<Longrightarrow> e_StaticRecords (FilterForExport t i n e p) = f_StaticRecords e"
  by (auto simp: FilterForExport_def copy_items_filter SyncsToPeer_def settled_upstream_def settled_zone_def
      settled_record_def intro!: filter_True)

text \<open>One merged slice that a save leaves as it is.\<close>

lemma saved_slice:
  assumes "xs = map stamp (fst (merge_items ops now skew news local r))"
    and "\<forall>x \<in> set local \<union> set news. settled x" and "\<And>x. settled x \<Longrightarrow> stamp x = x"
  shows "view (key ops) xs = lww_merge ops now skew news (view (key ops) local)"
    and "set xs \<subseteq> set local \<union> set news"
    and "distinct (map (key ops) local) \<Longrightarrow> distinct (map (key ops) xs)"
proof -
  have o: "set (fst (merge_items ops now skew news local r)) \<subseteq> set local \<union> set news"
    using merge_items_origin [of ops now skew news local r] by blast
  then have "map stamp (fst (merge_items ops now skew news local r)) = fst (merge_items ops now skew news local r)"
    using assms(2,3) by (intro map_idI) blast
  then have xs: "xs = fst (merge_items ops now skew news local r)" using assms(1) by simp
  show "view (key ops) xs = lww_merge ops now skew news (view (key ops) local)" by (simp add: xs merge_items_view)
  show "set xs \<subseteq> set local \<union> set news" using o xs by simp
  show "distinct (map (key ops) local) \<Longrightarrow> distinct (map (key ops) xs)" by (simp add: xs merge_items_distinct)
qed

lemma exchange_file_slices:
  "elems (f_UpstreamDefaults (exchange_file g f e)) =
     map (\<lambda>u. UpstreamDefault_defaults (stampUpstream (io_now_stamp (x_save g)) (x_actor g) u))
       (fst (merge_items upstream_ops (x_now g) (x_skew g)
         (e_UpstreamDefaults (FilterForExport (x_export g) (x_inst g) 0 e (x_peer g))) (elems (f_UpstreamDefaults f)) zero_result))"
  "\<exists>r. f_ForwardZones (exchange_file g f e) =
     map (stampZone (io_now_stamp (x_save g)) (x_actor g))
       (fst (merge_items zone_ops (x_now g) (x_skew g)
         (e_ForwardZones (FilterForExport (x_export g) (x_inst g) 0 e (x_peer g))) (f_ForwardZones f) r))"
  "\<exists>r. f_StaticRecords (exchange_file g f e) =
     map (stampRecord (io_now_stamp (x_save g)) (x_actor g))
       (fst (merge_items record_ops (x_now g) (x_skew g)
         (e_StaticRecords (FilterForExport (x_export g) (x_inst g) 0 e (x_peer g))) (f_StaticRecords f) r))"
  using Merge_fields [of "x_now g" "Snapshot f" "FilterForExport (x_export g) (x_inst g) 0 e (x_peer g)" "x_skew g"]
  by (auto simp: exchange_file_def)

interpretation upstream_net: exchanged upstream_ops "\<lambda>f. elems (f_UpstreamDefaults f)" settled_upstream
proof unfold_locales
  fix f e :: File and g :: exchange
  assume st: "\<forall>x \<in> set (elems (f_UpstreamDefaults f)) \<union> set (elems (f_UpstreamDefaults e)). settled_upstream x"
  have exp: "e_UpstreamDefaults (FilterForExport (x_export g) (x_inst g) 0 e (x_peer g)) = elems (f_UpstreamDefaults e)"
    using st by (intro settled_export) blast
  note slice = saved_slice [OF exchange_file_slices(1) [of g f e, unfolded exp] st settled_fixed(1)]
  show "view (key upstream_ops) (elems (f_UpstreamDefaults (exchange_file g f e))) =
      lww_merge upstream_ops (x_now g) (x_skew g) (elems (f_UpstreamDefaults e)) (upstream_view f)"
    by (rule slice(1))
  show "set (elems (f_UpstreamDefaults (exchange_file g f e))) \<subseteq> set (elems (f_UpstreamDefaults f)) \<union> set (elems (f_UpstreamDefaults e))"
    by (rule slice(2))
  show "distinct (map (key upstream_ops) (elems (f_UpstreamDefaults f))) \<Longrightarrow>
     distinct (map (key upstream_ops) (elems (f_UpstreamDefaults (exchange_file g f e))))"
    by (rule slice(3))
qed

interpretation zone_net: exchanged zone_ops f_ForwardZones settled_zone
proof unfold_locales
  fix f e :: File and g :: exchange
  assume st: "\<forall>x \<in> set (f_ForwardZones f) \<union> set (f_ForwardZones e). settled_zone x"
  have exp: "e_ForwardZones (FilterForExport (x_export g) (x_inst g) 0 e (x_peer g)) = f_ForwardZones e"
    using st by (intro settled_export) blast
  obtain r where r: "f_ForwardZones (exchange_file g f e) = map (stampZone (io_now_stamp (x_save g)) (x_actor g))
      (fst (merge_items zone_ops (x_now g) (x_skew g) (f_ForwardZones e) (f_ForwardZones f) r))"
    using exchange_file_slices(2) [of g f e] exp by auto
  note slice = saved_slice [OF r st settled_fixed(2)]
  show "zone_view (exchange_file g f e) = lww_merge zone_ops (x_now g) (x_skew g) (f_ForwardZones e) (zone_view f)"
    by (rule slice(1))
  show "set (f_ForwardZones (exchange_file g f e)) \<subseteq> set (f_ForwardZones f) \<union> set (f_ForwardZones e)"
    by (rule slice(2))
  show "distinct (map (key zone_ops) (f_ForwardZones f)) \<Longrightarrow> distinct (map (key zone_ops) (f_ForwardZones (exchange_file g f e)))"
    by (rule slice(3))
qed

interpretation record_net: exchanged record_ops f_StaticRecords settled_record
proof unfold_locales
  fix f e :: File and g :: exchange
  assume st: "\<forall>x \<in> set (f_StaticRecords f) \<union> set (f_StaticRecords e). settled_record x"
  have exp: "e_StaticRecords (FilterForExport (x_export g) (x_inst g) 0 e (x_peer g)) = f_StaticRecords e"
    using st by (intro settled_export) blast
  obtain r where r: "f_StaticRecords (exchange_file g f e) = map (stampRecord (io_now_stamp (x_save g)) (x_actor g))
      (fst (merge_items record_ops (x_now g) (x_skew g) (f_StaticRecords e) (f_StaticRecords f) r))"
    using exchange_file_slices(3) [of g f e] exp by auto
  note slice = saved_slice [OF r st settled_fixed(3)]
  show "record_view (exchange_file g f e) = lww_merge record_ops (x_now g) (x_skew g) (f_StaticRecords e) (record_view f)"
    by (rule slice(1))
  show "set (f_StaticRecords (exchange_file g f e)) \<subseteq> set (f_StaticRecords f) \<union> set (f_StaticRecords e)"
    by (rule slice(2))
  show "distinct (map (key record_ops) (f_StaticRecords f)) \<Longrightarrow> distinct (map (key record_ops) (f_StaticRecords (exchange_file g f e)))"
    by (rule slice(3))
qed

section \<open>Concrete inputs\<close>

text \<open>Three instances; the second and the third have zones of their own.\<close>

definition three :: "nat \<Rightarrow> File" where
  "three i =
     (sample_file (if i = 1 then [corp_zone ''a''] else if i = 2 then [(corp_zone ''a'')\<lparr>z_UpdatedAt := 8\<rparr>] else []))
       \<lparr>f_UpstreamDefaults := Some [azure_upstream\<lparr>u_Port := 53, u_UpdatedAt := 7, u_UpdatedBy := ''ops''\<rparr>],
        f_StaticRecords := [host_record\<lparr>r_UpdatedAt := 7, r_UpdatedBy := ''ops''\<rparr>]\<rparr>"

definition passes :: "nat \<Rightarrow> nat \<Rightarrow> exchange" where
  "passes i j =
     \<lparr>x_dst = i, x_src = j, x_now = 10, x_skew = 300, x_export = 9, x_inst = ''b'', x_peer = ''a'',
      x_save = calm_io, x_actor = ''peer:b''\<rparr>"

section \<open>Properties\<close>



end
