(* ===== verification/Network.thy ===== *)
theory Network
  imports Peering Gossip
begin

text \<open>
  Two processes connected by the network: the client side of one (internal/sync/client.go) against
  the listener of the other (internal/sync/listener.go), over TLS configurations that both derive
  from the shared key, down to the bytes of requests and replies.  The theorems compose the
  components: certificate check, authentication, routing, export, codec, merge, save and hooks.
\<close>

section \<open>The other end of a connection\<close>

text \<open>
  What the server side adds to the codecs: the JSON encoder of replies (writeJSON and
  writeJSONError), the text of a status code, the query parameter \<open>since\<close> of an address, and
  the multiplexer's own answers.
\<close>

record server_wire =
  sw_encode :: "reply_body \<Rightarrow> string"
  sw_status :: "nat \<Rightarrow> string"
  sw_since :: "string \<Rightarrow> string"
  sw_unmatched :: "string \<Rightarrow> http_reply"

record listen_io =
  li_items :: items_io
  li_sink :: sink_io

definition url_path :: "wire \<Rightarrow> string \<Rightarrow> string" where
  "url_path wr u = (case wr_parseURL wr u of Inl e \<Rightarrow> [] | Inr v \<Rightarrow> ur_path v)"

definition received :: "wire \<Rightarrow> server_wire \<Rightarrow> Request \<Rightarrow> peer_request" where
  "received wr sw rq =
     \<lparr>qr_method = rq_method rq, qr_token = rq_token rq, qr_since = sw_since sw (rq_url rq),
      qr_body = decodeEnvelope wr (rq_body rq)\<rparr>"

definition listener_answer ::
  "wire \<Rightarrow> server_wire \<Rightarrow> codecs \<Rightarrow> listen_io \<Rightarrow> ListenerConfig \<Rightarrow> Request \<Rightarrow> World \<Rightarrow> Response \<times> World" where
  "listener_answer wr sw cd io cfg rq w =
     (case NewListener cfg (cd_encode cd) (li_items io) wd_current upd_log
             (Some (PushSink wr cd (li_sink io) (lc_Skew cfg))) (sw_unmatched sw)
             (url_path wr (rq_url rq)) (received wr sw rq) w of
        ((code, body), w') \<Rightarrow> (\<lparr>rs_code = code, rs_status = sw_status sw code, rs_body = sw_encode sw body\<rparr>, w'))"

text \<open>The listener of a process as the client of another one meets it: the chain of its
  certificate and its answers.\<close>

definition listening ::
  "wire \<Rightarrow> server_wire \<Rightarrow> codecs \<Rightarrow> listen_io \<Rightarrow> ListenerConfig \<Rightarrow> server_config \<Rightarrow> World \<Rightarrow> endpoint" where
  "listening wr sw cd io cfg scfg w =
     \<lparr>ep_certs = (case sc_Certificates scfg of [] \<Rightarrow> [] | cert # _ \<Rightarrow> tc_Certificate cert),
      ep_answer = (\<lambda>rq. Inr (fst (listener_answer wr sw cd io cfg rq w)))\<rparr>"

section \<open>Lemmas\<close>

text \<open>Both ends use the same primitives, up to the random bytes of the signatures.\<close>

definition interoperable :: "crypto \<Rightarrow> crypto \<Rightarrow> bool" where
  "interoperable cs cc \<longleftrightarrow>
     carries_key cs \<and> carries_key cc \<and> cr_hkdf cs = cr_hkdf cc \<and> cr_sha256 cs = cr_sha256 cc \<and>
     cr_ScalarBaseMult cs = cr_ScalarBaseMult cc \<and> cr_ParseCertificate cs = cr_ParseCertificate cc"

lemma listener_reached:
  assumes "listener_Start cfg cs listenErr = Inr scfg" and "httpClient cc (lc_PSK cfg) = Inr client"
    and "interoperable cs cc"
  shows "http_Do wr client (listening wr sw cd io cfg scfg w) rq =
    (Inr (fst (listener_answer wr sw cd io cfg rq w)), [rq])"
proof -
  have s: "tlsConfigForServer cs (lc_PSK cfg) = Inr scfg"
    using assms(1) by (auto simp: listener_Start_def StartTLS_def split: sum.splits if_splits option.splits)
  have c: "tlsConfigForClient cc (lc_PSK cfg) = Inr client" using assms(2) by (simp add: httpClient_def)
  obtain cert where "sc_Certificates scfg = [cert]" "cc_VerifyPeerCertificate client (tc_Certificate cert) = None"
    using same_key_accepted [OF s c] assms(3) by (auto simp: interoperable_def)
  then show ?thesis by (simp add: http_Do_def listening_def)
qed

lemma listener_Start_key: "listener_Start cfg cs listenErr = Inr scfg \<Longrightarrow> lc_PSK cfg \<noteq> []"
  by (auto simp: listener_Start_def StartTLS_def split: sum.splits if_splits)

text \<open>Where a peer's address leads.\<close>

definition leads_to_items :: "wire \<Rightarrow> server_wire \<Rightarrow> string \<Rightarrow> bool" where
  "leads_to_items wr sw base \<longleftrightarrow>
     base \<noteq> [] \<and>
     (\<exists>u. joinURL wr base ''/peer/v1/items'' = Inr u \<and> url_path wr u = ''/peer/v1/items'' \<and> sw_since sw u = [])"

text \<open>With package net/url behaving as documented, an address without a path and a query does.\<close>

lemma plain_address_leads:
  assumes "base \<noteq> []" and "wr_parseURL wr base = Inr v" and "set (ur_path v) \<subseteq> {CHR ''/''}"
    and "\<And>v. wr_parseURL wr (wr_urlString wr v) = Inr v" and "\<And>u. sw_since sw u = []"
  shows "leads_to_items wr sw base"
proof -
  have "dropWhile (\<lambda>c. c = CHR ''/'') (rev (ur_path v)) = []"
    using assms(3) by (auto simp: dropWhile_eq_Nil_conv)
  then show ?thesis
    using assms by (simp add: leads_to_items_def joinURL_def url_path_def stringsTrimRightSlash_def Let_def)
qed

text \<open>The answers of the listener to a client that has the key.\<close>

lemma items_get:
  assumes "lc_PSK cfg \<noteq> []" and "url_path wr (rq_url rq) = ''/peer/v1/items''" and "rq_token rq = lc_PSK cfg"
    and "rq_method rq = ''GET''" and "wd_current w = Some f" and "sw_since sw (rq_url rq) = []"
  shows "listener_answer wr sw cd io cfg rq w =
    (\<lparr>rs_code = 200, rs_status = sw_status sw 200, rs_body = sw_encode sw (JEnvelope
       (FilterForExport (it_now (li_items io)) (lc_Instance cfg) 0 f (peerName cfg)))\<rparr>, w)"
  using assms
  by (simp add: listener_answer_def NewListener_def peer_mux_def handleItems_def requireAuth_def AuthOK_def received_def
      Let_def FilterForExport_def since_seq_def)

lemma items_post:
  assumes "lc_PSK cfg \<noteq> []" and "url_path wr (rq_url rq) = ''/peer/v1/items''" and "rq_token rq = lc_PSK cfg"
    and "rq_method rq = ''POST''" and "wr_decodeEnvelope wr (rq_body rq) = Inr env" and "\<not> skewed cfg (it_now (li_items io)) env"
    and "PushSink wr cd (li_sink io) (lc_Skew cfg) env (peerName cfg) w = (Inr res, w')"
  shows "\<exists>w''. listener_answer wr sw cd io cfg rq w =
      (\<lparr>rs_code = 200, rs_status = sw_status sw 200, rs_body = sw_encode sw (JResult res)\<rparr>, w'') \<and>
    wd_store w'' = wd_store w' \<and> dm_disk (wd w'') = dm_disk (wd w') \<and> wd_sent w'' = wd_sent w'"
  using assms
  by (simp add: listener_answer_def NewListener_def peer_mux_def handleItems_def requireAuth_def AuthOK_def received_def
      decodeEnvelope_def labelled_def)

text \<open>The exchange that a pull performs, and the one of a push.\<close>

definition pull_exchange :: "nat \<Rightarrow> nat \<Rightarrow> listen_io \<Rightarrow> ListenerConfig \<Rightarrow> retry_io \<Rightarrow> duration \<Rightarrow> Peer \<Rightarrow> exchange" where
  "pull_exchange i j lio cfg rt skew peer =
     \<lparr>x_dst = i, x_src = j, x_now = rt_merge_now rt, x_skew = skew, x_export = it_now (li_items lio),
      x_inst = lc_Instance cfg, x_peer = peerName cfg, x_save = ch_save (rt_change rt), x_actor = ''peer:'' @ p_Name peer\<rparr>"

definition push_exchange :: "nat \<Rightarrow> nat \<Rightarrow> push_io \<Rightarrow> string \<Rightarrow> ListenerConfig \<Rightarrow> retry_io \<Rightarrow> Peer \<Rightarrow> exchange" where
  "push_exchange i j io inst cfg rt peer =
     \<lparr>x_dst = i, x_src = j, x_now = rt_merge_now rt, x_skew = lc_Skew cfg, x_export = pu_now io,
      x_inst = inst, x_peer = p_Name peer, x_save = ch_save (rt_change rt), x_actor = ''peer:'' @ inst\<rparr>"

text \<open>What both need of the receiver's save: the lock at once, a valid result, a codec that can write it.\<close>

definition save_goes_well :: "codecs \<Rightarrow> exchange \<Rightarrow> File \<Rightarrow> File \<Rightarrow> bool" where
  "save_goes_well cd g f e \<longleftrightarrow>
     io_ok (x_save g) \<and>
     file_ok (fst (Merge (x_now g) (Snapshot f) (FilterForExport (x_export g) (x_inst g) 0 e (x_peer g)) (x_skew g))) \<and>
     (\<exists>data. cd_marshal cd (exchange_file g f e) = Inr data)"

lemma pulled:
  assumes "wd_current wa = Some fa" and "wd_current wb = Some fb" and "pr_SharedKey (f_Peers fa) = lc_PSK cfg"
    and "listener_Start cfg cs listenErr = Inr scfg" and "httpClient (pl_crypto io) (lc_PSK cfg) = Inr client"
    and "interoperable cs (pl_crypto io)" and "leads_to_items wr sw (p_URL peer)" and "pl_newRequest io = None"
    and "pl_endpoint io = listening wr sw cdb lio cfg scfg wb"
    and "env = FilterForExport (it_now (li_items lio)) (lc_Instance cfg) 0 fb (peerName cfg)"
    and "wr_decodeEnvelope wr (sw_encode sw (JEnvelope env)) = Inr env"
  shows "\<exists>rq. pull_fetch wr io (wd_current wa) peer = (Got env, [rq])"
proof -
  obtain u where u: "joinURL wr (p_URL peer) ''/peer/v1/items'' = Inr u" "url_path wr u = ''/peer/v1/items''" "sw_since sw u = []"
    using assms(7) by (auto simp: leads_to_items_def)
  let ?rq = "\<lparr>rq_method = ''GET'', rq_url = u, rq_token = lc_PSK cfg, rq_body = []\<rparr>"
  have psk: "lc_PSK cfg \<noteq> []" "PSK (Some fa) = lc_PSK cfg"
    using listener_Start_key [OF assms(4)] assms(3) by (simp_all add: PSK_def)
  have "http_Do wr client (pl_endpoint io) ?rq =
      (Inr \<lparr>rs_code = 200, rs_status = sw_status sw 200, rs_body = sw_encode sw (JEnvelope env)\<rparr>, [?rq])"
    unfolding assms(9) listener_reached [OF assms(4,5,6)]
    using items_get [OF psk(1), of wr ?rq wb fb sw cdb lio] u assms(2,10) by simp
  then show ?thesis
    using psk u assms(1,5,7,8,11) by (auto simp: pull_fetch_def leads_to_items_def Let_def)
qed

lemma applied:
  assumes "wd_current w = Some f" and "save_goes_well cd g f e"
    and "x_now g = rt_merge_now (ios 1)" "x_skew g = skew" "x_save g = ch_save (rt_change (ios 1))"
    and "x_actor g = ''peer:'' @ source" and "env = FilterForExport (x_export g) (x_inst g) 0 e (x_peer g)"
  shows "\<exists>w'. Apply wr cd ios skew env source w = (None, w') \<and> wd_current w' = Some (exchange_file g f e)"
proof -
  obtain data where data: "cd_marshal cd (exchange_file g f e) = Inr data" using assms(2) by (auto simp: save_goes_well_def)
  let ?m = "\<lambda>f. Inr (fst (Merge (rt_merge_now (ios 1)) f env skew)) :: (string, File) result"
  obtain w1 hs where "save_world wr cd (rt_change (ios 1)) (''peer:'' @ source) (Some (unshared ?m)) w =
      (Inr (exchange_file g f e), fold (run_hook wr cd (ch_hooks (rt_change (ios 1)))) hs w1)"
    "wd_current w1 = Some (exchange_file g f e)"
    using save_world_commits [of "rt_change (ios 1)" w f ?m _ cd "''peer:'' @ source" data wr] assms data
    by (auto simp: save_goes_well_def exchange_file_def)
  then show ?thesis by (simp add: Apply_def maxAttempts_def numeral_eq_Suc merge_mutation_def)
qed

section \<open>Concrete inputs\<close>

text \<open>Two processes with the default configuration and one key; the codec knows one envelope.\<close>

abbreviation items_path :: string where "items_path \<equiv> ''/peer/v1/items''"

definition link_wire :: "Envelope \<Rightarrow> wire" where
  "link_wire env =
     plain_wire\<lparr>wr_decodeEnvelope := (\<lambda>_. Inr env),
       wr_parseURL := (\<lambda>s. if HasSuffix s items_path
         then Inr \<lparr>ur_rest = take (length s - length items_path) s, ur_path = items_path\<rparr>
         else Inr \<lparr>ur_rest = s, ur_path = []\<rparr>)\<rparr>"

definition link_server :: server_wire where
  "link_server =
     \<lparr>sw_encode = (\<lambda>_. []), sw_status = (\<lambda>_. ''200 OK''), sw_since = (\<lambda>_. []),
      sw_unmatched = (\<lambda>_. (404, Text ''404 page not found''))\<rparr>"

definition calm_retry :: retry_io where
  "calm_retry = \<lparr>rt_merge_now = 5, rt_change = calm_change\<rparr>"

definition link_io :: listen_io where
  "link_io =
     \<lparr>li_items = \<lparr>it_now = 5, it_audit = audit_ok_io\<rparr>,
      li_sink = \<lparr>sk_merge_now = 5, sk_mark = 5, sk_retry = (\<lambda>_. calm_retry)\<rparr>\<rparr>"

definition b_world :: World where
  "b_world = idle_world\<lparr>wd_instance := ''b''\<rparr>"

definition b_config :: ListenerConfig where
  "b_config = listener_config ''b'' (f_Peers keyed_default)"

lemma b_world_simps [simp]: "wd_current b_world = Some keyed_default" "wd_sent b_world = []" "wd_instance b_world = ''b''"
  by (simp_all add: b_world_def)

lemma b_config_simps [simp]:
  "lc_PSK b_config = ''k''" "lc_Instance b_config = ''b''" "peerName b_config = ''b''" "lc_Skew b_config = 300 * Second"
  by (simp_all add: b_config_def listener_config_def keyed_default_def peerName_def skew_of_def DefaultConfig_def wrap64_def)

lemma link_leads: "leads_to_items (link_wire env) link_server (p_URL peer_b)"
proof -
  have "joinURL (link_wire env) ''https://b'' items_path = Inr ''https://b/peer/v1/items''"
    "url_path (link_wire env) ''https://b/peer/v1/items'' = items_path"
    by (simp_all add: joinURL_def url_path_def link_wire_def plain_wire_def HasSuffix_def stringsTrimRightSlash_def)
  then show ?thesis by (simp add: leads_to_items_def peer_b_def link_server_def)
qed

lemma link_crypto:
  "\<exists>scfg. listener_Start b_config toy_crypto None = Inr scfg" "\<exists>client. httpClient toy_crypto ''k'' = Inr client"
  "interoperable toy_crypto toy_crypto"
  by (simp_all add: listener_Start_def StartTLS_def tlsConfigForServer_def toy_cert httpClient_def tlsConfigForClient_def
      interoperable_def toy_carries_key)

lemma merge_own_export:
  "4 \<le> skew \<Longrightarrow> fst (Merge 5 keyed_default (FilterForExport t i 0 keyed_default n) skew) = keyed_default"
  by (simp add: Merge_def keyed_default_def DefaultConfig_def FilterForExport_def SyncsToPeer_def merge_upstreams_def
      merge_zones_def merge_records_def merge_items_def merge_item_def upstream_ops_def IsZero_def Sub_def After_def
      Let_def elems_def)

lemma own_export_saves:
  assumes "x_now g = 5" and "4 \<le> x_skew g" and "io_ok (x_save g)"
  shows "save_goes_well sample_codecs g keyed_default keyed_default"
  using assms merge_own_export [of "x_skew g"]
  by (simp add: save_goes_well_def sample_codecs_def one_marshal_def)

section \<open>Properties\<close>



text \<open>
  C6. A push over the network, from end to end.  When the two processes share the key, the
  address of the peer leads to its listener, the export is within its skew window and its save
  meets no error, one push is accepted at the first attempt, the receiver's configuration becomes its own
  merged with the export that was made for it, the file of the receiver holds it, and the receiver
  sends nothing in return although its save fires the push hook, when that hook runs within two
  seconds.
\<close>

theorem push_reaches_peer:
  assumes "pu_cur io = Some fa" and "wd_current wb = Some fb" and "pr_SharedKey (f_Peers fa) = lc_PSK cfg"
    and "listener_Start cfg cs listenErr = Inr scfg" and "httpClient (pu_crypto io) (lc_PSK cfg) = Inr client"
    and "interoperable cs (pu_crypto io)" and "leads_to_items wr sw (p_URL peer)" and "pu_newRequest io = None"
    and "pu_endpoint io = listening wr sw cd lio cfg scfg wb"
    and "env = FilterForExport (pu_now io) inst 0 fa (p_Name peer)"
    and "wr_encodeEnvelope wr env = Inr body" and "wr_decodeEnvelope wr body = Inr env"
    and "\<not> skewed cfg (it_now (li_items lio)) env" and "rt = sk_retry (li_sink lio) 1"
    and "save_goes_well cd (push_exchange i j io inst cfg rt peer) fb fa"
    and "sk_mark (li_sink lio) \<noteq> 0" and "Sub (hk_push_now (ch_hooks (rt_change rt))) (sk_mark (li_sink lio)) < 2 * Second"
  shows "\<exists>rq lg' wb'. pushOnce wr encode inst io peer lg = (None, [rq], lg') \<and>
    snd (listener_answer wr sw cd lio cfg rq wb) = wb' \<and>
    wd_current wb' = Some (exchange_file (push_exchange i j io inst cfg rt peer) fb fa) \<and>
    (\<exists>data. d_file (dm_disk (wd wb')) = Some data \<and>
      cd_marshal cd (exchange_file (push_exchange i j io inst cfg rt peer) fb fa) = Inr data) \<and>
    wd_sent wb' = wd_sent wb"
proof -
  let ?g = "push_exchange i j io inst cfg rt peer"
  obtain u where u: "joinURL wr (p_URL peer) ''/peer/v1/items'' = Inr u" "url_path wr u = ''/peer/v1/items''"
    using assms(7) by (auto simp: leads_to_items_def)
  let ?rq = "\<lparr>rq_method = ''POST'', rq_url = u, rq_token = lc_PSK cfg, rq_body = body\<rparr>"
  have psk: "lc_PSK cfg \<noteq> []" by (rule listener_Start_key [OF assms(4)])
  obtain data where data: "cd_marshal cd (exchange_file ?g fb fa) = Inr data" using assms(15) by (auto simp: save_goes_well_def)
  have inst: "e_InstanceID env = inst" using assms(10) by (simp add: FilterForExport_def)
  obtain res w1 where sink: "PushSink wr cd (li_sink lio) (lc_Skew cfg) env (peerName cfg) wb = (Inr res, w1)"
    and w1: "wd_current w1 = Some (exchange_file ?g fb fa)" "d_file (dm_disk (wd w1)) = Some data" "wd_sent w1 = wd_sent wb"
    using push_applied_not_echoed [of wb fb "li_sink lio" env "lc_Skew cfg" cd data wr "peerName cfg"]
      assms(2,10,14-17) data inst
    by (auto simp: save_goes_well_def exchange_file_def push_exchange_def)
  obtain w2 where w2: "listener_answer wr sw cd lio cfg ?rq wb =
      (\<lparr>rs_code = 200, rs_status = sw_status sw 200, rs_body = sw_encode sw (JResult res)\<rparr>, w2)"
    "wd_store w2 = wd_store w1" "dm_disk (wd w2) = dm_disk (wd w1)" "wd_sent w2 = wd_sent w1"
    using items_post [OF psk, of wr ?rq env lio cd wb res w1 sw] u assms(12,13) sink by auto
  have "http_Do wr client (pu_endpoint io) ?rq =
      (Inr \<lparr>rs_code = 200, rs_status = sw_status sw 200, rs_body = sw_encode sw (JResult res)\<rparr>, [?rq])"
    unfolding assms(9) listener_reached [OF assms(4,5,6)] using w2(1) by simp
  then have "\<exists>lg'. pushOnce wr encode inst io peer lg = (None, [?rq], lg')"
    using psk u assms(1,3,5,7,8,10,11) by (auto simp: pushOnce_def leads_to_items_def Let_def split: option.split)
  then show ?thesis using w1 w2 data by auto
qed

theorem push_reaches_peer_witness:
  "\<exists>io g rq lg' wb'. pushOnce (link_wire (FilterForExport 5 ''a'' 0 keyed_default ''b'')) (\<lambda>_. Inr ''{}'') ''a'' io peer_b None =
      (None, [rq], lg') \<and>
    snd (listener_answer (link_wire (FilterForExport 5 ''a'' 0 keyed_default ''b'')) link_server sample_codecs link_io b_config rq b_world) = wb' \<and>
    wd_current wb' = Some (exchange_file g keyed_default keyed_default) \<and> x_actor g = ''peer:a'' \<and> wd_sent wb' = []"
proof -
  let ?env = "FilterForExport 5 ''a'' 0 keyed_default ''b''"
  obtain scfg client where c: "listener_Start b_config toy_crypto None = Inr scfg" "httpClient toy_crypto ''k'' = Inr client"
    using link_crypto by blast
  define io where "io = (good_push keyed_default)\<lparr>pu_endpoint :=
      listening (link_wire ?env) link_server sample_codecs link_io b_config scfg b_world\<rparr>"
  have io: "pu_cur io = Some keyed_default" "pu_crypto io = toy_crypto" "pu_newRequest io = None" "pu_now io = 5"
    "pu_endpoint io = listening (link_wire ?env) link_server sample_codecs link_io b_config scfg b_world"
    by (simp_all add: io_def good_push_def)
  have key: "pr_SharedKey (f_Peers keyed_default) = lc_PSK b_config" by (simp add: keyed_default_def)
  have saves: "save_goes_well sample_codecs (push_exchange 0 1 io ''a'' b_config calm_retry peer_b) keyed_default keyed_default"
    by (rule own_export_saves) (simp_all add: push_exchange_def calm_retry_def calm_change_def)
  have sk: "\<not> skewed b_config 5 ?env" by (simp add: skewed_def FilterForExport_def Sub_def)
  have codec: "wr_encodeEnvelope (link_wire ?env) ?env = Inr ''a''" "wr_decodeEnvelope (link_wire ?env) ''a'' = Inr ?env"
    by (simp_all add: link_wire_def plain_wire_def FilterForExport_def)
  have tls: "httpClient (pu_crypto io) (lc_PSK b_config) = Inr client" "interoperable toy_crypto (pu_crypto io)"
    using c(2) io(2) link_crypto(3) by simp_all
  have env: "?env = FilterForExport (pu_now io) ''a'' 0 keyed_default (p_Name peer_b)" by (simp add: io(4) peer_b_def)
  have lio: "\<not> skewed b_config (it_now (li_items link_io)) ?env" "calm_retry = sk_retry (li_sink link_io) 1"
    "sk_mark (li_sink link_io) \<noteq> 0"
    "Sub (hk_push_now (ch_hooks (rt_change calm_retry))) (sk_mark (li_sink link_io)) < 2 * Second"
    using sk by (simp_all add: link_io_def calm_retry_def calm_change_def quiet_hooks_def Sub_def)
  let ?g = "push_exchange 0 1 io ''a'' b_config calm_retry peer_b"
  note push_reaches_peer [OF io(1) b_world_simps(1) key c(1) tls link_leads io(3,5) env codec lio(1,2) saves lio(3,4),
      of "\<lambda>_. Inr ''{}''" None]
  moreover have "x_actor ?g = ''peer:a''" by (simp add: push_exchange_def)
  ultimately show ?thesis unfolding b_world_simps(2) by blast
qed

text \<open>
  C32. An item that is reserved for one peer reaches it by a push and never by a pull: the listener
  filters what it hands out by the name of its own instance, whoever asks.
\<close>

theorem reserved_item_not_pulled:
  assumes "cfg = listener_config (wd_instance w) (f_Peers f)" and "wd_current w = Some f" and "pr_SharedKey (f_Peers f) \<noteq> []"
    and "z \<in> set (f_ForwardZones f)" and "z_SyncPeers z = [n]" and "\<not> z_DoNotSync z" and "wd_instance w \<noteq> []"
    and "ToLower (TrimSpace n) \<noteq> ToLower (TrimSpace (wd_instance w))"
    and "rq_method rq = ''GET''" and "rq_token rq = pr_SharedKey (f_Peers f)"
    and "url_path wr (rq_url rq) = ''/peer/v1/items''" and "sw_since sw (rq_url rq) = []"
  shows "\<exists>env. rs_body (fst (listener_answer wr sw cd io cfg rq w)) = sw_encode sw (JEnvelope env) \<and>
    z \<notin> set (e_ForwardZones env) \<and> z \<in> set (e_ForwardZones (FilterForExport t inst 0 f n))"
proof -
  let ?env = "FilterForExport (it_now (li_items io)) (lc_Instance cfg) 0 f (peerName cfg)"
  have "peerName cfg = wd_instance w" using assms(1,7) by (simp add: listener_config_def peerName_def)
  then have "z \<notin> set (e_ForwardZones ?env)" "z \<in> set (e_ForwardZones (FilterForExport t inst 0 f n))"
    using assms(4-6,8) by (auto simp: FilterForExport_def copy_items_filter SyncsToPeer_shared shared_with_def)
  moreover have "rs_body (fst (listener_answer wr sw cd io cfg rq w)) = sw_encode sw (JEnvelope ?env)"
    using items_get [of cfg wr rq w f sw cd io] assms(1-3,9-) by (simp add: listener_config_def)
  ultimately show ?thesis by blast
qed

theorem reserved_item_not_pulled_witness:
  "\<exists>f env. wd_current b_world = Some keyed_default \<and> f = keyed_default\<lparr>f_ForwardZones := [(corp_zone ''z'')\<lparr>z_SyncPeers := [''a'']\<rparr>]\<rparr> \<and>
     rs_body (fst (listener_answer (link_wire (zone_envelope [])) link_server sample_codecs link_io b_config
       \<lparr>rq_method = ''GET'', rq_url = ''https://b/peer/v1/items'', rq_token = ''k'', rq_body = []\<rparr>
       (b_world\<lparr>wd := (wd b_world)\<lparr>dm_store := (dm_store (wd b_world))\<lparr>current := Some f\<rparr>\<rparr>\<rparr>))) = sw_encode link_server (JEnvelope env) \<and>
     (corp_zone ''z'')\<lparr>z_SyncPeers := [''a'']\<rparr> \<notin> set (e_ForwardZones env)"
proof -
  let ?z = "(corp_zone ''z'')\<lparr>z_SyncPeers := [''a'']\<rparr>"
  let ?f = "keyed_default\<lparr>f_ForwardZones := [?z]\<rparr>"
  let ?w = "b_world\<lparr>wd := (wd b_world)\<lparr>dm_store := (dm_store (wd b_world))\<lparr>current := Some ?f\<rparr>\<rparr>\<rparr>"
  let ?rq = "\<lparr>rq_method = ''GET'', rq_url = ''https://b/peer/v1/items'', rq_token = ''k'', rq_body = []\<rparr>"
  have n: "ToLower (TrimSpace ''a'') \<noteq> ToLower (TrimSpace ''b'')" by code_simp
  have cfg: "b_config = listener_config (wd_instance ?w) (f_Peers ?f)" by (simp add: b_config_def)
  have k: "pr_SharedKey (f_Peers ?f) = ''k''" by (simp add: keyed_default_def)
  have p: "url_path (link_wire (zone_envelope [])) (rq_url ?rq) = items_path"
    by (simp add: url_path_def link_wire_def HasSuffix_def)
  have z: "?z \<in> set (f_ForwardZones ?f)" "z_SyncPeers ?z = [''a'']" "\<not> z_DoNotSync ?z" by (simp_all add: corp_zone_def)
  have w: "wd_current ?w = Some ?f" "pr_SharedKey (f_Peers ?f) \<noteq> []" "wd_instance ?w \<noteq> []"
    "ToLower (TrimSpace ''a'') \<noteq> ToLower (TrimSpace (wd_instance ?w))"
    using n k by simp_all
  have rq: "rq_method ?rq = ''GET''" "rq_token ?rq = pr_SharedKey (f_Peers ?f)" "sw_since link_server (rq_url ?rq) = []"
    using k by (simp_all add: link_server_def)
  from reserved_item_not_pulled [OF cfg w(1,2) z w(3,4) rq(1,2) p rq(3), of sample_codecs link_io]
  show ?thesis using b_world_simps(1) by blast
qed

end
