(* ===== verification/Spec2Isabelle.thy ===== *)
theory Spec2Isabelle
  imports Process Replicas Network
begin

text \<open>
  AzureDNSForwarder is a DNS forwarder with an admin interface: the daemon dnsforwarderd keeps one
  YAML file, generates the configuration of the resolver unbound from it, restarts unbound when it
  changes, exchanges items with peers over HTTPS, and answers the zones marked "least latency" from
  a small proxy of its own that probes which addresses are reachable fastest.  This development
  models the Go code under src/ and proves what makes it correct, and where it is not.

  \<^bold>\<open>Parts and theories.\<close>  Each theory names the source files it translates; definitions keep the
  names of the source.

  \<^item> GoPrelude: result values, strings, decimal printing and scanning, instants and durations, the
    part of Go's standard library that several components use; the interface \<open>defaults\<close> of the
    functions that fill in defaults.
  \<^item> Regex: regular expressions, a matcher by derivatives proved equal to their language.
  \<^item> Config (internal/config/config.go): the data, \<open>Validate\<close> and its loops, \<open>Snapshot\<close>,
    \<open>SyncsToPeer\<close>.  \<open>Validate\<close> is proved to accept exactly the files that satisfy the declarative
    \<open>file_ok\<close>.
  \<^item> Store (internal/config/store.go): \<open>Load\<close>, \<open>ReloadIfChanged\<close> and \<open>Save\<close> on a store record and a
    disk record.  The interface \<open>config_store\<close> states what the rest of the program relies on; it is
    interpreted here and, in Peering, for the whole process.
  \<^item> Replicas: several processes on one file, each save taken apart into the system calls it makes,
    interleaved and stopped anywhere; Save is one of their runs.
  \<^item> Sync, Merge_Facts, Exchange (internal/sync/sync.go, status.go): export, \<open>Merge\<close> with its index
    and counters, the refinement of the loop to a last-writer-wins merge of maps, convergence of an
    exchange.
  \<^item> Gossip: any number of instances that exchange their items in any order; the locale \<open>exchanged\<close>
    is interpreted for each kind of items.
  \<^item> Unbound (internal/unbound/generate.go, test.go): the generated file line by line and a reader
    for it.
  \<^item> AuditLog (internal/audit/audit.go): the log as text, written and read back.
  \<^item> GoNet, Proxy (internal/unbound/proxy): address parsing, the table of zones with its shared zone
    states as a heap, probing, ranking, the DNS handler, ping.  ProxyTable adds the invariant of the table.
  \<^item> PeerTLS (internal/sync/tlspsk.go): the certificate derived from the shared key, the search for a
    private scalar, the two TLS configurations and the check of the presented public key.
  \<^item> Watcher (internal/watcher/watcher.go): \<open>applyOnce\<close>, the poll loop, the restart of unbound with
    its retries.
  \<^item> Client, Listener (internal/sync/client.go, listener.go): pushes, pulls and the peer endpoints;
    the requests that leave the process are part of the results, each with the connection it goes
    over.
  \<^item> Peering (cmd/dnsforwarderd/main.go): the process as one record, the hooks of a save, applying a
    peer's items with retries while the file is locked, the start of the peer listener and client with
    the settings they keep from then on, the turns of the pull loop, the supervisor.
  \<^item> Network: two processes connected by the network, down to certificates and bytes: the client of
    one against the listener of the other.
  \<^item> Server (internal/server/server.go): every handler under /api.
  \<^item> Routes (the rest of server.go): the table of routes, the dispatch of requests, the pages.
  \<^item> Process (main.go): flags, the start of the process, and the process as a machine over events:
    any sequence of loads, polls, probe passes, pulls, peer requests, API requests and foreign writes
    to the file; the shutdown.
  \<^item> This theory: the property that spans the generator, the validation and the proxy.

  \<^bold>\<open>State and effects.\<close>  A struct is a record whose fields carry a letter for the struct; an error
  return is a value of a sum or an option; state is passed explicitly.  Every operation takes the
  answers of its environment as inputs: the outcome of each system call, the clock, the random
  bytes, what the network answers, the result of unbound-checkconf, the order in which goroutines
  run.  Theorems therefore hold for every such outcome unless they assume one.  YAML and JSON codecs,
  SHA-256, HKDF, the arithmetic of the curve, certificates, dns.Fqdn, the chi router, templates, the
  DNS client and net/url are parameters, with the documented behaviour that a theorem needs as a
  hypothesis of that theorem.  Strings are byte strings; letter case and blanks
  are handled for ASCII.  Instants are nanoseconds, and durations wrap at 64 bits where the code
  multiplies; the zero instant is 0.  Quoting with %q is modelled without escapes.  Where the code
  shares memory and it matters (the peer list of a copied configuration, the zone states of the
  proxy) the sharing is explicit.

  \<^bold>\<open>Loops.\<close>  Bounded retries keep their bounds: twenty attempts to signal unbound, twenty saves
  while the file is locked, five pushes; how long the code sleeps in between is left out.  Loops
  that end with a cancelled context take the list of what happens to them.  No definition runs on
  fuel: all recursion is on the data or has a termination proof.

  \<^bold>\<open>What is shown.\<close>  Validation, merge, export and the generated file are characterised exactly
  (C1, C2, C8, C14); the process invariant says that whatever happens the configuration in memory is
  valid, the proxy's table is well formed and the resolver's file is one that was checked (C3, C4,
  C11); saving is atomic, also between processes and across crashes, and hot reload works (C9, C10,
  C12, C13, C21, C23); instances that have heard of each other's items agree on them whatever the
  order of the exchanges (C5); a push and a pull over the wire, between two processes that hold the
  same key, have the effect of such an exchange, and what a peer sent is saved once the file is
  unlocked (C6, C7, C22); a client sends nothing that is not exported and only to holders of the
  shared key, and a listener refuses strangers (C15 to C17, C20); the proxy serves the zones the resolver sends to it, keeps the fastest
  addresses and survives failed probes (C19, C24 to C26); the admin interface reveals the shared key
  in two places exactly, always has its pages, and shows what was written (C18, C27 to C29); an
  unreadable file is replaced by the defaults (C30).  C30 to C40, and parts of C18 and C24, state
  behaviour that departs from what the code or its documentation says.

  \<^bold>\<open>Not modelled.\<close>  The text of the HTML pages, response headers, middlewares and logging (input and
  output only); the base64 form of a fingerprint and the function TLSConfig of sync.go, which the
  program does not call; how long the goroutines of a shutdown take; assets and deployment files.  The
  cryptographic primitives are parameters: nothing is claimed about their strength, only about how
  the code uses them.

  \<^bold>\<open>Plan.\<close>  Next: deletions and clock skew in the network of instances; the latency of a probe from
  the packets of ping.
\<close>

section \<open>The generated resolver configuration and the latency proxy\<close>

text \<open>The name a valid zone forwards ends in a letter or a digit, so that dns.Fqdn adds its dot.\<close>

lemma names_end: "\<not> in_last domainRe (CHR ''.'')" "\<not> in_last labelRe (CHR ''.'')"
  by code_simp+

lemma zone_name_end:
  assumes "zone_ok z"
  shows "\<not> HasSuffix (z_Name z) ''.''"
proof
  assume "HasSuffix (z_Name z) ''.''"
  then obtain u where "z_Name z = u @ ''.''" by (auto simp: HasSuffix_iff)
  then show False using assms names_end lang_last [of "z_Name z" domainRe] lang_last [of "z_Name z" labelRe]
    by (auto simp: zone_ok_def)
qed

lemma clean_name_end:
  assumes "zone_ok z"
  shows "\<not> HasSuffix (clean_name z) ''.''"
proof (cases "HasPrefix (z_Name z) ''*.''")
  case True
  then obtain t where "z_Name z = ''*.'' @ t" by (auto simp: HasPrefix_iff)
  then have "z_Name z = ''*.'' @ clean_name z" by (simp add: clean_name_def TrimPrefix_def HasPrefix_def)
  then show ?thesis using zone_name_end [OF assms] by (metis HasSuffix_iff append.assoc)
qed (simp add: clean_name_def TrimPrefix_def zone_name_end [OF assms])

lemma live_zone_unique:
  assumes "file_ok f" and "z \<in> set (f_ForwardZones f)" and "\<not> z_Deleted z"
    and "z' \<in> set (f_ForwardZones f)" and "\<not> z_Deleted z'" and "clean_name z = clean_name z'"
  shows "z = z'"
proof -
  have "inj_on clean_name (set (live_zones (f_ForwardZones f)))"
    using assms(1) by (simp add: file_ok_def distinct_map)
  then show ?thesis using assms(2-6) by (auto simp: live_zones_def dest: inj_onD)
qed

lemma plain_zone_name: "zone_ok z \<Longrightarrow> \<not> z_Wildcard z \<Longrightarrow> clean_name z = z_Name z"
  by (simp add: zone_ok_def clean_name_def TrimPrefix_def)

text \<open>Among the names of the served zones is that of a live least-latency zone exactly when it is
  not a wildcard.\<close>

lemma served_iff_plain:
  assumes "file_ok f" and "z \<in> set (f_ForwardZones f)" and "\<not> z_Deleted z" and "z_LeastLatency z"
    and "\<forall>n. \<not> HasSuffix n ''.'' \<longrightarrow> fqdn n = n @ ''.''"
  shows "fqdn (clean_name z) \<in> (\<lambda>z. fqdn (z_Name z)) ` {z \<in> set (f_ForwardZones f). served z} \<longleftrightarrow> \<not> z_Wildcard z"
proof -
  have ok: "zone_ok z'" if "z' \<in> set (f_ForwardZones f)" for z' using assms(1) that by (simp add: file_ok_def)
  have wild: "z_Wildcard z = z_Wildcard z'" if "z' \<in> set (f_ForwardZones f)" "served z'" "fqdn (clean_name z) = fqdn (z_Name z')" for z'
  proof -
    have "clean_name z = z_Name z'"
      using that assms(5) clean_name_end [OF ok [OF assms(2)]] zone_name_end [OF ok [OF that(1)]] by simp
    then have "clean_name z = clean_name z'" using that plain_zone_name [OF ok [OF that(1)]] by (simp add: served_def)
    then show ?thesis using live_zone_unique [OF assms(1-3)] that by (simp add: served_def)
  qed
  show ?thesis
  proof (cases "z_Wildcard z")
    case True
    then show ?thesis using wild by (auto simp: served_def)
  next
    case False
    then have "served z" "clean_name z = z_Name z"
      using assms(3,4) ok [OF assms(2)] plain_zone_name by (simp_all add: served_def zone_ok_def)
    then show ?thesis using assms(2) False by simp
  qed
qed


definition label_zone :: ForwardZone where
  "label_zone =
     (corp_zone ''w'')\<lparr>z_Name := ''*.corp'', z_Wildcard := True, z_LeastLatency := True\<rparr>"

lemma zone_ok_label_zone: "zone_ok label_zone"
proof -
  have "MatchString labelRe ''*.corp''" by code_simp
  then show ?thesis
    by (simp add: zone_ok_def label_zone_def corp_zone_def sample_strings ip_address_def clean_name_def
        TrimPrefix_def HasPrefix_def MatchString_iff_lang)
qed


end
